(* ===== verification/Prelude.thy ===== *)
theory Prelude
  imports Complex_Main "HOL-Library.Char_ord" "HOL-Library.List_Lexorder"
begin

text \<open>
  Generic vocabulary of the development: the named collections the component proofs
  draw from, the Python list idioms the services use (\<open>sorted(set(xs))\<close>, first row of a
  query, insertion under a uniqueness constraint) and the facts about them. Nothing here
  depends on a component.
\<close>

named_theorems run_simps "one-step evaluation of the effect combinators"
named_theorems success_simps "what a successful run of a composed action implies"
named_theorems frame_simps "which tables an operation leaves alone"
named_theorems keeps_intros "rules for invariants of the database kept by an action"
named_theorems stays_intros "rules for actions that do not commit"
named_theorems atomic_intros "rules for actions whose failure leaves the committed database alone"
named_theorems blind_intros "rules for actions that do not depend on a part of the database"
named_theorems method_simps "what a returned repository method says of the database"

section \<open>Python idioms\<close>

text \<open>\<open>sorted(set(xs))\<close> on strings: ascending, without duplicates.\<close>

definition sorted_set :: "'a::linorder list \<Rightarrow> 'a list" where
  "sorted_set xs = sort (remdups xs)"

lemma set_sorted_set [simp]: "set (sorted_set xs) = set xs"
  by (simp add: sorted_set_def)

lemma sorted_sorted_set [simp, intro]: "sorted (sorted_set xs)"
  by (simp add: sorted_set_def)

lemma distinct_sorted_set [simp, intro]: "distinct (sorted_set xs)"
  by (simp add: sorted_set_def)

lemma sorted_set_Nil_iff [simp]: "sorted_set xs = [] \<longleftrightarrow> xs = []"
  using set_sorted_set [of xs] by (metis set_empty)

lemma sorted_set_eq_iff: "sorted_set xs = sorted_set ys \<longleftrightarrow> set xs = set ys"
proof
  assume "sorted_set xs = sorted_set ys"
  then show "set xs = set ys" by (metis set_sorted_set)
next
  assume "set xs = set ys"
  then show "sorted_set xs = sorted_set ys"
    by (metis sorted_sorted_set distinct_sorted_set set_sorted_set sorted_distinct_set_unique)
qed

lemma sorted_set_idem [simp]: "sorted_set (sorted_set xs) = sorted_set xs"
  by (simp add: sorted_set_eq_iff)

text \<open>\<open>str.startswith\<close>.\<close>

fun starts_with :: "string \<Rightarrow> string \<Rightarrow> bool" where
  "starts_with [] cs = True"
| "starts_with (p # ps) [] = False"
| "starts_with (p # ps) (c # cs) = (p = c \<and> starts_with ps cs)"

lemma starts_with_iff: "starts_with p s \<longleftrightarrow> (\<exists>r. s = p @ r)"
  by (induction p s rule: starts_with.induct) auto

text \<open>Dictionaries that keep their insertion order: \<open>d.get(k)\<close>.\<close>

definition dict_get :: "(string \<times> 'v) list \<Rightarrow> string \<Rightarrow> 'v option" where
  "dict_get d k = map_of d k"

section \<open>Tables\<close>

text \<open>
  A table is the list of its rows in insertion order. \<open>first_row\<close> is
  \<open>session.execute(SELECT ...).first()\<close>; \<open>update_rows\<close> is \<open>UPDATE ... SET ... WHERE\<close>.
\<close>

definition first_row :: "('r \<Rightarrow> bool) \<Rightarrow> 'r list \<Rightarrow> 'r option" where
  "first_row p rows = List.find p rows"

definition exists_row :: "('r \<Rightarrow> bool) \<Rightarrow> 'r list \<Rightarrow> bool" where
  "exists_row p rows = list_ex p rows"

definition update_rows :: "('r \<Rightarrow> bool) \<Rightarrow> ('r \<Rightarrow> 'r) \<Rightarrow> 'r list \<Rightarrow> 'r list" where
  "update_rows p f rows = map (\<lambda>r. if p r then f r else r) rows"

definition delete_rows :: "('r \<Rightarrow> bool) \<Rightarrow> 'r list \<Rightarrow> 'r list" where
  "delete_rows p rows = filter (\<lambda>r. \<not> p r) rows"

text \<open>\<open>.first()\<close> of a query with joins, given the list of its result rows.\<close>

fun first_of :: "'r list \<Rightarrow> 'r option" where
  "first_of [] = None"
| "first_of (r # rs) = Some r"

lemma first_of_None_iff [simp]: "first_of rs = None \<longleftrightarrow> rs = []"
  by (cases rs) auto

lemma first_of_SomeD: "first_of rs = Some r \<Longrightarrow> r \<in> set rs"
  by (cases rs) auto

lemma first_row_None_iff: "first_row p rows = None \<longleftrightarrow> (\<forall>r\<in>set rows. \<not> p r)"
  by (auto simp: first_row_def find_None_iff)

lemma first_row_SomeD: "first_row p rows = Some r \<Longrightarrow> r \<in> set rows \<and> p r"
  by (auto simp: first_row_def find_Some_iff)

lemma first_row_Some_iff_ex: "(\<exists>r. first_row p rows = Some r) \<longleftrightarrow> (\<exists>r\<in>set rows. p r)"
  using first_row_None_iff [of p rows] by (cases "first_row p rows") (auto dest: first_row_SomeD)

lemma exists_row_iff: "exists_row p rows \<longleftrightarrow> (\<exists>r\<in>set rows. p r)"
  by (simp add: exists_row_def list_ex_iff)

lemma set_update_rows: "set (update_rows p f rows) = (\<lambda>r. if p r then f r else r) ` set rows"
  by (simp add: update_rows_def)

lemma set_delete_rows: "set (delete_rows p rows) = {r \<in> set rows. \<not> p r}"
  by (simp add: delete_rows_def)

lemma length_update_rows [simp]: "length (update_rows p f rows) = length rows"
  by (simp add: update_rows_def)

lemma update_rows_none: "(\<forall>r\<in>set rows. \<not> p r) \<Longrightarrow> update_rows p f rows = rows"
  by (simp add: update_rows_def map_idI)

text \<open>Membership in a query written as a list comprehension: its FROM and WHERE clauses.\<close>

lemma mem_where: "x \<in> set (if b then xs else []) \<longleftrightarrow> b \<and> x \<in> set xs"
  by simp

lemma mem_from: "x \<in> set (concat (map f xs)) \<longleftrightarrow> (\<exists>y\<in>set xs. x \<in> set (f y))"
  by auto

lemma mem_select: "x \<in> set [y] \<longleftrightarrow> x = y"
  by simp

lemmas mem_query = mem_from mem_where mem_select

section \<open>Unique indexes\<close>

text \<open>
  \<open>CREATE UNIQUE INDEX ... (key) WHERE live\<close>: no two live rows share a key. A primary key
  is the same with every row live.
\<close>

definition unique_index :: "('r \<Rightarrow> 'k) \<Rightarrow> ('r \<Rightarrow> bool) \<Rightarrow> 'r list \<Rightarrow> bool" where
  "unique_index key live rows = distinct (map key (filter live rows))"

definition index_free :: "('r \<Rightarrow> 'k) \<Rightarrow> ('r \<Rightarrow> bool) \<Rightarrow> 'r \<Rightarrow> 'r list \<Rightarrow> bool" where
  "index_free key live r rows = (live r \<longrightarrow> \<not> list_ex (\<lambda>x. live x \<and> key x = key r) rows)"

lemma unique_index_append:
  "unique_index key live rows \<Longrightarrow> index_free key live r rows
    \<Longrightarrow> unique_index key live (rows @ [r])"
  by (auto simp: unique_index_def index_free_def list_ex_iff)

lemma unique_index_update:
  assumes "unique_index key live rows"
    and "\<And>r. live (f r) \<Longrightarrow> p r \<Longrightarrow> live r \<and> key (f r) = key r"
  shows "unique_index key live (update_rows p f rows)"
  using assms(1)
proof (induction rows)
  case Nil
  then show ?case by (simp add: unique_index_def update_rows_def)
next
  case (Cons a rows)
  have sub: "key ` {x \<in> set (update_rows p f rows). live x} \<subseteq> key ` {x \<in> set rows. live x}"
    using assms(2) by (force simp: set_update_rows)
  from Cons have IH: "unique_index key live (update_rows p f rows)"
    by (simp add: unique_index_def split: if_splits)
  have head: "key a \<notin> key ` {x \<in> set rows. live x}" if "live a"
    using Cons.prems that by (simp add: unique_index_def image_def)
  show ?case
    using IH head sub assms(2) [of a]
    by (auto simp: unique_index_def update_rows_def)
qed

lemma unique_index_filter: "unique_index key live rows \<Longrightarrow> unique_index key live (filter q rows)"
  by (induction rows) (auto simp: unique_index_def)

lemma unique_index_delete: "unique_index key live rows \<Longrightarrow> unique_index key live (delete_rows p rows)"
  by (simp add: delete_rows_def unique_index_filter)

lemma unique_index_eq:
  assumes "unique_index key live rows" and "x \<in> set rows" and "y \<in> set rows"
    and "live x" and "live y" and "key x = key y"
  shows "x = y"
  using assms by (auto simp: unique_index_def distinct_map inj_on_def)

section \<open>Validity windows\<close>

text \<open>
  \<open>(valid_from IS NULL OR valid_from <= now) AND (valid_to IS NULL OR valid_to > now)\<close>.
\<close>

definition valid_at :: "int option \<Rightarrow> int option \<Rightarrow> int \<Rightarrow> bool" where
  "valid_at vfrom vto now =
     ((case vfrom of None \<Rightarrow> True | Some f \<Rightarrow> f \<le> now)
      \<and> (case vto of None \<Rightarrow> True | Some t \<Rightarrow> now < t))"

lemma valid_at_simps [simp]:
  "valid_at None None now"
  "valid_at (Some f) None now \<longleftrightarrow> f \<le> now"
  "valid_at None (Some t) now \<longleftrightarrow> now < t"
  "valid_at (Some f) (Some t) now \<longleftrightarrow> f \<le> now \<and> now < t"
  by (auto simp: valid_at_def)

section \<open>Counting rows\<close>

lemma length_filter_update_rows:
  assumes "\<And>r. q r \<Longrightarrow> \<not> p r \<and> p (f r)"
  shows "length (filter p (update_rows q f rows)) = length (filter p rows) + length (filter q rows)"
  using assms by (induction rows) (auto simp: update_rows_def)

lemma length_filter_update_rows_other:
  assumes "\<And>r. q r \<Longrightarrow> p (f r) = p r"
  shows "length (filter p (update_rows q f rows)) = length (filter p rows)"
  using assms by (induction rows) (auto simp: update_rows_def)

lemma unique_index_at_most_one:
  assumes "unique_index key live rows" and "\<And>r. q r \<Longrightarrow> live r \<and> key r = k"
  shows "length (filter q rows) \<le> 1"
  using assms(1)
proof (induction rows)
  case Nil
  then show ?case by simp
next
  case (Cons r rows)
  have rest: "unique_index key live rows" using Cons.prems by (simp add: unique_index_def split: if_splits)
  show ?case
  proof (cases "q r")
    case True
    then have r: "live r" "key r = k" using assms(2) by auto
    have "\<not> q x" if x: "x \<in> set rows" for x
    proof
      assume "q x"
      then have "live x \<and> key x = key r" using assms(2) r by simp
      then have "key r \<in> key ` {y \<in> set rows. live y}" using x by (auto intro: rev_image_eqI)
      then show False using Cons.prems r by (auto simp: unique_index_def)
    qed
    then show ?thesis using True by (simp add: filter_False)
  next
    case False
    then show ?thesis using Cons.IH rest by simp
  qed
qed

end
