(* ===== verification/Effects.thy ===== *)
theory Effects
  imports Prelude
begin

text \<open>
  What a service method does: it runs against one SQLAlchemy session and may raise. The
  session is the committed database, the working copy of the open transaction and the
  stream of values that \<open>uuid4()\<close> will still return; an action maps a session to a raised
  exception or a value, and the session it leaves. Rolling back restores the committed
  database, leaving \<open>with\<close> the request closes the session, which rolls back whatever was
  not committed.
\<close>

section \<open>Exceptions\<close>

text \<open>\<open>SecurityError\<close> of \<open>core/errors.py\<close> and the exception classes the services raise.\<close>

record security_error =
  err_code :: string
  err_status :: int
  err_title :: string
  err_detail :: "string option"

datatype exn =
    SecurityError security_error
  | ValueError string
  | LookupError string
  | RuntimeError string
  | TypeError string
  | IntegrityError
  | ClerkError "int option"
  | HTTPException int string
  | InvalidTag

section \<open>Sessions and actions\<close>

record 'd session =
  committed :: 'd
  working :: 'd
  uuids :: "nat \<Rightarrow> string"

type_synonym ('d, 'a) act = "'d session \<Rightarrow> (exn + 'a) \<times> 'd session"

definition returnM :: "'a \<Rightarrow> ('d, 'a) act" where
  "returnM x s = (Inr x, s)"

definition throwM :: "exn \<Rightarrow> ('d, 'a) act" where
  "throwM e s = (Inl e, s)"

definition liftM :: "exn + 'a \<Rightarrow> ('d, 'a) act" where
  "liftM r s = (r, s)"

definition bindM :: "('d, 'a) act \<Rightarrow> ('a \<Rightarrow> ('d, 'b) act) \<Rightarrow> ('d, 'b) act" where
  "bindM m f s = (case m s of (Inl e, t) \<Rightarrow> (Inl e, t) | (Inr x, t) \<Rightarrow> f x t)"

definition seqM :: "('d, 'a) act \<Rightarrow> ('d, 'b) act \<Rightarrow> ('d, 'b) act" where
  "seqM m k = bindM m (\<lambda>_. k)"

definition raise_if :: "bool \<Rightarrow> exn \<Rightarrow> ('d, unit) act" where
  "raise_if b e = (if b then throwM e else returnM ())"

text \<open>A read, an unconditional write, and a statement that the database may refuse.\<close>

definition query :: "('d \<Rightarrow> 'a) \<Rightarrow> ('d, 'a) act" where
  "query f s = (Inr (f (working s)), s)"

definition update :: "('d \<Rightarrow> 'd) \<Rightarrow> ('d, unit) act" where
  "update f s = (Inr (), s\<lparr>working := f (working s)\<rparr>)"

definition execute :: "('d \<Rightarrow> exn + 'd) \<Rightarrow> ('d, unit) act" where
  "execute f s = (case f (working s) of Inl e \<Rightarrow> (Inl e, s) | Inr d \<Rightarrow> (Inr (), s\<lparr>working := d\<rparr>))"

definition commit :: "('d, unit) act" where
  "commit s = (Inr (), s\<lparr>committed := working s\<rparr>)"

definition rollback :: "('d, unit) act" where
  "rollback s = (Inr (), s\<lparr>working := committed s\<rparr>)"

definition uuid4 :: "('d, string) act" where
  "uuid4 s = (Inr (uuids s 0), s\<lparr>uuids := (\<lambda>n. uuids s (Suc n))\<rparr>)"

text \<open>
  \<open>except Exception: rollback; raise\<close>, an \<open>except IntegrityError\<close> clause with its handler,
  and the \<open>for\<close> loop over a list.
\<close>

definition rollback_on_error :: "('d, 'a) act \<Rightarrow> ('d, 'a) act" where
  "rollback_on_error m s =
     (case m s of (Inl e, t) \<Rightarrow> (Inl e, t\<lparr>working := committed t\<rparr>) | (Inr x, t) \<Rightarrow> (Inr x, t))"

definition catch_integrity :: "('d, 'a) act \<Rightarrow> ('d, 'a) act \<Rightarrow> ('d, 'a) act" where
  "catch_integrity m h s =
     (case m s of (Inl e, t) \<Rightarrow> (if e = IntegrityError then h t else (Inl e, t)) | (Inr x, t) \<Rightarrow> (Inr x, t))"

fun foreachM :: "'x list \<Rightarrow> ('x \<Rightarrow> ('d, unit) act) \<Rightarrow> ('d, unit) act" where
  "foreachM [] f = returnM ()"
| "foreachM (x # xs) f = seqM (f x) (foreachM xs f)"

text \<open>One request: the handler runs, then the session is closed.\<close>

definition request :: "('d, 'a) act \<Rightarrow> ('d, 'a) act" where
  "request m s = (case m s of (r, t) \<Rightarrow> (r, t\<lparr>working := committed t\<rparr>))"

definition fresh_session :: "'d \<Rightarrow> (nat \<Rightarrow> string) \<Rightarrow> 'd session" where
  "fresh_session d u = \<lparr>committed = d, working = d, uuids = u\<rparr>"

section \<open>Evaluation rules\<close>

lemma run_returnM [run_simps]: "returnM x s = (Inr x, s)"
  by (simp add: returnM_def)

lemma run_throwM [run_simps]: "throwM e s = (Inl e, s)"
  by (simp add: throwM_def)

lemma run_liftM [run_simps]: "liftM r s = (r, s)"
  by (simp add: liftM_def)

lemma run_raise_if [run_simps]: "raise_if b e s = (if b then (Inl e, s) else (Inr (), s))"
  by (simp add: raise_if_def returnM_def throwM_def)

lemmas run_defs [run_simps] =
  bindM_def seqM_def query_def update_def execute_def commit_def rollback_def uuid4_def
  rollback_on_error_def catch_integrity_def

section \<open>What a successful run implies\<close>

text \<open>
  Inversion rules: a composed action that returned did so through successful parts. They
  turn "this method returned" into the guards that passed and the statements that ran.
\<close>

lemma bindM_Inr_iff [success_simps]:
  "bindM m f s = (Inr y, t) \<longleftrightarrow> (\<exists>x u. m s = (Inr x, u) \<and> f x u = (Inr y, t))"
  by (auto simp: bindM_def split: prod.splits sum.splits)

lemma seqM_Inr_iff [success_simps]:
  "seqM m k s = (Inr y, t) \<longleftrightarrow> (\<exists>x u. m s = (Inr x, u) \<and> k u = (Inr y, t))"
  by (simp add: seqM_def bindM_Inr_iff)

lemma raise_if_Inr_iff [success_simps]: "raise_if b e s = (Inr x, t) \<longleftrightarrow> \<not> b \<and> t = s"
  by (auto simp: raise_if_def returnM_def throwM_def)

lemma returnM_Inr_iff [success_simps]: "returnM y s = (Inr x, t) \<longleftrightarrow> x = y \<and> t = s"
  by (auto simp: returnM_def)

lemma throwM_Inr_iff [success_simps]: "throwM e s = (Inr x, t) \<longleftrightarrow> False"
  by (simp add: throwM_def)

lemma liftM_Inr_iff [success_simps]: "liftM r s = (Inr x, t) \<longleftrightarrow> r = Inr x \<and> t = s"
  by (auto simp: liftM_def)

lemma query_Inr_iff [success_simps]: "query f s = (Inr x, t) \<longleftrightarrow> x = f (working s) \<and> t = s"
  by (auto simp: query_def)

lemma update_Inr_iff [success_simps]:
  "update f s = (Inr x, t) \<longleftrightarrow> t = s\<lparr>working := f (working s)\<rparr>"
  by (auto simp: update_def)

lemma execute_Inr_iff [success_simps]:
  "execute f s = (Inr x, t) \<longleftrightarrow> (\<exists>d. f (working s) = Inr d \<and> t = s\<lparr>working := d\<rparr>)"
  by (auto simp: execute_def split: sum.splits)

lemma commit_Inr_iff [success_simps]:
  "commit s = (Inr x, t) \<longleftrightarrow> t = s\<lparr>committed := working s\<rparr>"
  by (auto simp: commit_def)

lemma rollback_Inr_iff [success_simps]:
  "rollback s = (Inr x, t) \<longleftrightarrow> t = s\<lparr>working := committed s\<rparr>"
  by (auto simp: rollback_def)

lemma uuid4_Inr_iff [success_simps]:
  "uuid4 s = (Inr x, t) \<longleftrightarrow> x = uuids s 0 \<and> t = s\<lparr>uuids := (\<lambda>n. uuids s (Suc n))\<rparr>"
  by (auto simp: uuid4_def)

lemma rollback_on_error_Inr_iff [success_simps]:
  "rollback_on_error m s = (Inr x, t) \<longleftrightarrow> m s = (Inr x, t)"
  by (auto simp: rollback_on_error_def split: prod.splits sum.splits)

lemma catch_integrity_Inr_iff [success_simps]:
  "catch_integrity m h s = (Inr x, t) \<longleftrightarrow>
     m s = (Inr x, t) \<or> (\<exists>u. m s = (Inl IntegrityError, u) \<and> h u = (Inr x, t))"
  by (auto simp: catch_integrity_def split: prod.splits sum.splits if_splits)

lemma if_act_iff [success_simps]:
  "(if b then m else k) s = (Inr x, t) \<longleftrightarrow> (if b then m s = (Inr x, t) else k s = (Inr x, t))"
  by simp

lemma case_option_act_iff [success_simps]:
  "(case z of None \<Rightarrow> m | Some y \<Rightarrow> f y) s = (Inr x, t) \<longleftrightarrow>
     (z = None \<and> m s = (Inr x, t)) \<or> (\<exists>y. z = Some y \<and> f y s = (Inr x, t))"
  by (cases z) auto

section \<open>Actions with a context\<close>

text \<open>
  An action beside which the program keeps something the transaction does not own: the evidence
  of a refresh, the requests already sent to another service. A rollback does not undo it.
\<close>

type_synonym ('c, 'd, 'a) cact = "'c \<Rightarrow> 'd session \<Rightarrow> (exn + 'a) \<times> 'c \<times> 'd session"

definition onE :: "('d, 'a) act \<Rightarrow> ('c, 'd, 'a) cact" where
  "onE m c s = (case m s of (r, t) \<Rightarrow> (r, c, t))"

definition noteE :: "('c \<Rightarrow> 'c) \<Rightarrow> ('c, 'd, unit) cact" where
  "noteE f c s = (Inr (), f c, s)"

definition evidenceE :: "('c, 'd, 'c) cact" where
  "evidenceE c s = (Inr c, c, s)"

definition bindE :: "('c, 'd, 'a) cact \<Rightarrow> ('a \<Rightarrow> ('c, 'd, 'b) cact) \<Rightarrow> ('c, 'd, 'b) cact" where
  "bindE m f c s = (case m c s of (Inl e, c', t) \<Rightarrow> (Inl e, c', t) | (Inr x, c', t) \<Rightarrow> f x c' t)"

definition seqE :: "('c, 'd, 'a) cact \<Rightarrow> ('c, 'd, 'b) cact \<Rightarrow> ('c, 'd, 'b) cact" where
  "seqE m k = bindE m (\<lambda>_. k)"

lemma bindE_Inr_iff [success_simps]:
  "bindE m f c s = (Inr y, c', t) \<longleftrightarrow> (\<exists>x c1 u. m c s = (Inr x, c1, u) \<and> f x c1 u = (Inr y, c', t))"
  by (auto simp: bindE_def split: prod.splits sum.splits)

lemma seqE_Inr_iff [success_simps]:
  "seqE m k c s = (Inr y, c', t) \<longleftrightarrow> (\<exists>x c1 u. m c s = (Inr x, c1, u) \<and> k c1 u = (Inr y, c', t))"
  by (simp add: seqE_def bindE_Inr_iff)

lemma onE_Inr_iff [success_simps]: "onE m c s = (Inr y, c', t) \<longleftrightarrow> c' = c \<and> m s = (Inr y, t)"
  by (auto simp: onE_def split: prod.splits)

lemma noteE_Inr_iff [success_simps]: "noteE f c s = (Inr y, c', t) \<longleftrightarrow> c' = f c \<and> t = s"
  by (auto simp: noteE_def)

lemma evidenceE_Inr_iff [success_simps]: "evidenceE c s = (Inr y, c', t) \<longleftrightarrow> y = c \<and> c' = c \<and> t = s"
  by (auto simp: evidenceE_def)

section \<open>Atomicity and invariants\<close>

text \<open>
  An action that reads only leaves the session as it was; one that stays inside its
  transaction leaves the committed database as it was; \<open>keeps J\<close> is the invariant rule:
  what holds of both copies of the database before holds of both after, however the action
  ends. All three are closed under the combinators.
\<close>

definition reads_only :: "('d, 'a) act \<Rightarrow> bool" where
  "reads_only m \<longleftrightarrow> (\<forall>s. snd (m s) = s)"

definition no_commit :: "('d, 'a) act \<Rightarrow> bool" where
  "no_commit m \<longleftrightarrow> (\<forall>s. committed (snd (m s)) = committed s)"

definition keeps :: "('d \<Rightarrow> bool) \<Rightarrow> ('d, 'a) act \<Rightarrow> bool" where
  "keeps J m \<longleftrightarrow> (\<forall>s. J (committed s) \<and> J (working s)
      \<longrightarrow> J (committed (snd (m s))) \<and> J (working (snd (m s))))"

lemma keepsD:
  "keeps J m \<Longrightarrow> J (committed s) \<Longrightarrow> J (working s)
    \<Longrightarrow> J (committed (snd (m s))) \<and> J (working (snd (m s)))"
  by (simp add: keeps_def)

lemma keeps_returnM [keeps_intros]: "keeps J (returnM x)"
  by (simp add: keeps_def returnM_def)

lemma keeps_throwM [keeps_intros]: "keeps J (throwM e)"
  by (simp add: keeps_def throwM_def)

lemma keeps_liftM [keeps_intros]: "keeps J (liftM r)"
  by (simp add: keeps_def liftM_def)

lemma keeps_raise_if [keeps_intros]: "keeps J (raise_if b e)"
  by (simp add: keeps_def run_raise_if)

lemma keeps_query [keeps_intros]: "keeps J (query f)"
  by (simp add: keeps_def query_def)

lemma keeps_uuid4 [keeps_intros]: "keeps J uuid4"
  by (simp add: keeps_def uuid4_def)

lemma keeps_commit [keeps_intros]: "keeps J commit"
  by (simp add: keeps_def commit_def)

lemma keeps_rollback [keeps_intros]: "keeps J rollback"
  by (simp add: keeps_def rollback_def)

lemma keeps_update [keeps_intros]: "(\<And>d. J d \<Longrightarrow> J (f d)) \<Longrightarrow> keeps J (update f)"
  by (simp add: keeps_def update_def)

lemma keeps_execute [keeps_intros]:
  "(\<And>d d'. J d \<Longrightarrow> f d = Inr d' \<Longrightarrow> J d') \<Longrightarrow> keeps J (execute f)"
  by (auto simp: keeps_def execute_def split: sum.splits)

lemma keeps_bindM [keeps_intros]:
  "keeps J m \<Longrightarrow> (\<And>x. keeps J (f x)) \<Longrightarrow> keeps J (bindM m f)"
  by (fastforce simp: keeps_def bindM_def split: prod.splits sum.splits)

lemma keeps_seqM [keeps_intros]: "keeps J m \<Longrightarrow> keeps J k \<Longrightarrow> keeps J (seqM m k)"
  by (simp add: seqM_def keeps_bindM)

lemma keeps_rollback_on_error [keeps_intros]: "keeps J m \<Longrightarrow> keeps J (rollback_on_error m)"
  by (fastforce simp: keeps_def rollback_on_error_def split: prod.splits sum.splits)

lemma keeps_catch_integrity [keeps_intros]:
  "keeps J m \<Longrightarrow> keeps J h \<Longrightarrow> keeps J (catch_integrity m h)"
  by (fastforce simp: keeps_def catch_integrity_def split: prod.splits sum.splits)

lemma keeps_request [keeps_intros]: "keeps J m \<Longrightarrow> keeps J (request m)"
  by (fastforce simp: keeps_def request_def split: prod.splits)

lemma keeps_foreachM [keeps_intros]: "(\<And>x. keeps J (f x)) \<Longrightarrow> keeps J (foreachM xs f)"
  by (induction xs) (simp_all add: keeps_returnM keeps_seqM)

lemma keeps_if [keeps_intros]: "(b \<Longrightarrow> keeps J m) \<Longrightarrow> (\<not> b \<Longrightarrow> keeps J k) \<Longrightarrow> keeps J (if b then m else k)"
  by simp

lemma keeps_case_option [keeps_intros]:
  "(z = None \<Longrightarrow> keeps J m) \<Longrightarrow> (\<And>y. z = Some y \<Longrightarrow> keeps J (f y)) \<Longrightarrow> keeps J (case z of None \<Rightarrow> m | Some y \<Rightarrow> f y)"
  by (cases z) simp_all

lemma keeps_case_prod [keeps_intros]: "(\<And>x y. z = (x, y) \<Longrightarrow> keeps J (f x y)) \<Longrightarrow> keeps J (case z of (x, y) \<Rightarrow> f x y)"
  by (cases z) simp

lemma request_Inr_iff [success_simps]:
  "request m s = (Inr x, t) \<longleftrightarrow> (\<exists>u. m s = (Inr x, u) \<and> t = u\<lparr>working := committed u\<rparr>)"
  by (auto simp: request_def split: prod.splits)

text \<open>A whole \<open>try: ...; commit except: rollback; raise\<close> block is all or nothing.\<close>

lemma no_commit_error:
  assumes "no_commit m" and "m s = (Inl e, t)"
  shows "committed t = committed s"
  using assms by (metis no_commit_def snd_conv)

subsection \<open>Actions inside one transaction\<close>

lemma no_commit_basic [stays_intros]:
  "no_commit (returnM x)" "no_commit (throwM e)" "no_commit (liftM r)" "no_commit (raise_if b e)"
  "no_commit (query f)" "no_commit (update g)" "no_commit (execute h)" "no_commit rollback"
  by (auto simp: no_commit_def run_simps split: sum.splits)

lemma no_commit_uuid4 [stays_intros]: "no_commit uuid4"
  by (simp add: no_commit_def uuid4_def)

lemma no_commit_bindM [stays_intros]: "no_commit m \<Longrightarrow> (\<And>x. no_commit (f x)) \<Longrightarrow> no_commit (bindM m f)"
  unfolding no_commit_def bindM_def
  by (clarsimp split: prod.splits sum.splits) (metis snd_conv)

lemma no_commit_seqM [stays_intros]: "no_commit m \<Longrightarrow> no_commit k \<Longrightarrow> no_commit (seqM m k)"
  by (simp add: seqM_def no_commit_bindM)

lemma no_commit_foreachM [stays_intros]: "(\<And>x. no_commit (f x)) \<Longrightarrow> no_commit (foreachM xs f)"
  by (induction xs) (simp_all add: no_commit_basic no_commit_seqM)

lemma no_commit_if [stays_intros]: "no_commit m \<Longrightarrow> no_commit k \<Longrightarrow> no_commit (if b then m else k)"
  by simp

lemma no_commit_case_option [stays_intros]:
  "no_commit m \<Longrightarrow> (\<And>y. no_commit (f y)) \<Longrightarrow> no_commit (case z of None \<Rightarrow> m | Some y \<Rightarrow> f y)"
  by (cases z) simp_all

lemma no_commit_case_prod [stays_intros]: "(\<And>x y. no_commit (f x y)) \<Longrightarrow> no_commit (case z of (x, y) \<Rightarrow> f x y)"
  by (cases z) simp

lemma no_commit_rollback_on_error [stays_intros]: "no_commit m \<Longrightarrow> no_commit (rollback_on_error m)"
  unfolding no_commit_def rollback_on_error_def
  by (clarsimp split: prod.splits sum.splits) (metis snd_conv)

text \<open>An action that commits at most as its last step: when it raises, nothing was committed.\<close>

definition atomic :: "('d, 'a) act \<Rightarrow> bool" where
  "atomic m \<longleftrightarrow> (\<forall>s e t. m s = (Inl e, t) \<longrightarrow> committed t = committed s)"

lemma atomicD: "atomic m \<Longrightarrow> m s = (Inl e, t) \<Longrightarrow> committed t = committed s"
  by (simp add: atomic_def)

lemma no_commit_atomic: "no_commit m \<Longrightarrow> atomic m"
  unfolding no_commit_def atomic_def by (metis snd_conv)

lemma atomic_basic [atomic_intros]:
  "atomic (returnM x)" "atomic (throwM e)" "atomic (liftM r)" "atomic (raise_if b e)"
  "atomic (query f)" "atomic (update g)" "atomic (execute h)" "atomic rollback" "atomic uuid4"
  by (intro no_commit_atomic stays_intros)+

lemma atomic_commit [atomic_intros]: "atomic commit" "atomic (seqM commit (returnM x))"
  "atomic (seqM commit (query f))"
  by (auto simp: atomic_def run_simps)

lemma atomic_bindM [atomic_intros]: "no_commit m \<Longrightarrow> (\<And>x. atomic (f x)) \<Longrightarrow> atomic (bindM m f)"
  unfolding atomic_def no_commit_def bindM_def
  by (clarsimp split: prod.splits sum.splits) (metis snd_conv)

lemma atomic_seqM [atomic_intros]: "no_commit m \<Longrightarrow> atomic k \<Longrightarrow> atomic (seqM m k)"
  by (simp add: seqM_def atomic_bindM)

lemma atomic_if [atomic_intros]: "atomic m \<Longrightarrow> atomic k \<Longrightarrow> atomic (if b then m else k)"
  by simp

lemma atomic_case_option [atomic_intros]:
  "atomic m \<Longrightarrow> (\<And>y. atomic (f y)) \<Longrightarrow> atomic (case z of None \<Rightarrow> m | Some y \<Rightarrow> f y)"
  by (cases z) simp_all

lemma atomic_case_prod [atomic_intros]: "(\<And>x y. atomic (f x y)) \<Longrightarrow> atomic (case z of (x, y) \<Rightarrow> f x y)"
  by (cases z) simp

lemma atomic_rollback_on_error [atomic_intros]: "atomic m \<Longrightarrow> atomic (rollback_on_error m)"
  by (fastforce simp: atomic_def rollback_on_error_def split: prod.splits sum.splits)

text \<open>After the handler of \<open>except Exception\<close> the transaction is closed as well.\<close>

lemma rollback_on_error_Inl:
  assumes "atomic m" and "rollback_on_error m s = (Inl e, t)"
  shows "committed t = committed s \<and> working t = committed s"
  using assms by (auto simp: rollback_on_error_def atomic_def split: prod.splits sum.splits)

section \<open>Independence\<close>

text \<open>
  \<open>blind h m\<close>: the action commutes with the change \<open>h\<close> of the database. When \<open>h\<close>
  overwrites a table, the action neither reads that table nor decides by it.
\<close>

definition on_both :: "('d \<Rightarrow> 'd) \<Rightarrow> 'd session \<Rightarrow> 'd session" where
  "on_both h s = s\<lparr>committed := h (committed s), working := h (working s)\<rparr>"

definition blind :: "('d \<Rightarrow> 'd) \<Rightarrow> ('d, 'a) act \<Rightarrow> bool" where
  "blind h m \<longleftrightarrow> (\<forall>s. m (on_both h s) = apsnd (on_both h) (m s))"

lemma blindD: "blind h m \<Longrightarrow> fst (m (on_both h s)) = fst (m s)"
  by (simp add: blind_def)

lemma blind_basic [blind_intros]:
  "blind h (returnM x)" "blind h (throwM e)" "blind h (liftM r)" "blind h (raise_if b e)"
  "blind h commit" "blind h rollback" "blind h uuid4"
  by (auto simp: blind_def on_both_def run_simps)

lemma blind_query [blind_intros]: "(\<And>d. f (h d) = f d) \<Longrightarrow> blind h (query f)"
  by (simp add: blind_def on_both_def query_def)

lemma blind_update [blind_intros]: "(\<And>d. g (h d) = h (g d)) \<Longrightarrow> blind h (update g)"
  by (simp add: blind_def on_both_def update_def)

lemma blind_bindM [blind_intros]: "blind h m \<Longrightarrow> (\<And>x. blind h (f x)) \<Longrightarrow> blind h (bindM m f)"
  by (auto simp: blind_def bindM_def split: prod.splits sum.splits)

lemma blind_seqM [blind_intros]: "blind h m \<Longrightarrow> blind h k \<Longrightarrow> blind h (seqM m k)"
  by (simp add: seqM_def blind_bindM)

lemma blind_if [blind_intros]: "blind h m \<Longrightarrow> blind h k \<Longrightarrow> blind h (if b then m else k)"
  by simp

lemma blind_case_option [blind_intros]:
  "blind h m \<Longrightarrow> (\<And>y. blind h (f y)) \<Longrightarrow> blind h (case z of None \<Rightarrow> m | Some y \<Rightarrow> f y)"
  by (cases z) simp_all

lemma blind_case_prod [blind_intros]: "(\<And>x y. blind h (f x y)) \<Longrightarrow> blind h (case z of (x, y) \<Rightarrow> f x y)"
  by (cases z) simp

lemma blind_rollback_on_error [blind_intros]: "blind h m \<Longrightarrow> blind h (rollback_on_error m)"
  by (auto simp: blind_def rollback_on_error_def on_both_def split: prod.splits sum.splits)

end
