(* ===== verification/Core.thy ===== *)
theory Core
  imports Effects
begin

text \<open>
  \<open>core/errors.py\<close>, \<open>core/types.py\<close>, \<open>core/correlation.py\<close> and \<open>core/problem.py\<close>: the
  error catalogue and its lookup, the enumerations of the access policy, the correlation id
  of a request, and how the handlers of \<open>main.py\<close> turn a raised exception into a response.
\<close>

section \<open>The error catalogue\<close>

definition ERRORS :: "(string \<times> int \<times> string) list" where
  "ERRORS = [
     (''AUTH_TOKEN_INVALID'', 401, ''Authentication token is invalid''),
     (''AUTH_TOKEN_EXPIRED'', 401, ''Authentication token has expired''),
     (''USER_NOT_ONBOARDED'', 403, ''User is not onboarded''),
     (''USER_NOT_ACTIVE'', 403, ''User is not active''),
     (''TENANT_NOT_ACTIVE'', 403, ''Tenant is not active''),
     (''TENANT_SECURITY_NOT_READY'', 403, ''Tenant security configuration is not ready''),
     (''TENANT_MEMBERSHIP_REQUIRED'', 403, ''Tenant membership is required''),
     (''TENANT_MEMBERSHIP_INACTIVE'', 403, ''Tenant membership is inactive''),
     (''DEVICE_NOT_REGISTERED'', 403, ''Device is not registered''),
     (''DEVICE_APPROVAL_REQUIRED'', 403, ''Device approval is required''),
     (''DEVICE_NOT_ACTIVE'', 403, ''Device is not active''),
     (''DEVICE_LIMIT_REACHED'', 409, ''Device limit reached''),
     (''GEO_REQUIRED'', 403, ''Geo context is required''),
     (''GEO_PERMISSION_DENIED'', 403, ''Geo permission was denied''),
     (''GEO_UNAVAILABLE'', 403, ''Geo context is unavailable''),
     (''GEO_STALE'', 403, ''Geo context is stale''),
     (''GEO_ACCURACY_INSUFFICIENT'', 403, ''Geo accuracy is insufficient''),
     (''LOCATION_NOT_ASSIGNED'', 403, ''No active assigned location''),
     (''LOCATION_NOT_ALLOWED'', 403, ''Current location is not allowed''),
     (''ACCESS_OUTSIDE_ALLOWED_TIME'', 403, ''Access is outside allowed time''),
     (''ACCESS_SCHEDULE_MISSING'', 403, ''Access schedule is missing''),
     (''VPN_ACCESS_DENIED'', 403, ''VPN access is denied''),
     (''NETWORK_RISK_UNKNOWN_DENIED'', 403, ''Unknown network risk is denied''),
     (''ROLE_REQUIRED'', 403, ''An active role is required''),
     (''PERMISSION_DENIED'', 403, ''Permission denied''),
     (''IDENTITY_PROVIDER_UNAVAILABLE'', 503, ''Identity provider is unavailable''),
     (''DATABASE_UNAVAILABLE'', 503, ''Security database is unavailable''),
     (''SIGNING_KEY_UNAVAILABLE'', 503, ''Security signing key is unavailable''),
     (''ACCESS_SESSION_ALREADY_ACTIVE'', 409, ''Access session is already active''),
     (''ACCESS_SESSION_CONTEXT_CONFLICT'', 409, ''Active access session context conflicts''),
     (''SESSION_REVOKED'', 401, ''Access session is revoked''),
     (''PRINCIPAL_NOT_ACTIVE'', 403, ''Security principal is not active''),
     (''PRINCIPAL_TENANT_SCOPE_REQUIRED'', 403, ''Principal Tenant scope is required''),
     (''MACHINE_CREDENTIAL_INVALID'', 401, ''Machine credential is invalid''),
     (''MACHINE_CREDENTIAL_EXPIRED'', 401, ''Machine credential has expired''),
     (''ACTIVATION_REQUIREMENTS_NOT_MET'', 409, ''Tenant activation requirements are not met''),
     (''ACTOR_TYPE_NOT_ALLOWED'', 403, ''Actor type is not allowed for this operation''),
     (''TENANT_OFFBOARDING'', 403, ''Tenant is offboarding or offboarded''),
     (''GEO_INTEGRITY_FAILED'', 403, ''Geo integrity check failed''),
     (''CORRELATION_ID_INVALID'', 400, ''Invalid correlation ID''),
     (''RETENTION_POLICY_NOT_CONFIGURED'', 409, ''Security retention policy is not configured''),
     (''TENANT_ALREADY_OFFBOARDED'', 409, ''Tenant is already offboarded'')]"

text \<open>\<open>ERRORS.get(code, (500, ...))\<close>; the detail is passed through.\<close>

definition security_error_with :: "string \<Rightarrow> string option \<Rightarrow> security_error" where
  "security_error_with code detail =
     (case map_of ERRORS code of
        None \<Rightarrow> \<lparr>err_code = code, err_status = 500, err_title = ''Security service error'', err_detail = detail\<rparr>
      | Some (status, title) \<Rightarrow> \<lparr>err_code = code, err_status = status, err_title = title, err_detail = detail\<rparr>)"

abbreviation security_error :: "string \<Rightarrow> exn" where
  "security_error code \<equiv> SecurityError (security_error_with code None)"

text \<open>\<open>SecurityError.__str__\<close>: \<open>self.detail or self.title\<close>, where an empty detail is falsy.\<close>

definition security_error_str :: "security_error \<Rightarrow> string" where
  "security_error_str e =
     (case err_detail e of None \<Rightarrow> err_title e | Some d \<Rightarrow> if d = [] then err_title e else d)"

section \<open>Enumerations\<close>

datatype AppEnvironment = LOCAL | CI | DEV | UAT | PRODUCTION

datatype ActorType = USER | SYSTEM | SERVICE_INTEGRATION

datatype GeoSource = NATIVE | BROWSER

datatype GeoIntegrityStatus = NORMAL | SUSPECTED | UNKNOWN_INTEGRITY

datatype VpnStatus = DETECTED | NOT_DETECTED | UNKNOWN_VPN

datatype PolicyAction = DENY | FLAG

text \<open>The string a member of a \<open>StrEnum\<close> is equal to.\<close>

fun actor_type_value :: "ActorType \<Rightarrow> string" where
  "actor_type_value USER = ''USER''"
| "actor_type_value SYSTEM = ''SYSTEM''"
| "actor_type_value SERVICE_INTEGRATION = ''SERVICE_INTEGRATION''"

fun vpn_status_value :: "VpnStatus \<Rightarrow> string" where
  "vpn_status_value DETECTED = ''DETECTED''"
| "vpn_status_value NOT_DETECTED = ''NOT_DETECTED''"
| "vpn_status_value UNKNOWN_VPN = ''UNKNOWN''"

fun geo_integrity_value :: "GeoIntegrityStatus \<Rightarrow> string" where
  "geo_integrity_value NORMAL = ''NORMAL''"
| "geo_integrity_value SUSPECTED = ''SUSPECTED''"
| "geo_integrity_value UNKNOWN_INTEGRITY = ''UNKNOWN''"

fun geo_source_value :: "GeoSource \<Rightarrow> string" where
  "geo_source_value NATIVE = ''NATIVE''"
| "geo_source_value BROWSER = ''BROWSER''"

fun policy_action_value :: "PolicyAction \<Rightarrow> string" where
  "policy_action_value DENY = ''DENY''"
| "policy_action_value FLAG = ''FLAG''"

section \<open>Correlation ids\<close>

definition ascii_lower :: "char \<Rightarrow> bool" where
  "ascii_lower c = (CHR ''a'' \<le> c \<and> c \<le> CHR ''z'')"

definition ascii_upper :: "char \<Rightarrow> bool" where
  "ascii_upper c = (CHR ''A'' \<le> c \<and> c \<le> CHR ''Z'')"

definition ascii_digit :: "char \<Rightarrow> bool" where
  "ascii_digit c = (CHR ''0'' \<le> c \<and> c \<le> CHR ''9'')"

definition cid_head :: "char \<Rightarrow> bool" where
  "cid_head c = (ascii_upper c \<or> ascii_lower c \<or> ascii_digit c)"

definition cid_tail :: "char \<Rightarrow> bool" where
  "cid_tail c = (cid_head c \<or> c \<in> set ''._:-'')"

text \<open>\<open>^[A-Za-z0-9][A-Za-z0-9._:-]{0,127}$\<close>, a full match.\<close>

fun matches_correlation_id :: "string \<Rightarrow> bool" where
  "matches_correlation_id [] = False"
| "matches_correlation_id (c # cs) = (cid_head c \<and> list_all cid_tail cs \<and> length cs \<le> 127)"

definition resolve_correlation_id :: "string option \<Rightarrow> ('d, string) act" where
  "resolve_correlation_id value =
     (case value of
        None \<Rightarrow> uuid4
      | Some v \<Rightarrow> if \<not> matches_correlation_id v then throwM (security_error ''CORRELATION_ID_INVALID'')
                  else returnM v)"

section \<open>Responses\<close>

text \<open>
  A response as far as this layer writes it: the status, the problem body (\<open>None\<close> for the
  handler's own body or the plain 500) and the \<open>X-Correlation-ID\<close> header.
\<close>

record problem_body =
  pb_code :: string
  pb_title :: string
  pb_status :: int
  pb_detail :: "string option"
  pb_correlation :: "string option"

record response =
  rs_status :: int
  rs_problem :: "problem_body option"
  rs_header :: "string option"

definition security_error_handler :: "string option \<Rightarrow> security_error \<Rightarrow> response" where
  "security_error_handler cid e =
     \<lparr>rs_status = err_status e,
      rs_problem = Some \<lparr>pb_code = err_code e, pb_title = err_title e, pb_status = err_status e,
                         pb_detail = err_detail e, pb_correlation = cid\<rparr>,
      rs_header = (if cid = None \<or> cid = Some [] then None else cid)\<rparr>"

definition unexpected_error_handler :: "string option \<Rightarrow> response" where
  "unexpected_error_handler cid =
     \<lparr>rs_status = 500, rs_problem = None, rs_header = (if cid = None \<or> cid = Some [] then None else cid)\<rparr>"

text \<open>
  \<open>CorrelationIdMiddleware.dispatch\<close>: a malformed id is answered with 400 under a new id and
  the application is not called; otherwise the application runs under the supplied id, or
  under a new one, and the response carries it. An empty header value does not match the
  pattern, so \<open>supplied or uuid4()\<close> only generates an id where none was supplied.
\<close>

definition correlation_dispatch ::
  "string option \<Rightarrow> (string \<Rightarrow> ('d, response) act) \<Rightarrow> ('d, response) act" where
  "correlation_dispatch supplied call_next =
     (case supplied of
        Some v \<Rightarrow>
          if \<not> matches_correlation_id v then
            bindM uuid4 (\<lambda>cid. returnM
              \<lparr>rs_status = 400,
               rs_problem = Some \<lparr>pb_code = ''CORRELATION_ID_INVALID'', pb_title = ''Invalid correlation ID'',
                                  pb_status = 400, pb_detail = None, pb_correlation = Some cid\<rparr>,
               rs_header = Some cid\<rparr>)
          else bindM (call_next v) (\<lambda>r. returnM (r\<lparr>rs_header := Some v\<rparr>))
      | None \<Rightarrow> bindM uuid4 (\<lambda>cid. bindM (call_next cid) (\<lambda>r. returnM (r\<lparr>rs_header := Some cid\<rparr>))))"

section \<open>Facts\<close>

lemma err_code_security_error_with [simp]: "err_code (security_error_with c d) = c"
  by (simp add: security_error_with_def split: option.splits)

lemma err_detail_security_error_with [simp]: "err_detail (security_error_with c d) = d"
  by (simp add: security_error_with_def split: option.splits)

lemma security_error_inject [simp]:
  "security_error_with c d = security_error_with c' d' \<longleftrightarrow> c = c' \<and> d = d'"
  by (metis err_code_security_error_with err_detail_security_error_with)

lemma ERRORS_keys_distinct: "distinct (map fst ERRORS)"
  by (simp add: ERRORS_def)

lemma ERRORS_statuses: "(c, s, t) \<in> set ERRORS \<Longrightarrow> s \<in> {400, 401, 403, 409, 503}"
  by (auto simp: ERRORS_def)

lemma err_status_cases:
  "err_status (security_error_with c d) \<in> {400, 401, 403, 409, 500, 503}"
proof (cases "map_of ERRORS c")
  case None
  then show ?thesis by (simp add: security_error_with_def)
next
  case (Some p)
  then obtain s t where p: "p = (s, t)" by (cases p) auto
  from Some p have "(c, s, t) \<in> set ERRORS" by (auto dest: map_of_SomeD)
  then have "s \<in> {400, 401, 403, 409, 503}" by (rule ERRORS_statuses)
  then show ?thesis using Some p by (auto simp: security_error_with_def)
qed

lemma matches_correlation_id_iff:
  "matches_correlation_id v \<longleftrightarrow>
     v \<noteq> [] \<and> cid_head (hd v) \<and> (\<forall>c\<in>set v. cid_tail c) \<and> length v \<le> 128"
  by (cases v) (auto simp: list_all_iff cid_tail_def)

end
