(* ===== verification/Regex.thy ===== *)
theory Regex
  imports Core
begin

text \<open>
  Regular expressions with the meaning \<open>re.fullmatch\<close> gives them: a matcher by derivatives
  that computes, the language of an expression, and the proof that they agree. The patterns
  of \<open>services/permissions.py\<close> are transcribed into it.
\<close>

datatype regex =
    Never
  | Epsilon
  | CharClass "char \<Rightarrow> bool"
  | Alt regex regex
  | Seq regex regex
  | Star regex

fun nullable :: "regex \<Rightarrow> bool" where
  "nullable Never = False"
| "nullable Epsilon = True"
| "nullable (CharClass P) = False"
| "nullable (Alt a b) = (nullable a \<or> nullable b)"
| "nullable (Seq a b) = (nullable a \<and> nullable b)"
| "nullable (Star a) = True"

fun deriv :: "char \<Rightarrow> regex \<Rightarrow> regex" where
  "deriv c Never = Never"
| "deriv c Epsilon = Never"
| "deriv c (CharClass P) = (if P c then Epsilon else Never)"
| "deriv c (Alt a b) = Alt (deriv c a) (deriv c b)"
| "deriv c (Seq a b) = (if nullable a then Alt (Seq (deriv c a) b) (deriv c b) else Seq (deriv c a) b)"
| "deriv c (Star a) = Seq (deriv c a) (Star a)"

definition fullmatch :: "regex \<Rightarrow> string \<Rightarrow> bool" where
  "fullmatch r s = nullable (fold deriv s r)"

text \<open>\<open>r+\<close>, \<open>r{n,}\<close> and a literal character.\<close>

definition Plus :: "regex \<Rightarrow> regex" where
  "Plus r = Seq r (Star r)"

fun AtLeast :: "nat \<Rightarrow> regex \<Rightarrow> regex" where
  "AtLeast 0 r = Star r"
| "AtLeast (Suc n) r = Seq r (AtLeast n r)"

definition Lit :: "char \<Rightarrow> regex" where
  "Lit c = CharClass (\<lambda>x. x = c)"

section \<open>Languages\<close>

inductive_set star_lang :: "string set \<Rightarrow> string set" for A where
  star_Nil: "[] \<in> star_lang A"
| star_app: "u \<in> A \<Longrightarrow> v \<in> star_lang A \<Longrightarrow> u @ v \<in> star_lang A"

fun lang :: "regex \<Rightarrow> string set" where
  "lang Never = {}"
| "lang Epsilon = {[]}"
| "lang (CharClass P) = {[c] |c. P c}"
| "lang (Alt a b) = lang a \<union> lang b"
| "lang (Seq a b) = {u @ v |u v. u \<in> lang a \<and> v \<in> lang b}"
| "lang (Star a) = star_lang (lang a)"

lemma nullable_iff: "nullable r \<longleftrightarrow> [] \<in> lang r"
  by (induction r) (auto intro: star_lang.star_Nil)

lemma star_lang_ConsD:
  "x \<in> star_lang A \<Longrightarrow> x = c # w \<Longrightarrow> \<exists>u v. c # u \<in> A \<and> v \<in> star_lang A \<and> w = u @ v"
proof (induction arbitrary: w rule: star_lang.induct)
  case star_Nil
  then show ?case by simp
next
  case (star_app u v)
  then show ?case by (cases u) auto
qed

lemma star_lang_Cons:
  "c # w \<in> star_lang A \<longleftrightarrow> (\<exists>u v. c # u \<in> A \<and> v \<in> star_lang A \<and> w = u @ v)"
  using star_lang_ConsD [of "c # w" A c w] star_lang.star_app [of "c # _" A] by fastforce

lemma deriv_iff: "w \<in> lang (deriv c r) \<longleftrightarrow> c # w \<in> lang r"
proof (induction r arbitrary: w)
  case (Seq a b)
  then show ?case
    by (auto simp: nullable_iff Cons_eq_append_conv; metis)
next
  case (Star a)
  then show ?case by (auto simp: star_lang_Cons)
qed auto

theorem fullmatch_iff: "fullmatch r s \<longleftrightarrow> s \<in> lang r"
  unfolding fullmatch_def
  by (induction s arbitrary: r) (simp_all add: nullable_iff deriv_iff)

section \<open>Derived forms\<close>

lemma star_lang_concat: "star_lang A = {concat ws |ws. set ws \<subseteq> A}"
proof (intro set_eqI iffI)
  fix x assume "x \<in> star_lang A"
  then show "x \<in> {concat ws |ws. set ws \<subseteq> A}"
  proof (induction rule: star_lang.induct)
    case star_Nil
    show ?case by (auto intro: exI [of _ "[]"])
  next
    case (star_app u v)
    then obtain ws where "v = concat ws" "set ws \<subseteq> A" by auto
    with star_app(1) show ?case by (intro CollectI exI [of _ "u # ws"]) simp
  qed
next
  fix x assume "x \<in> {concat ws |ws. set ws \<subseteq> A}"
  then obtain ws where "x = concat ws" "set ws \<subseteq> A" by auto
  then show "x \<in> star_lang A"
    by (induction ws arbitrary: x) (auto intro: star_lang.intros)
qed

lemma lang_AtLeast: "lang (AtLeast n r) = {concat ws |ws. set ws \<subseteq> lang r \<and> n \<le> length ws}"
proof (induction n)
  case 0
  then show ?case by (simp add: star_lang_concat)
next
  case (Suc n)
  show ?case
  proof (intro set_eqI iffI)
    fix x assume "x \<in> lang (AtLeast (Suc n) r)"
    then obtain u ws where "x = u @ concat ws" "u \<in> lang r" "set ws \<subseteq> lang r" "n \<le> length ws"
      using Suc by auto
    then show "x \<in> {concat ws |ws. set ws \<subseteq> lang r \<and> Suc n \<le> length ws}"
      by (intro CollectI exI [of _ "u # ws"]) simp
  next
    fix x assume "x \<in> {concat ws |ws. set ws \<subseteq> lang r \<and> Suc n \<le> length ws}"
    then obtain u ws where "x = u @ concat ws" "u \<in> lang r" "set ws \<subseteq> lang r" "n \<le> length ws"
      by (auto simp: Suc_le_length_iff)
    then show "x \<in> lang (AtLeast (Suc n) r)" using Suc by auto
  qed
qed

lemma star_lang_CharClass: "star_lang {[c] |c. P c} = {w. \<forall>c\<in>set w. P c}"
proof (intro set_eqI iffI)
  fix x assume "x \<in> star_lang {[c] |c. P c}"
  then show "x \<in> {w. \<forall>c\<in>set w. P c}" by (induction rule: star_lang.induct) auto
next
  fix x assume "x \<in> {w. \<forall>c\<in>set w. P c}"
  then show "x \<in> star_lang {[c] |c. P c}"
  proof (induction x)
    case Nil
    show ?case by (rule star_lang.star_Nil)
  next
    case (Cons a x)
    then have "[a] @ x \<in> star_lang {[c] |c. P c}" by (intro star_lang.star_app) auto
    then show ?case by simp
  qed
qed

lemma lang_Plus_CharClass: "lang (Plus (CharClass P)) = {w. w \<noteq> [] \<and> (\<forall>c\<in>set w. P c)}"
proof (intro set_eqI)
  fix x show "x \<in> lang (Plus (CharClass P)) \<longleftrightarrow> x \<in> {w. w \<noteq> [] \<and> (\<forall>c\<in>set w. P c)}"
  proof (cases x)
    case Nil
    then show ?thesis by (simp add: Plus_def)
  next
    case (Cons a w)
    have "(\<exists>u v. a # w = u @ v \<and> (\<exists>c. u = [c] \<and> P c) \<and> (\<forall>c\<in>set v. P c)) \<longleftrightarrow> P a \<and> (\<forall>c\<in>set w. P c)"
      by auto (metis append_Cons append_Nil)
    then show ?thesis using Cons by (simp add: Plus_def star_lang_CharClass)
  qed
qed

end
