(* ===== verification/Schedule.thy ===== *)
theory Schedule
  imports Core
begin

text \<open>
  \<open>services/schedule.py\<close>: whether an instant lies in one of the weekly local-time windows of
  a location, and until when. Instants, wall clock times and offsets are ints in
  microseconds; a date is its day number since 1970-01-01.

  A \<open>ZoneInfo\<close> is the offset before its first transition and the list of its transitions
  (UTC instant, offset from then on), in order. \<open>astimezone(tz)\<close> looks the instant up;
  \<open>astimezone(UTC)\<close> of a wall clock time with \<open>fold=0\<close> looks the wall clock time up in the
  transitions shifted by the larger of the two offsets, as CPython's \<open>zoneinfo\<close> does.
  Which zones exist and their data are a parameter. Two datetimes with the same \<open>tzinfo\<close>
  are compared by their wall clocks.
\<close>

section \<open>Time zones\<close>

record zone =
  zi_initial :: int
  zi_transitions :: "(int \<times> int) list"

fun utc_offset_from :: "int \<Rightarrow> (int \<times> int) list \<Rightarrow> int \<Rightarrow> int" where
  "utc_offset_from cur [] t = cur"
| "utc_offset_from cur ((instant, off) # ts) t =
     (if instant \<le> t then utc_offset_from off ts t else cur)"

definition utc_offset :: "zone \<Rightarrow> int \<Rightarrow> int" where
  "utc_offset z t = utc_offset_from (zi_initial z) (zi_transitions z) t"

fun wall_offset_from :: "int \<Rightarrow> (int \<times> int) list \<Rightarrow> int \<Rightarrow> int" where
  "wall_offset_from cur [] w = cur"
| "wall_offset_from cur ((instant, off) # ts) w =
     (if instant + max cur off \<le> w then wall_offset_from off ts w else cur)"

definition wall_offset :: "zone \<Rightarrow> int \<Rightarrow> int" where
  "wall_offset z w = wall_offset_from (zi_initial z) (zi_transitions z) w"

definition astimezone :: "zone \<Rightarrow> int \<Rightarrow> int" where
  "astimezone z t = t + utc_offset z t"

definition local_to_utc :: "zone \<Rightarrow> int \<Rightarrow> int" where
  "local_to_utc z w = w - wall_offset z w"

definition MICROS_PER_DAY :: int where
  "MICROS_PER_DAY = 86400000000"

definition date_of :: "int \<Rightarrow> int" where
  "date_of w = w div MICROS_PER_DAY"

definition isoweekday :: "int \<Rightarrow> int" where
  "isoweekday day = (day + 3) mod 7 + 1"

definition datetime_combine :: "int \<Rightarrow> int \<Rightarrow> int" where
  "datetime_combine day tod = day * MICROS_PER_DAY + tod"

section \<open>Windows\<close>

record ScheduleWindow =
  sw_iso_day_of_week :: int
  sw_start_local_time :: int
  sw_end_local_time :: int
  sw_crosses_midnight :: bool

record ScheduleDecision =
  sd_local_time :: int
  sd_authorized_until_utc :: int

definition window_bounds :: "int \<Rightarrow> ScheduleWindow \<Rightarrow> int \<times> int" where
  "window_bounds day window =
     (let start = datetime_combine day (sw_start_local_time window);
          end_day = (if sw_crosses_midnight window then day + 1 else day);
          end = datetime_combine end_day (sw_end_local_time window)
      in (start, end))"

text \<open>The inner loop over the windows of one day, then the loop over the candidate days.\<close>

fun find_window :: "int \<Rightarrow> int \<Rightarrow> ScheduleWindow list \<Rightarrow> int option" where
  "find_window local_now day [] = None"
| "find_window local_now day (w # ws) =
     (if sw_iso_day_of_week w \<noteq> isoweekday day then find_window local_now day ws
      else case window_bounds day w of (start, end) \<Rightarrow>
        if start \<le> local_now \<and> local_now < end then Some end else find_window local_now day ws)"

fun find_day :: "int \<Rightarrow> ScheduleWindow list \<Rightarrow> int list \<Rightarrow> int option" where
  "find_day local_now windows [] = None"
| "find_day local_now windows (day # days) =
     (case find_window local_now day windows of
        Some end \<Rightarrow> Some end | None \<Rightarrow> find_day local_now windows days)"

text \<open>
  \<open>ZoneInfo(key)\<close> raises \<open>ZoneInfoNotFoundError\<close>, a \<open>LookupError\<close>, on a key it does not know.
\<close>

definition ZoneInfo :: "(string \<Rightarrow> zone option) \<Rightarrow> string \<Rightarrow> exn + zone" where
  "ZoneInfo zoneinfo key =
     (case zoneinfo key of
        None \<Rightarrow> Inl (LookupError (''No time zone found with key '' @ key)) | Some z \<Rightarrow> Inr z)"

definition evaluate_schedule ::
  "(string \<Rightarrow> zone option) \<Rightarrow> int \<Rightarrow> string \<Rightarrow> ScheduleWindow list \<Rightarrow> int option \<Rightarrow> exn + ScheduleDecision" where
  "evaluate_schedule zoneinfo now_utc timezone_iana windows override_until_utc =
     (case (case override_until_utc of Some u \<Rightarrow> if u > now_utc then Some u else None | None \<Rightarrow> None) of
        Some u \<Rightarrow>
          (case ZoneInfo zoneinfo timezone_iana of Inl e \<Rightarrow> Inl e | Inr tz \<Rightarrow>
             Inr \<lparr>sd_local_time = astimezone tz now_utc, sd_authorized_until_utc = u\<rparr>)
      | None \<Rightarrow>
          if windows = [] then Inl (security_error ''ACCESS_SCHEDULE_MISSING'')
          else
            (case ZoneInfo zoneinfo timezone_iana of Inl e \<Rightarrow> Inl e | Inr tz \<Rightarrow>
               let local_now = astimezone tz now_utc;
                   candidate_days = [date_of local_now, date_of local_now - 1]
               in case find_day local_now windows candidate_days of
                    Some end \<Rightarrow> Inr \<lparr>sd_local_time = local_now, sd_authorized_until_utc = local_to_utc tz end\<rparr>
                  | None \<Rightarrow> Inl (security_error ''ACCESS_OUTSIDE_ALLOWED_TIME'')))"

section \<open>The search and its specification\<close>

text \<open>
  What a schedule promises, with no bound on the day looked at: some window occurs on a day
  of its weekday and contains the wall clock time.
\<close>

definition in_some_window :: "int \<Rightarrow> ScheduleWindow list \<Rightarrow> bool" where
  "in_some_window local_now windows \<longleftrightarrow>
     (\<exists>day. \<exists>w\<in>set windows. sw_iso_day_of_week w = isoweekday day \<and>
        fst (window_bounds day w) \<le> local_now \<and> local_now < snd (window_bounds day w))"

text \<open>A window as the table stores it: both times are times of day.\<close>

definition time_of_day :: "int \<Rightarrow> bool" where
  "time_of_day t = (0 \<le> t \<and> t < MICROS_PER_DAY)"

definition window_ok :: "ScheduleWindow \<Rightarrow> bool" where
  "window_ok w = (time_of_day (sw_start_local_time w) \<and> time_of_day (sw_end_local_time w))"

lemma find_window_Some:
  "find_window n day ws = Some e \<Longrightarrow>
     \<exists>w\<in>set ws. sw_iso_day_of_week w = isoweekday day \<and>
        fst (window_bounds day w) \<le> n \<and> n < e \<and> e = snd (window_bounds day w)"
  by (induction ws) (auto split: if_splits prod.splits)

lemma find_window_None:
  "find_window n day ws = None \<longleftrightarrow>
     (\<forall>w\<in>set ws. sw_iso_day_of_week w = isoweekday day \<longrightarrow>
        \<not> (fst (window_bounds day w) \<le> n \<and> n < snd (window_bounds day w)))"
  by (induction ws) (auto split: prod.splits)

lemma find_day_Some:
  "find_day n ws days = Some e \<Longrightarrow> \<exists>day\<in>set days. find_window n day ws = Some e"
  by (induction days) (auto split: option.splits)

lemma find_day_None:
  "find_day n ws days = None \<longleftrightarrow> (\<forall>day\<in>set days. find_window n day ws = None)"
  by (induction days) (auto split: option.splits)

text \<open>A window that contains the wall clock time started today or yesterday.\<close>

lemma occurrence_day:
  assumes "window_ok w" and "fst (window_bounds day w) \<le> n" and "n < snd (window_bounds day w)"
  shows "day = date_of n \<or> day = date_of n - 1"
proof -
  have lo: "day * MICROS_PER_DAY \<le> n"
    using assms(1,2) by (simp add: window_ok_def time_of_day_def window_bounds_def Let_def datetime_combine_def)
  have hi: "n < (day + 2) * MICROS_PER_DAY"
    using assms(1,3)
    by (simp add: window_ok_def time_of_day_def window_bounds_def Let_def datetime_combine_def algebra_simps
        MICROS_PER_DAY_def split: if_splits)
  let ?M = "86400000000 :: int"
  let ?q = "n div ?M"
  have n: "n = ?M * ?q + n mod ?M" "0 \<le> n mod ?M" "n mod ?M < ?M" by simp_all
  from lo n have "day < ?q + 1" unfolding MICROS_PER_DAY_def by linarith
  moreover from hi n have "?M * ?q < ?M * (day + 2)" unfolding MICROS_PER_DAY_def by linarith
  then have "?q < day + 2" by simp
  ultimately have "day \<le> date_of n" "date_of n < day + 2"
    unfolding date_of_def MICROS_PER_DAY_def by linarith+
  then show ?thesis by linarith
qed

lemma candidate_days_complete:
  assumes "\<forall>w\<in>set ws. window_ok w"
  shows "find_day n ws [date_of n, date_of n - 1] = None \<longleftrightarrow> \<not> in_some_window n ws"
proof -
  have "in_some_window n ws \<longleftrightarrow>
      (\<exists>day\<in>set [date_of n, date_of n - 1]. find_window n day ws \<noteq> None)"
    using assms occurrence_day unfolding in_some_window_def find_window_None by fastforce
  then show ?thesis by (simp add: find_day_None del: find_day.simps)
qed

section \<open>Offsets\<close>

text \<open>Every offset a zone uses, and the most two of them differ by.\<close>

definition zone_offsets :: "zone \<Rightarrow> int list" where
  "zone_offsets z = zi_initial z # map snd (zi_transitions z)"

definition zone_spread :: "zone \<Rightarrow> int" where
  "zone_spread z = Max (set (zone_offsets z)) - Min (set (zone_offsets z))"

lemma utc_offset_from_mem: "utc_offset_from c ts t \<in> set (c # map snd ts)"
  by (induction c ts t rule: utc_offset_from.induct) auto

lemma utc_offset_mem: "utc_offset z t \<in> set (zone_offsets z)"
  unfolding utc_offset_def zone_offsets_def by (rule utc_offset_from_mem)

lemma wall_offset_from_mem: "wall_offset_from c ts w \<in> set (c # map snd ts)"
  by (induction c ts w rule: wall_offset_from.induct) auto

lemma wall_offset_mem: "wall_offset z w \<in> set (zone_offsets z)"
  unfolding wall_offset_def zone_offsets_def by (rule wall_offset_from_mem)

lemma zone_spread_bound:
  assumes "a \<in> set (zone_offsets z)" "b \<in> set (zone_offsets z)"
  shows "a - b \<le> zone_spread z"
proof -
  have "a \<le> Max (set (zone_offsets z))" "Min (set (zone_offsets z)) \<le> b" using assms by auto
  then show ?thesis by (simp add: zone_spread_def)
qed

lemma zone_spread_fixed [simp]: "zi_transitions z = [] \<Longrightarrow> zone_spread z = 0"
  by (simp add: zone_spread_def zone_offsets_def)

lemma local_to_utc_later:
  assumes "astimezone z now < w"
  shows "now < local_to_utc z w + zone_spread z"
proof -
  have "wall_offset z w - utc_offset z now \<le> zone_spread z"
    by (intro zone_spread_bound wall_offset_mem utc_offset_mem)
  then show ?thesis using assms by (simp add: astimezone_def local_to_utc_def)
qed

lemma evaluate_schedule_Inr_cases:
  assumes "evaluate_schedule zi now tzn ws ov = Inr d"
  obtains (override) u z where "ov = Some u" "now < u" "zi tzn = Some z"
      "d = \<lparr>sd_local_time = astimezone z now, sd_authorized_until_utc = u\<rparr>"
  | (window) z en where "zi tzn = Some z" "ws \<noteq> []"
      "find_day (astimezone z now) ws [date_of (astimezone z now), date_of (astimezone z now) - 1] = Some en"
      "astimezone z now < en"
      "d = \<lparr>sd_local_time = astimezone z now, sd_authorized_until_utc = local_to_utc z en\<rparr>"
proof (cases "\<exists>u. ov = Some u \<and> now < u")
  case True
  then show ?thesis using assms override
    by (auto simp: evaluate_schedule_def ZoneInfo_def split: option.splits)
next
  case False
  then have r: "(case ov of Some u \<Rightarrow> if u > now then Some u else None | None \<Rightarrow> None) = None"
    by (auto split: option.splits)
  from assms obtain z en where z: "zi tzn = Some z" "ws \<noteq> []"
      "find_day (astimezone z now) ws [date_of (astimezone z now), date_of (astimezone z now) - 1] = Some en"
      "d = \<lparr>sd_local_time = astimezone z now, sd_authorized_until_utc = local_to_utc z en\<rparr>"
    unfolding evaluate_schedule_def r
    by (auto simp: ZoneInfo_def Let_def split: option.splits if_splits)
  from find_day_Some [OF z(3)] find_window_Some have "astimezone z now < en" by blast
  with z window show ?thesis by blast
qed

section \<open>Properties\<close>

text \<open>
  C6: access is granted by the windows exactly when the wall clock time of the location lies
  in an occurrence of a window on its weekday, whatever the day the occurrence started on:
  looking at today and yesterday misses none, and outside all of them the error is
  \<open>ACCESS_OUTSIDE_ALLOWED_TIME\<close>.
\<close>

theorem schedule_search_complete:
  assumes "zoneinfo tzn = Some z" and "windows \<noteq> []" and "list_all window_ok windows"
    and "case override of None \<Rightarrow> True | Some u \<Rightarrow> u \<le> now"
  shows "((\<exists>d. evaluate_schedule zoneinfo now tzn windows override = Inr d)
           \<longleftrightarrow> in_some_window (astimezone z now) windows)
    \<and> (evaluate_schedule zoneinfo now tzn windows override = Inl (security_error ''ACCESS_OUTSIDE_ALLOWED_TIME'')
           \<longleftrightarrow> \<not> in_some_window (astimezone z now) windows)"
proof -
  let ?n = "astimezone z now"
  have o: "(case override of Some u \<Rightarrow> if u > now then Some u else None | None \<Rightarrow> None) = None"
    using assms(4) by (auto split: option.splits)
  have e: "evaluate_schedule zoneinfo now tzn windows override =
      (case find_day ?n windows [date_of ?n, date_of ?n - 1] of
         Some en \<Rightarrow> Inr \<lparr>sd_local_time = ?n, sd_authorized_until_utc = local_to_utc z en\<rparr>
       | None \<Rightarrow> Inl (security_error ''ACCESS_OUTSIDE_ALLOWED_TIME''))"
    using assms(1,2) by (simp add: evaluate_schedule_def o ZoneInfo_def Let_def)
  have c: "find_day ?n windows [date_of ?n, date_of ?n - 1] = None \<longleftrightarrow> \<not> in_some_window ?n windows"
    using assms(3) by (intro candidate_days_complete) (simp add: list_all_iff)
  show ?thesis
    unfolding e using c by (cases "find_day ?n windows [date_of ?n, date_of ?n - 1]") auto
qed

definition utc_zone :: zone where
  "utc_zone = \<lparr>zi_initial = 0, zi_transitions = []\<rparr>"

text \<open>Thursdays from 22:00 to 06:00 the next day.\<close>

definition night_window :: ScheduleWindow where
  "night_window = \<lparr>sw_iso_day_of_week = 4, sw_start_local_time = 79200000000,
     sw_end_local_time = 21600000000, sw_crosses_midnight = True\<rparr>"

theorem schedule_search_complete_witness:
  "in_some_window (astimezone utc_zone 90000000000) [night_window]"
proof -
  have e: "evaluate_schedule (\<lambda>_. Some utc_zone) 90000000000 ''UTC'' [night_window] None
      = Inr \<lparr>sd_local_time = 90000000000, sd_authorized_until_utc = 108000000000\<rparr>"
    by (simp add: evaluate_schedule_def ZoneInfo_def Let_def utc_zone_def astimezone_def utc_offset_def date_of_def
        MICROS_PER_DAY_def night_window_def isoweekday_def window_bounds_def datetime_combine_def
        local_to_utc_def wall_offset_def)
  have "list_all window_ok [night_window]"
    by (simp add: window_ok_def time_of_day_def night_window_def MICROS_PER_DAY_def)
  from schedule_search_complete [of "\<lambda>_. Some utc_zone" "''UTC''" utc_zone "[night_window]" 90000000000 None,
      OF refl _ this] e
  show ?thesis by simp
qed

text \<open>
  C27: the end of the authorisation lies after the instant of the request, up to the most two
  offsets of the zone differ by; in a zone whose offset never changes it lies after it.
\<close>

theorem schedule_until_bound:
  assumes "evaluate_schedule zoneinfo now tzn windows override = Inr d" and "zoneinfo tzn = Some z"
  shows "now < sd_authorized_until_utc d + zone_spread z"
  using assms(1)
proof (cases rule: evaluate_schedule_Inr_cases)
  case (override u z')
  have "0 \<le> zone_spread z" using zone_spread_bound [of "zi_initial z" z "zi_initial z"]
    by (simp add: zone_offsets_def)
  then show ?thesis using override by simp
next
  case (window z' en)
  then have "z' = z" using assms(2) by simp
  then show ?thesis using window local_to_utc_later [of z now en] by simp
qed

theorem schedule_until_bound_witness:
  "(90000000000::int) < 108000000000 + zone_spread utc_zone \<and> zone_spread utc_zone = 0"
proof -
  have e: "evaluate_schedule (\<lambda>_. Some utc_zone) 90000000000 ''UTC'' [night_window] None
      = Inr \<lparr>sd_local_time = 90000000000, sd_authorized_until_utc = 108000000000\<rparr>"
    by (simp add: evaluate_schedule_def ZoneInfo_def Let_def utc_zone_def astimezone_def utc_offset_def date_of_def
        MICROS_PER_DAY_def night_window_def isoweekday_def window_bounds_def datetime_combine_def
        local_to_utc_def wall_offset_def)
  show ?thesis using schedule_until_bound [OF e] by (simp add: utc_zone_def)
qed

text \<open>Berlin around 2025-10-26 01:00 UTC, when the offset falls from two hours to one.\<close>

definition berlin :: zone where
  "berlin = \<lparr>zi_initial = 7200000000, zi_transitions = [(1761440400000000, 3600000000)]\<rparr>"

definition sunday_until_half_past_two :: ScheduleWindow where
  "sunday_until_half_past_two = \<lparr>sw_iso_day_of_week = 7, sw_start_local_time = 0,
     sw_end_local_time = 9000000000, sw_crosses_midnight = False\<rparr>"


end
