(* ===== verification/Geo.thy ===== *)
theory Geo
  imports Core
begin

text \<open>
  \<open>services/geo.py\<close>: the distance of a position sample from a location, the admission
  check of the sample, and the choice of the location it is at. A Python float is modelled
  as a real number, so rounding is outside the model; a datetime is an int, microseconds
  since the epoch in UTC (a naive \<open>captured_at\<close> is read as UTC by the code).
\<close>

record GeoSample =
  gs_latitude :: real
  gs_longitude :: real
  gs_accuracy_meters :: real
  gs_captured_at :: int
  gs_source :: GeoSource
  gs_integrity_status :: GeoIntegrityStatus
  gs_integrity_reason :: "string option"

record LocationCandidate =
  lc_location_id :: string
  lc_latitude :: real
  lc_longitude :: real
  lc_allowed_radius_meters :: real
  lc_timezone_iana :: string
  lc_schedule_id :: string

definition EARTH_RADIUS_METERS :: real where
  "EARTH_RADIUS_METERS = 6371000"

definition radians :: "real \<Rightarrow> real" where
  "radians x = x * pi / 180"

text \<open>The square of half the chord length between the two points, and the distance.\<close>

definition haversine_a :: "real \<Rightarrow> real \<Rightarrow> real \<Rightarrow> real \<Rightarrow> real" where
  "haversine_a lat1 lon1 lat2 lon2 =
     (let p1 = radians lat1; p2 = radians lat2;
          dphi = radians (lat2 - lat1); dlambda = radians (lon2 - lon1)
      in (sin (dphi / 2))\<^sup>2 + cos p1 * cos p2 * (sin (dlambda / 2))\<^sup>2)"

definition haversine_meters :: "real \<Rightarrow> real \<Rightarrow> real \<Rightarrow> real \<Rightarrow> real" where
  "haversine_meters lat1 lon1 lat2 lon2 =
     2 * EARTH_RADIUS_METERS * arcsin (sqrt (haversine_a lat1 lon1 lat2 lon2))"

text \<open>Seconds of a timedelta: microseconds over a million.\<close>

definition total_seconds :: "int \<Rightarrow> real" where
  "total_seconds us = real_of_int us / 1000000"

definition validate_geo :: "GeoSample \<Rightarrow> real \<Rightarrow> int \<Rightarrow> int \<Rightarrow> exn + unit" where
  "validate_geo sample max_accuracy_meters max_age_seconds now =
     (if gs_integrity_status sample = SUSPECTED then
        Inl (SecurityError (security_error_with ''GEO_INTEGRITY_FAILED'' (gs_integrity_reason sample)))
      else if gs_accuracy_meters sample > max_accuracy_meters then
        Inl (security_error ''GEO_ACCURACY_INSUFFICIENT'')
      else
        (let age = total_seconds (now - gs_captured_at sample)
         in if age < 0 \<or> age > real_of_int max_age_seconds then Inl (security_error ''GEO_STALE'')
            else Inr ()))"

text \<open>Python's \<open>min(items, key=...)\<close> on a non-empty list: the first least item.\<close>

fun py_min :: "('a \<Rightarrow> 'b::linorder) \<Rightarrow> 'a \<Rightarrow> 'a list \<Rightarrow> 'a" where
  "py_min key m [] = m"
| "py_min key m (x # xs) = py_min key (if key x < key m then x else m) xs"

definition candidate_distance :: "GeoSample \<Rightarrow> LocationCandidate \<Rightarrow> real" where
  "candidate_distance sample c =
     haversine_meters (gs_latitude sample) (gs_longitude sample) (lc_latitude c) (lc_longitude c)"

definition location_matches :: "GeoSample \<Rightarrow> LocationCandidate list \<Rightarrow> (real \<times> LocationCandidate) list" where
  "location_matches sample candidates =
     map (\<lambda>c. (candidate_distance sample c, c))
       (filter (\<lambda>c. candidate_distance sample c \<le> lc_allowed_radius_meters c) candidates)"

definition match_location :: "GeoSample \<Rightarrow> LocationCandidate list \<Rightarrow> exn + LocationCandidate \<times> real" where
  "match_location sample candidates =
     (if candidates = [] then Inl (security_error ''LOCATION_NOT_ASSIGNED'')
      else case location_matches sample candidates of
             [] \<Rightarrow> Inl (security_error ''LOCATION_NOT_ALLOWED'')
           | m # ms \<Rightarrow> (case py_min fst m ms of (distance, candidate) \<Rightarrow> Inr (candidate, distance)))"

section \<open>The haversine term\<close>

text \<open>
  The term is a squared half chord: it lies between 0 and 1 for all angles, so \<open>asin(sqrt(a))\<close>
  has a value, and it is a mixture of \<open>sin\<^sup>2\<close> and \<open>cos\<^sup>2\<close> of the half sum and half difference.
\<close>

lemma haversine_mix:
  fixes u v l :: real
  shows "(sin ((v - u) / 2))\<^sup>2 + cos u * cos v * l
       = (1 - l) * (sin ((v - u) / 2))\<^sup>2 + l * (cos ((v + u) / 2))\<^sup>2"
proof -
  have prod: "cos u * cos v = (cos ((v + u) / 2))\<^sup>2 - (sin ((v - u) / 2))\<^sup>2"
  proof -
    have half: "2 * (z / 2) = z" for z :: real by simp
    have c1: "cos (v + u) = 2 * (cos ((v + u) / 2))\<^sup>2 - 1"
      using cos_double_cos [of "(v + u) / 2"] unfolding half .
    have c2: "cos (v - u) = 1 - 2 * (sin ((v - u) / 2))\<^sup>2"
      using cos_double_sin [of "(v - u) / 2"] unfolding half .
    have "cos u * cos v = (cos (u - v) + cos (u + v)) / 2" by (rule cos_times_cos)
    also have "cos (u - v) = cos (v - u)" by (metis cos_minus minus_diff_eq)
    also have "cos (u + v) = cos (v + u)" by (simp add: add.commute)
    finally show ?thesis using c1 c2 by (simp add: field_simps)
  qed
  show ?thesis unfolding prod by (simp add: algebra_simps)
qed

lemma convex_unit:
  fixes l x y :: real
  assumes "0 \<le> l" "l \<le> 1" "0 \<le> x" "x \<le> 1" "0 \<le> y" "y \<le> 1"
  shows "0 \<le> (1 - l) * x + l * y \<and> (1 - l) * x + l * y \<le> 1"
proof
  show "0 \<le> (1 - l) * x + l * y" using assms by simp
  have "(1 - l) * x \<le> (1 - l) * 1" "l * y \<le> l * 1"
    using assms by (intro mult_left_mono; simp)+
  then have "(1 - l) * x + l * y \<le> (1 - l) * 1 + l * 1" by (rule add_mono)
  then show "(1 - l) * x + l * y \<le> 1" by simp
qed

lemma square_trig_unit:
  "0 \<le> (sin (x::real))\<^sup>2" "(sin (x::real))\<^sup>2 \<le> 1" "0 \<le> (cos (x::real))\<^sup>2" "(cos (x::real))\<^sup>2 \<le> 1"
  using sin_cos_squared_add [of x] by (auto simp: abs_square_le_1)

lemma haversine_a_bounds: "0 \<le> haversine_a a b c d \<and> haversine_a a b c d \<le> 1"
proof -
  let ?l = "(sin (radians (d - b) / 2))\<^sup>2"
  have "radians (c - a) = radians c - radians a"
    by (simp add: radians_def algebra_simps diff_divide_distrib)
  then have "haversine_a a b c d =
      (1 - ?l) * (sin ((radians c - radians a) / 2))\<^sup>2 + ?l * (cos ((radians c + radians a) / 2))\<^sup>2"
    by (simp add: haversine_a_def Let_def haversine_mix)
  then show ?thesis by (simp only: convex_unit square_trig_unit)
qed

lemma haversine_a_commute: "haversine_a a b c d = haversine_a c d a b"
proof -
  have "sin (radians (x - y) / 2) = - sin (radians (y - x) / 2)" for x y
  proof -
    have "radians (x - y) / 2 = - (radians (y - x) / 2)"
      by (simp add: radians_def algebra_simps diff_divide_distrib)
    then show ?thesis by (metis sin_minus)
  qed
  then have "(sin (radians (x - y) / 2))\<^sup>2 = (sin (radians (y - x) / 2))\<^sup>2" for x y
    by (metis power2_minus)
  then show ?thesis by (metis (no_types) haversine_a_def mult.commute)
qed

lemma haversine_range: "0 \<le> haversine_meters a b c d \<and> haversine_meters a b c d \<le> pi * EARTH_RADIUS_METERS"
proof -
  have s: "0 \<le> sqrt (haversine_a a b c d)" "sqrt (haversine_a a b c d) \<le> 1"
    using haversine_a_bounds [of a b c d] by auto
  then have "0 \<le> arcsin (sqrt (haversine_a a b c d))"
    using arcsin_le_arcsin [of 0 "sqrt (haversine_a a b c d)"] by simp
  moreover have "arcsin (sqrt (haversine_a a b c d)) \<le> pi / 2"
    using s by (intro arcsin_ubound) linarith+
  ultimately show ?thesis by (simp add: haversine_meters_def EARTH_RADIUS_METERS_def)
qed

lemma haversine_self: "haversine_meters a b a b = 0"
  by (simp add: haversine_meters_def haversine_a_def Let_def radians_def)

section \<open>The nearest match\<close>

lemma py_min_mem: "py_min key m xs \<in> set (m # xs)"
  by (induction xs arbitrary: m) (auto split: if_splits)

lemma py_min_le: "x \<in> set (m # xs) \<Longrightarrow> key (py_min key m xs) \<le> key x"
proof (induction xs arbitrary: m x)
  case Nil
  then show ?case by simp
next
  case (Cons y ys)
  let ?m = "if key y < key m then y else m"
  have "key (py_min key ?m ys) \<le> key ?m" using Cons.IH [of ?m ?m] by simp
  moreover have "key ?m \<le> key m \<and> key ?m \<le> key y" by auto
  ultimately show ?case using Cons.IH [of x ?m] Cons.prems by fastforce
qed

text \<open>Ties go to the earliest item of the list.\<close>

lemma py_min_first:
  "\<exists>pre post. m # xs = pre @ py_min key m xs # post \<and> (\<forall>y\<in>set pre. key (py_min key m xs) < key y)"
proof (induction xs arbitrary: m)
  case Nil
  show ?case by (intro exI [of _ "[]"]) simp
next
  case (Cons y ys)
  show ?case
  proof (cases "key y < key m")
    case True
    from Cons.IH [of y] obtain pre post where
      split: "y # ys = pre @ py_min key y ys # post" "\<forall>z\<in>set pre. key (py_min key y ys) < key z" by blast
    have "key (py_min key y ys) \<le> key y" by (rule py_min_le) simp
    then have "\<forall>z\<in>set (m # pre). key (py_min key y ys) < key z" using True split(2) by simp
    moreover have "m # y # ys = (m # pre) @ py_min key y ys # post" using split(1) by simp
    moreover have "py_min key m (y # ys) = py_min key y ys" using True by simp
    ultimately show ?thesis by metis
  next
    case False
    from Cons.IH [of m] obtain pre post where
      p: "m # ys = pre @ py_min key m ys # post" "\<forall>z\<in>set pre. key (py_min key m ys) < key z" by blast
    show ?thesis
    proof (cases pre)
      case Nil
      then show ?thesis using False p by (intro exI [of _ "[]"] exI [of _ "y # ys"]) auto
    next
      case (Cons a as)
      then have "a = m" "ys = as @ py_min key m ys # post" using p by auto
      moreover have "key (py_min key m ys) < key m" using p Cons \<open>a = m\<close> by simp
      ultimately show ?thesis using False p Cons
        by (intro exI [of _ "m # y # as"] exI [of _ post]) auto
    qed
  qed
qed

lemma set_location_matches:
  "set (location_matches s cs) =
     {(candidate_distance s c, c) |c. c \<in> set cs \<and> candidate_distance s c \<le> lc_allowed_radius_meters c}"
  by (auto simp: location_matches_def)

lemma match_location_Inr_iff:
  "match_location s cs = Inr (c, d) \<longleftrightarrow>
     (\<exists>m ms. location_matches s cs = m # ms \<and> py_min fst m ms = (d, c))"
  by (auto simp: match_location_def location_matches_def split: list.splits prod.splits if_splits)

lemma match_location_mem:
  assumes "match_location s cs = Inr (c, d)"
  shows "c \<in> set cs \<and> d = candidate_distance s c \<and> d \<le> lc_allowed_radius_meters c"
proof -
  from assms obtain m ms where m: "location_matches s cs = m # ms" "py_min fst m ms = (d, c)"
    by (auto simp: match_location_Inr_iff)
  then have "(d, c) \<in> set (location_matches s cs)"
    using py_min_mem [of fst m ms] by simp
  then show ?thesis by (auto simp: set_location_matches)
qed

lemma match_location_least:
  assumes "match_location s cs = Inr (c, d)" and "c' \<in> set cs"
    and "candidate_distance s c' \<le> lc_allowed_radius_meters c'"
  shows "d \<le> candidate_distance s c'"
proof -
  from assms(1) obtain m ms where m: "location_matches s cs = m # ms" "py_min fst m ms = (d, c)"
    by (auto simp: match_location_Inr_iff)
  have "(candidate_distance s c', c') \<in> set (m # ms)"
    using assms(2,3) unfolding m(1) [symmetric] set_location_matches by blast
  from py_min_le [OF this, of fst] m(2) show ?thesis by simp
qed

lemma filter_split:
  "filter P xs = pre @ x # post \<Longrightarrow> \<exists>a b. xs = a @ x # b \<and> filter P a = pre"
proof (induction xs arbitrary: pre)
  case Nil
  then show ?case by simp
next
  case (Cons y ys)
  show ?case
  proof (cases "P y \<and> pre = []")
    case True
    then have "y = x" using Cons.prems by simp
    then show ?thesis using True by (intro exI [of _ "[]"] exI [of _ ys]) simp
  next
    case False
    then have "filter P ys = (if P y then tl pre else pre) @ x # post"
      using Cons.prems by (cases pre) (auto split: if_splits)
    from Cons.IH [OF this] obtain a b where ab: "ys = a @ x # b" "filter P a = (if P y then tl pre else pre)"
      by blast
    have "filter P (y # a) = pre" using ab(2) False Cons.prems by (cases pre) (auto split: if_splits)
    then show ?thesis using ab(1) by (intro exI [of _ "y # a"] exI [of _ b]) simp
  qed
qed

lemma match_location_first:
  assumes "match_location s cs = Inr (c, d)"
  shows "\<exists>pre post. cs = pre @ c # post
    \<and> (\<forall>c'\<in>set pre. candidate_distance s c' \<le> lc_allowed_radius_meters c' \<longrightarrow> d < candidate_distance s c')"
proof -
  from assms obtain m ms where m: "location_matches s cs = m # ms" "py_min fst m ms = (d, c)"
    by (auto simp: match_location_Inr_iff)
  from py_min_first [of m ms fst] obtain pre post where
    sp: "location_matches s cs = pre @ (d, c) # post" "\<forall>y\<in>set pre. d < fst y"
    unfolding m by auto
  let ?P = "\<lambda>c. candidate_distance s c \<le> lc_allowed_radius_meters c"
  let ?f = "\<lambda>c. (candidate_distance s c, c)"
  from sp(1) obtain us vs where uv: "filter ?P cs = us @ c # vs" "pre = map ?f us"
    by (auto simp: location_matches_def map_eq_append_conv)
  from filter_split [OF uv(1)] obtain a b where ab: "cs = a @ c # b" "filter ?P a = us" by blast
  have "\<forall>c'\<in>set a. ?P c' \<longrightarrow> d < candidate_distance s c'"
    using sp(2) unfolding uv(2) ab(2) [symmetric] by auto
  with ab(1) show ?thesis by blast
qed

section \<open>Properties\<close>



text \<open>
  C23: the location matched is an assigned one whose radius contains the sample, no other
  assigned location containing it is nearer, and among equally near ones it is the first.
\<close>

theorem match_location_nearest:
  assumes "match_location sample candidates = Inr (c, distance)"
  shows "c \<in> set candidates \<and> distance = candidate_distance sample c
    \<and> distance \<le> lc_allowed_radius_meters c
    \<and> (\<forall>c'\<in>set candidates. candidate_distance sample c' \<le> lc_allowed_radius_meters c'
         \<longrightarrow> distance \<le> candidate_distance sample c')
    \<and> (\<exists>pre post. candidates = pre @ c # post
         \<and> (\<forall>c'\<in>set pre. candidate_distance sample c' \<le> lc_allowed_radius_meters c'
              \<longrightarrow> distance < candidate_distance sample c'))"
  using match_location_mem [OF assms] match_location_least [OF assms] match_location_first [OF assms] by blast

definition office_candidate :: "string \<Rightarrow> LocationCandidate" where
  "office_candidate i = \<lparr>lc_location_id = i, lc_latitude = 12, lc_longitude = 77, lc_allowed_radius_meters = 100,
     lc_timezone_iana = ''Asia/Kolkata'', lc_schedule_id = ''s''\<rparr>"

definition office_sample :: GeoSample where
  "office_sample = \<lparr>gs_latitude = 12, gs_longitude = 77, gs_accuracy_meters = 5, gs_captured_at = 0,
     gs_source = NATIVE, gs_integrity_status = NORMAL, gs_integrity_reason = None\<rparr>"

lemma office_match:
  "match_location office_sample [office_candidate ''north'', office_candidate ''south'']
     = Inr (office_candidate ''north'', 0)"
  by (simp add: match_location_def location_matches_def candidate_distance_def office_sample_def
      office_candidate_def haversine_self)

theorem match_location_nearest_witness:
  "office_candidate ''north'' \<in> set [office_candidate ''north'', office_candidate ''south'']
   \<and> 0 = candidate_distance office_sample (office_candidate ''north'')"
  using match_location_nearest [OF office_match] by blast

end
