(* ===== verification/Database.thy ===== *)
theory Database
  imports Effects Schedule Geo
begin

text \<open>
  The tables of the \<open>security\<close> schema (migrations 0001 to 0010) that the modelled code reads
  or writes, one record per table with the columns that code uses, and the database as the
  record of its tables. A nullable column is an option, an id or a status is the string the
  code handles, an instant is an int. The uniqueness constraints and the CHECK constraints
  a statement of the code can violate are bool-valued functions; a statement that violates
  one raises \<open>IntegrityError\<close>. Foreign keys, column widths and the parsing of uuid and inet
  values are not modelled, and \<open>FOR UPDATE\<close> only reads: transactions run one at a time,
  except where a theory models interference explicitly.
\<close>

section \<open>Identity and membership\<close>

record tenant =
  t_id :: string
  t_status :: string

record principal =
  sp_id :: string
  sp_actor_type :: string
  sp_name :: string
  sp_status :: string

record user =
  u_id :: string
  u_display_name :: string
  u_first_name :: "string option"
  u_last_name :: "string option"
  u_primary_email :: "string option"
  u_primary_mobile :: "string option"
  u_status :: string
  u_created_at :: int
  u_updated_at :: int

record external_identity =
  ei_id :: string
  ei_user :: string
  ei_provider :: string
  ei_subject :: string
  ei_status :: string
  ei_linked_at :: int

record membership =
  m_id :: string
  m_tenant :: string
  m_user :: string
  m_status :: string
  m_valid_from :: "int option"
  m_valid_to :: "int option"
  m_version :: int
  m_updated_at :: int

record authorization_state =
  az_user :: string
  az_tenant :: string
  az_version :: int
  az_updated_at :: int

section \<open>Permissions, roles and groups\<close>

record permission =
  p_key :: string
  p_module :: string
  p_resource :: string
  p_action :: string
  p_description :: "string option"
  p_status :: string
  p_display_name :: "string option"
  p_catalog_version :: "string option"

record role =
  r_id :: string
  r_tenant :: string
  r_key :: string
  r_name :: string
  r_description :: "string option"
  r_status :: string
  r_created_at :: int
  r_updated_at :: int

record role_permission =
  rp_tenant :: string
  rp_role :: string
  rp_permission :: string
  rp_assigned_at :: int

record user_role =
  ura_id :: string
  ura_tenant :: string
  ura_user :: string
  ura_role :: string
  ura_valid_from :: "int option"
  ura_valid_to :: "int option"
  ura_status :: string
  ura_assigned_by :: string
  ura_assigned_at :: int

record platform_role =
  pr_key :: string
  pr_status :: string

record platform_role_permission =
  prp_role :: string
  prp_permission :: string

record platform_user_role =
  pura_user :: string
  pura_role :: string
  pura_status :: string

record tenant_group =
  g_id :: string
  g_tenant :: string
  g_key :: string
  g_name :: string
  g_description :: "string option"
  g_status :: string
  g_created_by :: string
  g_created_at :: int
  g_updated_at :: int

record group_member =
  gm_id :: string
  gm_tenant :: string
  gm_group :: string
  gm_user :: string
  gm_status :: string
  gm_valid_from :: "int option"
  gm_valid_to :: "int option"
  gm_added_by :: string
  gm_added_at :: int
  gm_ended_at :: "int option"

record group_role =
  gra_id :: string
  gra_tenant :: string
  gra_group :: string
  gra_role :: string
  gra_status :: string
  gra_assigned_by :: string
  gra_assigned_at :: int
  gra_ended_at :: "int option"

record role_template =
  tpl_id :: string
  tpl_module :: string
  tpl_key :: string
  tpl_name :: string
  tpl_description :: "string option"
  tpl_catalog_version :: string
  tpl_status :: string

record template_permission =
  tp_template :: string
  tp_permission :: string

record template_binding =
  tb_id :: string
  tb_tenant :: string
  tb_role :: string
  tb_template :: string
  tb_version :: string
  tb_status :: string
  tb_applied_by :: string
  tb_applied_at :: int
  tb_superseded_at :: "int option"

record privileged_request =
  pa_id :: string
  pa_tenant :: string
  pa_subject :: string
  pa_role :: string
  pa_source_invitation :: "string option"
  pa_status :: string
  pa_requested_by :: string
  pa_requested_at :: int
  pa_approved_by :: "string option"
  pa_decided_at :: "int option"
  pa_reason :: "string option"
  pa_correlation :: string

record admin_change =
  ac_id :: string
  ac_correlation :: string
  ac_scope_type :: string
  ac_tenant :: "string option"
  ac_actor :: string
  ac_operation :: string
  ac_resource_type :: string
  ac_resource_id :: "string option"
  ac_outcome :: string
  ac_occurred_at :: int

section \<open>Machine principals\<close>

record tenant_scope =
  sc_principal :: string
  sc_tenant :: string
  sc_status :: string
  sc_valid_from :: "int option"
  sc_valid_to :: "int option"

record permission_grant =
  pg_principal :: string
  pg_tenant :: string
  pg_permission :: string
  pg_status :: string

record credential =
  c_id :: string
  c_principal :: string
  c_client_id :: string
  c_secret_hash :: string
  c_status :: string
  c_valid_from :: int
  c_valid_to :: "int option"
  c_last_used_at :: "int option"

section \<open>Access policy\<close>

record tenant_policy =
  pol_tenant :: string
  pol_max_active_devices :: int
  pol_max_geo_accuracy :: real
  pol_max_geo_age :: int
  pol_geo_revalidation :: int
  pol_access_ttl :: int
  pol_machine_ttl :: int
  pol_idle_timeout :: int
  pol_session_max :: int
  pol_vpn_detected :: string
  pol_vpn_unknown :: string
  pol_status :: string

record location =
  l_id :: string
  l_tenant :: string
  l_latitude :: real
  l_longitude :: real
  l_allowed_radius :: int
  l_timezone :: string
  l_status :: string

record schedule =
  sch_id :: string
  sch_tenant :: string
  sch_status :: string

record schedule_window =
  w_tenant :: string
  w_schedule :: string
  w_iso_day :: int
  w_start :: int
  w_end :: int
  w_crosses_midnight :: bool
  w_status :: string

record user_location =
  ul_tenant :: string
  ul_user :: string
  ul_location :: string
  ul_schedule :: string
  ul_valid_from :: "int option"
  ul_valid_to :: "int option"
  ul_status :: string

record schedule_override =
  ov_tenant :: string
  ov_user :: string
  ov_location :: string
  ov_valid_from :: int
  ov_valid_to :: int
  ov_status :: string

section \<open>Devices, sessions and evidence\<close>

record device =
  d_id :: string
  d_tenant :: string
  d_user :: string
  d_type :: string
  d_platform :: string
  d_name :: "string option"
  d_model :: "string option"
  d_os_version :: "string option"
  d_browser_name :: "string option"
  d_browser_version :: "string option"
  d_app_version :: "string option"
  d_platform_identifier :: "string option"
  d_mac_address :: "string option"
  d_first_seen_ip :: "string option"
  d_last_seen_ip :: "string option"
  d_status :: string
  d_registered_at :: int
  d_approved_by :: "string option"
  d_approved_at :: "int option"
  d_last_seen_at :: "int option"

record enrollment =
  en_id :: string
  en_tenant :: string
  en_user :: string
  en_device :: string
  en_source_ip :: "string option"
  en_latitude :: "real option"
  en_longitude :: "real option"
  en_accuracy :: "real option"
  en_requested_at :: int
  en_status :: string
  en_decided_by :: "string option"
  en_decided_at :: "int option"

record access_session =
  as_id :: string
  as_tenant :: string
  as_principal :: string
  as_actor_type :: string
  as_membership :: "string option"
  as_device :: "string option"
  as_location :: "string option"
  as_credential :: "string option"
  as_source :: string
  as_version :: "int option"
  as_ip :: string
  as_vpn :: "string option"
  as_started :: int
  as_expires :: int
  as_last_activity :: int
  as_last_geo :: "int option"
  as_status :: string

record evaluation =
  ev_id :: string
  ev_session :: "string option"
  ev_tenant :: string
  ev_principal :: string
  ev_actor_type :: string
  ev_latitude :: "real option"
  ev_longitude :: "real option"
  ev_accuracy :: "real option"
  ev_captured_at :: "int option"
  ev_geo_source :: "string option"
  ev_geo_integrity :: "string option"
  ev_geo_reason :: "string option"
  ev_location :: "string option"
  ev_distance :: "real option"
  ev_local_time :: "int option"
  ev_timezone :: "string option"
  ev_schedule :: "string option"
  ev_ip :: "string option"
  ev_vpn :: "string option"
  ev_decision :: string
  ev_reason_code :: string
  ev_correlation :: string
  ev_evaluated_at :: int

section \<open>Registration of users\<close>

record signup_attempt =
  sa_id :: string
  sa_first_name :: string
  sa_last_name :: string
  sa_email :: string
  sa_mobile :: string
  sa_status :: string
  sa_ip :: string
  sa_correlation :: string
  sa_created_at :: int
  sa_expires_at :: int
  sa_clerk_user :: "string option"
  sa_clerk_email :: "string option"
  sa_completed_at :: "int option"

record onboarding_request =
  or_id :: string
  or_user :: string
  or_email :: string
  or_clerk_invitation :: "string option"
  or_clerk_user :: "string option"
  or_status :: string
  or_ip :: string
  or_submitted_at :: int
  or_reviewed_by :: "string option"
  or_reviewed_at :: "int option"
  or_review_reason :: "string option"
  or_correlation :: string

record onboarding_setting =
  os_key_hash :: string
  os_key_ciphertext :: string
  os_key_version :: int
  os_status :: string
  os_created_by :: string
  os_created_at :: int
  os_updated_by :: string
  os_updated_at :: int

record security_event =
  se_id :: string
  se_principal :: string
  se_type :: string
  se_entity :: string
  se_outcome :: string
  se_reason :: string
  se_ip :: string
  se_correlation :: string
  se_occurred_at :: int

end
