(* ===== verification/Store.thy ===== *)
theory Store
  imports Database
begin

text \<open>
  The database: one list of rows per table, the uniqueness and CHECK constraints of the
  schema as invariants of it, and the INSERT and UPDATE statements that can violate one.
\<close>

record db =
  db_tenants :: "tenant list"
  db_principals :: "principal list"
  db_users :: "user list"
  db_identities :: "external_identity list"
  db_memberships :: "membership list"
  db_authz_state :: "authorization_state list"
  db_permissions :: "permission list"
  db_roles :: "role list"
  db_role_permissions :: "role_permission list"
  db_user_roles :: "user_role list"
  db_platform_roles :: "platform_role list"
  db_platform_role_permissions :: "platform_role_permission list"
  db_platform_user_roles :: "platform_user_role list"
  db_groups :: "tenant_group list"
  db_group_members :: "group_member list"
  db_group_roles :: "group_role list"
  db_templates :: "role_template list"
  db_template_permissions :: "template_permission list"
  db_bindings :: "template_binding list"
  db_requests :: "privileged_request list"
  db_changes :: "admin_change list"
  db_scopes :: "tenant_scope list"
  db_grants :: "permission_grant list"
  db_credentials :: "credential list"
  db_policies :: "tenant_policy list"
  db_locations :: "location list"
  db_schedules :: "schedule list"
  db_windows :: "schedule_window list"
  db_user_locations :: "user_location list"
  db_overrides :: "schedule_override list"
  db_devices :: "device list"
  db_enrollments :: "enrollment list"
  db_sessions :: "access_session list"
  db_evaluations :: "evaluation list"
  db_attempts :: "signup_attempt list"
  db_onboarding :: "onboarding_request list"
  db_onboarding_key :: "onboarding_setting list"
  db_events :: "security_event list"

section \<open>Constraints\<close>

abbreviation every_row :: "'r \<Rightarrow> bool" where
  "every_row \<equiv> (\<lambda>_. True)"

text \<open>\<open>WHERE status='ACTIVE'\<close> of the partial unique indexes.\<close>

definition user_role_key :: "user_role \<Rightarrow> string \<times> string \<times> string" where
  "user_role_key r = (ura_tenant r, ura_user r, ura_role r)"

definition user_role_active :: "user_role \<Rightarrow> bool" where
  "user_role_active r = (ura_status r = ''ACTIVE'')"

definition group_member_key :: "group_member \<Rightarrow> string \<times> string \<times> string" where
  "group_member_key r = (gm_tenant r, gm_group r, gm_user r)"

definition group_member_active :: "group_member \<Rightarrow> bool" where
  "group_member_active r = (gm_status r = ''ACTIVE'')"

definition group_role_key :: "group_role \<Rightarrow> string \<times> string \<times> string" where
  "group_role_key r = (gra_tenant r, gra_group r, gra_role r)"

definition group_role_active :: "group_role \<Rightarrow> bool" where
  "group_role_active r = (gra_status r = ''ACTIVE'')"

definition role_permission_key :: "role_permission \<Rightarrow> string \<times> string \<times> string" where
  "role_permission_key r = (rp_tenant r, rp_role r, rp_permission r)"

definition request_key :: "privileged_request \<Rightarrow> string \<times> string \<times> string" where
  "request_key r = (pa_tenant r, pa_subject r, pa_role r)"

definition request_pending :: "privileged_request \<Rightarrow> bool" where
  "request_pending r = (pa_status r = ''PENDING'')"

definition session_key :: "access_session \<Rightarrow> string \<times> string \<times> string option" where
  "session_key r = (as_tenant r, as_principal r, as_device r)"

definition session_live :: "access_session \<Rightarrow> bool" where
  "session_live r = (as_status r = ''ACTIVE'' \<and> as_actor_type r = ''USER'')"

text \<open>\<open>expires_at_utc > started_at_utc\<close> and the actor shape of migration 0003.\<close>

definition session_check :: "access_session \<Rightarrow> bool" where
  "session_check r =
     (as_started r < as_expires r
      \<and> as_status r \<in> {''ACTIVE'', ''EXPIRED'', ''REVOKED''}
      \<and> as_source r \<in> {''CLERK'', ''DEV_MOCK'', ''CLIENT_CREDENTIAL''}
      \<and> ((as_actor_type r = ''USER'' \<and> as_device r \<noteq> None \<and> as_location r \<noteq> None \<and> as_credential r = None)
         \<or> (as_actor_type r \<in> {''SYSTEM'', ''SERVICE_INTEGRATION''} \<and> as_membership r = None
            \<and> as_device r = None \<and> as_location r = None \<and> as_credential r \<noteq> None)))"

definition request_check :: "privileged_request \<Rightarrow> bool" where
  "request_check r =
     (pa_status r \<in> {''PENDING'', ''APPROVED'', ''REJECTED'', ''CANCELLED'', ''EXPIRED''}
      \<and> pa_approved_by r \<noteq> Some (pa_subject r) \<and> pa_approved_by r \<noteq> Some (pa_requested_by r))"

definition active_inactive :: "string \<Rightarrow> bool" where
  "active_inactive s = (s \<in> {''ACTIVE'', ''INACTIVE''})"

definition user_roles_ok :: "user_role list \<Rightarrow> bool" where
  "user_roles_ok rows = (unique_index ura_id every_row rows \<and> unique_index user_role_key user_role_active rows)"

definition group_members_ok :: "group_member list \<Rightarrow> bool" where
  "group_members_ok rows =
     (unique_index gm_id every_row rows \<and> unique_index group_member_key group_member_active rows)"

definition group_roles_ok :: "group_role list \<Rightarrow> bool" where
  "group_roles_ok rows =
     (unique_index gra_id every_row rows \<and> unique_index group_role_key group_role_active rows)"

definition roles_ok :: "role list \<Rightarrow> bool" where
  "roles_ok rows =
     (unique_index r_id every_row rows \<and> unique_index (\<lambda>r. (r_tenant r, r_key r)) every_row rows)"

definition groups_ok :: "tenant_group list \<Rightarrow> bool" where
  "groups_ok rows =
     (unique_index g_id every_row rows \<and> unique_index (\<lambda>g. (g_tenant g, g_key g)) every_row rows)"

definition requests_ok :: "privileged_request list \<Rightarrow> bool" where
  "requests_ok rows =
     (unique_index pa_id every_row rows \<and> unique_index request_key request_pending rows
      \<and> list_all request_check rows)"

definition sessions_ok :: "access_session list \<Rightarrow> bool" where
  "sessions_ok rows =
     (unique_index as_id every_row rows \<and> unique_index session_key session_live rows
      \<and> list_all session_check rows)"

text \<open>What the constraints of the schema say of a database.\<close>

definition db_ok :: "db \<Rightarrow> bool" where
  "db_ok d =
     (user_roles_ok (db_user_roles d) \<and> group_members_ok (db_group_members d)
      \<and> group_roles_ok (db_group_roles d) \<and> roles_ok (db_roles d) \<and> groups_ok (db_groups d)
      \<and> unique_index role_permission_key every_row (db_role_permissions d)
      \<and> unique_index (\<lambda>r. (az_user r, az_tenant r)) every_row (db_authz_state d)
      \<and> requests_ok (db_requests d) \<and> sessions_ok (db_sessions d)
      \<and> unique_index ac_id every_row (db_changes d)
      \<and> unique_index ev_id every_row (db_evaluations d)
      \<and> unique_index ei_id every_row (db_identities d)
      \<and> unique_index (\<lambda>r. (ei_provider r, ei_subject r)) every_row (db_identities d)
      \<and> unique_index d_id every_row (db_devices d)
      \<and> unique_index en_id every_row (db_enrollments d)
      \<and> unique_index t_id every_row (db_tenants d)
      \<and> unique_index u_id every_row (db_users d)
      \<and> unique_index sp_id every_row (db_principals d)
      \<and> unique_index p_key every_row (db_permissions d)
      \<and> unique_index (\<lambda>m. (m_tenant m, m_user m)) every_row (db_memberships d)
      \<and> unique_index pol_tenant every_row (db_policies d)
      \<and> unique_index c_client_id every_row (db_credentials d)
      \<and> unique_index tb_id every_row (db_bindings d))"

section \<open>INSERT statements\<close>

definition insert_user_role :: "user_role \<Rightarrow> db \<Rightarrow> exn + db" where
  "insert_user_role r d =
     (if index_free ura_id every_row r (db_user_roles d)
         \<and> index_free user_role_key user_role_active r (db_user_roles d)
      then Inr (d\<lparr>db_user_roles := db_user_roles d @ [r]\<rparr>) else Inl IntegrityError)"

definition insert_group_member :: "group_member \<Rightarrow> db \<Rightarrow> exn + db" where
  "insert_group_member r d =
     (if index_free gm_id every_row r (db_group_members d)
         \<and> index_free group_member_key group_member_active r (db_group_members d)
      then Inr (d\<lparr>db_group_members := db_group_members d @ [r]\<rparr>) else Inl IntegrityError)"

definition insert_group_role :: "group_role \<Rightarrow> db \<Rightarrow> exn + db" where
  "insert_group_role r d =
     (if index_free gra_id every_row r (db_group_roles d)
         \<and> index_free group_role_key group_role_active r (db_group_roles d)
      then Inr (d\<lparr>db_group_roles := db_group_roles d @ [r]\<rparr>) else Inl IntegrityError)"

definition insert_role :: "role \<Rightarrow> db \<Rightarrow> exn + db" where
  "insert_role r d =
     (if index_free r_id every_row r (db_roles d)
         \<and> index_free (\<lambda>x. (r_tenant x, r_key x)) every_row r (db_roles d)
      then Inr (d\<lparr>db_roles := db_roles d @ [r]\<rparr>) else Inl IntegrityError)"

definition insert_role_permission :: "role_permission \<Rightarrow> db \<Rightarrow> exn + db" where
  "insert_role_permission r d =
     (if index_free role_permission_key every_row r (db_role_permissions d)
      then Inr (d\<lparr>db_role_permissions := db_role_permissions d @ [r]\<rparr>) else Inl IntegrityError)"

definition insert_group :: "tenant_group \<Rightarrow> db \<Rightarrow> exn + db" where
  "insert_group g d =
     (if index_free g_id every_row g (db_groups d)
         \<and> index_free (\<lambda>x. (g_tenant x, g_key x)) every_row g (db_groups d)
      then Inr (d\<lparr>db_groups := db_groups d @ [g]\<rparr>) else Inl IntegrityError)"

definition insert_request :: "privileged_request \<Rightarrow> db \<Rightarrow> exn + db" where
  "insert_request r d =
     (if request_check r \<and> index_free pa_id every_row r (db_requests d)
         \<and> index_free request_key request_pending r (db_requests d)
      then Inr (d\<lparr>db_requests := db_requests d @ [r]\<rparr>) else Inl IntegrityError)"

definition insert_change :: "admin_change \<Rightarrow> db \<Rightarrow> exn + db" where
  "insert_change r d =
     (if index_free ac_id every_row r (db_changes d)
      then Inr (d\<lparr>db_changes := db_changes d @ [r]\<rparr>) else Inl IntegrityError)"

definition insert_session :: "access_session \<Rightarrow> db \<Rightarrow> exn + db" where
  "insert_session r d =
     (if session_check r \<and> index_free as_id every_row r (db_sessions d)
         \<and> index_free session_key session_live r (db_sessions d)
      then Inr (d\<lparr>db_sessions := db_sessions d @ [r]\<rparr>) else Inl IntegrityError)"

definition insert_evaluation :: "evaluation \<Rightarrow> db \<Rightarrow> exn + db" where
  "insert_evaluation r d =
     (if index_free ev_id every_row r (db_evaluations d)
      then Inr (d\<lparr>db_evaluations := db_evaluations d @ [r]\<rparr>) else Inl IntegrityError)"

definition insert_identity :: "external_identity \<Rightarrow> db \<Rightarrow> exn + db" where
  "insert_identity r d =
     (if index_free ei_id every_row r (db_identities d)
         \<and> index_free (\<lambda>x. (ei_provider x, ei_subject x)) every_row r (db_identities d)
      then Inr (d\<lparr>db_identities := db_identities d @ [r]\<rparr>) else Inl IntegrityError)"

definition insert_device :: "device \<Rightarrow> db \<Rightarrow> exn + db" where
  "insert_device r d =
     (if index_free d_id every_row r (db_devices d)
      then Inr (d\<lparr>db_devices := db_devices d @ [r]\<rparr>) else Inl IntegrityError)"

definition insert_enrollment :: "enrollment \<Rightarrow> db \<Rightarrow> exn + db" where
  "insert_enrollment r d =
     (if index_free en_id every_row r (db_enrollments d)
      then Inr (d\<lparr>db_enrollments := db_enrollments d @ [r]\<rparr>) else Inl IntegrityError)"

section \<open>UPDATE statements with a CHECK\<close>

definition update_sessions :: "(access_session \<Rightarrow> bool) \<Rightarrow> (access_session \<Rightarrow> access_session) \<Rightarrow> db \<Rightarrow> exn + db" where
  "update_sessions p f d =
     (let rows = update_rows p f (db_sessions d)
      in if list_all (\<lambda>r. p r \<longrightarrow> session_check (f r)) (db_sessions d)
         then Inr (d\<lparr>db_sessions := rows\<rparr>) else Inl IntegrityError)"

definition update_requests ::
  "(privileged_request \<Rightarrow> bool) \<Rightarrow> (privileged_request \<Rightarrow> privileged_request) \<Rightarrow> db \<Rightarrow> exn + db" where
  "update_requests p f d =
     (let rows = update_rows p f (db_requests d)
      in if list_all (\<lambda>r. p r \<longrightarrow> request_check (f r)) (db_requests d)
         then Inr (d\<lparr>db_requests := rows\<rparr>) else Inl IntegrityError)"

definition update_group_rows :: "(tenant_group \<Rightarrow> bool) \<Rightarrow> (tenant_group \<Rightarrow> tenant_group) \<Rightarrow> db \<Rightarrow> exn + db" where
  "update_group_rows p f d =
     (if list_all (\<lambda>r. p r \<longrightarrow> active_inactive (g_status (f r))) (db_groups d)
      then Inr (d\<lparr>db_groups := update_rows p f (db_groups d)\<rparr>) else Inl IntegrityError)"

definition update_role_rows :: "(role \<Rightarrow> bool) \<Rightarrow> (role \<Rightarrow> role) \<Rightarrow> db \<Rightarrow> exn + db" where
  "update_role_rows p f d =
     (if list_all (\<lambda>r. p r \<longrightarrow> active_inactive (r_status (f r))) (db_roles d)
      then Inr (d\<lparr>db_roles := update_rows p f (db_roles d)\<rparr>) else Inl IntegrityError)"

section \<open>The statements keep the constraints\<close>

lemmas insert_defs =
  insert_user_role_def insert_group_member_def insert_group_role_def insert_role_def
  insert_role_permission_def insert_group_def insert_request_def insert_change_def
  insert_session_def insert_evaluation_def insert_identity_def insert_device_def
  insert_enrollment_def

lemmas table_ok_defs =
  user_roles_ok_def group_members_ok_def group_roles_ok_def roles_ok_def groups_ok_def
  requests_ok_def sessions_ok_def

lemma insert_keeps_ok:
  "db_ok d \<Longrightarrow> insert_user_role ur d = Inr d' \<Longrightarrow> db_ok d'"
  "db_ok d \<Longrightarrow> insert_group_member gm d = Inr d' \<Longrightarrow> db_ok d'"
  "db_ok d \<Longrightarrow> insert_group_role gr d = Inr d' \<Longrightarrow> db_ok d'"
  "db_ok d \<Longrightarrow> insert_role r d = Inr d' \<Longrightarrow> db_ok d'"
  "db_ok d \<Longrightarrow> insert_role_permission rp d = Inr d' \<Longrightarrow> db_ok d'"
  "db_ok d \<Longrightarrow> insert_group g d = Inr d' \<Longrightarrow> db_ok d'"
  "db_ok d \<Longrightarrow> insert_request pa d = Inr d' \<Longrightarrow> db_ok d'"
  "db_ok d \<Longrightarrow> insert_change ac d = Inr d' \<Longrightarrow> db_ok d'"
  "db_ok d \<Longrightarrow> insert_session s d = Inr d' \<Longrightarrow> db_ok d'"
  "db_ok d \<Longrightarrow> insert_evaluation ev d = Inr d' \<Longrightarrow> db_ok d'"
  "db_ok d \<Longrightarrow> insert_identity ei d = Inr d' \<Longrightarrow> db_ok d'"
  "db_ok d \<Longrightarrow> insert_device dv d = Inr d' \<Longrightarrow> db_ok d'"
  "db_ok d \<Longrightarrow> insert_enrollment en d = Inr d' \<Longrightarrow> db_ok d'"
  by (simp_all only: insert_defs split: if_split_asm; clarsimp simp: db_ok_def table_ok_defs unique_index_append)+

lemma list_all_update_rows:
  "list_all P rows \<Longrightarrow> list_all (\<lambda>r. p r \<longrightarrow> P (f r)) rows \<Longrightarrow> list_all P (update_rows p f rows)"
  by (auto simp: list_all_iff set_update_rows)

text \<open>An update that leaves the keys alone and revives no row keeps a unique index.\<close>

definition calm :: "('r \<Rightarrow> 'k) \<Rightarrow> ('r \<Rightarrow> bool) \<Rightarrow> ('r \<Rightarrow> 'r) \<Rightarrow> bool" where
  "calm key live f \<longleftrightarrow> (\<forall>r. key (f r) = key r \<and> (live (f r) \<longrightarrow> live r))"

lemma calm_unique_index: "calm key live f \<Longrightarrow> unique_index key live rows \<Longrightarrow> unique_index key live (update_rows p f rows)"
  by (rule unique_index_update) (auto simp: calm_def)

lemma update_sessions_keeps_ok:
  assumes "db_ok d" and "update_sessions p f d = Inr d'"
    and "calm as_id every_row f" and "calm session_key session_live f"
  shows "db_ok d'"
  using assms
  by (auto simp: db_ok_def update_sessions_def sessions_ok_def Let_def
      intro: calm_unique_index list_all_update_rows split: if_splits)

lemma update_requests_keeps_ok:
  assumes "db_ok d" and "update_requests p f d = Inr d'"
    and "calm pa_id every_row f" and "calm request_key request_pending f"
  shows "db_ok d'"
  using assms
  by (auto simp: db_ok_def update_requests_def requests_ok_def Let_def
      intro: calm_unique_index list_all_update_rows split: if_splits)

lemma update_group_rows_keeps_ok:
  assumes "db_ok d" and "update_group_rows p f d = Inr d'"
    and "calm g_id every_row f" and "calm (\<lambda>g. (g_tenant g, g_key g)) every_row f"
  shows "db_ok d'"
  using assms
  by (auto simp: db_ok_def update_group_rows_def groups_ok_def intro: calm_unique_index split: if_splits)

lemma update_role_rows_keeps_ok:
  assumes "db_ok d" and "update_role_rows p f d = Inr d'"
    and "calm r_id every_row f" and "calm (\<lambda>r. (r_tenant r, r_key r)) every_row f"
  shows "db_ok d'"
  using assms
  by (auto simp: db_ok_def update_role_rows_def roles_ok_def intro: calm_unique_index split: if_splits)

end
