(* ===== verification/Permissions.thy ===== *)
theory Permissions
  imports Regex Store
begin

text \<open>
  \<open>services/permissions.py\<close>: the shape of a canonical permission key, the validation of a
  list of them, and the permissions a user effectively has in a tenant: those of the active
  roles assigned directly, of the active roles of the active groups the user is in, and of
  the active platform roles.
\<close>

section \<open>Canonical permission keys\<close>

definition perm_head_char :: "char \<Rightarrow> bool" where
  "perm_head_char c = (ascii_lower c \<or> ascii_digit c)"

definition perm_tail_char :: "char \<Rightarrow> bool" where
  "perm_tail_char c = (ascii_lower c \<or> ascii_digit c \<or> c = CHR ''_'' \<or> c = CHR ''-'')"

text \<open>\<open>^[a-z0-9]+(\.[a-z0-9_-]+){2,}$\<close>\<close>

definition PERMISSION :: regex where
  "PERMISSION =
     Seq (Plus (CharClass perm_head_char))
         (AtLeast 2 (Seq (Lit (CHR ''.'')) (Plus (CharClass perm_tail_char))))"

definition is_canonical_permission :: "string \<Rightarrow> bool" where
  "is_canonical_permission value = (fullmatch PERMISSION value \<and> CHR '':'' \<notin> set value)"

text \<open>\<open>', '.join(xs)\<close>.\<close>

fun comma_join :: "string list \<Rightarrow> string" where
  "comma_join [] = []"
| "comma_join [x] = x"
| "comma_join (x # y # ys) = x @ '', '' @ comma_join (y # ys)"

definition validate_permissions :: "string list \<Rightarrow> exn + string list" where
  "validate_permissions values =
     (let invalid = filter (\<lambda>p. \<not> is_canonical_permission p) values
      in if invalid \<noteq> [] then Inl (ValueError (''Invalid canonical permission(s): '' @ comma_join invalid))
         else Inr (sorted_set values))"

section \<open>Effective permissions\<close>

text \<open>The common table expressions of the query, as the lists of their rows.\<close>

definition direct_roles :: "db \<Rightarrow> string \<Rightarrow> string \<Rightarrow> int \<Rightarrow> (string \<times> string) list" where
  "direct_roles d tenant user now =
     [(r_key r, r_id r). ura \<leftarrow> db_user_roles d, r \<leftarrow> db_roles d,
        r_tenant r = ura_tenant ura, r_id r = ura_role ura, r_status r = ''ACTIVE'',
        ura_tenant ura = tenant, ura_user ura = user, ura_status ura = ''ACTIVE'',
        valid_at (ura_valid_from ura) (ura_valid_to ura) now]"

definition group_roles :: "db \<Rightarrow> string \<Rightarrow> string \<Rightarrow> int \<Rightarrow> (string \<times> string) list" where
  "group_roles d tenant user now =
     [(r_key r, r_id r). gm \<leftarrow> db_group_members d, g \<leftarrow> db_groups d,
        gra \<leftarrow> db_group_roles d, r \<leftarrow> db_roles d,
        g_tenant g = gm_tenant gm, g_id g = gm_group gm, g_status g = ''ACTIVE'',
        gra_tenant gra = g_tenant g, gra_group gra = g_id g, gra_status gra = ''ACTIVE'',
        r_tenant r = gra_tenant gra, r_id r = gra_role gra, r_status r = ''ACTIVE'',
        gm_tenant gm = tenant, gm_user gm = user, gm_status gm = ''ACTIVE'',
        valid_at (gm_valid_from gm) (gm_valid_to gm) now]"

definition effective_tenant_roles :: "db \<Rightarrow> string \<Rightarrow> string \<Rightarrow> int \<Rightarrow> (string \<times> string) list" where
  "effective_tenant_roles d tenant user now = direct_roles d tenant user now @ group_roles d tenant user now"

definition tenant_grants :: "db \<Rightarrow> string \<Rightarrow> (string \<times> string) list \<Rightarrow> (string \<times> string) list" where
  "tenant_grants d tenant etrs =
     [(fst etr, p_key p). etr \<leftarrow> etrs, rp \<leftarrow> db_role_permissions d, p \<leftarrow> db_permissions d,
        rp_tenant rp = tenant, rp_role rp = snd etr,
        p_key p = rp_permission rp, p_status p = ''ACTIVE'']"

definition platform_grants :: "db \<Rightarrow> string \<Rightarrow> (string \<times> string) list" where
  "platform_grants d user =
     [(pr_key pr, p_key p). pura \<leftarrow> db_platform_user_roles d, pr \<leftarrow> db_platform_roles d,
        prp \<leftarrow> db_platform_role_permissions d, p \<leftarrow> db_permissions d,
        pr_key pr = pura_role pura, pr_status pr = ''ACTIVE'', prp_role prp = pr_key pr,
        p_key p = prp_permission prp, p_status p = ''ACTIVE'',
        pura_user pura = user, pura_status pura = ''ACTIVE'']"

definition effective_grants :: "db \<Rightarrow> string \<Rightarrow> string \<Rightarrow> int \<Rightarrow> (string \<times> string) list" where
  "effective_grants d tenant user now =
     tenant_grants d tenant (effective_tenant_roles d tenant user now) @ platform_grants d user"

definition effective_user_permissions ::
  "db \<Rightarrow> string \<Rightarrow> string \<Rightarrow> int \<Rightarrow> exn + string list \<times> string list" where
  "effective_user_permissions d tenant user now =
     (let rows = effective_grants d tenant user now;
          roles = sorted_set (map fst rows); permissions = sorted_set (map snd rows)
      in if permissions = [] then Inl (security_error ''ROLE_REQUIRED'') else Inr (roles, permissions))"

section \<open>What a user may do, as a relation\<close>

text \<open>
  The contract of the query: a user holds a tenant role through an assignment or through a
  group, and a permission through a tenant role or a platform role it holds.
\<close>

definition holds_role :: "db \<Rightarrow> string \<Rightarrow> string \<Rightarrow> int \<Rightarrow> role \<Rightarrow> bool" where
  "holds_role d tenant user now r \<longleftrightarrow>
     r \<in> set (db_roles d) \<and> r_tenant r = tenant \<and> r_status r = ''ACTIVE'' \<and>
     ((\<exists>a\<in>set (db_user_roles d). ura_tenant a = tenant \<and> ura_user a = user \<and> ura_role a = r_id r
          \<and> ura_status a = ''ACTIVE'' \<and> valid_at (ura_valid_from a) (ura_valid_to a) now)
      \<or> (\<exists>m\<in>set (db_group_members d). \<exists>g\<in>set (db_groups d). \<exists>ga\<in>set (db_group_roles d).
          gm_tenant m = tenant \<and> gm_user m = user \<and> gm_status m = ''ACTIVE''
          \<and> valid_at (gm_valid_from m) (gm_valid_to m) now
          \<and> g_tenant g = tenant \<and> g_id g = gm_group m \<and> g_status g = ''ACTIVE''
          \<and> gra_tenant ga = tenant \<and> gra_group ga = g_id g \<and> gra_role ga = r_id r
          \<and> gra_status ga = ''ACTIVE''))"

definition active_permission :: "db \<Rightarrow> string \<Rightarrow> bool" where
  "active_permission d k \<longleftrightarrow> (\<exists>p\<in>set (db_permissions d). p_key p = k \<and> p_status p = ''ACTIVE'')"

definition granted :: "db \<Rightarrow> string \<Rightarrow> string \<Rightarrow> int \<Rightarrow> string \<Rightarrow> string \<Rightarrow> bool" where
  "granted d tenant user now rk k \<longleftrightarrow> active_permission d k \<and>
     ((\<exists>r. holds_role d tenant user now r \<and> r_key r = rk
          \<and> (\<exists>rp\<in>set (db_role_permissions d). rp_tenant rp = tenant \<and> rp_role rp = r_id r \<and> rp_permission rp = k))
      \<or> (\<exists>pu\<in>set (db_platform_user_roles d). \<exists>pr\<in>set (db_platform_roles d).
          \<exists>prp\<in>set (db_platform_role_permissions d).
          pura_user pu = user \<and> pura_status pu = ''ACTIVE'' \<and> pura_role pu = rk
          \<and> pr_key pr = rk \<and> pr_status pr = ''ACTIVE'' \<and> prp_role prp = rk \<and> prp_permission prp = k))"

lemma mem_direct_roles:
  "x \<in> set (direct_roles d tenant user now) \<longleftrightarrow>
     (\<exists>a\<in>set (db_user_roles d). \<exists>r\<in>set (db_roles d).
        r_tenant r = tenant \<and> r_id r = ura_role a \<and> r_status r = ''ACTIVE''
        \<and> ura_tenant a = tenant \<and> ura_user a = user \<and> ura_status a = ''ACTIVE''
        \<and> valid_at (ura_valid_from a) (ura_valid_to a) now \<and> x = (r_key r, r_id r))"
  unfolding direct_roles_def mem_query by (intro bex_cong refl) auto

lemma mem_group_roles:
  "x \<in> set (group_roles d tenant user now) \<longleftrightarrow>
     (\<exists>m\<in>set (db_group_members d). \<exists>g\<in>set (db_groups d). \<exists>ga\<in>set (db_group_roles d). \<exists>r\<in>set (db_roles d).
        gm_tenant m = tenant \<and> gm_user m = user \<and> gm_status m = ''ACTIVE''
        \<and> valid_at (gm_valid_from m) (gm_valid_to m) now
        \<and> g_tenant g = tenant \<and> g_id g = gm_group m \<and> g_status g = ''ACTIVE''
        \<and> gra_tenant ga = tenant \<and> gra_group ga = g_id g \<and> gra_status ga = ''ACTIVE''
        \<and> r_tenant r = tenant \<and> r_id r = gra_role ga \<and> r_status r = ''ACTIVE'' \<and> x = (r_key r, r_id r))"
  unfolding group_roles_def mem_query by (intro bex_cong refl) metis

lemma mem_effective_tenant_roles:
  "x \<in> set (effective_tenant_roles d tenant user now)
     \<longleftrightarrow> (\<exists>r. holds_role d tenant user now r \<and> x = (r_key r, r_id r))"
  unfolding effective_tenant_roles_def set_append Un_iff mem_direct_roles mem_group_roles holds_role_def
  by (safe; metis)

lemma mem_tenant_grants:
  "(rk, k) \<in> set (tenant_grants d tenant (effective_tenant_roles d tenant user now)) \<longleftrightarrow>
     active_permission d k \<and> (\<exists>r. holds_role d tenant user now r \<and> r_key r = rk
        \<and> (\<exists>rp\<in>set (db_role_permissions d). rp_tenant rp = tenant \<and> rp_role rp = r_id r \<and> rp_permission rp = k))"
proof -
  have etr: "(\<exists>e\<in>set (effective_tenant_roles d tenant user now). P e)
      \<longleftrightarrow> (\<exists>r. holds_role d tenant user now r \<and> P (r_key r, r_id r))" for P
    by (metis mem_effective_tenant_roles)
  have "(rk, k) \<in> set (tenant_grants d tenant (effective_tenant_roles d tenant user now)) \<longleftrightarrow>
      (\<exists>r. holds_role d tenant user now r \<and> (\<exists>rp\<in>set (db_role_permissions d). \<exists>p\<in>set (db_permissions d).
          rp_tenant rp = tenant \<and> rp_role rp = r_id r \<and> p_key p = rp_permission rp \<and> p_status p = ''ACTIVE''
          \<and> rk = r_key r \<and> k = p_key p))"
    unfolding tenant_grants_def mem_query etr prod.inject fst_conv snd_conv by (rule refl)
  also have "\<dots> \<longleftrightarrow> (\<exists>r. holds_role d tenant user now r \<and> r_key r = rk \<and>
      (\<exists>rp\<in>set (db_role_permissions d). rp_tenant rp = tenant \<and> rp_role rp = r_id r \<and> rp_permission rp = k
        \<and> active_permission d k))"
    unfolding active_permission_def by (intro ex_cong1 conj_cong refl) (auto intro!: bexI)
  finally show ?thesis by auto
qed

lemma mem_platform_grants:
  "(rk, k) \<in> set (platform_grants d user) \<longleftrightarrow>
     active_permission d k \<and> (\<exists>pu\<in>set (db_platform_user_roles d). \<exists>pr\<in>set (db_platform_roles d).
        \<exists>prp\<in>set (db_platform_role_permissions d).
        pura_user pu = user \<and> pura_status pu = ''ACTIVE'' \<and> pura_role pu = rk
        \<and> pr_key pr = rk \<and> pr_status pr = ''ACTIVE'' \<and> prp_role prp = rk \<and> prp_permission prp = k)"
  unfolding platform_grants_def mem_query active_permission_def prod.inject by (safe; metis)

lemma set_effective_grants:
  "set (effective_grants d tenant user now) = {(rk, k). granted d tenant user now rk k}"
proof -
  have "(rk, k) \<in> set (effective_grants d tenant user now) \<longleftrightarrow> granted d tenant user now rk k" for rk k
    unfolding effective_grants_def set_append Un_iff mem_tenant_grants mem_platform_grants granted_def by argo
  then show ?thesis by auto
qed

lemma effective_user_permissions_Inr_iff:
  "effective_user_permissions d tenant user now = Inr (roles, perms) \<longleftrightarrow>
     (\<exists>rk k. granted d tenant user now rk k)
     \<and> roles = sorted_set (map fst (effective_grants d tenant user now))
     \<and> perms = sorted_set (map snd (effective_grants d tenant user now))"
proof -
  have "effective_grants d tenant user now = [] \<longleftrightarrow> \<not> (\<exists>rk k. granted d tenant user now rk k)"
    using set_effective_grants [of d tenant user now] by (metis (no_types, lifting) Collect_empty_eq case_prod_conv
        empty_iff mem_Collect_eq set_empty surj_pair)
  then show ?thesis by (auto simp: effective_user_permissions_def Let_def)
qed

lemma effective_user_permissions_sets:
  assumes "effective_user_permissions d tenant user now = Inr (roles, perms)"
  shows "set roles = {rk. \<exists>k. granted d tenant user now rk k}"
    and "set perms = {k. \<exists>rk. granted d tenant user now rk k}"
    and "sorted roles" "distinct roles" "sorted perms" "distinct perms" "perms \<noteq> []"
proof -
  have r: "roles = sorted_set (map fst (effective_grants d tenant user now))"
    and p: "perms = sorted_set (map snd (effective_grants d tenant user now))"
    and ex: "\<exists>rk k. granted d tenant user now rk k"
    using assms by (auto simp: effective_user_permissions_Inr_iff)
  show "set roles = {rk. \<exists>k. granted d tenant user now rk k}"
    unfolding r set_sorted_set set_map set_effective_grants by force
  show "set perms = {k. \<exists>rk. granted d tenant user now rk k}"
    unfolding p set_sorted_set set_map set_effective_grants by force
  then show "perms \<noteq> []" using ex by auto
  show "sorted roles" "distinct roles" "sorted perms" "distinct perms" by (simp_all add: r p)
qed

section \<open>Validation\<close>

lemma validate_permissions_Inr_iff:
  "validate_permissions vs = Inr ps \<longleftrightarrow>
     (\<forall>v\<in>set vs. is_canonical_permission v) \<and> ps = sorted_set vs"
  by (auto simp: validate_permissions_def Let_def filter_empty_conv)

lemma validate_permissions_Inl:
  "validate_permissions vs = Inl e \<Longrightarrow> \<exists>m. e = ValueError m"
  by (auto simp: validate_permissions_def Let_def split: if_splits)

section \<open>Properties\<close>

text \<open>
  C22: the permission keys accepted are exactly a head segment and at least two further
  segments after dots, none empty, over the alphabets of the pattern (and the separate test
  for a colon adds nothing to the pattern).
\<close>

theorem canonical_permission_shape:
  "is_canonical_permission value \<longleftrightarrow>
     (\<exists>head segments. value = head @ concat (map (\<lambda>s. ''.'' @ s) segments)
        \<and> head \<noteq> [] \<and> set head \<subseteq> Collect perm_head_char \<and> 2 \<le> length segments
        \<and> set segments \<subseteq> {s. s \<noteq> [] \<and> set s \<subseteq> Collect perm_tail_char})"
proof -
  let ?T = "{s. s \<noteq> [] \<and> set s \<subseteq> Collect perm_tail_char}"
  have seg: "lang (Seq (Lit (CHR ''.'')) (Plus (CharClass perm_tail_char))) = (\<lambda>s. ''.'' @ s) ` ?T"
    by (auto simp: lang_Plus_CharClass Lit_def)
  have many: "lang (AtLeast 2 (Seq (Lit (CHR ''.'')) (Plus (CharClass perm_tail_char))))
      = {concat (map (\<lambda>s. ''.'' @ s) segments) |segments. set segments \<subseteq> ?T \<and> 2 \<le> length segments}"
  proof -
    have "(\<exists>ws. x = concat ws \<and> set ws \<subseteq> (\<lambda>s. ''.'' @ s) ` ?T \<and> 2 \<le> length ws) \<longleftrightarrow>
        (\<exists>ss. x = concat (map (\<lambda>s. ''.'' @ s) ss) \<and> set ss \<subseteq> ?T \<and> 2 \<le> length ss)" for x
    proof
      assume "\<exists>ws. x = concat ws \<and> set ws \<subseteq> (\<lambda>s. ''.'' @ s) ` ?T \<and> 2 \<le> length ws"
      then obtain ws where ws: "x = concat ws" "ws \<in> lists ((\<lambda>s. ''.'' @ s) ` ?T)" "2 \<le> length ws" by auto
      then obtain ss where "ss \<in> lists ?T" "ws = map (\<lambda>s. ''.'' @ s) ss" unfolding lists_image by blast
      with ws show "\<exists>ss. x = concat (map (\<lambda>s. ''.'' @ s) ss) \<and> set ss \<subseteq> ?T \<and> 2 \<le> length ss"
        by (intro exI [of _ ss]) auto
    next
      assume "\<exists>ss. x = concat (map (\<lambda>s. ''.'' @ s) ss) \<and> set ss \<subseteq> ?T \<and> 2 \<le> length ss"
      then obtain ss where "x = concat (map (\<lambda>s. ''.'' @ s) ss)" "set ss \<subseteq> ?T" "2 \<le> length ss" by blast
      then show "\<exists>ws. x = concat ws \<and> set ws \<subseteq> (\<lambda>s. ''.'' @ s) ` ?T \<and> 2 \<le> length ws"
        by (intro exI [of _ "map (\<lambda>s. ''.'' @ s) ss"]) (auto simp del: append.simps)
    qed
    then show ?thesis unfolding lang_AtLeast seg by blast
  qed
  have match: "fullmatch PERMISSION value \<longleftrightarrow>
     (\<exists>head segments. value = head @ concat (map (\<lambda>s. ''.'' @ s) segments)
        \<and> head \<noteq> [] \<and> set head \<subseteq> Collect perm_head_char \<and> 2 \<le> length segments \<and> set segments \<subseteq> ?T)"
    unfolding fullmatch_iff PERMISSION_def lang.simps(5) many lang_Plus_CharClass by blast
  have colon: "\<not> perm_head_char (CHR '':'')" "\<not> perm_tail_char (CHR '':'')"
    by (simp_all add: perm_head_char_def perm_tail_char_def ascii_lower_def ascii_digit_def less_eq_char_def)
  have "CHR '':'' \<notin> set value" if "fullmatch PERMISSION value"
  proof -
    from that obtain h ss where v: "value = h @ concat (map (\<lambda>s. ''.'' @ s) ss)"
        "set h \<subseteq> Collect perm_head_char" "set ss \<subseteq> ?T" unfolding match by blast
    have "CHR '':'' \<notin> set s" if "s \<in> set ss" for s using that v(3) colon(2) by blast
    moreover have "CHR '':'' \<notin> set h" using v(2) colon(1) by blast
    ultimately show ?thesis unfolding v(1) by auto
  qed
  then show ?thesis using match by (auto simp: is_canonical_permission_def)
qed

text \<open>
  C2: the permission query returns exactly what the user is granted: no roles and no
  permissions of anybody else, nothing expired, inactive or of another tenant, nothing
  missing; each list ascending and without duplicates, and \<open>ROLE_REQUIRED\<close> exactly when no
  permission is granted.
\<close>

theorem effective_user_permissions_exact:
  "effective_user_permissions d tenant user now =
     (if {k. \<exists>rk. granted d tenant user now rk k} = {} then Inl (security_error ''ROLE_REQUIRED'')
      else Inr (sorted_list_of_set {rk. \<exists>k. granted d tenant user now rk k},
                sorted_list_of_set {k. \<exists>rk. granted d tenant user now rk k}))"
proof (cases "effective_user_permissions d tenant user now")
  case (Inl e)
  then have "effective_grants d tenant user now = []" and "e = security_error ''ROLE_REQUIRED''"
    by (auto simp: effective_user_permissions_def Let_def split: if_splits)
  with set_effective_grants [of d tenant user now] Inl show ?thesis by auto
next
  case (Inr p)
  then obtain roles perms where p: "effective_user_permissions d tenant user now = Inr (roles, perms)"
    by (cases p) auto
  note s = effective_user_permissions_sets [OF p]
  have "roles = sorted_list_of_set (set roles)" "perms = sorted_list_of_set (set perms)"
    using s(3-6) by (simp_all add: sorted_list_of_set_sort_remdups distinct_remdups_id sorted_sort_id)
  moreover have "{k. \<exists>rk. granted d tenant user now rk k} \<noteq> {}" unfolding s(2) [symmetric] using s(7) by simp
  ultimately show ?thesis using p s(1,2) by simp
qed

end
