(* ===== verification/SecurityRepository.thy ===== *)
theory SecurityRepository
  imports Permissions
begin

text \<open>
  \<open>repositories/security_repository.py\<close> and the \<open>GroupAwareSecurityRepository\<close> of
  \<open>api/routes/access.py\<close>: the reads and writes of the runtime access path. The three methods
  the subclass overrides are the fields of a record of hooks, so that the services take the
  repository they run on as an argument; the locale \<open>user_repository\<close> states what they rely
  on, and both repositories are instances of it.
\<close>

type_synonym 'a dbact = "(db, 'a) act"

record UserContext =
  uc_user_id :: string
  uc_user_status :: string
  uc_membership_id :: string
  uc_membership_status :: string
  uc_authorization_version :: int

record TenantPolicy =
  max_active_devices_per_user :: int
  max_geo_accuracy_meters :: real
  max_geo_age_seconds :: int
  geo_revalidation_interval_seconds :: int
  access_token_ttl_minutes :: int
  machine_token_ttl_minutes :: int
  session_idle_timeout_minutes :: int
  session_max_duration_minutes :: int
  vpn_detected_action :: string
  vpn_unknown_action :: string
  policy_status :: string

record MachineCredential =
  mc_principal_id :: string
  mc_actor_type :: ActorType
  mc_credential_id :: string
  mc_client_id :: string
  mc_secret_hash :: string

text \<open>The arguments of \<open>create_user_session\<close>.\<close>

record new_user_session =
  ns_tenant :: string
  ns_user :: string
  ns_membership :: string
  ns_device :: string
  ns_location :: string
  ns_source :: string
  ns_version :: int
  ns_ip :: string
  ns_vpn :: string
  ns_expires :: int
  ns_now :: int

section \<open>Identities and tenants\<close>

definition identity_rows :: "string \<Rightarrow> string \<Rightarrow> db \<Rightarrow> (user \<times> principal) list" where
  "identity_rows provider subject d =
     [(u, sp). ei \<leftarrow> db_identities d, u \<leftarrow> db_users d, sp \<leftarrow> db_principals d,
        u_id u = ei_user ei, sp_id sp = u_id u,
        ei_provider ei = provider, ei_subject ei = subject, ei_status ei = ''ACTIVE'']"

definition resolve_identity_user :: "string \<Rightarrow> string \<Rightarrow> string dbact" where
  "resolve_identity_user provider subject =
     bindM (query (\<lambda>d. first_of (identity_rows provider subject d))) (\<lambda>row.
       case row of
         None \<Rightarrow> throwM (security_error ''USER_NOT_ONBOARDED'')
       | Some (u, sp) \<Rightarrow>
           if sp_actor_type sp \<noteq> ''USER'' then throwM (security_error ''ACTOR_TYPE_NOT_ALLOWED'')
           else if sp_status sp \<noteq> ''ACTIVE'' then throwM (security_error ''PRINCIPAL_NOT_ACTIVE'')
           else returnM (u_id u))"

definition ensure_dev_mock_identity :: "string \<Rightarrow> int \<Rightarrow> string dbact" where
  "ensure_dev_mock_identity user_id now =
     (let subject = ''devmock:'' @ user_id in
      bindM (query (\<lambda>d. [u. u \<leftarrow> db_users d, sp \<leftarrow> db_principals d,
               sp_id sp = u_id u, u_id u = user_id, sp_actor_type sp = ''USER''])) (\<lambda>exists.
      seqM (raise_if (exists = []) (security_error ''USER_NOT_ONBOARDED''))
      (bindM (query (\<lambda>d. first_row (\<lambda>ei. ei_provider ei = ''DEV_MOCK'' \<and> ei_subject ei = subject) (db_identities d)))
        (\<lambda>row. case row of
           Some _ \<Rightarrow> returnM subject
         | None \<Rightarrow>
             bindM uuid4 (\<lambda>i.
             seqM (execute (insert_identity \<lparr>ei_id = i, ei_user = user_id, ei_provider = ''DEV_MOCK'',
                      ei_subject = subject, ei_status = ''ACTIVE'', ei_linked_at = now\<rparr>))
             (seqM commit (returnM subject)))))))"

definition tenant_status :: "string \<Rightarrow> string dbact" where
  "tenant_status tenant_id =
     bindM (query (\<lambda>d. first_row (\<lambda>t. t_id t = tenant_id) (db_tenants d))) (\<lambda>row.
       case row of None \<Rightarrow> throwM (security_error ''TENANT_NOT_ACTIVE'') | Some t \<Rightarrow> returnM (t_status t))"

section \<open>User context\<close>

text \<open>\<open>users u LEFT JOIN tenant_memberships m\<close>.\<close>

definition membership_rows :: "string \<Rightarrow> string \<Rightarrow> db \<Rightarrow> (user \<times> membership option) list" where
  "membership_rows user_id tenant_id d =
     concat (map (\<lambda>u.
       let ms = filter (\<lambda>m. m_user m = u_id u \<and> m_tenant m = tenant_id) (db_memberships d)
       in if ms = [] then [(u, None)] else map (\<lambda>m. (u, Some m)) ms)
     (filter (\<lambda>u. u_id u = user_id) (db_users d)))"

definition membership_user_context :: "string \<Rightarrow> string \<Rightarrow> int \<Rightarrow> UserContext dbact" where
  "membership_user_context user_id tenant_id now =
     bindM (query (\<lambda>d. first_of (membership_rows user_id tenant_id d))) (\<lambda>row.
       case row of
         None \<Rightarrow> throwM (security_error ''USER_NOT_ONBOARDED'')
       | Some (u, om) \<Rightarrow>
           if u_status u \<noteq> ''ACTIVE'' then throwM (security_error ''USER_NOT_ACTIVE'')
           else (case om of
             None \<Rightarrow> throwM (security_error ''TENANT_MEMBERSHIP_REQUIRED'')
           | Some m \<Rightarrow>
               if m_status m \<noteq> ''ACTIVE'' then throwM (security_error ''TENANT_MEMBERSHIP_INACTIVE'')
               else if (case m_valid_from m of None \<Rightarrow> False | Some f \<Rightarrow> f > now)
                 then throwM (security_error ''TENANT_MEMBERSHIP_INACTIVE'')
               else if (case m_valid_to m of None \<Rightarrow> False | Some t \<Rightarrow> t \<le> now)
                 then throwM (security_error ''TENANT_MEMBERSHIP_INACTIVE'')
               else returnM \<lparr>uc_user_id = u_id u, uc_user_status = u_status u, uc_membership_id = m_id m,
                      uc_membership_status = m_status m, uc_authorization_version = m_version m\<rparr>))"

text \<open>
  The global user context: \<open>users JOIN security_principals LEFT JOIN
  user_tenant_authorization_state\<close>, the version defaulting to 1.
\<close>

definition global_user_rows :: "string \<Rightarrow> string \<Rightarrow> db \<Rightarrow> (user \<times> principal \<times> int) list" where
  "global_user_rows user_id tenant_id d =
     concat (map (\<lambda>(u, p).
       let azs = filter (\<lambda>a. az_user a = u_id u \<and> az_tenant a = tenant_id) (db_authz_state d)
       in if azs = [] then [(u, p, 1)] else map (\<lambda>a. (u, p, az_version a)) azs)
     [(u, p). u \<leftarrow> db_users d, p \<leftarrow> db_principals d, sp_id p = u_id u, u_id u = user_id])"

definition global_user_context :: "string \<Rightarrow> string \<Rightarrow> int \<Rightarrow> UserContext dbact" where
  "global_user_context user_id tenant_id now =
     bindM (query (\<lambda>d. first_of (global_user_rows user_id tenant_id d))) (\<lambda>row.
       case row of
         None \<Rightarrow> throwM (security_error ''USER_NOT_ONBOARDED'')
       | Some (u, p, version) \<Rightarrow>
           if sp_status p \<noteq> ''ACTIVE'' then throwM (security_error ''PRINCIPAL_NOT_ACTIVE'')
           else if u_status u \<noteq> ''ACTIVE'' then throwM (security_error ''USER_NOT_ACTIVE'')
           else returnM \<lparr>uc_user_id = u_id u, uc_user_status = u_status u, uc_membership_id = [],
                  uc_membership_status = ''NOT_REQUIRED'', uc_authorization_version = version\<rparr>)"

section \<open>Tenant policy\<close>

definition policy_of :: "tenant_policy \<Rightarrow> TenantPolicy" where
  "policy_of p =
     \<lparr>max_active_devices_per_user = pol_max_active_devices p,
      max_geo_accuracy_meters = pol_max_geo_accuracy p,
      max_geo_age_seconds = pol_max_geo_age p,
      geo_revalidation_interval_seconds = pol_geo_revalidation p,
      access_token_ttl_minutes = pol_access_ttl p,
      machine_token_ttl_minutes = pol_machine_ttl p,
      session_idle_timeout_minutes = pol_idle_timeout p,
      session_max_duration_minutes = pol_session_max p,
      vpn_detected_action = pol_vpn_detected p,
      vpn_unknown_action = pol_vpn_unknown p,
      policy_status = pol_status p\<rparr>"

definition get_tenant_policy :: "string \<Rightarrow> TenantPolicy dbact" where
  "get_tenant_policy tenant_id =
     bindM (query (\<lambda>d. first_row (\<lambda>p. pol_tenant p = tenant_id) (db_policies d))) (\<lambda>row.
       case row of
         None \<Rightarrow> throwM (security_error ''TENANT_SECURITY_NOT_READY'')
       | Some p \<Rightarrow>
           if pol_status p \<noteq> ''ACTIVE'' then throwM (security_error ''TENANT_SECURITY_NOT_READY'')
           else returnM (policy_of p))"

section \<open>Machine principals\<close>

fun actor_type_of :: "string \<Rightarrow> ActorType option" where
  "actor_type_of v =
     (if v = ''USER'' then Some USER else if v = ''SYSTEM'' then Some SYSTEM
      else if v = ''SERVICE_INTEGRATION'' then Some SERVICE_INTEGRATION else None)"

definition credential_rows :: "string \<Rightarrow> db \<Rightarrow> (credential \<times> principal) list" where
  "credential_rows client_id d =
     [(c, p). c \<leftarrow> db_credentials d, p \<leftarrow> db_principals d, sp_id p = c_principal c, c_client_id c = client_id]"

definition machine_credential :: "string \<Rightarrow> int \<Rightarrow> MachineCredential dbact" where
  "machine_credential client_id now =
     bindM (query (\<lambda>d. first_of (credential_rows client_id d))) (\<lambda>row.
       case row of
         None \<Rightarrow> throwM (security_error ''MACHINE_CREDENTIAL_INVALID'')
       | Some (c, p) \<Rightarrow>
           if sp_status p \<noteq> ''ACTIVE'' then throwM (security_error ''PRINCIPAL_NOT_ACTIVE'')
           else (case actor_type_of (sp_actor_type p) of
             None \<Rightarrow> throwM (security_error ''ACTOR_TYPE_NOT_ALLOWED'')
           | Some actor_type \<Rightarrow>
               if actor_type \<noteq> SYSTEM \<and> actor_type \<noteq> SERVICE_INTEGRATION
                 then throwM (security_error ''ACTOR_TYPE_NOT_ALLOWED'')
               else if c_status c = ''EXPIRED'' \<or> (case c_valid_to c of None \<Rightarrow> False | Some t \<Rightarrow> t \<le> now)
                 then throwM (security_error ''MACHINE_CREDENTIAL_EXPIRED'')
               else if c_status c \<noteq> ''ACTIVE'' \<or> c_valid_from c > now
                 then throwM (security_error ''MACHINE_CREDENTIAL_INVALID'')
               else returnM \<lparr>mc_principal_id = sp_id p, mc_actor_type = actor_type, mc_credential_id = c_id c,
                      mc_client_id = c_client_id c, mc_secret_hash = c_secret_hash c\<rparr>))"

definition machine_grant_rows :: "string \<Rightarrow> string \<Rightarrow> db \<Rightarrow> string list" where
  "machine_grant_rows principal_id tenant_id d =
     [p_key p. g \<leftarrow> db_grants d, p \<leftarrow> db_permissions d,
        p_key p = pg_permission g, p_status p = ''ACTIVE'',
        pg_principal g = principal_id, pg_tenant g = tenant_id, pg_status g = ''ACTIVE'']"

definition scope_open :: "string \<Rightarrow> string \<Rightarrow> int \<Rightarrow> tenant_scope \<Rightarrow> bool" where
  "scope_open principal_id tenant_id now s =
     (sc_principal s = principal_id \<and> sc_tenant s = tenant_id \<and> sc_status s = ''ACTIVE''
      \<and> valid_at (sc_valid_from s) (sc_valid_to s) now)"

text \<open>\<open>SELECT DISTINCT ... ORDER BY\<close> is the sorted set of the rows.\<close>

definition machine_permissions :: "string \<Rightarrow> string \<Rightarrow> int \<Rightarrow> string list dbact" where
  "machine_permissions principal_id tenant_id now =
     bindM (query (\<lambda>d. exists_row (scope_open principal_id tenant_id now) (db_scopes d))) (\<lambda>scope.
       if \<not> scope then throwM (security_error ''PRINCIPAL_TENANT_SCOPE_REQUIRED'')
       else query (\<lambda>d. sorted_set (machine_grant_rows principal_id tenant_id d)))"

definition create_machine_session ::
  "string \<Rightarrow> ActorType \<Rightarrow> string \<Rightarrow> string \<Rightarrow> string \<Rightarrow> int \<Rightarrow> int \<Rightarrow> string dbact" where
  "create_machine_session principal_id actor_type tenant_id credential_id source_ip expires_at now =
     bindM uuid4 (\<lambda>session_id.
       seqM (execute (insert_session
         \<lparr>as_id = session_id, as_tenant = tenant_id, as_principal = principal_id,
          as_actor_type = actor_type_value actor_type, as_membership = None, as_device = None,
          as_location = None, as_credential = Some credential_id, as_source = ''CLIENT_CREDENTIAL'',
          as_version = None, as_ip = source_ip, as_vpn = None, as_started = now, as_expires = expires_at,
          as_last_activity = now, as_last_geo = None, as_status = ''ACTIVE''\<rparr>))
       (returnM session_id))"

definition mark_machine_credential_used :: "string \<Rightarrow> int \<Rightarrow> unit dbact" where
  "mark_machine_credential_used credential_id now =
     update (\<lambda>d. d\<lparr>db_credentials := update_rows (\<lambda>c. c_id c = credential_id)
       (\<lambda>c. c\<lparr>c_last_used_at := Some now\<rparr>) (db_credentials d)\<rparr>)"

section \<open>Device, location and schedule\<close>

definition lock_active_device :: "string \<Rightarrow> string \<Rightarrow> string \<Rightarrow> device dbact" where
  "lock_active_device user_id tenant_id device_id =
     bindM (query (\<lambda>d. first_row (\<lambda>r. d_tenant r = tenant_id \<and> d_user r = user_id \<and> d_id r = device_id)
              (db_devices d))) (\<lambda>row.
       case row of
         None \<Rightarrow> throwM (security_error ''DEVICE_NOT_REGISTERED'')
       | Some r \<Rightarrow>
           if d_status r = ''PENDING'' then throwM (security_error ''DEVICE_APPROVAL_REQUIRED'')
           else if d_status r \<noteq> ''ACTIVE'' then throwM (security_error ''DEVICE_NOT_ACTIVE'')
           else returnM r)"

definition assigned_location_rows :: "string \<Rightarrow> string \<Rightarrow> int \<Rightarrow> db \<Rightarrow> LocationCandidate list" where
  "assigned_location_rows user_id tenant_id now d =
     [\<lparr>lc_location_id = l_id l, lc_latitude = l_latitude l, lc_longitude = l_longitude l,
       lc_allowed_radius_meters = real_of_int (l_allowed_radius l), lc_timezone_iana = l_timezone l,
       lc_schedule_id = ul_schedule a\<rparr>.
       a \<leftarrow> db_user_locations d, l \<leftarrow> db_locations d,
       l_tenant l = ul_tenant a, l_id l = ul_location a,
       ul_tenant a = tenant_id, ul_user a = user_id, ul_status a = ''ACTIVE'', l_status l = ''ACTIVE'',
       valid_at (ul_valid_from a) (ul_valid_to a) now]"

definition assigned_locations :: "string \<Rightarrow> string \<Rightarrow> int \<Rightarrow> LocationCandidate list dbact" where
  "assigned_locations user_id tenant_id now = query (assigned_location_rows user_id tenant_id now)"

definition ensure_active_schedule :: "string \<Rightarrow> string \<Rightarrow> unit dbact" where
  "ensure_active_schedule tenant_id schedule_id =
     bindM (query (\<lambda>d. first_row (\<lambda>s. sch_tenant s = tenant_id \<and> sch_id s = schedule_id) (db_schedules d)))
       (\<lambda>row. case row of
          None \<Rightarrow> throwM (security_error ''ACCESS_SCHEDULE_MISSING'')
        | Some s \<Rightarrow> raise_if (sch_status s \<noteq> ''ACTIVE'') (security_error ''ACCESS_SCHEDULE_MISSING''))"

definition schedule_window_rows :: "string \<Rightarrow> string \<Rightarrow> db \<Rightarrow> ScheduleWindow list" where
  "schedule_window_rows tenant_id schedule_id d =
     map (\<lambda>w. \<lparr>sw_iso_day_of_week = w_iso_day w, sw_start_local_time = w_start w,
             sw_end_local_time = w_end w, sw_crosses_midnight = w_crosses_midnight w\<rparr>)
       (filter (\<lambda>w. w_tenant w = tenant_id \<and> w_schedule w = schedule_id \<and> w_status w = ''ACTIVE'') (db_windows d))"

definition schedule_windows :: "string \<Rightarrow> string \<Rightarrow> ScheduleWindow list dbact" where
  "schedule_windows tenant_id schedule_id = query (schedule_window_rows tenant_id schedule_id)"

text \<open>\<open>ORDER BY valid_to_utc DESC LIMIT 1\<close>: the latest end of an open override.\<close>

definition override_ends :: "string \<Rightarrow> string \<Rightarrow> string \<Rightarrow> int \<Rightarrow> db \<Rightarrow> int list" where
  "override_ends tenant_id user_id location_id now d =
     map ov_valid_to (filter (\<lambda>o'. ov_tenant o' = tenant_id \<and> ov_user o' = user_id
        \<and> ov_location o' = location_id \<and> ov_status o' = ''ACTIVE''
        \<and> ov_valid_from o' \<le> now \<and> ov_valid_to o' > now) (db_overrides d))"

definition latest_override :: "string \<Rightarrow> string \<Rightarrow> string \<Rightarrow> int \<Rightarrow> db \<Rightarrow> int option" where
  "latest_override tenant_id user_id location_id now d =
     (let ends = override_ends tenant_id user_id location_id now d
      in if ends = [] then None else Some (Max (set ends)))"

definition active_override_until :: "string \<Rightarrow> string \<Rightarrow> string \<Rightarrow> int \<Rightarrow> int option dbact" where
  "active_override_until tenant_id user_id location_id now = query (latest_override tenant_id user_id location_id now)"

section \<open>Permissions of the base class\<close>

text \<open>The query of \<open>SecurityRepository\<close> itself, which knows direct assignments only.\<close>

definition direct_grants :: "db \<Rightarrow> string \<Rightarrow> string \<Rightarrow> int \<Rightarrow> (string \<times> string) list" where
  "direct_grants d tenant_id user_id now = tenant_grants d tenant_id (direct_roles d tenant_id user_id now)"

definition direct_user_permissions :: "string \<Rightarrow> string \<Rightarrow> int \<Rightarrow> (string list \<times> string list) dbact" where
  "direct_user_permissions tenant_id user_id now =
     bindM (query (\<lambda>d. direct_grants d tenant_id user_id now)) (\<lambda>rows.
       let roles = sorted_set (map fst rows); permissions = sorted_set (map snd rows)
       in if permissions = [] then throwM (security_error ''ROLE_REQUIRED'') else returnM (roles, permissions))"

text \<open>The override of \<open>GroupAwareSecurityRepository\<close>.\<close>

definition group_aware_user_permissions :: "string \<Rightarrow> string \<Rightarrow> int \<Rightarrow> (string list \<times> string list) dbact" where
  "group_aware_user_permissions tenant_id user_id now =
     bindM (query (\<lambda>d. effective_user_permissions d tenant_id user_id now)) liftM"

section \<open>Sessions and evidence\<close>

definition expire_stale_user_sessions :: "string \<Rightarrow> string \<Rightarrow> string \<Rightarrow> int \<Rightarrow> unit dbact" where
  "expire_stale_user_sessions tenant_id user_id device_id now =
     execute (update_sessions
       (\<lambda>r. as_tenant r = tenant_id \<and> as_principal r = user_id \<and> as_device r = Some device_id
            \<and> as_actor_type r = ''USER'' \<and> as_status r = ''ACTIVE'' \<and> as_expires r \<le> now)
       (\<lambda>r. r\<lparr>as_status := ''EXPIRED''\<rparr>))"

definition is_active_user_session :: "string \<Rightarrow> string \<Rightarrow> string \<Rightarrow> access_session \<Rightarrow> bool" where
  "is_active_user_session tenant_id user_id device_id r =
     (as_tenant r = tenant_id \<and> as_principal r = user_id \<and> as_device r = Some device_id
      \<and> as_actor_type r = ''USER'' \<and> as_status r = ''ACTIVE'')"

definition active_user_session :: "string \<Rightarrow> string \<Rightarrow> string \<Rightarrow> access_session option dbact" where
  "active_user_session tenant_id user_id device_id =
     query (\<lambda>d. first_row (is_active_user_session tenant_id user_id device_id) (db_sessions d))"

definition user_session_row :: "string option \<Rightarrow> new_user_session \<Rightarrow> string \<Rightarrow> access_session" where
  "user_session_row membership ns session_id =
     \<lparr>as_id = session_id, as_tenant = ns_tenant ns, as_principal = ns_user ns, as_actor_type = ''USER'',
      as_membership = membership, as_device = Some (ns_device ns), as_location = Some (ns_location ns),
      as_credential = None, as_source = ns_source ns, as_version = Some (ns_version ns), as_ip = ns_ip ns,
      as_vpn = Some (ns_vpn ns), as_started = ns_now ns, as_expires = ns_expires ns,
      as_last_activity = ns_now ns, as_last_geo = Some (ns_now ns), as_status = ''ACTIVE''\<rparr>"

definition create_membership_session :: "new_user_session \<Rightarrow> string dbact" where
  "create_membership_session ns =
     bindM uuid4 (\<lambda>session_id.
       seqM (execute (insert_session (user_session_row (Some (ns_membership ns)) ns session_id)))
       (returnM session_id))"

definition create_global_session :: "new_user_session \<Rightarrow> string dbact" where
  "create_global_session ns =
     bindM uuid4 (\<lambda>session_id.
       seqM (execute (insert_session (user_session_row None ns session_id)))
       (returnM session_id))"

definition update_reused_user_session ::
  "string \<Rightarrow> string \<Rightarrow> string \<Rightarrow> int \<Rightarrow> int \<Rightarrow> int \<Rightarrow> unit dbact" where
  "update_reused_user_session access_session_id source_ip vpn_status authorization_version expires_at now =
     execute (update_sessions (\<lambda>r. as_id r = access_session_id \<and> as_status r = ''ACTIVE'')
       (\<lambda>r. r\<lparr>as_ip := source_ip, as_vpn := Some vpn_status, as_version := Some authorization_version,
             as_expires := expires_at, as_last_activity := now, as_last_geo := Some now\<rparr>))"

definition record_evaluation :: "evaluation \<Rightarrow> unit dbact" where
  "record_evaluation payload = execute (insert_evaluation payload)"

section \<open>The two repositories\<close>

record repository =
  get_user_context :: "string \<Rightarrow> string \<Rightarrow> int \<Rightarrow> UserContext dbact"
  effective_permissions :: "string \<Rightarrow> string \<Rightarrow> int \<Rightarrow> (string list \<times> string list) dbact"
  create_user_session :: "new_user_session \<Rightarrow> string dbact"

definition SecurityRepository :: repository where
  "SecurityRepository = \<lparr>get_user_context = membership_user_context,
     effective_permissions = direct_user_permissions, create_user_session = create_membership_session\<rparr>"

definition GroupAwareSecurityRepository :: repository where
  "GroupAwareSecurityRepository = \<lparr>get_user_context = global_user_context,
     effective_permissions = group_aware_user_permissions, create_user_session = create_global_session\<rparr>"

section \<open>What a returned method says\<close>

lemma resolve_identity_user_Inr [method_simps]:
  "resolve_identity_user pr sub s = (Inr u, t) \<longleftrightarrow> t = s \<and>
     (\<exists>x sp. first_of (identity_rows pr sub (working s)) = Some (x, sp)
        \<and> sp_actor_type sp = ''USER'' \<and> sp_status sp = ''ACTIVE'' \<and> u = u_id x)"
  by (auto simp: resolve_identity_user_def success_simps split: option.splits prod.splits if_splits)

lemma tenant_status_Inr [method_simps]:
  "tenant_status tn s = (Inr st, t) \<longleftrightarrow> t = s \<and>
     (\<exists>r. first_row (\<lambda>r. t_id r = tn) (db_tenants (working s)) = Some r \<and> st = t_status r)"
  by (auto simp: tenant_status_def success_simps split: option.splits)

lemma get_tenant_policy_Inr [method_simps]:
  "get_tenant_policy tn s = (Inr pol, t) \<longleftrightarrow> t = s \<and>
     (\<exists>p. first_row (\<lambda>p. pol_tenant p = tn) (db_policies (working s)) = Some p \<and> pol_status p = ''ACTIVE''
        \<and> pol = policy_of p)"
  by (auto simp: get_tenant_policy_def success_simps split: option.splits if_splits)

lemma lock_active_device_Inr [method_simps]:
  "lock_active_device u tn dev s = (Inr r, t) \<longleftrightarrow> t = s \<and>
     first_row (\<lambda>r. d_tenant r = tn \<and> d_user r = u \<and> d_id r = dev) (db_devices (working s)) = Some r
     \<and> d_status r = ''ACTIVE''"
  by (auto simp: lock_active_device_def success_simps split: option.splits if_splits)

lemma assigned_locations_Inr [method_simps]:
  "assigned_locations u tn now s = (Inr ls, t) \<longleftrightarrow> t = s \<and> ls = assigned_location_rows u tn now (working s)"
  by (auto simp: assigned_locations_def success_simps)

lemma schedule_windows_Inr [method_simps]:
  "schedule_windows tn sch s = (Inr ws, t) \<longleftrightarrow> t = s \<and> ws = schedule_window_rows tn sch (working s)"
  by (auto simp: schedule_windows_def success_simps)

lemma ensure_active_schedule_Inr [method_simps]:
  "ensure_active_schedule tn sch s = (Inr x, t) \<longleftrightarrow> t = s \<and>
     (\<exists>r. first_row (\<lambda>r. sch_tenant r = tn \<and> sch_id r = sch) (db_schedules (working s)) = Some r
        \<and> sch_status r = ''ACTIVE'')"
  by (auto simp: ensure_active_schedule_def success_simps split: option.splits)

lemma active_override_until_Inr [method_simps]:
  "active_override_until tn u loc now s = (Inr ov, t) \<longleftrightarrow> t = s \<and>
     ov = latest_override tn u loc now (working s)"
  by (auto simp: active_override_until_def success_simps)

lemma active_user_session_Inr [method_simps]:
  "active_user_session tn u dev s = (Inr r, t) \<longleftrightarrow> t = s \<and>
     r = first_row (is_active_user_session tn u dev) (db_sessions (working s))"
  by (auto simp: active_user_session_def success_simps)

lemma machine_permissions_Inr [method_simps]:
  "machine_permissions p tn now s = (Inr ps, t) \<longleftrightarrow> t = s \<and>
     exists_row (scope_open p tn now) (db_scopes (working s))
     \<and> ps = sorted_set (machine_grant_rows p tn (working s))"
  by (auto simp: machine_permissions_def success_simps)

lemma machine_credential_Inr [method_simps]:
  "machine_credential cl now s = (Inr mc, t) \<longleftrightarrow> t = s \<and>
     (\<exists>c p a. first_of (credential_rows cl (working s)) = Some (c, p) \<and> sp_status p = ''ACTIVE''
        \<and> actor_type_of (sp_actor_type p) = Some a \<and> a \<noteq> USER \<and> c_status c = ''ACTIVE''
        \<and> c_valid_from c \<le> now \<and> (case c_valid_to c of None \<Rightarrow> True | Some e \<Rightarrow> now < e)
        \<and> mc = \<lparr>mc_principal_id = sp_id p, mc_actor_type = a, mc_credential_id = c_id c,
                mc_client_id = c_client_id c, mc_secret_hash = c_secret_hash c\<rparr>)"
proof -
  have a: "a \<noteq> SYSTEM \<and> a \<noteq> SERVICE_INTEGRATION \<longleftrightarrow> a = USER" for a by (cases a) auto
  show ?thesis
  proof (cases "first_of (credential_rows cl (working s))")
    case None
    then show ?thesis by (simp add: machine_credential_def success_simps)
  next
    case (Some cp)
    obtain c p where cp: "cp = (c, p)" by (cases cp)
    show ?thesis
      using Some cp
      by (cases "actor_type_of (sp_actor_type p)"; cases "c_valid_to c")
        (auto simp: machine_credential_def a success_simps if_act_iff simp del: actor_type_of.simps)
  qed
qed

lemma repo_stays [stays_intros]:
  "no_commit (resolve_identity_user pr sub)" "no_commit (tenant_status tn)"
  "no_commit (get_tenant_policy tn)" "no_commit (lock_active_device u tn dev)"
  "no_commit (assigned_locations u tn now)" "no_commit (schedule_windows tn sch)"
  "no_commit (ensure_active_schedule tn sch)" "no_commit (active_override_until tn u loc now)"
  "no_commit (expire_stale_user_sessions tn u dev now)" "no_commit (active_user_session tn u dev)"
  "no_commit (update_reused_user_session sid ip vpn ver ex now)" "no_commit (record_evaluation ev)"
  "no_commit (machine_credential cl now)" "no_commit (machine_permissions p tn now)"
  "no_commit (create_machine_session p a tn c ip ex now)" "no_commit (mark_machine_credential_used c now)"
  unfolding resolve_identity_user_def tenant_status_def get_tenant_policy_def lock_active_device_def
    assigned_locations_def schedule_windows_def ensure_active_schedule_def active_override_until_def
    expire_stale_user_sessions_def active_user_session_def update_reused_user_session_def
    record_evaluation_def machine_credential_def machine_permissions_def create_machine_session_def
    mark_machine_credential_used_def
  by (intro stays_intros)+

lemma repo_keeps_ok [keeps_intros]:
  "keeps db_ok (resolve_identity_user pr sub)" "keeps db_ok (tenant_status tn)"
  "keeps db_ok (get_tenant_policy tn)" "keeps db_ok (lock_active_device u tn dev)"
  "keeps db_ok (assigned_locations u tn now)" "keeps db_ok (schedule_windows tn sch)"
  "keeps db_ok (ensure_active_schedule tn sch)" "keeps db_ok (active_override_until tn u loc now)"
  "keeps db_ok (active_user_session tn u dev)"
  "keeps db_ok (machine_credential cl now)" "keeps db_ok (machine_permissions p tn now)"
  unfolding resolve_identity_user_def tenant_status_def get_tenant_policy_def lock_active_device_def
    assigned_locations_def schedule_windows_def ensure_active_schedule_def active_override_until_def
    active_user_session_def machine_credential_def machine_permissions_def
  by (intro keeps_intros)+

lemma keeps_update_sessions [keeps_intros]:
  "calm as_id every_row f \<Longrightarrow> calm session_key session_live f \<Longrightarrow> keeps db_ok (execute (update_sessions p f))"
  by (intro keeps_execute) (rule update_sessions_keeps_ok)

lemma keeps_insert_session [keeps_intros]: "keeps db_ok (execute (insert_session r))"
  by (intro keeps_execute) (rule insert_keeps_ok)

lemma keeps_insert_evaluation [keeps_intros]: "keeps db_ok (execute (insert_evaluation r))"
  by (intro keeps_execute) (rule insert_keeps_ok)

lemma repo_writes_keep_ok [keeps_intros]:
  "keeps db_ok (expire_stale_user_sessions tn u dev now)"
  "keeps db_ok (update_reused_user_session sid ip vpn ver ex now)"
  "keeps db_ok (record_evaluation ev)"
  "keeps db_ok (create_machine_session p a tn c ip ex now)"
  "keeps db_ok (create_membership_session ns)" "keeps db_ok (create_global_session ns)"
  unfolding expire_stale_user_sessions_def update_reused_user_session_def record_evaluation_def
    create_machine_session_def create_membership_session_def create_global_session_def
  by (intro keeps_intros; simp add: calm_def session_key_def session_live_def)+

lemma mark_used_keeps_ok [keeps_intros]: "keeps db_ok (mark_machine_credential_used c now)"
  unfolding mark_machine_credential_used_def
  by (intro keeps_update) (auto simp: db_ok_def intro!: unique_index_update)

section \<open>The interface of a user repository\<close>

definition active_user :: "db \<Rightarrow> string \<Rightarrow> bool" where
  "active_user d user_id \<longleftrightarrow> (\<exists>u\<in>set (db_users d). u_id u = user_id \<and> u_status u = ''ACTIVE'')"

locale user_repository =
  fixes repo :: repository
  assumes context_Inr: "get_user_context repo u tn now s = (Inr c, t)
      \<Longrightarrow> t = s \<and> uc_user_id c = u \<and> active_user (working s) u"
    and permissions_Inr: "effective_permissions repo tn u now s = (Inr (roles, perms), t)
      \<Longrightarrow> t = s \<and> perms \<noteq> [] \<and> sorted perms \<and> distinct perms
          \<and> (\<forall>k\<in>set perms. \<exists>rk. granted (working s) tn u now rk k)"
    and create_Inr: "create_user_session repo ns s = (Inr sid, t)
      \<Longrightarrow> committed t = committed s
          \<and> (\<exists>m. insert_session (user_session_row m ns sid) (working s) = Inr (working t))"
    and hooks_stay: "no_commit (get_user_context repo u tn now)"
      "no_commit (effective_permissions repo tn u now)" "no_commit (create_user_session repo ns)"
    and hooks_keep: "keeps db_ok (get_user_context repo u tn now)"
      "keeps db_ok (effective_permissions repo tn u now)" "keeps db_ok (create_user_session repo ns)"

lemma membership_user_context_Inr:
  assumes "membership_user_context u tn now s = (Inr c, t)"
  shows "t = s \<and> uc_user_id c = u \<and> active_user (working s) u"
proof -
  obtain x om where r: "first_of (membership_rows u tn (working s)) = Some (x, om)"
    using assms by (cases "first_of (membership_rows u tn (working s))")
      (auto simp: membership_user_context_def success_simps)
  then have "t = s" "u_status x = ''ACTIVE''" "uc_user_id c = u_id x"
    using assms by (cases om; auto simp: membership_user_context_def success_simps split: if_splits)+
  note r = r this
  then have "x \<in> set (db_users (working s)) \<and> u_id x = u"
    by (auto simp: membership_rows_def Let_def dest!: first_of_SomeD split: if_splits)
  with r show ?thesis by (auto simp: active_user_def)
qed

lemma global_user_context_Inr:
  assumes "global_user_context u tn now s = (Inr c, t)"
  shows "t = s \<and> uc_user_id c = u \<and> active_user (working s) u"
proof -
  from assms obtain x p v where r: "first_of (global_user_rows u tn (working s)) = Some (x, p, v)"
      "t = s" "u_status x = ''ACTIVE''" "uc_user_id c = u_id x"
    by (auto simp: global_user_context_def success_simps split: option.splits prod.splits if_splits)
  then have "x \<in> set (db_users (working s)) \<and> u_id x = u"
    by (auto simp: global_user_rows_def Let_def dest!: first_of_SomeD split: if_splits)
  with r show ?thesis by (auto simp: active_user_def)
qed

lemma direct_grants_granted:
  "set (direct_grants d tn u now) \<subseteq> {(rk, k). granted d tn u now rk k}"
proof -
  have "set (direct_grants d tn u now) \<subseteq> set (effective_grants d tn u now)"
    by (auto simp: direct_grants_def effective_grants_def effective_tenant_roles_def tenant_grants_def)
  then show ?thesis by (simp only: set_effective_grants)
qed

lemma direct_user_permissions_Inr:
  assumes "direct_user_permissions tn u now s = (Inr (roles, perms), t)"
  shows "t = s \<and> perms \<noteq> [] \<and> sorted perms \<and> distinct perms
          \<and> (\<forall>k\<in>set perms. \<exists>rk. granted (working s) tn u now rk k)"
proof -
  let ?rows = "direct_grants (working s) tn u now"
  from assms have "t = s" "?rows \<noteq> []" "perms = sorted_set (map snd ?rows)"
    by (auto simp: direct_user_permissions_def success_simps Let_def split: if_splits)
  moreover have "\<exists>rk. granted (working s) tn u now rk k" if "k \<in> set (map snd ?rows)" for k
  proof -
    from that obtain rk where "(rk, k) \<in> set ?rows" by auto
    with direct_grants_granted [of "working s" tn u now] show ?thesis by blast
  qed
  ultimately show ?thesis by simp
qed

lemma group_aware_user_permissions_Inr:
  assumes "group_aware_user_permissions tn u now s = (Inr (roles, perms), t)"
  shows "t = s \<and> perms \<noteq> [] \<and> sorted perms \<and> distinct perms
          \<and> (\<forall>k\<in>set perms. \<exists>rk. granted (working s) tn u now rk k)"
proof -
  from assms have p: "effective_user_permissions (working s) tn u now = Inr (roles, perms)" "t = s"
    by (auto simp: group_aware_user_permissions_def success_simps)
  from effective_user_permissions_sets [OF p(1)] p(2) show ?thesis by simp
qed

lemma hooks_stay_inside [stays_intros]:
  "no_commit (membership_user_context u tn now)" "no_commit (global_user_context u tn now)"
  "no_commit (direct_user_permissions tn u now)" "no_commit (group_aware_user_permissions tn u now)"
  "no_commit (create_membership_session ns)" "no_commit (create_global_session ns)"
  unfolding membership_user_context_def global_user_context_def direct_user_permissions_def
    group_aware_user_permissions_def create_membership_session_def create_global_session_def Let_def
  by (intro stays_intros)+

lemma hooks_keep_ok [keeps_intros]:
  "keeps db_ok (membership_user_context u tn now)" "keeps db_ok (global_user_context u tn now)"
  "keeps db_ok (direct_user_permissions tn u now)" "keeps db_ok (group_aware_user_permissions tn u now)"
  unfolding membership_user_context_def global_user_context_def direct_user_permissions_def
    group_aware_user_permissions_def Let_def
  by (intro keeps_intros)+

interpretation base_repository: user_repository SecurityRepository
proof unfold_locales
  fix ns s sid t assume "create_user_session SecurityRepository ns s = (Inr sid, t)"
  then show "committed t = committed s
      \<and> (\<exists>m. insert_session (user_session_row m ns sid) (working s) = Inr (working t))"
    by (auto simp: SecurityRepository_def create_membership_session_def success_simps)
qed (simp_all add: SecurityRepository_def stays_intros keeps_intros membership_user_context_Inr
      direct_user_permissions_Inr)

interpretation group_repository: user_repository GroupAwareSecurityRepository
proof unfold_locales
  fix ns s sid t assume "create_user_session GroupAwareSecurityRepository ns s = (Inr sid, t)"
  then show "committed t = committed s
      \<and> (\<exists>m. insert_session (user_session_row m ns sid) (working s) = Inr (working t))"
    by (auto simp: GroupAwareSecurityRepository_def create_global_session_def success_simps)
qed (simp_all add: GroupAwareSecurityRepository_def stays_intros keeps_intros global_user_context_Inr
      group_aware_user_permissions_Inr)

end
