(* ===== verification/Tokens.thy ===== *)
theory Tokens
  imports Permissions
begin

text \<open>
  \<open>services/token_service.py\<close>: the claims of an access token, the shape an actor's claims
  must have, issuing, verifying, the published key set and the readiness check of the key
  pair. A decoded JSON object is a list of claims in order. PyJWT and the PEM loader of
  \<open>cryptography\<close> are parameters (the record \<open>jwt_env\<close>), the clock is an argument.
\<close>

section \<open>Python values\<close>

datatype pyval =
    PNone
  | PBool bool
  | PInt int
  | PFloat real
  | PStr string
  | PList "pyval list"
  | PDict "(string \<times> pyval) list"
  | PTime int

type_synonym claims = "(string \<times> pyval) list"

text \<open>Truth value of an object, and \<open>dict.get(key)\<close> with its default \<open>None\<close>.\<close>

fun truthy :: "pyval \<Rightarrow> bool" where
  "truthy PNone = False"
| "truthy (PBool b) = b"
| "truthy (PInt i) = (i \<noteq> 0)"
| "truthy (PFloat r) = (r \<noteq> 0)"
| "truthy (PStr s) = (s \<noteq> [])"
| "truthy (PList xs) = (xs \<noteq> [])"
| "truthy (PDict d) = (d \<noteq> [])"
| "truthy (PTime t) = True"

definition get_claim :: "claims \<Rightarrow> string \<Rightarrow> pyval" where
  "get_claim payload key = (case dict_get payload key of None \<Rightarrow> PNone | Some v \<Rightarrow> v)"

fun is_str :: "pyval \<Rightarrow> bool" where
  "is_str (PStr s) = True"
| "is_str v = False"

definition non_empty_str :: "pyval \<Rightarrow> bool" where
  "non_empty_str v = (is_str v \<and> truthy v)"

text \<open>\<open>isinstance(v, list) and all(isinstance(x, str) for x in v)\<close>, and the list itself.\<close>

fun str_list :: "pyval \<Rightarrow> string list option" where
  "str_list (PList xs) = (if list_all is_str xs then Some (map (\<lambda>v. case v of PStr s \<Rightarrow> s | _ \<Rightarrow> []) xs) else None)"
| "str_list v = None"

section \<open>Settings and library\<close>

record token_settings =
  security_private_key_pem :: "string option"
  security_public_key_pem :: "string option"
  security_key_id :: "string option"
  security_token_issuer :: string
  security_token_audience :: string

text \<open>A setting that is absent or empty is false.\<close>

definition is_set :: "string option \<Rightarrow> bool" where
  "is_set v = (v \<noteq> None \<and> v \<noteq> Some [])"

datatype jwt_result = Decoded claims | ExpiredSignature | PyJWTError

datatype pem_key = PemError | NotRsa | RsaKey nat nat

text \<open>
  \<open>jwt.encode(payload, key, headers={kid})\<close> (\<open>None\<close>: it raised one of the exceptions the
  caller catches), \<open>jwt.decode(token, key, issuer, audience, require)\<close> at an instant, and
  the public numbers of the two PEM strings.
\<close>

record 'tok jwt_env =
  jwt_encode :: "claims \<Rightarrow> string \<Rightarrow> string \<Rightarrow> 'tok option"
  jwt_decode :: "'tok \<Rightarrow> string \<Rightarrow> string \<Rightarrow> string \<Rightarrow> string list \<Rightarrow> int \<Rightarrow> jwt_result"
  load_pem_public_key :: "string \<Rightarrow> pem_key"
  load_pem_private_key :: "string \<Rightarrow> pem_key"

section \<open>Claims\<close>

record AccessTokenClaims =
  tc_principal_id :: string
  tc_actor_type :: ActorType
  tc_tenant_id :: string
  tc_access_session_id :: string
  tc_permissions :: "string list"
  tc_expires_at :: int
  tc_roles :: "string list"
  tc_device_id :: "string option"
  tc_location_id :: "string option"
  tc_delegated_actor_id :: "string option"
  tc_subject :: "string option"

definition validate_actor_claim_shape :: "AccessTokenClaims \<Rightarrow> exn + unit" where
  "validate_actor_claim_shape c =
     (if tc_actor_type c = USER then
        if \<not> is_set (tc_device_id c) \<or> \<not> is_set (tc_location_id c) \<or> tc_roles c = [] then
          Inl (ValueError ''USER Security token requires roles, device_id and location_id'')
        else if tc_subject c \<noteq> None \<and> tc_subject c \<noteq> Some (tc_principal_id c) then
          Inl (ValueError ''USER Security token subject must identify the USER principal'')
        else Inr ()
      else if tc_roles c \<noteq> [] \<or> is_set (tc_device_id c) \<or> is_set (tc_location_id c) then
        Inl (ValueError ''Machine Security token cannot carry USER-only roles/device/location claims'')
      else if tc_delegated_actor_id c \<noteq> None then
        Inl (ValueError ''Machine Security token cannot carry a delegated USER actor claim'')
      else if tc_subject c = Some [] then
        Inl (ValueError ''Machine Security token subject cannot be empty'')
      else Inr ())"

text \<open>\<open>claims.subject or claims.principal_id\<close>.\<close>

definition token_subject :: "AccessTokenClaims \<Rightarrow> string" where
  "token_subject c = (case tc_subject c of Some s \<Rightarrow> if s = [] then tc_principal_id c else s | None \<Rightarrow> tc_principal_id c)"

definition opt_claim :: "bool \<Rightarrow> string \<Rightarrow> pyval \<Rightarrow> claims" where
  "opt_claim b k v = (if b then [(k, v)] else [])"

definition token_payload :: "token_settings \<Rightarrow> AccessTokenClaims \<Rightarrow> string list \<Rightarrow> int \<Rightarrow> string \<Rightarrow> claims" where
  "token_payload st c permissions now jti =
     [(''iss'', PStr (security_token_issuer st)),
      (''sub'', PStr (token_subject c)),
      (''aud'', PStr (security_token_audience st)),
      (''iat'', PTime now),
      (''exp'', PTime (tc_expires_at c)),
      (''jti'', PStr jti),
      (''actor_type'', PStr (actor_type_value (tc_actor_type c))),
      (''tenant_id'', PStr (tc_tenant_id c)),
      (''access_session_id'', PStr (tc_access_session_id c)),
      (''permissions'', PList (map PStr permissions))]
     @ opt_claim (tc_roles c \<noteq> []) ''roles'' (PList (map PStr (tc_roles c)))
     @ opt_claim (is_set (tc_device_id c)) ''device_id'' (PStr (the (tc_device_id c)))
     @ opt_claim (is_set (tc_location_id c)) ''location_id'' (PStr (the (tc_location_id c)))
     @ opt_claim (is_set (tc_delegated_actor_id c)) ''act'' (PDict [(''sub'', PStr (the (tc_delegated_actor_id c)))])"

section \<open>Issue\<close>

definition issue :: "'tok jwt_env \<Rightarrow> token_settings \<Rightarrow> int \<Rightarrow> AccessTokenClaims \<Rightarrow> ('d, 'tok) act" where
  "issue env st now c =
     (if \<not> is_set (security_private_key_pem st) \<or> \<not> is_set (security_key_id st)
      then throwM (security_error ''SIGNING_KEY_UNAVAILABLE'')
      else seqM (liftM (validate_actor_claim_shape c))
        (bindM (liftM (validate_permissions (tc_permissions c))) (\<lambda>permissions.
         bindM uuid4 (\<lambda>jti.
           case jwt_encode env (token_payload st c permissions now jti)
                  (the (security_private_key_pem st)) (the (security_key_id st)) of
             None \<Rightarrow> throwM (security_error ''SIGNING_KEY_UNAVAILABLE'')
           | Some token \<Rightarrow> returnM token))))"

section \<open>Verify\<close>

definition REQUIRED_CLAIMS :: "string list" where
  "REQUIRED_CLAIMS = [''exp'', ''iat'', ''sub'', ''jti'', ''actor_type'', ''tenant_id'',
     ''access_session_id'', ''permissions'']"

text \<open>
  \<open>ActorType(str(v))\<close>: the string form of a value that is not a string is never a member's
  value.
\<close>

fun actor_claim :: "pyval \<Rightarrow> ActorType option" where
  "actor_claim (PStr v) =
     (if v = ''USER'' then Some USER else if v = ''SYSTEM'' then Some SYSTEM
      else if v = ''SERVICE_INTEGRATION'' then Some SERVICE_INTEGRATION else None)"
| "actor_claim v = None"

text \<open>
  \<open>[str(value) for value in v]\<close> validated: a list is walked through its elements, a string
  through its characters and a dict through its keys; anything else is not iterable. The
  string form of an element that is not a string is never a canonical key (it has no two
  dots), nor is a single character.
\<close>

fun canonical_value :: "pyval \<Rightarrow> bool" where
  "canonical_value (PStr s) = is_canonical_permission s"
| "canonical_value v = False"

fun check_permission_claim :: "pyval \<Rightarrow> exn + unit" where
  "check_permission_claim (PList xs) =
     (if list_all canonical_value xs then Inr () else Inl (security_error ''AUTH_TOKEN_INVALID''))"
| "check_permission_claim (PStr s) = (if s = [] then Inr () else Inl (security_error ''AUTH_TOKEN_INVALID''))"
| "check_permission_claim (PDict d) =
     (if list_all (\<lambda>(k, v). is_canonical_permission k) d then Inr () else Inl (security_error ''AUTH_TOKEN_INVALID''))"
| "check_permission_claim v = Inl (TypeError ''object is not iterable'')"

definition delegated_ok :: "pyval \<Rightarrow> bool" where
  "delegated_ok v = (case v of PDict d \<Rightarrow> non_empty_str (get_claim d ''sub'') | _ \<Rightarrow> False)"

text \<open>The checks on a payload whose signature, issuer, audience and times PyJWT accepted.\<close>

definition check_payload :: "claims \<Rightarrow> exn + claims" where
  "check_payload payload =
     (case dict_get payload ''actor_type'' of
        None \<Rightarrow> Inl (LookupError ''actor_type'')
      | Some v \<Rightarrow>
        (case actor_claim v of
           None \<Rightarrow> Inl (security_error ''AUTH_TOKEN_INVALID'')
         | Some actor_type \<Rightarrow>
           if actor_type = USER \<and> (\<not> truthy (get_claim payload ''device_id'')
                \<or> \<not> truthy (get_claim payload ''location_id'') \<or> \<not> truthy (get_claim payload ''roles''))
             then Inl (security_error ''AUTH_TOKEN_INVALID'')
           else if actor_type \<noteq> USER \<and> (truthy (get_claim payload ''device_id'')
                \<or> truthy (get_claim payload ''location_id'') \<or> truthy (get_claim payload ''roles''))
             then Inl (security_error ''AUTH_TOKEN_INVALID'')
           else if get_claim payload ''act'' \<noteq> PNone \<and> actor_type \<noteq> USER
             then Inl (security_error ''AUTH_TOKEN_INVALID'')
           else if get_claim payload ''act'' \<noteq> PNone \<and> \<not> delegated_ok (get_claim payload ''act'')
             then Inl (security_error ''AUTH_TOKEN_INVALID'')
           else (case (case dict_get payload ''permissions'' of None \<Rightarrow> Inr ()
                       | Some p \<Rightarrow> check_permission_claim p) of
                   Inl e \<Rightarrow> Inl e | Inr _ \<Rightarrow> Inr payload)))"

definition verify :: "'tok jwt_env \<Rightarrow> token_settings \<Rightarrow> int \<Rightarrow> 'tok \<Rightarrow> exn + claims" where
  "verify env st now token =
     (if \<not> is_set (security_public_key_pem st) then Inl (security_error ''SIGNING_KEY_UNAVAILABLE'')
      else case jwt_decode env token (the (security_public_key_pem st)) (security_token_issuer st)
                  (security_token_audience st) REQUIRED_CLAIMS now of
             ExpiredSignature \<Rightarrow> Inl (security_error ''AUTH_TOKEN_EXPIRED'')
           | PyJWTError \<Rightarrow> Inl (security_error ''AUTH_TOKEN_INVALID'')
           | Decoded payload \<Rightarrow> check_payload payload)"

section \<open>The published key set\<close>

text \<open>\<open>value.to_bytes((value.bit_length() + 7) // 8, "big")\<close>: big-endian, no leading zero byte.\<close>

fun to_bytes :: "nat \<Rightarrow> nat list" where
  "to_bytes n = (if n = 0 then [] else to_bytes (n div 256) @ [n mod 256])"

declare to_bytes.simps [simp del]

definition B64_ALPHABET :: string where
  "B64_ALPHABET = ''ABCDEFGHIJKLMNOPQRSTUVWXYZabcdefghijklmnopqrstuvwxyz0123456789-_''"

definition b64_char :: "nat \<Rightarrow> char" where
  "b64_char i = B64_ALPHABET ! i"

fun urlsafe_b64encode :: "nat list \<Rightarrow> string" where
  "urlsafe_b64encode [] = []"
| "urlsafe_b64encode [a] = map b64_char [a div 4, a mod 4 * 16] @ ''==''"
| "urlsafe_b64encode [a, b] = map b64_char [a div 4, a mod 4 * 16 + b div 16, b mod 16 * 4] @ ''=''"
| "urlsafe_b64encode (a # b # c # rest) =
     map b64_char [a div 4, a mod 4 * 16 + b div 16, b mod 16 * 4 + c div 64, c mod 64]
     @ urlsafe_b64encode rest"

definition rstrip_eq :: "string \<Rightarrow> string" where
  "rstrip_eq s = rev (dropWhile (\<lambda>c. c = CHR ''='') (rev s))"

definition b64url_uint :: "nat \<Rightarrow> string" where
  "b64url_uint value = rstrip_eq (urlsafe_b64encode (to_bytes value))"

record jwk =
  jwk_kty :: string
  jwk_use :: string
  jwk_alg :: string
  jwk_kid :: string
  jwk_n :: string
  jwk_e :: string

definition jwks :: "'tok jwt_env \<Rightarrow> token_settings \<Rightarrow> exn + jwk list" where
  "jwks env st =
     (if \<not> is_set (security_public_key_pem st) \<or> \<not> is_set (security_key_id st) then Inr []
      else case load_pem_public_key env (the (security_public_key_pem st)) of
             PemError \<Rightarrow> Inl (security_error ''SIGNING_KEY_UNAVAILABLE'')
           | NotRsa \<Rightarrow> Inl (SecurityError (security_error_with ''SIGNING_KEY_UNAVAILABLE''
                         (Some ''Configured signing key is not RSA'')))
           | RsaKey n e \<Rightarrow> Inr [\<lparr>jwk_kty = ''RSA'', jwk_use = ''sig'', jwk_alg = ''RS256'',
               jwk_kid = the (security_key_id st), jwk_n = b64url_uint n, jwk_e = b64url_uint e\<rparr>])"

definition signing_key_ready :: "'tok jwt_env \<Rightarrow> token_settings \<Rightarrow> bool" where
  "signing_key_ready env st =
     (if \<not> (is_set (security_private_key_pem st) \<and> is_set (security_public_key_pem st) \<and> is_set (security_key_id st))
      then False
      else case (load_pem_public_key env (the (security_public_key_pem st)),
                 load_pem_private_key env (the (security_private_key_pem st))) of
             (RsaKey n e, RsaKey n' e') \<Rightarrow> n' = n \<and> e' = e
           | _ \<Rightarrow> False)"

section \<open>Base64url numbers can be read back\<close>

text \<open>RFC 7518, section 2: the reader of a Base64urlUInt.\<close>

fun index_of :: "string \<Rightarrow> char \<Rightarrow> nat" where
  "index_of [] c = 0"
| "index_of (x # xs) c = (if x = c then 0 else Suc (index_of xs c))"

fun sextets_to_bytes :: "nat list \<Rightarrow> nat list" where
  "sextets_to_bytes (p # q # r # s # rest) =
     [p * 4 + q div 16, q mod 16 * 16 + r div 4, r mod 4 * 64 + s] @ sextets_to_bytes rest"
| "sextets_to_bytes [p, q, r] = [p * 4 + q div 16, q mod 16 * 16 + r div 4]"
| "sextets_to_bytes [p, q] = [p * 4 + q div 16]"
| "sextets_to_bytes _ = []"

definition read_b64url_uint :: "string \<Rightarrow> nat" where
  "read_b64url_uint s = foldl (\<lambda>n b. n * 256 + b) 0 (sextets_to_bytes (map (index_of B64_ALPHABET) s))"

lemma index_of_nth: "distinct xs \<Longrightarrow> i < length xs \<Longrightarrow> index_of xs (xs ! i) = i"
  by (induction xs arbitrary: i) (auto simp: nth_Cons split: nat.splits)

lemma b64_alphabet: "distinct B64_ALPHABET" "length B64_ALPHABET = 64" "CHR ''='' \<notin> set B64_ALPHABET"
  by (simp_all add: B64_ALPHABET_def)

lemma index_b64_char: "i < 64 \<Longrightarrow> index_of B64_ALPHABET (b64_char i) = i"
  by (simp add: b64_char_def index_of_nth b64_alphabet)

lemma b64_char_not_eq: "i < 64 \<Longrightarrow> b64_char i \<noteq> CHR ''=''"
  by (metis b64_alphabet(2,3) b64_char_def nth_mem)

lemma rstrip_eq_snoc: "rstrip_eq (xs @ [CHR ''='']) = rstrip_eq xs"
  by (simp add: rstrip_eq_def)

lemma rstrip_eq_keep: "xs = [] \<or> last xs \<noteq> CHR ''='' \<Longrightarrow> rstrip_eq xs = xs"
  by (cases xs rule: rev_cases) (auto simp: rstrip_eq_def)

lemma rstrip_eq_append: "rstrip_eq ys \<noteq> [] \<Longrightarrow> rstrip_eq (xs @ ys) = xs @ rstrip_eq ys"
  by (auto simp: rstrip_eq_def dropWhile_append dropWhile_eq_Nil_conv)

lemma rstrip_eq_nonempty: "x \<noteq> CHR ''='' \<Longrightarrow> rstrip_eq (x # xs) \<noteq> []"
  by (simp add: rstrip_eq_def)

lemma sextet_bounds:
  fixes a b c :: nat
  assumes "a < 256" "b < 256" "c < 256"
  shows "a div 4 < 64" "a mod 4 * 16 < 64" "a mod 4 * 16 + b div 16 < 64" "b mod 16 * 4 < 64"
    "b mod 16 * 4 + c div 64 < 64" "c mod 64 < 64"
proof -
  have d: "a div 4 < 64" "b div 16 < 16" "c div 64 < 4" using assms by (simp_all add: less_mult_imp_div_less)
  have m: "a mod 4 < 4" "b mod 16 < 16" "c mod 64 < 64" by simp_all
  show "a div 4 < 64" "c mod 64 < 64" using d(1) m(3) by this+
  show "a mod 4 * 16 < 64" "a mod 4 * 16 + b div 16 < 64" using d(2) m(1) by linarith+
  show "b mod 16 * 4 < 64" "b mod 16 * 4 + c div 64 < 64" using d(3) m(2) by linarith+
qed

lemma byte_parts [simp]:
  assumes "(b::nat) < 256"
  shows "b div 16 div 16 = 0" "b div 16 mod 16 = b div 16" "b div 64 div 4 = 0" "b div 64 mod 4 = b div 64"
proof -
  have "b div 16 < 16" "b div 64 < 4" using assms by (simp_all add: less_mult_imp_div_less)
  then show "b div 16 div 16 = 0" "b div 16 mod 16 = b div 16" "b div 64 div 4 = 0" "b div 64 mod 4 = b div 64"
    by simp_all
qed

lemma decode_encode:
  "list_all (\<lambda>b. b < 256) bs \<Longrightarrow>
     sextets_to_bytes (map (index_of B64_ALPHABET) (rstrip_eq (urlsafe_b64encode bs))) = bs"
proof (induction bs rule: urlsafe_b64encode.induct)
  case 1
  show ?case by (simp add: rstrip_eq_def)
next
  case (2 a)
  then have a: "a < 256" by simp
  have "rstrip_eq (urlsafe_b64encode [a]) = map b64_char [a div 4, a mod 4 * 16]"
    using rstrip_eq_snoc [of "map b64_char [a div 4, a mod 4 * 16] @ ''=''"]
      rstrip_eq_snoc [of "map b64_char [a div 4, a mod 4 * 16]"]
      sextet_bounds(2) [OF a a a] by (simp add: rstrip_eq_keep b64_char_not_eq)
  then show ?case using sextet_bounds [OF a a a] by (simp add: index_b64_char)
next
  case (3 a b)
  then have ab: "a < 256" "b < 256" by simp_all
  have "rstrip_eq (urlsafe_b64encode [a, b]) = map b64_char [a div 4, a mod 4 * 16 + b div 16, b mod 16 * 4]"
    using rstrip_eq_snoc [of "map b64_char [a div 4, a mod 4 * 16 + b div 16, b mod 16 * 4]"]
      sextet_bounds(4) [OF ab ab(1)] by (simp add: rstrip_eq_keep b64_char_not_eq)
  then show ?case using ab sextet_bounds [OF ab ab(2)] by (simp add: index_b64_char)
next
  case (4 a b c rest)
  then have abc: "a < 256" "b < 256" "c < 256" by simp_all
  let ?g = "map b64_char [a div 4, a mod 4 * 16 + b div 16, b mod 16 * 4 + c div 64, c mod 64]"
  have "rstrip_eq (?g @ urlsafe_b64encode rest) = ?g @ rstrip_eq (urlsafe_b64encode rest)"
  proof (cases rest)
    case Nil
    then show ?thesis using sextet_bounds(6) [OF abc]
      by (simp add: rstrip_eq_keep b64_char_not_eq)
  next
    case (Cons x xs)
    obtain y ys where y: "urlsafe_b64encode rest = b64_char (x div 4) # ys"
      unfolding Cons by (cases xs; cases "tl xs") auto
    have "x < 256" using 4 Cons by simp
    then have "rstrip_eq (urlsafe_b64encode rest) \<noteq> []"
      unfolding y by (intro rstrip_eq_nonempty b64_char_not_eq) (simp add: less_mult_imp_div_less)
    then show ?thesis by (rule rstrip_eq_append)
  qed
  then show ?case using 4 abc sextet_bounds [OF abc] by (simp add: index_b64_char)
qed

lemma to_bytes_bound: "list_all (\<lambda>b. b < 256) (to_bytes n)"
  by (induction n rule: to_bytes.induct) (subst to_bytes.simps, auto)

lemma foldl_to_bytes: "foldl (\<lambda>n b. n * 256 + b) 0 (to_bytes n) = n"
proof (induction n rule: to_bytes.induct)
  case (1 n)
  show ?case
  proof (cases "n = 0")
    case True
    then show ?thesis by (simp add: to_bytes.simps)
  next
    case False
    have "to_bytes n = to_bytes (n div 256) @ [n mod 256]" using False by (subst to_bytes.simps) simp
    then show ?thesis using 1 False by simp
  qed
qed

section \<open>Properties\<close>

text \<open>
  C28: a modulus or exponent published in the key set is read back exactly, whatever its
  size: no leading zero byte, no padding and no sign is lost.
\<close>

theorem jwk_number_roundtrip: "read_b64url_uint (b64url_uint n) = n"
  by (simp add: read_b64url_uint_def b64url_uint_def decode_encode to_bytes_bound foldl_to_bytes)

text \<open>
  What PyJWT documents: times are put on the wire as whole seconds; a token signed with the
  private key of a pair decodes with its public key to what was signed, when issuer and
  audience are the expected ones, every required claim is there, it was not issued in the
  future and it has not expired.
\<close>

fun wire_value :: "pyval \<Rightarrow> pyval" where
  "wire_value (PTime t) = PInt (t div 1000000)"
| "wire_value v = v"

definition wire :: "claims \<Rightarrow> claims" where
  "wire payload = map (\<lambda>(k, v). (k, wire_value v)) payload"

definition acceptable :: "claims \<Rightarrow> string \<Rightarrow> string \<Rightarrow> string list \<Rightarrow> int \<Rightarrow> bool" where
  "acceptable payload iss aud required now =
     (dict_get payload ''iss'' = Some (PStr iss) \<and> dict_get payload ''aud'' = Some (PStr aud)
      \<and> list_all (\<lambda>k. get_claim payload k \<noteq> PNone) required
      \<and> (case get_claim payload ''iat'' of PTime t \<Rightarrow> t div 1000000 * 1000000 \<le> now | _ \<Rightarrow> False)
      \<and> (case get_claim payload ''exp'' of PTime t \<Rightarrow> now < t div 1000000 * 1000000 | _ \<Rightarrow> False))"

definition jwt_key_pair :: "'tok jwt_env \<Rightarrow> string \<Rightarrow> string \<Rightarrow> bool" where
  "jwt_key_pair env priv pub \<longleftrightarrow>
     (\<forall>payload kid tok iss aud required now.
        jwt_encode env payload priv kid = Some tok \<longrightarrow> acceptable payload iss aud required now
        \<longrightarrow> jwt_decode env tok pub iss aud required now = Decoded (wire payload))"

lemma issue_Inr:
  "issue env st now c s = (Inr tok, t) \<longleftrightarrow>
     is_set (security_private_key_pem st) \<and> is_set (security_key_id st)
     \<and> validate_actor_claim_shape c = Inr ()
     \<and> (\<forall>p\<in>set (tc_permissions c). is_canonical_permission p)
     \<and> t = s\<lparr>uuids := (\<lambda>n. uuids s (Suc n))\<rparr>
     \<and> jwt_encode env (token_payload st c (sorted_set (tc_permissions c)) now (uuids s 0))
         (the (security_private_key_pem st)) (the (security_key_id st)) = Some tok"
  by (auto simp: issue_def success_simps validate_permissions_Inr_iff split: option.splits if_splits)

lemma issue_stays [stays_intros]: "no_commit (issue env st now c)"
  unfolding issue_def by (intro stays_intros)

lemma issue_keeps [keeps_intros]: "keeps J (issue env st now c)"
  unfolding issue_def by (intro keeps_intros)

lemma issue_working: "issue env st now c s = (r, t) \<Longrightarrow> working t = working s \<and> committed t = committed s"
  by (auto simp: issue_def run_simps split: if_splits sum.splits option.splits)

lemma actor_claim_value [simp]: "actor_claim (PStr (actor_type_value a)) = Some a"
  by (cases a) simp_all

lemma get_claim_wire: "get_claim (wire payload) k = wire_value (get_claim payload k)"
  by (induction payload) (auto simp: get_claim_def dict_get_def wire_def)

lemma dict_get_wire: "dict_get (wire payload) k = map_option wire_value (dict_get payload k)"
  by (induction payload) (auto simp: dict_get_def wire_def)

lemma wire_value_simps [simp]:
  "wire_value v = PNone \<longleftrightarrow> v = PNone"
  "actor_claim (wire_value v) = actor_claim v"
  "delegated_ok (wire_value v) = delegated_ok v"
  by (cases v; simp add: delegated_ok_def)+

lemma check_token_payload:
  assumes "validate_actor_claim_shape c = Inr ()" and "\<forall>p\<in>set ps. is_canonical_permission p"
  shows "check_payload (wire (token_payload st c ps now jti)) = Inr (wire (token_payload st c ps now jti))"
proof -
  let ?p = "token_payload st c ps now jti"
  have at: "dict_get (wire ?p) ''actor_type'' = Some (PStr (actor_type_value (tc_actor_type c)))"
    unfolding dict_get_wire by (simp add: token_payload_def dict_get_def)
  have pm: "dict_get (wire ?p) ''permissions'' = Some (PList (map PStr ps))"
    unfolding dict_get_wire by (simp add: token_payload_def dict_get_def)
  have ro: "get_claim (wire ?p) ''roles'' = (if tc_roles c \<noteq> [] then PList (map PStr (tc_roles c)) else PNone)"
    unfolding get_claim_wire by (simp add: get_claim_def token_payload_def dict_get_def opt_claim_def)
  have de: "get_claim (wire ?p) ''device_id'' = (if is_set (tc_device_id c) then PStr (the (tc_device_id c)) else PNone)"
    unfolding get_claim_wire by (simp add: get_claim_def token_payload_def dict_get_def opt_claim_def)
  have lo: "get_claim (wire ?p) ''location_id'' = (if is_set (tc_location_id c) then PStr (the (tc_location_id c)) else PNone)"
    unfolding get_claim_wire by (simp add: get_claim_def token_payload_def dict_get_def opt_claim_def)
  have ac: "get_claim (wire ?p) ''act'' = (if is_set (tc_delegated_actor_id c)
      then PDict [(''sub'', PStr (the (tc_delegated_actor_id c)))] else PNone)"
    unfolding get_claim_wire by (simp add: get_claim_def token_payload_def dict_get_def opt_claim_def)
  have cl: "check_permission_claim (PList (map PStr ps)) = Inr ()"
    using assms(2) by (simp add: list_all_iff)
  have dl: "delegated_ok (PDict [(''sub'', PStr x)])" if "x \<noteq> []" for x
    using that by (simp add: delegated_ok_def non_empty_str_def get_claim_def dict_get_def)
  show ?thesis
  proof (cases "tc_actor_type c = USER")
    case True
    then have "is_set (tc_device_id c)" "is_set (tc_location_id c)" "tc_roles c \<noteq> []"
      using assms(1) by (auto simp: validate_actor_claim_shape_def split: if_splits)
    then show ?thesis using True dl
      unfolding check_payload_def at ro de lo ac pm option.case cl actor_claim_value sum.case
      by (auto simp: is_set_def simp del: check_permission_claim.simps actor_claim.simps)
  next
    case False
    then have "\<not> is_set (tc_device_id c)" "\<not> is_set (tc_location_id c)" "tc_roles c = []" "tc_delegated_actor_id c = None"
      using assms(1) by (auto simp: validate_actor_claim_shape_def split: if_splits)
    then show ?thesis using False
      unfolding check_payload_def at ro de lo ac pm option.case cl actor_claim_value sum.case
      by (auto simp: is_set_def simp del: check_permission_claim.simps actor_claim.simps)
  qed
qed

lemma acceptable_token_payload:
  assumes "issued \<le> later" and "later < tc_expires_at c div 1000000 * 1000000"
  shows "acceptable (token_payload st c ps issued jti) (security_token_issuer st) (security_token_audience st)
           REQUIRED_CLAIMS later"
proof -
  have "issued div 1000000 * 1000000 \<le> issued" by (metis div_mult_mod_eq le_add_same_cancel1 pos_mod_sign zero_less_numeral)
  then show ?thesis using assms
    by (simp add: acceptable_def REQUIRED_CLAIMS_def get_claim_def dict_get_def token_payload_def)
qed


text \<open>A signature scheme that keeps the documented contract: the token is the signed payload.\<close>

definition plain_jwt :: "(claims \<times> string) jwt_env" where
  "plain_jwt = \<lparr>jwt_encode = (\<lambda>p k kid. Some (p, k)),
     jwt_decode = (\<lambda>(p, k) pub iss aud required now.
        if k = ''private'' \<and> pub = ''public'' \<and> acceptable p iss aud required now then Decoded (wire p) else PyJWTError),
     load_pem_public_key = (\<lambda>_. RsaKey 3233 17), load_pem_private_key = (\<lambda>_. RsaKey 3233 17)\<rparr>"

definition sample_settings :: token_settings where
  "sample_settings = \<lparr>security_private_key_pem = Some ''private'', security_public_key_pem = Some ''public'',
     security_key_id = Some ''k1'', security_token_issuer = ''verigence'', security_token_audience = ''apps''\<rparr>"

definition sample_claims :: AccessTokenClaims where
  "sample_claims = \<lparr>tc_principal_id = ''u1'', tc_actor_type = USER, tc_tenant_id = ''t1'',
     tc_access_session_id = ''s1'', tc_permissions = [''di.case.read'', ''di.case.list''], tc_expires_at = 60000000,
     tc_roles = [''di.agent''], tc_device_id = Some ''d1'', tc_location_id = Some ''l1'',
     tc_delegated_actor_id = None, tc_subject = None\<rparr>"

lemma plain_jwt_pair: "jwt_key_pair plain_jwt ''private'' ''public''"
  by (simp add: jwt_key_pair_def plain_jwt_def)

lemma sample_permissions: "is_canonical_permission ''di.case.read''" "is_canonical_permission ''di.case.list''"
  by (simp_all add: is_canonical_permission_def PERMISSION_def fullmatch_def Plus_def Lit_def numeral_2_eq_2
      perm_head_char_def perm_tail_char_def ascii_lower_def ascii_digit_def less_eq_char_def)

definition empty_session :: "unit session" where
  "empty_session = fresh_session () (\<lambda>_. ''jti'')"

lemma sample_issue:
  "issue plain_jwt sample_settings 1000000 sample_claims empty_session
     = (Inr (token_payload sample_settings sample_claims [''di.case.list'', ''di.case.read''] 1000000 ''jti'', ''private''),
        empty_session)"
proof -
  have "sorted_set [''di.case.read'', ''di.case.list''] = [''di.case.list'', ''di.case.read'']"
    by (simp add: sorted_set_def)
  then show ?thesis
    using sample_permissions
    by (simp add: issue_def run_simps sample_settings_def sample_claims_def is_set_def validate_actor_claim_shape_def
        validate_permissions_def plain_jwt_def empty_session_def fresh_session_def)
qed


text \<open>
  C20: claims are handed on only if they have the shape of their actor: a USER token names a
  device, a location and roles and may carry a delegated actor with a non-empty subject; a
  machine token carries none of the four; and the permission claim, when it is a list, holds
  canonical keys only.
\<close>

theorem verified_claims_shape:
  assumes "verify env st now tok = Inr payload"
  shows "\<exists>a. actor_claim (get_claim payload ''actor_type'') = Some a
    \<and> (a = USER \<longleftrightarrow> truthy (get_claim payload ''device_id''))
    \<and> (a = USER \<longleftrightarrow> truthy (get_claim payload ''location_id''))
    \<and> (a = USER \<longleftrightarrow> truthy (get_claim payload ''roles''))
    \<and> (get_claim payload ''act'' \<noteq> PNone \<longrightarrow> a = USER \<and> delegated_ok (get_claim payload ''act''))
    \<and> (\<forall>xs. get_claim payload ''permissions'' = PList xs
          \<longrightarrow> set xs \<subseteq> PStr ` {p. is_canonical_permission p})"
proof -
  from assms have "check_payload payload = Inr payload"
    by (auto simp: verify_def check_payload_def split: if_splits jwt_result.splits option.splits sum.splits)
  then obtain v a where v: "dict_get payload ''actor_type'' = Some v" "actor_claim v = Some a"
    and sh: "\<not> (a = USER \<and> (\<not> truthy (get_claim payload ''device_id'')
                \<or> \<not> truthy (get_claim payload ''location_id'') \<or> \<not> truthy (get_claim payload ''roles'')))"
      "\<not> (a \<noteq> USER \<and> (truthy (get_claim payload ''device_id'')
                \<or> truthy (get_claim payload ''location_id'') \<or> truthy (get_claim payload ''roles'')))"
      "\<not> (get_claim payload ''act'' \<noteq> PNone \<and> a \<noteq> USER)"
      "\<not> (get_claim payload ''act'' \<noteq> PNone \<and> \<not> delegated_ok (get_claim payload ''act''))"
    and pm: "(case dict_get payload ''permissions'' of None \<Rightarrow> Inr () | Some p \<Rightarrow> check_permission_claim p) = Inr ()"
    unfolding check_payload_def by (auto split: option.splits if_splits sum.splits)
  have val: "\<exists>p. is_canonical_permission p \<and> x = PStr p" if "canonical_value x" for x
    using that by (cases x) auto
  have "set xs \<subseteq> PStr ` {p. is_canonical_permission p}" if "get_claim payload ''permissions'' = PList xs" for xs
  proof -
    from that have "dict_get payload ''permissions'' = Some (PList xs)"
      by (auto simp: get_claim_def split: option.splits)
    then have "list_all canonical_value xs" using pm by (simp split: if_splits)
    then show ?thesis using val by (auto simp: list_all_iff)
  qed
  then show ?thesis using v sh by (intro exI [of _ a]) (auto simp: get_claim_def)
qed

theorem verified_claims_shape_witness:
  "\<exists>a. actor_claim (PStr ''USER'') = Some a \<and> (a = USER \<longleftrightarrow> truthy (PStr ''d1''))"
proof -
  let ?p = "token_payload sample_settings sample_claims [''di.case.list'', ''di.case.read''] 1000000 ''jti''"
  have v: "verify plain_jwt sample_settings 2000000 (?p, ''private'') = Inr (wire ?p)"
  proof -
    have "acceptable ?p ''verigence'' ''apps'' REQUIRED_CLAIMS 2000000"
      using acceptable_token_payload [of 1000000 2000000 sample_claims sample_settings]
      by (simp add: sample_claims_def sample_settings_def)
    moreover have "check_payload (wire ?p) = Inr (wire ?p)"
      using sample_permissions by (intro check_token_payload)
        (simp_all add: validate_actor_claim_shape_def sample_claims_def is_set_def)
    ultimately show ?thesis by (simp add: verify_def plain_jwt_def sample_settings_def is_set_def)
  qed
  have "get_claim (wire ?p) ''actor_type'' = PStr ''USER''" "get_claim (wire ?p) ''device_id'' = PStr ''d1''"
    unfolding get_claim_wire
    by (simp_all add: get_claim_def dict_get_def token_payload_def sample_claims_def opt_claim_def is_set_def)
  then show ?thesis using verified_claims_shape [OF v] by metis
qed

end
