(* ===== verification/PyStrings.thy ===== *)
theory PyStrings
  imports Prelude
begin

text \<open>
  The methods of \<open>str\<close> the registration of users is written with. A character is a Latin-1 code
  point: what the methods do on code points above 255 is outside the model.
\<close>

section \<open>Characters\<close>

text \<open>\<open>str.isspace\<close>, \<open>str.isdigit\<close>, \<open>str.lower\<close> and \<open>str.upper\<close> on one character.\<close>

definition py_space :: "char \<Rightarrow> bool" where
  "py_space c = (let n = of_char c :: nat in 9 \<le> n \<and> n \<le> 13 \<or> 28 \<le> n \<and> n \<le> 32 \<or> n = 133 \<or> n = 160)"

text \<open>Superscript two, three and one are digits.\<close>

definition py_digit :: "char \<Rightarrow> bool" where
  "py_digit c = (let n = of_char c :: nat in 48 \<le> n \<and> n \<le> 57 \<or> n = 178 \<or> n = 179 \<or> n = 185)"

definition py_lower_char :: "char \<Rightarrow> char" where
  "py_lower_char c = (let n = of_char c :: nat in
     if 65 \<le> n \<and> n \<le> 90 \<or> 192 \<le> n \<and> n \<le> 222 \<and> n \<noteq> 215 then char_of (n + 32) else c)"

definition py_upper_char :: "char \<Rightarrow> char" where
  "py_upper_char c = (let n = of_char c :: nat in
     if 97 \<le> n \<and> n \<le> 122 \<or> 224 \<le> n \<and> n \<le> 254 \<and> n \<noteq> 247 then char_of (n - 32) else c)"

definition sharp_s :: char where
  "sharp_s = char_of (223 :: nat)"

section \<open>Strings\<close>

definition py_lower :: "string \<Rightarrow> string" where
  "py_lower s = map py_lower_char s"

definition py_upper :: "string \<Rightarrow> string" where
  "py_upper s = concat (map (\<lambda>c. if c = sharp_s then ''SS'' else [py_upper_char c]) s)"

definition py_casefold :: "string \<Rightarrow> string" where
  "py_casefold s = concat (map (\<lambda>c. if c = sharp_s then ''ss'' else [py_lower_char c]) s)"

definition py_lstrip :: "string \<Rightarrow> string" where
  "py_lstrip s = dropWhile py_space s"

definition py_strip :: "string \<Rightarrow> string" where
  "py_strip s = rev (dropWhile py_space (rev (dropWhile py_space s)))"

text \<open>\<open>str.split()\<close> without an argument, and \<open>" ".join(parts)\<close>.\<close>

function py_split :: "string \<Rightarrow> string list" where
  "py_split s = (let t = dropWhile py_space s in
     if t = [] then [] else takeWhile (\<lambda>c. \<not> py_space c) t # py_split (dropWhile (\<lambda>c. \<not> py_space c) t))"
  by pat_completeness auto

termination
proof (relation "measure length")
  fix s t assume t: "t = dropWhile py_space s" "t \<noteq> []"
  then have "\<not> py_space (hd t)" using hd_dropWhile by metis
  then have "length (dropWhile (\<lambda>c. \<not> py_space c) t) < length t"
    using t(2) by (cases t) (auto simp: length_dropWhile_le le_imp_less_Suc)
  then show "(dropWhile (\<lambda>c. \<not> py_space c) t, s) \<in> measure length"
    using t(1) length_dropWhile_le [of py_space s] by simp
qed simp

declare py_split.simps [simp del]

fun join_with :: "string \<Rightarrow> string list \<Rightarrow> string" where
  "join_with sep [] = []"
| "join_with sep [x] = x"
| "join_with sep (x # xs) = x @ sep @ join_with sep xs"

definition ends_with :: "string \<Rightarrow> string \<Rightarrow> bool" where
  "ends_with p s = starts_with (rev p) (rev s)"

definition remove_prefix :: "string \<Rightarrow> string \<Rightarrow> string" where
  "remove_prefix p s = (if starts_with p s then drop (length p) s else s)"

section \<open>Facts\<close>

lemma py_lower_char_idem [simp]: "py_lower_char (py_lower_char c) = py_lower_char c"
proof -
  have n: "(of_char c :: nat) < 256" by simp
  show ?thesis
    by (cases "65 \<le> (of_char c :: nat) \<and> (of_char c :: nat) \<le> 90 \<or> 192 \<le> (of_char c :: nat) \<and> (of_char c :: nat) \<le> 222 \<and> (of_char c :: nat) \<noteq> 215")
      (auto simp: py_lower_char_def Let_def of_char_of)
qed

lemma py_lower_idem [simp]: "py_lower (py_lower s) = py_lower s"
  by (simp add: py_lower_def)

lemma py_space_lower [simp]: "py_space (py_lower_char c) = py_space c"
proof -
  have n: "(of_char c :: nat) < 256" by simp
  show ?thesis
    by (cases "65 \<le> (of_char c :: nat) \<and> (of_char c :: nat) \<le> 90 \<or> 192 \<le> (of_char c :: nat) \<and> (of_char c :: nat) \<le> 222 \<and> (of_char c :: nat) \<noteq> 215")
      (auto simp: py_lower_char_def py_space_def Let_def of_char_of)
qed

lemma py_lower_strip: "py_lower (py_strip s) = py_strip (py_lower s)"
  by (simp add: py_lower_def py_strip_def dropWhile_map comp_def rev_map [symmetric] del: rev_map)
    (simp add: rev_map dropWhile_map comp_def)

lemma py_strip_idem [simp]: "py_strip (py_strip s) = py_strip s"
proof -
  define t where "t = dropWhile py_space s"
  have first: "t = [] \<or> \<not> py_space (hd t)" unfolding t_def using hd_dropWhile by blast
  define u where "u = dropWhile py_space (rev t)"
  have "dropWhile py_space (rev u) = rev u"
  proof (cases u)
    case (Cons c cs)
    then have "rev u \<noteq> []" by simp
    have "rev t = takeWhile py_space (rev t) @ u" unfolding u_def by simp
    then obtain p where "rev t = p @ u" ..
    then have "t = rev u @ rev p" by (metis rev_append rev_rev_ident)
    then have "\<not> py_space (hd (rev u))" using first \<open>rev u \<noteq> []\<close> by (cases "rev u") auto
    then show ?thesis using \<open>rev u \<noteq> []\<close> by (cases "rev u") auto
  qed simp
  moreover have "dropWhile py_space u = u" unfolding u_def by (metis dropWhile_eq_self_iff hd_dropWhile)
  ultimately show ?thesis unfolding py_strip_def t_def [symmetric] u_def [symmetric] by simp
qed

lemma py_split_words: "w \<in> set (py_split s) \<Longrightarrow> w \<noteq> [] \<and> (\<forall>c\<in>set w. \<not> py_space c)"
proof (induction s rule: py_split.induct)
  case (1 s)
  let ?t = "dropWhile py_space s"
  show ?case
  proof (cases "?t = []")
    case False
    then have hd: "\<not> py_space (hd ?t)" using hd_dropWhile by blast
    from "1.prems" False have "w = takeWhile (\<lambda>c. \<not> py_space c) ?t \<or> w \<in> set (py_split (dropWhile (\<lambda>c. \<not> py_space c) ?t))"
      by (subst (asm) py_split.simps) (auto simp: Let_def split: if_splits)
    then show ?thesis
    proof
      assume "w = takeWhile (\<lambda>c. \<not> py_space c) ?t"
      then show ?thesis using False hd by (cases ?t) (auto dest: set_takeWhileD)
    qed (use "1.IH" False in blast)
  qed (use "1.prems" in \<open>simp add: py_split.simps\<close>)
qed

end
