(* ===== verification/AccessService.thy ===== *)
theory AccessService
  imports SecurityRepository Tokens PyStrings
begin

text \<open>
  \<open>services/access_service.py\<close> with \<open>adapters/network_risk.py\<close>: creating or reusing the access
  session of a user on a device, issuing a machine token, and exchanging a user token. The
  clock is read once by the service (\<open>now\<close>) and once more by the token service (\<open>signed_at\<close>);
  the network risk adapter, the digest function, the time zone data and PyJWT are fields of
  the environment.
\<close>

section \<open>Environment\<close>

record NetworkRiskResult =
  nr_vpn_status :: VpnStatus
  nr_risk_reasons :: "string list"
  nr_provider_reference :: "string option"

type_synonym network_adapter = "string \<Rightarrow> string \<Rightarrow> exn + NetworkRiskResult"

definition MockNetworkRiskAdapter :: "VpnStatus \<Rightarrow> network_adapter" where
  "MockNetworkRiskAdapter status source_ip correlation_id =
     Inr \<lparr>nr_vpn_status = status, nr_risk_reasons = [''DEV_MOCK''], nr_provider_reference = None\<rparr>"

definition UnknownNetworkRiskAdapter :: network_adapter where
  "UnknownNetworkRiskAdapter source_ip correlation_id =
     Inr \<lparr>nr_vpn_status = UNKNOWN_VPN, nr_risk_reasons = [''PROVIDER_NOT_CONFIGURED''], nr_provider_reference = None\<rparr>"

record 'tok access_env =
  env_repo :: repository
  env_network :: network_adapter
  env_jwt :: "'tok jwt_env"
  env_settings :: token_settings
  env_zoneinfo :: "string \<Rightarrow> zone option"
  env_sha256_hex :: "string \<Rightarrow> string"

record AuthenticatedIdentity =
  id_provider :: string
  id_provider_subject :: string
  id_session_id :: string

definition seconds :: "int \<Rightarrow> int" where
  "seconds n = n * 1000000"

definition minutes :: "int \<Rightarrow> int" where
  "minutes n = n * 60000000"

section \<open>The gates of user access\<close>

definition require_open_tenant :: "string \<Rightarrow> unit dbact" where
  "require_open_tenant tenant_id =
     bindM (tenant_status tenant_id) (\<lambda>status.
       seqM (raise_if (status \<in> {''OFFBOARDING'', ''OFFBOARDED''}) (security_error ''TENANT_OFFBOARDING''))
       (raise_if (status \<noteq> ''ACTIVE'') (security_error ''TENANT_NOT_ACTIVE'')))"

text \<open>The sample against the policy, the assigned location it is at, and the schedule there.\<close>

definition match_assigned_location ::
  "TenantPolicy \<Rightarrow> GeoSample \<Rightarrow> string \<Rightarrow> string \<Rightarrow> int \<Rightarrow> (LocationCandidate \<times> real) dbact" where
  "match_assigned_location policy geo user_id tenant_id now =
     seqM (liftM (validate_geo geo (max_geo_accuracy_meters policy) (max_geo_age_seconds policy) now))
     (bindM (assigned_locations user_id tenant_id now) (\<lambda>candidates.
        liftM (match_location geo candidates)))"

definition check_schedule ::
  "'tok access_env \<Rightarrow> LocationCandidate \<Rightarrow> string \<Rightarrow> string \<Rightarrow> int \<Rightarrow> ScheduleDecision dbact" where
  "check_schedule env location user_id tenant_id now =
     seqM (ensure_active_schedule tenant_id (lc_schedule_id location))
     (bindM (schedule_windows tenant_id (lc_schedule_id location)) (\<lambda>windows.
      bindM (active_override_until tenant_id user_id (lc_location_id location) now) (\<lambda>override.
        liftM (evaluate_schedule (env_zoneinfo env) now (lc_timezone_iana location) windows override))))"

definition check_network :: "TenantPolicy \<Rightarrow> NetworkRiskResult \<Rightarrow> unit dbact" where
  "check_network policy risk =
     seqM (raise_if (nr_vpn_status risk = DETECTED \<and> vpn_detected_action policy = policy_action_value DENY)
             (security_error ''VPN_ACCESS_DENIED''))
     (raise_if (nr_vpn_status risk = UNKNOWN_VPN \<and> vpn_unknown_action policy = policy_action_value DENY)
             (security_error ''NETWORK_RISK_UNKNOWN_DENIED''))"

definition current_permissions ::
  "'tok access_env \<Rightarrow> string \<Rightarrow> string \<Rightarrow> int \<Rightarrow> (string list \<times> string list) dbact" where
  "current_permissions env tenant_id user_id now =
     bindM (effective_permissions (env_repo env) tenant_id user_id now) (\<lambda>(roles, database_permissions).
     bindM (liftM (validate_permissions database_permissions)) (\<lambda>permissions. returnM (roles, permissions)))"

text \<open>What the gates found out.\<close>

record admission =
  ad_user_id :: string
  ad_context :: UserContext
  ad_policy :: TenantPolicy
  ad_location :: LocationCandidate
  ad_distance :: real
  ad_schedule :: ScheduleDecision
  ad_roles :: "string list"
  ad_permissions :: "string list"

definition admit ::
  "'tok access_env \<Rightarrow> int \<Rightarrow> NetworkRiskResult \<Rightarrow> AuthenticatedIdentity \<Rightarrow> string \<Rightarrow> string \<Rightarrow> GeoSample
     \<Rightarrow> admission dbact" where
  "admit env now risk identity tenant_id device_id geo =
     seqM (require_open_tenant tenant_id)
     (bindM (resolve_identity_user (id_provider identity) (id_provider_subject identity)) (\<lambda>user_id.
      bindM (get_user_context (env_repo env) user_id tenant_id now) (\<lambda>context.
      bindM (get_tenant_policy tenant_id) (\<lambda>policy.
      seqM (lock_active_device user_id tenant_id device_id)
      (bindM (match_assigned_location policy geo user_id tenant_id now) (\<lambda>(location, distance).
       bindM (check_schedule env location user_id tenant_id now) (\<lambda>schedule.
       seqM (check_network policy risk)
       (bindM (current_permissions env tenant_id user_id now) (\<lambda>(roles, permissions).
        returnM \<lparr>ad_user_id = user_id, ad_context = context, ad_policy = policy, ad_location = location,
                 ad_distance = distance, ad_schedule = schedule, ad_roles = roles, ad_permissions = permissions\<rparr>)))))))))"

section \<open>The session\<close>

definition session_expiry :: "TenantPolicy \<Rightarrow> int \<Rightarrow> int \<Rightarrow> int \<Rightarrow> int" where
  "session_expiry policy now session_max_end authorized_until =
     min (now + minutes (access_token_ttl_minutes policy))
      (min (now + seconds (geo_revalidation_interval_seconds policy))
       (min session_max_end authorized_until))"

text \<open>Reuse the active session of the device if there is one, else create one.\<close>

definition open_session ::
  "'tok access_env \<Rightarrow> int \<Rightarrow> NetworkRiskResult \<Rightarrow> AuthenticatedIdentity \<Rightarrow> string \<Rightarrow> string \<Rightarrow> string \<Rightarrow> admission
     \<Rightarrow> (string \<times> int) dbact" where
  "open_session env now risk identity tenant_id device_id source_ip a =
     seqM (expire_stale_user_sessions tenant_id (ad_user_id a) device_id now)
     (bindM (active_user_session tenant_id (ad_user_id a) device_id) (\<lambda>active.
        case active of
          Some row \<Rightarrow>
            seqM (raise_if (as_location row \<noteq> Some (lc_location_id (ad_location a)))
                    (security_error ''ACCESS_SESSION_CONTEXT_CONFLICT''))
            (let session_max_end = as_started row + minutes (session_max_duration_minutes (ad_policy a));
                 expiry = session_expiry (ad_policy a) now session_max_end (sd_authorized_until_utc (ad_schedule a))
             in seqM (update_reused_user_session (as_id row) source_ip (vpn_status_value (nr_vpn_status risk))
                        (uc_authorization_version (ad_context a)) expiry now)
                (returnM (as_id row, expiry)))
        | None \<Rightarrow>
            (let session_max_end = now + minutes (session_max_duration_minutes (ad_policy a));
                 expiry = session_expiry (ad_policy a) now session_max_end (sd_authorized_until_utc (ad_schedule a))
             in bindM (create_user_session (env_repo env)
                  \<lparr>ns_tenant = tenant_id, ns_user = ad_user_id a, ns_membership = uc_membership_id (ad_context a),
                   ns_device = device_id, ns_location = lc_location_id (ad_location a),
                   ns_source = id_provider identity, ns_version = uc_authorization_version (ad_context a),
                   ns_ip = source_ip, ns_vpn = vpn_status_value (nr_vpn_status risk), ns_expires = expiry, ns_now = now\<rparr>)
                (\<lambda>session_id. returnM (session_id, expiry)))))"

definition user_evaluation ::
  "string \<Rightarrow> string \<Rightarrow> string \<Rightarrow> GeoSample \<Rightarrow> admission \<Rightarrow> NetworkRiskResult \<Rightarrow> string \<Rightarrow> string \<Rightarrow> int \<Rightarrow> evaluation" where
  "user_evaluation evaluation_id session_id tenant_id geo a risk source_ip correlation_id now =
     \<lparr>ev_id = evaluation_id, ev_session = Some session_id, ev_tenant = tenant_id, ev_principal = ad_user_id a,
      ev_actor_type = actor_type_value USER, ev_latitude = Some (gs_latitude geo),
      ev_longitude = Some (gs_longitude geo), ev_accuracy = Some (gs_accuracy_meters geo),
      ev_captured_at = Some (gs_captured_at geo), ev_geo_source = Some (geo_source_value (gs_source geo)),
      ev_geo_integrity = Some (geo_integrity_value (gs_integrity_status geo)),
      ev_geo_reason = gs_integrity_reason geo, ev_location = Some (lc_location_id (ad_location a)),
      ev_distance = Some (ad_distance a), ev_local_time = Some (sd_local_time (ad_schedule a)),
      ev_timezone = Some (lc_timezone_iana (ad_location a)), ev_schedule = Some (lc_schedule_id (ad_location a)),
      ev_ip = Some source_ip, ev_vpn = Some (vpn_status_value (nr_vpn_status risk)), ev_decision = ''ALLOW'',
      ev_reason_code = ''ACCESS_GRANTED'', ev_correlation = correlation_id, ev_evaluated_at = now\<rparr>"

definition user_token_claims :: "string \<Rightarrow> string \<Rightarrow> string \<Rightarrow> admission \<Rightarrow> int \<Rightarrow> AccessTokenClaims" where
  "user_token_claims tenant_id session_id device_id a expiry =
     \<lparr>tc_principal_id = ad_user_id a, tc_actor_type = USER, tc_tenant_id = tenant_id,
      tc_access_session_id = session_id, tc_permissions = ad_permissions a, tc_expires_at = expiry,
      tc_roles = ad_roles a, tc_device_id = Some device_id,
      tc_location_id = Some (lc_location_id (ad_location a)), tc_delegated_actor_id = None, tc_subject = None\<rparr>"

record 'tok access_result =
  ar_session_id :: string
  ar_token :: 'tok
  ar_expires :: int
  ar_actor_type :: string
  ar_tenant_id :: string
  ar_device_id :: string
  ar_location_id :: string
  ar_roles :: "string list"
  ar_permissions :: "string list"

definition create_or_reuse ::
  "'tok access_env \<Rightarrow> int \<Rightarrow> int \<Rightarrow> AuthenticatedIdentity \<Rightarrow> string \<Rightarrow> string \<Rightarrow> GeoSample \<Rightarrow> string \<Rightarrow> string
     \<Rightarrow> 'tok access_result dbact" where
  "create_or_reuse env now signed_at identity tenant_id device_id geo source_ip correlation_id =
     bindM (liftM (env_network env source_ip correlation_id)) (\<lambda>risk.
     rollback_on_error
       (bindM (admit env now risk identity tenant_id device_id geo) (\<lambda>a.
        bindM (open_session env now risk identity tenant_id device_id source_ip a) (\<lambda>(session_id, expiry).
        bindM uuid4 (\<lambda>evaluation_id.
        seqM (record_evaluation (user_evaluation evaluation_id session_id tenant_id geo a risk source_ip correlation_id now))
        (bindM (issue (env_jwt env) (env_settings env) signed_at (user_token_claims tenant_id session_id device_id a expiry))
          (\<lambda>token.
           seqM commit
             (returnM \<lparr>ar_session_id = session_id, ar_token = token, ar_expires = expiry,
                ar_actor_type = actor_type_value USER, ar_tenant_id = tenant_id, ar_device_id = device_id,
                ar_location_id = lc_location_id (ad_location a), ar_roles = ad_roles a,
                ar_permissions = ad_permissions a\<rparr>))))))))"

section \<open>Machine tokens\<close>

definition hex_digit :: "char \<Rightarrow> bool" where
  "hex_digit c = (c \<in> set ''0123456789abcdef'')"

definition authenticate_credential :: "'tok access_env \<Rightarrow> string \<Rightarrow> string \<Rightarrow> int \<Rightarrow> MachineCredential dbact" where
  "authenticate_credential env client_id client_secret now =
     bindM (machine_credential client_id now) (\<lambda>credential.
       let verifier = py_lower (py_strip (mc_secret_hash credential)) in
       seqM (raise_if (length verifier \<noteq> 64 \<or> list_ex (\<lambda>c. \<not> hex_digit c) verifier)
               (security_error ''MACHINE_CREDENTIAL_INVALID''))
       (seqM (raise_if (verifier \<noteq> env_sha256_hex env client_secret) (security_error ''MACHINE_CREDENTIAL_INVALID''))
       (returnM credential)))"

definition requested_permission_list :: "string list \<Rightarrow> exn + string list" where
  "requested_permission_list requested_permissions =
     (let requested = filter (\<lambda>p. p \<noteq> []) requested_permissions
      in if requested = [] then Inl (security_error ''PERMISSION_DENIED'') else validate_permissions requested)"

definition authorized_permissions ::
  "MachineCredential \<Rightarrow> string \<Rightarrow> string list \<Rightarrow> int \<Rightarrow> string list dbact" where
  "authorized_permissions credential tenant_id requested_permissions now =
     bindM (liftM (requested_permission_list requested_permissions)) (\<lambda>requested.
     bindM (machine_permissions (mc_principal_id credential) tenant_id now) (\<lambda>held.
     bindM (liftM (validate_permissions held)) (\<lambda>allowed.
     seqM (raise_if (\<not> set requested \<subseteq> set allowed) (security_error ''PERMISSION_DENIED''))
     (returnM requested))))"

definition machine_evaluation ::
  "string \<Rightarrow> string \<Rightarrow> string \<Rightarrow> MachineCredential \<Rightarrow> string \<Rightarrow> string \<Rightarrow> int \<Rightarrow> evaluation" where
  "machine_evaluation evaluation_id session_id tenant_id credential source_ip correlation_id now =
     \<lparr>ev_id = evaluation_id, ev_session = Some session_id, ev_tenant = tenant_id,
      ev_principal = mc_principal_id credential, ev_actor_type = actor_type_value (mc_actor_type credential),
      ev_latitude = None, ev_longitude = None, ev_accuracy = None, ev_captured_at = None, ev_geo_source = None,
      ev_geo_integrity = None, ev_geo_reason = None, ev_location = None, ev_distance = None, ev_local_time = None,
      ev_timezone = None, ev_schedule = None, ev_ip = Some source_ip, ev_vpn = None, ev_decision = ''ALLOW'',
      ev_reason_code = ''MACHINE_ACCESS_GRANTED'', ev_correlation = correlation_id, ev_evaluated_at = now\<rparr>"

record 'tok machine_result =
  mr_token :: 'tok
  mr_expires :: int
  mr_permissions :: "string list"

definition issue_machine_token ::
  "'tok access_env \<Rightarrow> int \<Rightarrow> int \<Rightarrow> string \<Rightarrow> string \<Rightarrow> string \<Rightarrow> string list \<Rightarrow> string \<Rightarrow> string
     \<Rightarrow> 'tok machine_result dbact" where
  "issue_machine_token env now signed_at client_id client_secret tenant_id requested_permissions source_ip correlation_id =
     rollback_on_error
       (bindM (authenticate_credential env client_id client_secret now) (\<lambda>credential.
        seqM (require_open_tenant tenant_id)
        (bindM (get_tenant_policy tenant_id) (\<lambda>policy.
        bindM (authorized_permissions credential tenant_id requested_permissions now) (\<lambda>permissions.
        let expiry = now + minutes (machine_token_ttl_minutes policy) in
        bindM (create_machine_session (mc_principal_id credential) (mc_actor_type credential) tenant_id
                 (mc_credential_id credential) source_ip expiry now) (\<lambda>session_id.
        bindM uuid4 (\<lambda>evaluation_id.
        seqM (record_evaluation (machine_evaluation evaluation_id session_id tenant_id credential source_ip correlation_id now))
        (bindM (issue (env_jwt env) (env_settings env) signed_at
             \<lparr>tc_principal_id = mc_principal_id credential, tc_actor_type = mc_actor_type credential,
              tc_tenant_id = tenant_id, tc_access_session_id = session_id, tc_permissions = permissions,
              tc_expires_at = expiry, tc_roles = [], tc_device_id = None, tc_location_id = None,
              tc_delegated_actor_id = None, tc_subject = Some (mc_client_id credential)\<rparr>) (\<lambda>token.
        seqM (mark_machine_credential_used (mc_credential_id credential) now)
        (seqM commit
        (returnM \<lparr>mr_token = token, mr_expires = expiry, mr_permissions = permissions\<rparr>)))))))))))"

section \<open>Token exchange\<close>

text \<open>\<open>isinstance(v, (int, float))\<close> (a bool is an int) and \<open>datetime.fromtimestamp(float(v), UTC)\<close>.\<close>

fun numeric_claim :: "pyval \<Rightarrow> real option" where
  "numeric_claim (PInt i) = Some (real_of_int i)"
| "numeric_claim (PFloat r) = Some r"
| "numeric_claim (PBool b) = Some (if b then 1 else 0)"
| "numeric_claim v = None"

definition fromtimestamp :: "real \<Rightarrow> int" where
  "fromtimestamp r = round (r * 1000000)"

text \<open>The claims the exchange insists on, read out of the verified payload.\<close>

record subject_claims =
  su_subject :: string
  su_tenant_id :: string
  su_session_id :: string
  su_roles :: "string list"
  su_device_id :: string
  su_location_id :: string
  su_permissions :: "string list"
  su_expires_at :: real

definition str_claim :: "claims \<Rightarrow> string \<Rightarrow> string option" where
  "str_claim payload key = (case get_claim payload key of PStr s \<Rightarrow> if s = [] then None else Some s | _ \<Rightarrow> None)"

definition read_subject_claims :: "claims \<Rightarrow> subject_claims option" where
  "read_subject_claims payload =
     (case (str_claim payload ''sub'', str_claim payload ''tenant_id'', str_claim payload ''access_session_id'',
            str_list (get_claim payload ''roles''), str_claim payload ''device_id'', str_claim payload ''location_id'',
            str_list (get_claim payload ''permissions''), numeric_claim (get_claim payload ''exp'')) of
        (Some sub, Some tn, Some sid, Some roles, Some dev, Some loc, Some perms, Some ex) \<Rightarrow>
          Some \<lparr>su_subject = sub, su_tenant_id = tn, su_session_id = sid, su_roles = roles, su_device_id = dev,
                su_location_id = loc, su_permissions = perms, su_expires_at = ex\<rparr>
      | _ \<Rightarrow> None)"

definition exchange_user_token ::
  "'tok access_env \<Rightarrow> int \<Rightarrow> int \<Rightarrow> int \<Rightarrow> string \<Rightarrow> string \<Rightarrow> 'tok \<Rightarrow> string list \<Rightarrow> 'tok machine_result dbact" where
  "exchange_user_token env now verified_at signed_at client_id client_secret subject_token requested_permissions =
     rollback_on_error
       (bindM (authenticate_credential env client_id client_secret now) (\<lambda>credential.
        bindM (liftM (verify (env_jwt env) (env_settings env) verified_at subject_token)) (\<lambda>claims.
        seqM (raise_if (get_claim claims ''actor_type'' \<noteq> PStr (actor_type_value USER)) (security_error ''AUTH_TOKEN_INVALID''))
        (case read_subject_claims claims of
           None \<Rightarrow> throwM (security_error ''AUTH_TOKEN_INVALID'')
         | Some su \<Rightarrow>
           seqM (require_open_tenant (su_tenant_id su))
           (bindM (machine_permissions (mc_principal_id credential) (su_tenant_id su) now) (\<lambda>machine.
            bindM (liftM (validate_permissions (su_permissions su))) (\<lambda>user_permissions.
            bindM (liftM (requested_permission_list requested_permissions)) (\<lambda>requested.
            seqM (raise_if (\<not> set requested \<subseteq> set machine \<inter> set user_permissions) (security_error ''PERMISSION_DENIED''))
            (let expiry = fromtimestamp (su_expires_at su) in
             bindM (issue (env_jwt env) (env_settings env) signed_at
               \<lparr>tc_principal_id = su_subject su, tc_actor_type = USER, tc_tenant_id = su_tenant_id su,
                tc_access_session_id = su_session_id su, tc_permissions = requested, tc_expires_at = expiry,
                tc_roles = su_roles su, tc_device_id = Some (su_device_id su), tc_location_id = Some (su_location_id su),
                tc_delegated_actor_id = Some (mc_client_id credential), tc_subject = None\<rparr>) (\<lambda>token.
             seqM (mark_machine_credential_used (mc_credential_id credential) now)
             (seqM commit
             (returnM \<lparr>mr_token = token, mr_expires = expiry, mr_permissions = requested\<rparr>))))))))))))"

section \<open>Atomicity and constraints\<close>

lemma gates_stay [stays_intros]:
  "no_commit (require_open_tenant tn)" "no_commit (match_assigned_location pol geo u tn now)"
  "no_commit (check_schedule env loc u tn now)" "no_commit (check_network pol risk)"
  "no_commit (authenticate_credential env cl sec now)" "no_commit (authorized_permissions mc tn req now)"
  unfolding require_open_tenant_def match_assigned_location_def check_schedule_def check_network_def
    authenticate_credential_def authorized_permissions_def Let_def
  by (intro stays_intros)+

lemma gates_keep_ok [keeps_intros]:
  "keeps db_ok (require_open_tenant tn)" "keeps db_ok (match_assigned_location pol geo u tn now)"
  "keeps db_ok (check_schedule env loc u tn now)" "keeps db_ok (check_network pol risk)"
  "keeps db_ok (authenticate_credential env cl sec now)" "keeps db_ok (authorized_permissions mc tn req now)"
  unfolding require_open_tenant_def match_assigned_location_def check_schedule_def check_network_def
    authenticate_credential_def authorized_permissions_def Let_def
  by (intro keeps_intros)+

lemma machine_token_atomic: "atomic (issue_machine_token env now sg cl sec tn req ip cid)"
  unfolding issue_machine_token_def Let_def by (intro atomic_intros stays_intros)

lemma exchange_atomic: "atomic (exchange_user_token env now vf sg cl sec tok req)"
  unfolding exchange_user_token_def Let_def by (intro atomic_intros stays_intros)

lemma machine_token_keeps_ok [keeps_intros]: "keeps db_ok (issue_machine_token env now sg cl sec tn req ip cid)"
  unfolding issue_machine_token_def Let_def by (intro keeps_intros)

lemma exchange_keeps_ok [keeps_intros]: "keeps db_ok (exchange_user_token env now vf sg cl sec tok req)"
  unfolding exchange_user_token_def Let_def by (intro keeps_intros)

section \<open>What a granted access implies\<close>

text \<open>The conditions under which a user is admitted, over the database the request sees.\<close>

definition access_gates ::
  "'tok access_env \<Rightarrow> db \<Rightarrow> int \<Rightarrow> VpnStatus \<Rightarrow> AuthenticatedIdentity \<Rightarrow> string \<Rightarrow> string \<Rightarrow> GeoSample \<Rightarrow> admission \<Rightarrow> bool" where
  "access_gates env d now vpn identity tenant_id device_id geo a \<longleftrightarrow>
     (\<exists>t\<in>set (db_tenants d). t_id t = tenant_id \<and> t_status t = ''ACTIVE'')
     \<and> (\<exists>ei\<in>set (db_identities d). ei_provider ei = id_provider identity \<and> ei_subject ei = id_provider_subject identity
          \<and> ei_status ei = ''ACTIVE'' \<and> ei_user ei = ad_user_id a)
     \<and> (\<exists>sp\<in>set (db_principals d). sp_id sp = ad_user_id a \<and> sp_actor_type sp = ''USER'' \<and> sp_status sp = ''ACTIVE'')
     \<and> active_user d (ad_user_id a)
     \<and> (\<exists>p\<in>set (db_policies d). pol_tenant p = tenant_id \<and> pol_status p = ''ACTIVE'' \<and> ad_policy a = policy_of p)
     \<and> (\<exists>dv\<in>set (db_devices d). d_tenant dv = tenant_id \<and> d_user dv = ad_user_id a \<and> d_id dv = device_id
          \<and> d_status dv = ''ACTIVE'')
     \<and> validate_geo geo (max_geo_accuracy_meters (ad_policy a)) (max_geo_age_seconds (ad_policy a)) now = Inr ()
     \<and> match_location geo (assigned_location_rows (ad_user_id a) tenant_id now d) = Inr (ad_location a, ad_distance a)
     \<and> (\<exists>sc\<in>set (db_schedules d). sch_tenant sc = tenant_id \<and> sch_id sc = lc_schedule_id (ad_location a)
          \<and> sch_status sc = ''ACTIVE'')
     \<and> evaluate_schedule (env_zoneinfo env) now (lc_timezone_iana (ad_location a))
           (schedule_window_rows tenant_id (lc_schedule_id (ad_location a)) d)
           (latest_override tenant_id (ad_user_id a) (lc_location_id (ad_location a)) now d) = Inr (ad_schedule a)
     \<and> \<not> (vpn = DETECTED \<and> vpn_detected_action (ad_policy a) = ''DENY'')
     \<and> \<not> (vpn = UNKNOWN_VPN \<and> vpn_unknown_action (ad_policy a) = ''DENY'')
     \<and> ad_permissions a \<noteq> [] \<and> sorted (ad_permissions a) \<and> distinct (ad_permissions a)
     \<and> (\<forall>k\<in>set (ad_permissions a). is_canonical_permission k
          \<and> (\<exists>rk. granted d tenant_id (ad_user_id a) now rk k))"

lemma require_open_tenant_Inr [method_simps]:
  "require_open_tenant tn s = (Inr x, t) \<longleftrightarrow> t = s \<and>
     (\<exists>r. first_row (\<lambda>r. t_id r = tn) (db_tenants (working s)) = Some r \<and> t_status r = ''ACTIVE'')"
  by (auto simp: require_open_tenant_def success_simps method_simps)

lemma match_assigned_location_Inr [method_simps]:
  "match_assigned_location pol geo u tn now s = (Inr (l, dst), t) \<longleftrightarrow> t = s
     \<and> validate_geo geo (max_geo_accuracy_meters pol) (max_geo_age_seconds pol) now = Inr ()
     \<and> match_location geo (assigned_location_rows u tn now (working s)) = Inr (l, dst)"
  by (auto simp: match_assigned_location_def success_simps method_simps)

lemma check_schedule_InrD:
  assumes "check_schedule env l u tn now s = (Inr sd, t)"
  shows "t = s \<and> (\<exists>sc\<in>set (db_schedules (working s)). sch_tenant sc = tn \<and> sch_id sc = lc_schedule_id l \<and> sch_status sc = ''ACTIVE'')
    \<and> evaluate_schedule (env_zoneinfo env) now (lc_timezone_iana l)
          (schedule_window_rows tn (lc_schedule_id l) (working s)) (latest_override tn u (lc_location_id l) now (working s)) = Inr sd"
  using assms by (auto simp: check_schedule_def success_simps method_simps dest!: first_row_SomeD)

lemma check_network_Inr [method_simps]:
  "check_network pol risk s = (Inr x, t) \<longleftrightarrow> t = s
     \<and> \<not> (nr_vpn_status risk = DETECTED \<and> vpn_detected_action pol = ''DENY'')
     \<and> \<not> (nr_vpn_status risk = UNKNOWN_VPN \<and> vpn_unknown_action pol = ''DENY'')"
  by (auto simp: check_network_def success_simps)

lemma sorted_set_self: "sorted xs \<Longrightarrow> distinct xs \<Longrightarrow> sorted_set xs = xs"
  by (simp add: sorted_set_def distinct_remdups_id sorted_sort_id)

lemma session_expiry_bounds:
  "session_expiry pol now e u \<le> now + minutes (access_token_ttl_minutes pol)
   \<and> session_expiry pol now e u \<le> now + seconds (geo_revalidation_interval_seconds pol)
   \<and> session_expiry pol now e u \<le> e \<and> session_expiry pol now e u \<le> u"
  by (auto simp: session_expiry_def min_le_iff_disj)

lemma session_expiry_after:
  "session_expiry pol now e u > now \<longleftrightarrow>
     0 < access_token_ttl_minutes pol \<and> 0 < geo_revalidation_interval_seconds pol \<and> now < e \<and> now < u"
  by (auto simp: session_expiry_def minutes_def seconds_def)

text \<open>The session of a token: live, for exactly this user, device and location, and expiring with it.\<close>

definition session_for :: "string \<Rightarrow> string \<Rightarrow> string \<Rightarrow> string \<Rightarrow> string \<Rightarrow> int \<Rightarrow> access_session \<Rightarrow> bool" where
  "session_for sid tenant_id user_id device_id location_id expiry r =
     (as_id r = sid \<and> is_active_user_session tenant_id user_id device_id r
      \<and> as_location r = Some location_id \<and> as_expires r = expiry)"

context user_repository
begin

lemma current_permissions_InrD:
  assumes "env_repo env = repo" and "current_permissions env tn u now s = (Inr (roles, perms), t)"
  shows "t = s \<and> perms \<noteq> [] \<and> sorted perms \<and> distinct perms
    \<and> (\<forall>k\<in>set perms. is_canonical_permission k \<and> (\<exists>rk. granted (working s) tn u now rk k))"
proof -
  from assms obtain ps where ps: "effective_permissions repo tn u now s = (Inr (roles, ps), t)"
      "validate_permissions ps = Inr perms"
    by (auto simp: current_permissions_def success_simps split: prod.splits)
  from permissions_Inr [OF ps(1)] ps(2) show ?thesis
    by (auto simp: validate_permissions_Inr_iff sorted_set_self)
qed

lemma current_permissions_stays: "env_repo env = repo \<Longrightarrow> no_commit (current_permissions env tn u now)"
  unfolding current_permissions_def by (intro stays_intros) (simp_all add: hooks_stay)

lemma current_permissions_keeps: "env_repo env = repo \<Longrightarrow> keeps db_ok (current_permissions env tn u now)"
  unfolding current_permissions_def by (intro keeps_intros) (simp_all add: hooks_keep)

lemma admit_InrD:
  assumes "env_repo env = repo" and "admit env now risk identity tn dev geo s = (Inr a, t)"
  shows "t = s \<and> access_gates env (working s) now (nr_vpn_status risk) identity tn dev geo a"
proof -
  from assms obtain x u ctx pol dv loc dst sd y roles perms s0 s1 s2 s3 s4 s5 s6 s7 where
      st: "require_open_tenant tn s = (Inr x, s0)"
      "resolve_identity_user (id_provider identity) (id_provider_subject identity) s0 = (Inr u, s1)"
      "get_user_context repo u tn now s1 = (Inr ctx, s2)"
      "get_tenant_policy tn s2 = (Inr pol, s3)"
      "lock_active_device u tn dev s3 = (Inr dv, s4)"
      "match_assigned_location pol geo u tn now s4 = (Inr (loc, dst), s5)"
      "check_schedule env loc u tn now s5 = (Inr sd, s6)"
      "check_network pol risk s6 = (Inr y, s7)"
      "current_permissions env tn u now s7 = (Inr (roles, perms), t)"
    and a: "a = \<lparr>ad_user_id = u, ad_context = ctx, ad_policy = pol, ad_location = loc, ad_distance = dst,
        ad_schedule = sd, ad_roles = roles, ad_permissions = perms\<rparr>"
    unfolding admit_def by (auto simp: success_simps split: prod.splits)
  have same: "s0 = s" "s1 = s" using st(1,2) by (auto simp: method_simps)
  have ctx: "s2 = s" "active_user (working s) u" using context_Inr [OF st(3)] same by auto
  have "s3 = s" "s4 = s" "s5 = s" using st(4-6) ctx(1) by (auto simp: method_simps)
  note same = same ctx(1) this
  have sched: "s6 = s" and sc: "\<exists>sc\<in>set (db_schedules (working s)). sch_tenant sc = tn \<and> sch_id sc = lc_schedule_id loc \<and> sch_status sc = ''ACTIVE''"
    and ov: "evaluate_schedule (env_zoneinfo env) now (lc_timezone_iana loc)
          (schedule_window_rows tn (lc_schedule_id loc) (working s))
          (latest_override tn u (lc_location_id loc) now (working s)) = Inr sd"
    using check_schedule_InrD [OF st(7)] same by auto
  have net: "s7 = s" "\<not> (nr_vpn_status risk = DETECTED \<and> vpn_detected_action pol = ''DENY'')"
      "\<not> (nr_vpn_status risk = UNKNOWN_VPN \<and> vpn_unknown_action pol = ''DENY'')"
    using st(8) sched by (auto simp: method_simps)
  have perms: "t = s" "perms \<noteq> []" "sorted perms" "distinct perms"
      "\<forall>k\<in>set perms. is_canonical_permission k \<and> (\<exists>rk. granted (working s) tn u now rk k)"
    using current_permissions_InrD [OF assms(1) st(9)] net(1) by simp_all
  have ten: "\<exists>t\<in>set (db_tenants (working s)). t_id t = tn \<and> t_status t = ''ACTIVE''"
    using st(1) by (auto simp: method_simps dest!: first_row_SomeD)
  have pol: "\<exists>p\<in>set (db_policies (working s)). pol_tenant p = tn \<and> pol_status p = ''ACTIVE'' \<and> pol = policy_of p"
    using st(4) same by (auto simp: method_simps dest!: first_row_SomeD)
  have idn: "\<exists>ei\<in>set (db_identities (working s)). ei_provider ei = id_provider identity
        \<and> ei_subject ei = id_provider_subject identity \<and> ei_status ei = ''ACTIVE'' \<and> ei_user ei = u"
      "\<exists>sp\<in>set (db_principals (working s)). sp_id sp = u \<and> sp_actor_type sp = ''USER'' \<and> sp_status sp = ''ACTIVE''"
    using st(2) same by (auto simp: method_simps identity_rows_def dest!: first_of_SomeD split: if_splits; blast)+
  have dev: "\<exists>dv\<in>set (db_devices (working s)). d_tenant dv = tn \<and> d_user dv = u \<and> d_id dv = dev \<and> d_status dv = ''ACTIVE''"
    using st(5) same by (auto simp: method_simps dest!: first_row_SomeD)
  have loc: "validate_geo geo (max_geo_accuracy_meters pol) (max_geo_age_seconds pol) now = Inr ()"
      "match_location geo (assigned_location_rows u tn now (working s)) = Inr (loc, dst)"
    using st(6) same by (auto simp: method_simps)
  show ?thesis
    unfolding access_gates_def a admission.simps
    using ten idn ctx(2) pol dev loc sc ov net(2,3) perms by (intro conjI)
qed

lemma admit_stays: "env_repo env = repo \<Longrightarrow> no_commit (admit env now risk identity tn dev geo)"
  unfolding admit_def by (intro stays_intros) (simp_all add: hooks_stay current_permissions_stays)

lemma admit_keeps: "env_repo env = repo \<Longrightarrow> keeps db_ok (admit env now risk identity tn dev geo)"
  unfolding admit_def by (intro keeps_intros) (simp_all add: hooks_keep current_permissions_keeps)

end

lemma sessions_frame_trans:
  assumes "b = a\<lparr>db_sessions := db_sessions b\<rparr>" and "c = b\<lparr>db_sessions := db_sessions c\<rparr>"
  shows "c = (a::db)\<lparr>db_sessions := db_sessions c\<rparr>"
proof -
  have twice: "a\<lparr>db_sessions := x\<rparr>\<lparr>db_sessions := y\<rparr> = a\<lparr>db_sessions := y\<rparr>" for x y by simp
  have "b\<lparr>db_sessions := db_sessions c\<rparr> = a\<lparr>db_sessions := db_sessions b\<rparr>\<lparr>db_sessions := db_sessions c\<rparr>"
    by (rule arg_cong [OF assms(1), of "\<lambda>x. x\<lparr>db_sessions := db_sessions c\<rparr>"])
  from trans [OF assms(2) this] show ?thesis unfolding twice .
qed

lemma expire_frame:
  assumes "expire_stale_user_sessions tn u dev now s = (Inr x, t)"
  shows "committed t = committed s \<and> working t = (working s)\<lparr>db_sessions := db_sessions (working t)\<rparr>"
  using assms by (auto simp: expire_stale_user_sessions_def success_simps update_sessions_def Let_def split: if_splits)

lemma reuse_InrD:
  assumes "update_reused_user_session sid ip vpn ver ex now s = (Inr x, t)"
    and "row \<in> set (db_sessions (working s))" and "is_active_user_session tn u dev row" and "as_id row = sid"
    and "as_location row = Some loc"
  shows "committed t = committed s \<and> working t = (working s)\<lparr>db_sessions := db_sessions (working t)\<rparr>
    \<and> (\<exists>r\<in>set (db_sessions (working t)). session_for sid tn u dev loc ex r \<and> as_started r = as_started row)"
proof -
  let ?f = "\<lambda>r. r\<lparr>as_ip := ip, as_vpn := Some vpn, as_version := Some ver,
             as_expires := ex, as_last_activity := now, as_last_geo := Some now\<rparr>"
  let ?p = "\<lambda>r. as_id r = sid \<and> as_status r = ''ACTIVE''"
  from assms(1) have t: "t = s\<lparr>working := (working s)\<lparr>db_sessions := update_rows ?p ?f (db_sessions (working s))\<rparr>\<rparr>"
    by (auto simp: update_reused_user_session_def success_simps update_sessions_def Let_def split: if_splits)
  have "?f row \<in> set (update_rows ?p ?f (db_sessions (working s)))"
    using assms(2-4) unfolding set_update_rows by (force simp: is_active_user_session_def)
  moreover have "session_for sid tn u dev loc ex (?f row) \<and> as_started (?f row) = as_started row"
    using assms(3-5) by (simp add: session_for_def is_active_user_session_def)
  ultimately show ?thesis unfolding t by (intro conjI bexI [of _ "?f row"]) simp_all
qed

text \<open>
  How the expiry of a token is bounded: the access and geo intervals of the policy, the end
  of the schedule, and the maximum duration counted from the start of the session.
\<close>

definition expiry_bounded :: "int \<Rightarrow> TenantPolicy \<Rightarrow> ScheduleDecision \<Rightarrow> int \<Rightarrow> int \<Rightarrow> bool" where
  "expiry_bounded now policy schedule started expiry \<longleftrightarrow>
     expiry \<le> now + minutes (access_token_ttl_minutes policy)
     \<and> expiry \<le> now + seconds (geo_revalidation_interval_seconds policy)
     \<and> expiry \<le> sd_authorized_until_utc schedule
     \<and> expiry \<le> started + minutes (session_max_duration_minutes policy)"

context user_repository
begin

lemma open_session_InrD:
  assumes env: "env_repo env = repo"
    and run: "open_session env now risk identity tn dev ip a s = (Inr (sid, expiry), t)"
  shows "committed t = committed s \<and> working t = (working s)\<lparr>db_sessions := db_sessions (working t)\<rparr>
    \<and> (\<exists>r\<in>set (db_sessions (working t)).
          session_for sid tn (ad_user_id a) dev (lc_location_id (ad_location a)) expiry r
          \<and> expiry_bounded now (ad_policy a) (ad_schedule a) (as_started r) expiry)"
proof -
  let ?loc = "lc_location_id (ad_location a)"
  from run obtain x s1 act where
      ex: "expire_stale_user_sessions tn (ad_user_id a) dev now s = (Inr x, s1)"
    and act: "act = first_row (is_active_user_session tn (ad_user_id a) dev) (db_sessions (working s1))"
    and rest: "(case act of
          Some row \<Rightarrow>
            seqM (raise_if (as_location row \<noteq> Some ?loc) (security_error ''ACCESS_SESSION_CONTEXT_CONFLICT''))
            (let session_max_end = as_started row + minutes (session_max_duration_minutes (ad_policy a));
                 expiry = session_expiry (ad_policy a) now session_max_end (sd_authorized_until_utc (ad_schedule a))
             in seqM (update_reused_user_session (as_id row) ip (vpn_status_value (nr_vpn_status risk))
                        (uc_authorization_version (ad_context a)) expiry now)
                (returnM (as_id row, expiry)))
        | None \<Rightarrow>
            (let session_max_end = now + minutes (session_max_duration_minutes (ad_policy a));
                 expiry = session_expiry (ad_policy a) now session_max_end (sd_authorized_until_utc (ad_schedule a))
             in bindM (create_user_session (env_repo env)
                  \<lparr>ns_tenant = tn, ns_user = ad_user_id a, ns_membership = uc_membership_id (ad_context a),
                   ns_device = dev, ns_location = ?loc, ns_source = id_provider identity,
                   ns_version = uc_authorization_version (ad_context a), ns_ip = ip,
                   ns_vpn = vpn_status_value (nr_vpn_status risk), ns_expires = expiry, ns_now = now\<rparr>)
                (\<lambda>session_id. returnM (session_id, expiry)))) s1 = (Inr (sid, expiry), t)"
    unfolding open_session_def by (auto simp: success_simps method_simps)
  note frame = expire_frame [OF ex]
  show ?thesis
  proof (cases act)
    case (Some row)
    with rest obtain y where up: "as_location row = Some ?loc" "sid = as_id row"
        "expiry = session_expiry (ad_policy a) now (as_started row + minutes (session_max_duration_minutes (ad_policy a)))
                   (sd_authorized_until_utc (ad_schedule a))"
        "update_reused_user_session sid ip (vpn_status_value (nr_vpn_status risk))
           (uc_authorization_version (ad_context a)) expiry now s1 = (Inr y, t)"
      by (auto simp: success_simps Let_def)
    from first_row_SomeD [of "is_active_user_session tn (ad_user_id a) dev" "db_sessions (working s1)" row] act Some
    have row: "row \<in> set (db_sessions (working s1))" "is_active_user_session tn (ad_user_id a) dev row" by auto
    note re = reuse_InrD [OF up(4) row up(2) [symmetric] up(1)]
    have bound: "expiry_bounded now (ad_policy a) (ad_schedule a) (as_started row) expiry"
      unfolding expiry_bounded_def up(3) using session_expiry_bounds by blast
    from re obtain r where r: "r \<in> set (db_sessions (working t))"
        "session_for sid tn (ad_user_id a) dev ?loc expiry r" "as_started r = as_started row" by blast
    have fr: "committed t = committed s" using re frame by simp
    have fw: "working t = (working s)\<lparr>db_sessions := db_sessions (working t)\<rparr>"
      using re frame by (blast intro: sessions_frame_trans)
    note fr = fr fw
    show ?thesis by (intro conjI fr bexI [OF _ r(1)] r(2)) (simp add: r(3) bound)
  next
    case None
    let ?ns = "\<lparr>ns_tenant = tn, ns_user = ad_user_id a, ns_membership = uc_membership_id (ad_context a),
                   ns_device = dev, ns_location = ?loc, ns_source = id_provider identity,
                   ns_version = uc_authorization_version (ad_context a), ns_ip = ip,
                   ns_vpn = vpn_status_value (nr_vpn_status risk), ns_expires = expiry, ns_now = now\<rparr>"
    from None rest have ex: "expiry = session_expiry (ad_policy a) now
          (now + minutes (session_max_duration_minutes (ad_policy a))) (sd_authorized_until_utc (ad_schedule a))"
      and cr: "create_user_session repo ?ns s1 = (Inr sid, t)"
      by (auto simp: success_simps Let_def env)
    from create_Inr [OF cr] obtain m where ins: "committed t = committed s1"
        "insert_session (user_session_row m ?ns sid) (working s1) = Inr (working t)" by blast
    let ?r = "user_session_row m ?ns sid"
    have w: "working t = (working s1)\<lparr>db_sessions := db_sessions (working s1) @ [?r]\<rparr>"
      using ins(2) by (auto simp: insert_session_def split: if_splits)
    have r: "?r \<in> set (db_sessions (working t))" unfolding w by simp
    have sf: "session_for sid tn (ad_user_id a) dev ?loc expiry ?r"
      by (simp add: session_for_def is_active_user_session_def user_session_row_def)
    have bound: "expiry_bounded now (ad_policy a) (ad_schedule a) (as_started ?r) expiry"
      unfolding expiry_bounded_def ex user_session_row_def using session_expiry_bounds by simp
    have fr: "committed t = committed s" using ins(1) frame by simp
    have "working t = (working s1)\<lparr>db_sessions := db_sessions (working t)\<rparr>" unfolding w by simp
    then have fw: "working t = (working s)\<lparr>db_sessions := db_sessions (working t)\<rparr>"
      using frame by (blast intro: sessions_frame_trans)
    note fr = fr fw
    show ?thesis by (intro conjI fr bexI [OF _ r] sf bound)
  qed
qed

lemma open_session_stays: "env_repo env = repo \<Longrightarrow> no_commit (open_session env now risk identity tn dev ip a)"
  unfolding open_session_def Let_def by (intro stays_intros) (simp_all add: hooks_stay)

lemma open_session_keeps: "env_repo env = repo \<Longrightarrow> keeps db_ok (open_session env now risk identity tn dev ip a)"
  unfolding open_session_def Let_def by (intro keeps_intros) (simp_all add: hooks_keep)

lemma create_or_reuse_atomic:
  "env_repo env = repo \<Longrightarrow> atomic (create_or_reuse env now sg identity tn dev geo ip cid)"
  unfolding create_or_reuse_def
  by (intro atomic_intros stays_intros admit_stays open_session_stays)

lemma create_or_reuse_keeps:
  "env_repo env = repo \<Longrightarrow> keeps db_ok (create_or_reuse env now sg identity tn dev geo ip cid)"
  unfolding create_or_reuse_def
  by (intro keeps_intros admit_keeps open_session_keeps)

end

section \<open>Granted access\<close>

text \<open>
  What the caller of a granted request holds: the session of the token is committed, live
  and bounded, the evidence row is committed, and the token signs exactly what was admitted.
\<close>

definition access_recorded ::
  "'tok access_env \<Rightarrow> db \<Rightarrow> int \<Rightarrow> int \<Rightarrow> string \<Rightarrow> string \<Rightarrow> string \<Rightarrow> admission \<Rightarrow> 'tok access_result \<Rightarrow> bool" where
  "access_recorded env d now signed_at tenant_id device_id correlation_id a res \<longleftrightarrow>
     ar_permissions res = ad_permissions a \<and> ar_roles res = ad_roles a
     \<and> ar_location_id res = lc_location_id (ad_location a)
     \<and> (\<exists>r\<in>set (db_sessions d).
          session_for (ar_session_id res) tenant_id (ad_user_id a) device_id (ar_location_id res) (ar_expires res) r
          \<and> expiry_bounded now (ad_policy a) (ad_schedule a) (as_started r) (ar_expires res))
     \<and> (\<exists>e\<in>set (db_evaluations d). ev_session e = Some (ar_session_id res) \<and> ev_principal e = ad_user_id a
          \<and> ev_decision e = ''ALLOW'' \<and> ev_evaluated_at e = now \<and> ev_correlation e = correlation_id)
     \<and> (\<exists>jti. jwt_encode (env_jwt env)
          (token_payload (env_settings env) (user_token_claims tenant_id (ar_session_id res) device_id a (ar_expires res))
             (ar_permissions res) signed_at jti)
          (the (security_private_key_pem (env_settings env))) (the (security_key_id (env_settings env)))
        = Some (ar_token res))"

lemma record_evaluation_InrD:
  assumes "record_evaluation e s = (Inr x, t)"
  shows "committed t = committed s \<and> working t = (working s)\<lparr>db_evaluations := db_evaluations (working s) @ [e]\<rparr>"
  using assms by (auto simp: record_evaluation_def success_simps insert_evaluation_def split: if_splits)

context user_repository
begin

lemma create_or_reuse_InrD:
  assumes env: "env_repo env = repo"
    and run: "create_or_reuse env now sg identity tn dev geo ip cid s = (Inr res, t)"
  shows "\<exists>risk a. env_network env ip cid = Inr risk
    \<and> access_gates env (working s) now (nr_vpn_status risk) identity tn dev geo a
    \<and> committed t = working t \<and> access_recorded env (committed t) now sg tn dev cid a res"
proof -
  from run obtain risk a s1 sid expiry s2 evid s3 x s4 token s5 where
      risk: "env_network env ip cid = Inr risk"
    and adm: "admit env now risk identity tn dev geo s = (Inr a, s1)"
    and opn: "open_session env now risk identity tn dev ip a s1 = (Inr (sid, expiry), s2)"
    and uu: "uuid4 s2 = (Inr evid, s3)"
    and rec: "record_evaluation (user_evaluation evid sid tn geo a risk ip cid now) s3 = (Inr x, s4)"
    and iss: "issue (env_jwt env) (env_settings env) sg (user_token_claims tn sid dev a expiry) s4 = (Inr token, s5)"
    and t: "t = s5\<lparr>committed := working s5\<rparr>"
    and res: "res = \<lparr>ar_session_id = sid, ar_token = token, ar_expires = expiry,
                ar_actor_type = actor_type_value USER, ar_tenant_id = tn, ar_device_id = dev,
                ar_location_id = lc_location_id (ad_location a), ar_roles = ad_roles a,
                ar_permissions = ad_permissions a\<rparr>"
    unfolding create_or_reuse_def
    by (auto simp: bindM_Inr_iff seqM_Inr_iff liftM_Inr_iff returnM_Inr_iff commit_Inr_iff
        rollback_on_error_Inr_iff split: prod.splits)
  have gates: "s1 = s" "access_gates env (working s) now (nr_vpn_status risk) identity tn dev geo a"
    using admit_InrD [OF env adm] by simp_all
  note o = open_session_InrD [OF env opn]
  have u: "working s3 = working s2" using uu by (auto simp: success_simps)
  note r = record_evaluation_InrD [OF rec]
  have i: "working s5 = working s4" using issue_working [OF iss] by simp
  have sess: "db_sessions (committed t) = db_sessions (working s2)" unfolding t using r u i by simp
  let ?e = "user_evaluation evid sid tn geo a risk ip cid now"
  have ev: "?e \<in> set (db_evaluations (committed t))" unfolding t using r i by simp
  have perms: "sorted_set (ad_permissions a) = ad_permissions a"
    using gates(2) by (simp add: access_gates_def sorted_set_self)
  have tok: "jwt_encode (env_jwt env) (token_payload (env_settings env) (user_token_claims tn sid dev a expiry)
      (ad_permissions a) sg (uuids s4 0)) (the (security_private_key_pem (env_settings env)))
      (the (security_key_id (env_settings env))) = Some token"
    using iss perms by (simp add: issue_Inr user_token_claims_def)
  have "access_recorded env (committed t) now sg tn dev cid a res"
  proof -
    have "ev_session ?e = Some sid \<and> ev_principal ?e = ad_user_id a \<and> ev_decision ?e = ''ALLOW''
        \<and> ev_evaluated_at ?e = now \<and> ev_correlation ?e = cid"
      by (simp add: user_evaluation_def)
    then show ?thesis
      unfolding access_recorded_def res access_result.simps sess using o ev tok by blast
  qed
  moreover have "committed t = working t" unfolding t by simp
  ultimately show ?thesis using risk gates(2) by blast
qed

end

section \<open>Machine tokens: what was checked\<close>

lemma authenticate_credential_InrD:
  assumes "authenticate_credential env cl sec now s = (Inr mc, t)"
  shows "t = s \<and> machine_credential cl now s = (Inr mc, s) \<and> py_lower (py_strip (mc_secret_hash mc)) = env_sha256_hex env sec
    \<and> length (env_sha256_hex env sec) = 64"
  using assms by (auto simp: authenticate_credential_def success_simps Let_def method_simps)

lemma requested_permission_list_InrD:
  assumes "requested_permission_list req = Inr ps"
  shows "ps = sorted_set (filter (\<lambda>p. p \<noteq> []) req) \<and> ps \<noteq> [] \<and> (\<forall>p\<in>set ps. is_canonical_permission p)"
  using assms by (auto simp: requested_permission_list_def Let_def validate_permissions_Inr_iff split: if_splits)

text \<open>The active permissions granted to a machine principal in a tenant, in an open scope.\<close>

definition machine_holds :: "db \<Rightarrow> string \<Rightarrow> string \<Rightarrow> int \<Rightarrow> string \<Rightarrow> bool" where
  "machine_holds d principal_id tenant_id now k \<longleftrightarrow>
     (\<exists>sc\<in>set (db_scopes d). scope_open principal_id tenant_id now sc)
     \<and> active_permission d k
     \<and> (\<exists>g\<in>set (db_grants d). pg_principal g = principal_id \<and> pg_tenant g = tenant_id
          \<and> pg_permission g = k \<and> pg_status g = ''ACTIVE'')"

lemma machine_permissions_InrD:
  assumes "machine_permissions p tn now s = (Inr ps, t)"
  shows "t = s \<and> set ps = {k. machine_holds (working s) p tn now k}"
proof -
  have "set (machine_grant_rows p tn (working s)) = {k. active_permission (working s) k
      \<and> (\<exists>g\<in>set (db_grants (working s)). pg_principal g = p \<and> pg_tenant g = tn \<and> pg_permission g = k \<and> pg_status g = ''ACTIVE'')}"
    unfolding machine_grant_rows_def active_permission_def set_eq_iff mem_query mem_Collect_eq by (safe; metis)
  with assms show ?thesis by (auto simp: method_simps machine_holds_def exists_row_iff)
qed

definition active_credential :: "'tok access_env \<Rightarrow> db \<Rightarrow> int \<Rightarrow> string \<Rightarrow> string \<Rightarrow> MachineCredential \<Rightarrow> bool" where
  "active_credential env d now client_id client_secret mc \<longleftrightarrow>
     (\<exists>c\<in>set (db_credentials d). \<exists>p\<in>set (db_principals d).
        c_client_id c = client_id \<and> c_status c = ''ACTIVE'' \<and> valid_at (Some (c_valid_from c)) (c_valid_to c) now
        \<and> py_lower (py_strip (c_secret_hash c)) = env_sha256_hex env client_secret
        \<and> sp_id p = c_principal c \<and> sp_status p = ''ACTIVE'' \<and> sp_actor_type p \<in> {''SYSTEM'', ''SERVICE_INTEGRATION''}
        \<and> mc_principal_id mc = sp_id p \<and> mc_client_id mc = client_id
        \<and> mc_credential_id mc = c_id c \<and> actor_type_of (sp_actor_type p) = Some (mc_actor_type mc))"

lemma authenticated_credential:
  assumes "authenticate_credential env cl sec now s = (Inr mc, t)"
  shows "t = s \<and> active_credential env (working s) now cl sec mc"
proof -
  note au = authenticate_credential_InrD [OF assms]
  then obtain c p a where r: "first_of (credential_rows cl (working s)) = Some (c, p)" "sp_status p = ''ACTIVE''"
      "actor_type_of (sp_actor_type p) = Some a" "a \<noteq> USER" "c_status c = ''ACTIVE''" "c_valid_from c \<le> now"
      "case c_valid_to c of None \<Rightarrow> True | Some e \<Rightarrow> now < e"
      "mc = \<lparr>mc_principal_id = sp_id p, mc_actor_type = a, mc_credential_id = c_id c,
                mc_client_id = c_client_id c, mc_secret_hash = c_secret_hash c\<rparr>"
    by (auto simp: method_simps simp del: actor_type_of.simps)
  have row: "c \<in> set (db_credentials (working s))" "p \<in> set (db_principals (working s))" "sp_id p = c_principal c"
      "c_client_id c = cl"
    using first_of_SomeD [OF r(1)] by (auto simp: credential_rows_def split: if_splits)
  have at: "sp_actor_type p \<in> {''SYSTEM'', ''SERVICE_INTEGRATION''}"
    using r(3,4) by (simp split: if_splits)
  have "valid_at (Some (c_valid_from c)) (c_valid_to c) now" using r(6,7) by (cases "c_valid_to c") simp_all
  then show ?thesis
    unfolding active_credential_def using au r row at
    by (intro conjI bexI [of _ c] bexI [of _ p]) (simp_all del: actor_type_of.simps)
qed

end
