(* ===== verification/AccessProperties.thy ===== *)
theory AccessProperties
  imports AccessService
begin

text \<open>
  The properties of the access service, on the repository the routes use, and a small
  database on which they are exercised: one tenant, one user with an active device at the
  only location, a schedule open on Thursdays until 20:00 UTC, one role with one permission.
\<close>

section \<open>A sample database\<close>

definition sample_db :: "access_session list \<Rightarrow> db" where
  "sample_db sessions =
     \<lparr>db_tenants = [\<lparr>t_id = ''t1'', t_status = ''ACTIVE''\<rparr>],
      db_principals = [\<lparr>sp_id = ''u1'', sp_actor_type = ''USER'', sp_name = ''Asha'', sp_status = ''ACTIVE''\<rparr>,
                       \<lparr>sp_id = ''m1'', sp_actor_type = ''SYSTEM'', sp_name = ''client'', sp_status = ''ACTIVE''\<rparr>],
      db_users = [\<lparr>u_id = ''u1'', u_display_name = ''Asha'', u_first_name = None, u_last_name = None,
                   u_primary_email = Some ''asha@example.org'', u_primary_mobile = None, u_status = ''ACTIVE'', u_created_at = 0,
                   u_updated_at = 0\<rparr>],
      db_identities = [\<lparr>ei_id = ''e1'', ei_user = ''u1'', ei_provider = ''CLERK'', ei_subject = ''clerk-1'',
                        ei_status = ''ACTIVE'', ei_linked_at = 0\<rparr>],
      db_memberships = [],
      db_authz_state = [\<lparr>az_user = ''u1'', az_tenant = ''t1'', az_version = 3, az_updated_at = 0\<rparr>],
      db_permissions = [\<lparr>p_key = ''di.case.read'', p_module = ''di'', p_resource = ''case'', p_action = ''read'',
                         p_description = None, p_status = ''ACTIVE'', p_display_name = None, p_catalog_version = None\<rparr>],
      db_roles = [\<lparr>r_id = ''r1'', r_tenant = ''t1'', r_key = ''di.agent'', r_name = ''Agent'', r_description = None,
                   r_status = ''ACTIVE'', r_created_at = 0, r_updated_at = 0\<rparr>],
      db_role_permissions = [\<lparr>rp_tenant = ''t1'', rp_role = ''r1'', rp_permission = ''di.case.read'', rp_assigned_at = 0\<rparr>],
      db_user_roles = [\<lparr>ura_id = ''a1'', ura_tenant = ''t1'', ura_user = ''u1'', ura_role = ''r1'', ura_valid_from = Some 0,
                        ura_valid_to = None, ura_status = ''ACTIVE'', ura_assigned_by = ''u0'', ura_assigned_at = 0\<rparr>],
      db_platform_roles = [], db_platform_role_permissions = [], db_platform_user_roles = [],
      db_groups = [], db_group_members = [], db_group_roles = [], db_templates = [], db_template_permissions = [], db_bindings = [],
      db_requests = [], db_changes = [],
      db_scopes = [\<lparr>sc_principal = ''m1'', sc_tenant = ''t1'', sc_status = ''ACTIVE'', sc_valid_from = None, sc_valid_to = None\<rparr>],
      db_grants = [\<lparr>pg_principal = ''m1'', pg_tenant = ''t1'', pg_permission = ''di.case.read'', pg_status = ''ACTIVE''\<rparr>],
      db_credentials = [\<lparr>c_id = ''c1'', c_principal = ''m1'', c_client_id = ''client'', c_secret_hash = replicate 64 (CHR ''0''),
                         c_status = ''ACTIVE'', c_valid_from = 0, c_valid_to = None, c_last_used_at = None\<rparr>],
      db_policies = [\<lparr>pol_tenant = ''t1'', pol_max_active_devices = 2, pol_max_geo_accuracy = 50, pol_max_geo_age = 60,
                      pol_geo_revalidation = 600, pol_access_ttl = 15, pol_machine_ttl = 30, pol_idle_timeout = 30,
                      pol_session_max = 60, pol_vpn_detected = ''DENY'', pol_vpn_unknown = ''FLAG'', pol_status = ''ACTIVE''\<rparr>],
      db_locations = [\<lparr>l_id = ''l1'', l_tenant = ''t1'', l_latitude = 12, l_longitude = 77, l_allowed_radius = 100,
                       l_timezone = ''UTC'', l_status = ''ACTIVE''\<rparr>],
      db_schedules = [\<lparr>sch_id = ''s1'', sch_tenant = ''t1'', sch_status = ''ACTIVE''\<rparr>],
      db_windows = [\<lparr>w_tenant = ''t1'', w_schedule = ''s1'', w_iso_day = 4, w_start = 0, w_end = 72000000000,
                     w_crosses_midnight = False, w_status = ''ACTIVE''\<rparr>],
      db_user_locations = [\<lparr>ul_tenant = ''t1'', ul_user = ''u1'', ul_location = ''l1'', ul_schedule = ''s1'',
                            ul_valid_from = None, ul_valid_to = None, ul_status = ''ACTIVE''\<rparr>],
      db_overrides = [],
      db_devices = [\<lparr>d_id = ''d1'', d_tenant = ''t1'', d_user = ''u1'', d_type = ''MOBILE'', d_platform = ''ANDROID'',
                     d_name = None, d_model = None, d_os_version = None, d_browser_name = None, d_browser_version = None,
                     d_app_version = None, d_platform_identifier = None, d_mac_address = None, d_first_seen_ip = None,
                     d_last_seen_ip = None, d_status = ''ACTIVE'', d_registered_at = 0, d_approved_by = None,
                     d_approved_at = None, d_last_seen_at = None\<rparr>],
      db_enrollments = [], db_sessions = sessions, db_evaluations = [],
      db_attempts = [], db_onboarding = [], db_onboarding_key = [], db_events = []\<rparr>"

definition sample_env :: "(claims \<times> string) access_env" where
  "sample_env = \<lparr>env_repo = GroupAwareSecurityRepository, env_network = UnknownNetworkRiskAdapter, env_jwt = plain_jwt,
     env_settings = sample_settings, env_zoneinfo = (\<lambda>_. Some utc_zone),
     env_sha256_hex = (\<lambda>_. replicate 64 (CHR ''0''))\<rparr>"

definition sample_identity :: AuthenticatedIdentity where
  "sample_identity = \<lparr>id_provider = ''CLERK'', id_provider_subject = ''clerk-1'', id_session_id = ''sid''\<rparr>"

definition sample_geo :: "int \<Rightarrow> GeoSample" where
  "sample_geo now = office_sample\<lparr>gs_captured_at := now\<rparr>"

definition sample_uuid :: "nat \<Rightarrow> string" where
  "sample_uuid n = replicate (Suc n) (CHR ''x'')"

text \<open>A session that started at the epoch and is to expire a minute after \<open>10000 s\<close>.\<close>

definition old_session :: access_session where
  "old_session = \<lparr>as_id = ''as0'', as_tenant = ''t1'', as_principal = ''u1'', as_actor_type = ''USER'', as_membership = None,
     as_device = Some ''d1'', as_location = Some ''l1'', as_credential = None, as_source = ''CLERK'', as_version = Some 1,
     as_ip = ''ip'', as_vpn = Some ''UNKNOWN'', as_started = 0, as_expires = 10060000000, as_last_activity = 0,
     as_last_geo = Some 0, as_status = ''ACTIVE''\<rparr>"

section \<open>Evaluating the gates\<close>

abbreviation sample_location :: LocationCandidate where
  "sample_location \<equiv> office_candidate ''l1''\<lparr>lc_timezone_iana := ''UTC'', lc_schedule_id := ''s1''\<rparr>"

abbreviation sample_policy :: TenantPolicy where
  "sample_policy \<equiv> policy_of (hd (db_policies (sample_db [])))"

lemma sample_early_gates:
  assumes "working s = sample_db ss"
  shows "require_open_tenant ''t1'' s = (Inr (), s)"
    and "resolve_identity_user (id_provider sample_identity) (id_provider_subject sample_identity) s = (Inr ''u1'', s)"
    and "get_user_context (env_repo sample_env) ''u1'' ''t1'' now s
      = (Inr \<lparr>uc_user_id = ''u1'', uc_user_status = ''ACTIVE'', uc_membership_id = [],
          uc_membership_status = ''NOT_REQUIRED'', uc_authorization_version = 3\<rparr>, s)"
    and "get_tenant_policy ''t1'' s = (Inr sample_policy, s)"
    and "lock_active_device ''u1'' ''t1'' ''d1'' s = (Inr (hd (db_devices (sample_db []))), s)"
    and "check_network sample_policy \<lparr>nr_vpn_status = UNKNOWN_VPN, nr_risk_reasons = r, nr_provider_reference = None\<rparr> s
      = (Inr (), s)"
  subgoal by (simp add: method_simps first_row_def assms sample_db_def)
  subgoal by (simp add: method_simps identity_rows_def assms sample_db_def sample_identity_def)
  subgoal
    by (simp add: sample_env_def GroupAwareSecurityRepository_def global_user_context_def success_simps
        global_user_rows_def assms sample_db_def)
  subgoal by (simp add: method_simps first_row_def assms sample_db_def)
  subgoal by (simp add: method_simps first_row_def assms sample_db_def)
  subgoal by (simp add: method_simps policy_of_def sample_db_def)
  done

lemma sample_location_gate:
  assumes "working s = sample_db ss"
  shows "match_assigned_location sample_policy (sample_geo now) ''u1'' ''t1'' now s = (Inr (sample_location, 0), s)"
proof -
  have rows: "assigned_location_rows ''u1'' ''t1'' now (sample_db ss) = [sample_location]"
    by (simp add: assigned_location_rows_def sample_db_def office_candidate_def)
  show ?thesis
    unfolding match_assigned_location_Inr assms rows
    by (simp add: validate_geo_def sample_geo_def office_sample_def total_seconds_def policy_of_def sample_db_def
        match_location_def location_matches_def candidate_distance_def office_candidate_def haversine_self)
qed

lemma sample_schedule_gate:
  assumes "working s = sample_db ss" and "0 \<le> now" and "now < 72000000000"
  shows "check_schedule sample_env sample_location ''u1'' ''t1'' now s
      = (Inr \<lparr>sd_local_time = now, sd_authorized_until_utc = 72000000000\<rparr>, s)"
proof -
  have ws: "schedule_window_rows ''t1'' ''s1'' (sample_db ss)
      = [\<lparr>sw_iso_day_of_week = 4, sw_start_local_time = 0, sw_end_local_time = 72000000000, sw_crosses_midnight = False\<rparr>]"
    by (simp add: schedule_window_rows_def sample_db_def)
  have day: "now div 86400000000 = 0" using assms(2,3) by (simp add: div_pos_pos_trivial)
  show ?thesis
    using assms(2,3) day
    by (simp add: check_schedule_def success_simps method_simps first_row_def assms(1) latest_override_def
        override_ends_def ws sample_env_def office_candidate_def)
      (simp add: sample_db_def evaluate_schedule_def ZoneInfo_def Let_def utc_zone_def astimezone_def utc_offset_def
        date_of_def MICROS_PER_DAY_def isoweekday_def window_bounds_def datetime_combine_def local_to_utc_def wall_offset_def)
qed

lemma sample_permission_gate:
  assumes "working s = sample_db ss" and "0 \<le> now"
  shows "current_permissions sample_env ''t1'' ''u1'' now s = (Inr ([''di.agent''], [''di.case.read'']), s)"
proof -
  have eff: "effective_user_permissions (sample_db ss) ''t1'' ''u1'' now = Inr ([''di.agent''], [''di.case.read''])"
    using assms(2)
    by (simp add: effective_user_permissions_def effective_grants_def tenant_grants_def effective_tenant_roles_def
        direct_roles_def group_roles_def platform_grants_def sample_db_def sorted_set_def)
  show ?thesis
    using sample_permissions
    by (simp add: current_permissions_def success_simps sample_env_def GroupAwareSecurityRepository_def
        group_aware_user_permissions_def assms(1) eff validate_permissions_def sorted_set_def)
qed

lemma sample_admit:
  assumes "working s = sample_db ss" and "0 \<le> now" and "now < 72000000000"
  shows "\<exists>a. admit sample_env now \<lparr>nr_vpn_status = UNKNOWN_VPN, nr_risk_reasons = r, nr_provider_reference = None\<rparr>
      sample_identity ''t1'' ''d1'' (sample_geo now) s = (Inr a, s)
    \<and> ad_user_id a = ''u1'' \<and> ad_policy a = sample_policy \<and> ad_location a = sample_location
    \<and> sd_authorized_until_utc (ad_schedule a) = 72000000000 \<and> ad_roles a = [''di.agent'']
    \<and> ad_permissions a = [''di.case.read'']"
  unfolding admit_def
  by (simp add: bindM_def seqM_def sample_early_gates [OF assms(1)] sample_location_gate [OF assms(1)]
      sample_schedule_gate [OF assms] sample_permission_gate [OF assms(1,2)] run_returnM)

lemma sample_token:
  assumes "ad_user_id a = ''u1''" "ad_roles a = [''di.agent'']" "ad_permissions a = [''di.case.read'']"
    and "lc_location_id (ad_location a) = ''l1''" "sid \<noteq> []"
  shows "issue (env_jwt sample_env) (env_settings sample_env) sg (user_token_claims ''t1'' sid ''d1'' a ex) s
           = (Inr (token_payload sample_settings (user_token_claims ''t1'' sid ''d1'' a ex) [''di.case.read''] sg (uuids s 0),
                ''private''), s\<lparr>uuids := (\<lambda>n. uuids s (Suc n))\<rparr>)"
  using assms sample_permissions
  by (simp add: issue_Inr sample_env_def sample_settings_def is_set_def user_token_claims_def
      validate_actor_claim_shape_def plain_jwt_def sorted_set_def)

text \<open>The runs the witnesses use: a first access, and one that finds an old session.\<close>

definition first_run :: "(exn + (claims \<times> string) access_result) \<times> db session" where
  "first_run = create_or_reuse sample_env 1000000000 1000000000 sample_identity ''t1'' ''d1'' (sample_geo 1000000000)
     ''ip'' ''cid'' (fresh_session (sample_db []) sample_uuid)"

definition reuse_run :: "(exn + (claims \<times> string) access_result) \<times> db session" where
  "reuse_run = create_or_reuse sample_env 10000000000 10000000000 sample_identity ''t1'' ''d1'' (sample_geo 10000000000)
     ''ip'' ''cid'' (fresh_session (sample_db [old_session]) sample_uuid)"

lemmas session_defs =
  expire_stale_user_sessions_def active_user_session_def update_reused_user_session_def update_sessions_def
  update_rows_def is_active_user_session_def first_row_def Let_def

lemma first_run_returns: "\<exists>res t. first_run = (Inr res, t) \<and> ar_expires res = 1600000000 \<and> ar_session_id res = ''x''"
proof -
  let ?s = "fresh_session (sample_db []) sample_uuid"
  let ?r = "\<lparr>nr_vpn_status = UNKNOWN_VPN, nr_risk_reasons = [''PROVIDER_NOT_CONFIGURED''], nr_provider_reference = None\<rparr>"
  obtain a where a: "admit sample_env 1000000000 ?r sample_identity ''t1'' ''d1'' (sample_geo 1000000000) ?s = (Inr a, ?s)"
      "ad_user_id a = ''u1''" "ad_policy a = sample_policy"
      "ad_location a = sample_location"
      "sd_authorized_until_utc (ad_schedule a) = 72000000000" "ad_roles a = [''di.agent'']"
      "ad_permissions a = [''di.case.read'']"
    using sample_admit [of ?s "[]" 1000000000] by (auto simp: fresh_session_def)
  have net: "env_network sample_env ''ip'' ''cid'' = Inr ?r" by (simp add: sample_env_def UnknownNetworkRiskAdapter_def)
  have opn: "\<exists>s1. open_session sample_env 1000000000 ?r sample_identity ''t1'' ''d1'' ''ip'' a ?s = (Inr (''x'', 1600000000), s1)
      \<and> db_evaluations (working s1) = []"
    by (simp add: open_session_def a session_defs run_simps fresh_session_def sample_db_def policy_of_def
        session_expiry_def minutes_def seconds_def sample_env_def GroupAwareSecurityRepository_def
        create_global_session_def insert_session_def user_session_row_def session_check_def index_free_def
        sample_identity_def office_candidate_def sample_uuid_def)
  then obtain s1 where s1: "open_session sample_env 1000000000 ?r sample_identity ''t1'' ''d1'' ''ip'' a ?s = (Inr (''x'', 1600000000), s1)"
      "db_evaluations (working s1) = []" by blast
  have l: "lc_location_id (ad_location a) = ''l1''" "''x'' \<noteq> []" by (simp_all add: a(4) office_candidate_def)
  show ?thesis
    unfolding first_run_def create_or_reuse_def
    by (simp add: run_simps net a(1) s1 record_evaluation_def insert_evaluation_def index_free_def
        sample_token [OF a(2,6,7) l])
qed

lemma reuse_run_returns: "\<exists>res t. reuse_run = (Inr res, t) \<and> ar_expires res = 3600000000 \<and> ar_session_id res = ''as0''"
proof -
  let ?s = "fresh_session (sample_db [old_session]) sample_uuid"
  let ?r = "\<lparr>nr_vpn_status = UNKNOWN_VPN, nr_risk_reasons = [''PROVIDER_NOT_CONFIGURED''], nr_provider_reference = None\<rparr>"
  obtain a where a: "admit sample_env 10000000000 ?r sample_identity ''t1'' ''d1'' (sample_geo 10000000000) ?s = (Inr a, ?s)"
      "ad_user_id a = ''u1''" "ad_policy a = sample_policy"
      "ad_location a = sample_location"
      "sd_authorized_until_utc (ad_schedule a) = 72000000000" "ad_roles a = [''di.agent'']"
      "ad_permissions a = [''di.case.read'']"
    using sample_admit [of ?s "[old_session]" 10000000000] by (auto simp: fresh_session_def)
  have net: "env_network sample_env ''ip'' ''cid'' = Inr ?r" by (simp add: sample_env_def UnknownNetworkRiskAdapter_def)
  have opn: "\<exists>s1. open_session sample_env 10000000000 ?r sample_identity ''t1'' ''d1'' ''ip'' a ?s = (Inr (''as0'', 3600000000), s1)
      \<and> db_evaluations (working s1) = []"
    by (simp add: open_session_def a session_defs run_simps fresh_session_def sample_db_def policy_of_def
        session_expiry_def minutes_def seconds_def old_session_def session_check_def office_candidate_def)
  then obtain s1 where s1: "open_session sample_env 10000000000 ?r sample_identity ''t1'' ''d1'' ''ip'' a ?s = (Inr (''as0'', 3600000000), s1)"
      "db_evaluations (working s1) = []" by blast
  have l: "lc_location_id (ad_location a) = ''l1''" "''as0'' \<noteq> []" by (simp_all add: a(4) office_candidate_def)
  show ?thesis
    unfolding reuse_run_def create_or_reuse_def
    by (simp add: run_simps net a(1) s1 record_evaluation_def insert_evaluation_def index_free_def
        sample_token [OF a(2,6,7) l])
qed

section \<open>User access\<close>

text \<open>
  C1: a user gets a token only if every gate was open at the same database: an active
  tenant, an active identity, user and device, a fresh and unsuspicious position at an
  assigned location, an open schedule, an allowed network, and the permissions in the token
  are exactly canonical ones that are granted. The session and the evidence of the decision
  are committed, and the token expires no later than any of the bounds of the policy.
\<close>

theorem access_granted_only_through_gates:
  assumes "env_repo env = GroupAwareSecurityRepository"
    and "create_or_reuse env now sg identity tn dev geo ip cid s = (Inr res, t)"
  shows "\<exists>risk a. env_network env ip cid = Inr risk
    \<and> access_gates env (working s) now (nr_vpn_status risk) identity tn dev geo a
    \<and> committed t = working t \<and> access_recorded env (committed t) now sg tn dev cid a res"
  using assms by (rule group_repository.create_or_reuse_InrD)

theorem access_granted_only_through_gates_witness:
  "\<exists>a res d. access_gates sample_env (sample_db []) 1000000000 UNKNOWN_VPN sample_identity ''t1'' ''d1''
      (sample_geo 1000000000) a
    \<and> access_recorded sample_env d 1000000000 1000000000 ''t1'' ''d1'' ''cid'' a res"
proof -
  obtain res t where r: "first_run = (Inr res, t)" using first_run_returns by blast
  have e: "env_repo sample_env = GroupAwareSecurityRepository" by (simp add: sample_env_def)
  from access_granted_only_through_gates [OF e r [unfolded first_run_def]]
  show ?thesis by (auto simp: sample_env_def UnknownNetworkRiskAdapter_def fresh_session_def)
qed

text \<open>
  C8: a request that is refused, or fails anywhere (at the provider, at a gate, in a
  constraint of the database, at signing), leaves the committed database as it was: no
  session without a token.
\<close>

theorem access_failure_changes_nothing:
  assumes "env_repo env = GroupAwareSecurityRepository"
    and "create_or_reuse env now sg identity tn dev geo ip cid s = (Inl e, t)"
  shows "committed t = committed s"
  using group_repository.create_or_reuse_atomic [OF assms(1)] assms(2) by (rule atomicD)

theorem access_failure_changes_nothing_witness:
  "\<exists>e t. create_or_reuse sample_env 0 0 sample_identity ''t2'' ''d1'' (sample_geo 0) ''ip'' ''cid''
     (fresh_session (sample_db [old_session]) sample_uuid) = (Inl e, t) \<and> committed t = sample_db [old_session]"
proof -
  let ?s = "fresh_session (sample_db [old_session]) sample_uuid"
  have "\<exists>e t. create_or_reuse sample_env 0 0 sample_identity ''t2'' ''d1'' (sample_geo 0) ''ip'' ''cid'' ?s = (Inl e, t)"
    by (simp add: create_or_reuse_def run_simps sample_env_def UnknownNetworkRiskAdapter_def admit_def
        require_open_tenant_def tenant_status_def fresh_session_def sample_db_def first_row_def)
  then obtain e t where r: "create_or_reuse sample_env 0 0 sample_identity ''t2'' ''d1'' (sample_geo 0) ''ip'' ''cid'' ?s = (Inl e, t)"
    by blast
  from access_failure_changes_nothing [OF _ r] have "committed t = committed ?s" by (simp add: sample_env_def)
  with r show ?thesis by (intro exI) (auto simp: fresh_session_def)
qed

text \<open>
  C7: after a granted request the session of its token is the only live one of the user on
  the device in the tenant.
\<close>

theorem one_live_session_per_device:
  assumes "env_repo env = GroupAwareSecurityRepository"
    and "create_or_reuse env now sg identity tn dev geo ip cid s = (Inr res, t)"
    and "db_ok (committed s)" and "db_ok (working s)"
  shows "\<exists>u. active_user (working s) u
    \<and> {as_id r |r. r \<in> set (db_sessions (committed t)) \<and> is_active_user_session tn u dev r} = {ar_session_id res}"
proof -
  from group_repository.create_or_reuse_InrD [OF assms(1,2)] obtain risk a where
      "env_network env ip cid = Inr risk"
    and g: "access_gates env (working s) now (nr_vpn_status risk) identity tn dev geo a"
    and rec: "access_recorded env (committed t) now sg tn dev cid a res" by auto
  let ?u = "ad_user_id a"
  from rec obtain r where r: "r \<in> set (db_sessions (committed t))" "is_active_user_session tn ?u dev r"
      "as_id r = ar_session_id res"
    by (auto simp: access_recorded_def session_for_def)
  have "db_ok (committed t)"
    using keepsD [OF group_repository.create_or_reuse_keeps [OF assms(1), of now sg identity tn dev geo ip cid] assms(3,4)]
    unfolding assms(2) by simp
  then have uq: "unique_index session_key session_live (db_sessions (committed t))"
    by (simp add: db_ok_def sessions_ok_def)
  have "q = r" if "q \<in> set (db_sessions (committed t))" "is_active_user_session tn ?u dev q" for q
    using unique_index_eq [OF uq that(1) r(1)] that(2) r(2)
    by (simp add: is_active_user_session_def session_live_def session_key_def)
  then have ids: "as_id q = ar_session_id res"
    if "q \<in> set (db_sessions (committed t))" "is_active_user_session tn ?u dev q" for q using that r(3) by metis
  have "{as_id q |q. q \<in> set (db_sessions (committed t)) \<and> is_active_user_session tn ?u dev q} = {ar_session_id res}"
  proof (intro equalityI subsetI)
    fix i assume "i \<in> {as_id q |q. q \<in> set (db_sessions (committed t)) \<and> is_active_user_session tn ?u dev q}"
    then obtain q where "i = as_id q" "q \<in> set (db_sessions (committed t))" "is_active_user_session tn ?u dev q"
      by blast
    then show "i \<in> {ar_session_id res}" using ids by simp
  next
    fix i assume "i \<in> {ar_session_id res}"
    then show "i \<in> {as_id q |q. q \<in> set (db_sessions (committed t)) \<and> is_active_user_session tn ?u dev q}"
      using r by (intro CollectI exI [of _ r]) simp
  qed
  then show ?thesis using g by (auto simp: access_gates_def)
qed

lemma sample_db_ok: "db_ok (sample_db [])" "db_ok (sample_db [old_session])"
  by (simp_all add: db_ok_def table_ok_defs unique_index_def sample_db_def old_session_def session_check_def)

theorem one_live_session_per_device_witness:
  "\<exists>u (d::db) sid. active_user (sample_db []) u
    \<and> {as_id r |r. r \<in> set (db_sessions d) \<and> is_active_user_session ''t1'' u ''d1'' r} = {sid}"
proof -
  obtain res t where r: "first_run = (Inr res, t)" using first_run_returns by blast
  have e: "env_repo sample_env = GroupAwareSecurityRepository" by (simp add: sample_env_def)
  have w: "working (fresh_session (sample_db []) sample_uuid) = sample_db []"
      "committed (fresh_session (sample_db []) sample_uuid) = sample_db []" by (simp_all add: fresh_session_def)
  from one_live_session_per_device [OF e r [unfolded first_run_def], unfolded w, OF sample_db_ok(1) sample_db_ok(1)]
  show ?thesis by (elim exE conjE) (intro exI conjI)
qed


section \<open>Machine access\<close>

lemma create_machine_session_InrD:
  assumes "create_machine_session p a tn c ip ex now s = (Inr sid, t)"
  shows "\<exists>r. as_id r = sid \<and> as_principal r = p \<and> as_tenant r = tn \<and> as_credential r = Some c
    \<and> as_actor_type r = actor_type_value a \<and> as_expires r = ex \<and> as_status r = ''ACTIVE''
    \<and> db_sessions (working t) = db_sessions (working s) @ [r]"
  using assms by (auto simp: create_machine_session_def success_simps insert_session_def split: if_splits)


lemma sample_lower: "py_lower (py_strip (replicate 64 (CHR ''0''))) = replicate 64 (CHR ''0'')"
  by (simp add: py_strip_def py_lower_def py_lower_char_def py_space_def Let_def numeral_eq_Suc)

lemma sample_credential:
  assumes "working s = sample_db ss" and "0 \<le> now"
  shows "authenticate_credential sample_env ''client'' sec now s
    = (Inr \<lparr>mc_principal_id = ''m1'', mc_actor_type = SYSTEM, mc_credential_id = ''c1'', mc_client_id = ''client'',
            mc_secret_hash = replicate 64 (CHR ''0'')\<rparr>, s)"
proof -
  have m: "machine_credential ''client'' now s
    = (Inr \<lparr>mc_principal_id = ''m1'', mc_actor_type = SYSTEM, mc_credential_id = ''c1'', mc_client_id = ''client'',
            mc_secret_hash = replicate 64 (CHR ''0'')\<rparr>, s)"
    using assms(2) by (simp add: machine_credential_Inr credential_rows_def assms(1) sample_db_def)
  have h: "\<not> list_ex (\<lambda>c. \<not> hex_digit c) (replicate 64 (CHR ''0''))"
    by (simp add: list_ex_iff hex_digit_def)
  show ?thesis
    unfolding authenticate_credential_def
    by (simp only: bindM_def m prod.case sum.case Let_def MachineCredential.simps sample_lower)
      (simp add: run_simps h sample_env_def)
qed

definition machine_run :: "(exn + (claims \<times> string) machine_result) \<times> db session" where
  "machine_run = issue_machine_token sample_env 0 0 ''client'' ''secret'' ''t1'' [''di.case.read'', [], ''di.case.read'']
     ''ip'' ''cid'' (fresh_session (sample_db []) sample_uuid)"

lemma machine_run_returns: "\<exists>res t. machine_run = (Inr res, t)"
proof -
  let ?s = "fresh_session (sample_db []) sample_uuid"
  have w: "working ?s = sample_db []" by (simp add: fresh_session_def)
  have req: "requested_permission_list [''di.case.read'', [], ''di.case.read''] = Inr [''di.case.read'']"
    using sample_permissions by (simp add: requested_permission_list_def validate_permissions_def sorted_set_def)
  have tn: "require_open_tenant ''t1'' ?s = (Inr (), ?s)"
    by (simp add: method_simps first_row_def w) (simp add: sample_db_def)
  have pol: "get_tenant_policy ''t1'' ?s = (Inr (policy_of (hd (db_policies (sample_db [])))), ?s)"
    by (simp add: method_simps first_row_def w) (simp add: sample_db_def)
  let ?mc = "\<lparr>mc_principal_id = ''m1'', mc_actor_type = SYSTEM, mc_credential_id = ''c1'', mc_client_id = ''client'',
            mc_secret_hash = replicate 64 (CHR ''0'')\<rparr>"
  have held: "machine_permissions ''m1'' ''t1'' 0 ?s = (Inr [''di.case.read''], ?s)"
    by (simp add: method_simps w) (simp add: sample_db_def machine_grant_rows_def exists_row_def scope_open_def sorted_set_def)
  have perms: "authorized_permissions ?mc ''t1'' [''di.case.read'', [], ''di.case.read''] 0 ?s = (Inr [''di.case.read''], ?s)"
    using sample_permissions
    by (simp add: authorized_permissions_def run_simps req held validate_permissions_def sorted_set_def)
  have ttl: "machine_token_ttl_minutes (policy_of (hd (db_policies (sample_db [])))) = 30"
    by (simp add: policy_of_def sample_db_def)
  have rest: "db_sessions (working ?s) = []" "db_evaluations (working ?s) = []" "uuids ?s = sample_uuid"
    by (simp_all add: fresh_session_def sample_db_def)
  show ?thesis
    unfolding machine_run_def issue_machine_token_def
    using sample_permissions
    by (simp add: run_simps sample_credential [OF w] tn pol perms ttl rest create_machine_session_def insert_session_def
        session_check_def index_free_def minutes_def record_evaluation_def insert_evaluation_def
        mark_machine_credential_used_def issue_def is_set_def validate_actor_claim_shape_def validate_permissions_def)
      (simp add: sample_env_def sample_settings_def plain_jwt_def run_simps)
qed


section \<open>Token exchange\<close>

text \<open>
  C6: an exchanged token speaks for the subject of the user token, in its tenant, session,
  device and location, with the expiry of that token and with the client as the delegated
  actor. It carries exactly the requested permissions, each of them both in the user token
  and held by the machine: the exchange can only narrow.
\<close>

theorem exchange_narrows:
  assumes "exchange_user_token env now vf sg cl sec tok req s = (Inr res, t)"
  shows "\<exists>mc claims su. active_credential env (working s) now cl sec mc
    \<and> verify (env_jwt env) (env_settings env) vf tok = Inr claims
    \<and> get_claim claims ''actor_type'' = PStr ''USER'' \<and> read_subject_claims claims = Some su
    \<and> mr_expires res = fromtimestamp (su_expires_at su)
    \<and> mr_permissions res = sorted_set (filter (\<lambda>k. k \<noteq> []) req) \<and> mr_permissions res \<noteq> []
    \<and> set (mr_permissions res) \<subseteq> set (su_permissions su)
        \<inter> {k. machine_holds (working s) (mc_principal_id mc) (su_tenant_id su) now k}
    \<and> (\<exists>jti. jwt_encode (env_jwt env) (token_payload (env_settings env)
         \<lparr>tc_principal_id = su_subject su, tc_actor_type = USER, tc_tenant_id = su_tenant_id su,
          tc_access_session_id = su_session_id su, tc_permissions = mr_permissions res, tc_expires_at = mr_expires res,
          tc_roles = su_roles su, tc_device_id = Some (su_device_id su), tc_location_id = Some (su_location_id su),
          tc_delegated_actor_id = Some (mc_client_id mc), tc_subject = None\<rparr> (mr_permissions res) sg jti)
         (the (security_private_key_pem (env_settings env))) (the (security_key_id (env_settings env)))
       = Some (mr_token res))"
proof -
  from assms obtain mc s1 claims su x s2 machine s3 ups rq y s4 token s5 where
      st: "authenticate_credential env cl sec now s = (Inr mc, s1)"
      "verify (env_jwt env) (env_settings env) vf tok = Inr claims"
      "get_claim claims ''actor_type'' = PStr (actor_type_value USER)" "read_subject_claims claims = Some su"
      "require_open_tenant (su_tenant_id su) s1 = (Inr x, s2)"
      "machine_permissions (mc_principal_id mc) (su_tenant_id su) now s2 = (Inr machine, s3)"
      "validate_permissions (su_permissions su) = Inr ups"
      "requested_permission_list req = Inr rq" "set rq \<subseteq> set machine \<inter> set ups"
      "issue (env_jwt env) (env_settings env) sg
         \<lparr>tc_principal_id = su_subject su, tc_actor_type = USER, tc_tenant_id = su_tenant_id su,
          tc_access_session_id = su_session_id su, tc_permissions = rq, tc_expires_at = fromtimestamp (su_expires_at su),
          tc_roles = su_roles su, tc_device_id = Some (su_device_id su), tc_location_id = Some (su_location_id su),
          tc_delegated_actor_id = Some (mc_client_id mc), tc_subject = None\<rparr> s3 = (Inr token, s4)"
      "mark_machine_credential_used (mc_credential_id mc) now s4 = (Inr y, s5)"
    and res: "res = \<lparr>mr_token = token, mr_expires = fromtimestamp (su_expires_at su), mr_permissions = rq\<rparr>"
    unfolding exchange_user_token_def Let_def
    by (auto simp: bindM_Inr_iff seqM_Inr_iff returnM_Inr_iff commit_Inr_iff rollback_on_error_Inr_iff liftM_Inr_iff
        raise_if_Inr_iff throwM_Inr_iff split: option.splits)
  have au: "s1 = s" "active_credential env (working s) now cl sec mc" using authenticated_credential [OF st(1)] by auto
  have s2: "s2 = s" using st(5) au(1) by (auto simp: method_simps)
  note mh = machine_permissions_InrD [OF st(6)] and rl = requested_permission_list_InrD [OF st(8)]
  have ups: "set ups = set (su_permissions su)" using st(7) by (auto simp: validate_permissions_Inr_iff)
  have "sorted_set rq = rq" using rl by simp
  with st(10) have tk: "\<exists>jti. jwt_encode (env_jwt env) (token_payload (env_settings env)
         \<lparr>tc_principal_id = su_subject su, tc_actor_type = USER, tc_tenant_id = su_tenant_id su,
          tc_access_session_id = su_session_id su, tc_permissions = rq, tc_expires_at = fromtimestamp (su_expires_at su),
          tc_roles = su_roles su, tc_device_id = Some (su_device_id su), tc_location_id = Some (su_location_id su),
          tc_delegated_actor_id = Some (mc_client_id mc), tc_subject = None\<rparr> rq sg jti)
         (the (security_private_key_pem (env_settings env))) (the (security_key_id (env_settings env))) = Some token"
    by (auto simp: issue_Inr)
  have "set rq \<subseteq> set (su_permissions su) \<inter> {k. machine_holds (working s) (mc_principal_id mc) (su_tenant_id su) now k}"
    using st(9) mh ups s2 by auto
  note sub = this
  have rl': "rq = sorted_set (filter (\<lambda>k. k \<noteq> []) req)" "rq \<noteq> []" using rl by auto
  show ?thesis
    unfolding res machine_result.simps
    by (intro exI [of _ mc] exI [of _ claims] exI [of _ su] conjI refl au(2) st(2) st(4) sub rl' tk
        st(3) [unfolded actor_type_value.simps])
qed

text \<open>A user token of the sample environment, and what the exchange reads out of it.\<close>

definition sample_payload :: claims where
  "sample_payload = token_payload sample_settings sample_claims [''di.case.list'', ''di.case.read''] 1000000 ''jti''"

lemma sample_subject:
  "read_subject_claims (wire sample_payload) = Some
     \<lparr>su_subject = ''u1'', su_tenant_id = ''t1'', su_session_id = ''s1'', su_roles = [''di.agent''], su_device_id = ''d1'',
      su_location_id = ''l1'', su_permissions = [''di.case.list'', ''di.case.read''], su_expires_at = 60\<rparr>"
  unfolding read_subject_claims_def str_claim_def get_claim_wire
  by (simp add: get_claim_def dict_get_def sample_payload_def token_payload_def sample_claims_def opt_claim_def
      is_set_def token_subject_def)

lemma sample_verify: "verify plain_jwt sample_settings 2000000 (sample_payload, ''private'') = Inr (wire sample_payload)"
proof -
  have "acceptable sample_payload ''verigence'' ''apps'' REQUIRED_CLAIMS 2000000"
    unfolding sample_payload_def
    using acceptable_token_payload [of 1000000 2000000 sample_claims sample_settings]
    by (simp add: sample_claims_def sample_settings_def)
  moreover have "check_payload (wire sample_payload) = Inr (wire sample_payload)"
    unfolding sample_payload_def using sample_permissions
    by (intro check_token_payload) (simp_all add: validate_actor_claim_shape_def sample_claims_def is_set_def)
  ultimately show ?thesis by (simp add: verify_def plain_jwt_def sample_settings_def is_set_def)
qed

definition exchange_run :: "(exn + (claims \<times> string) machine_result) \<times> db session" where
  "exchange_run = exchange_user_token sample_env 2000000 2000000 2000000 ''client'' ''secret'' (sample_payload, ''private'')
     [''di.case.read''] (fresh_session (sample_db []) sample_uuid)"

lemma exchange_run_returns: "\<exists>res t. exchange_run = (Inr res, t) \<and> mr_permissions res = [''di.case.read'']"
proof -
  let ?s = "fresh_session (sample_db []) sample_uuid"
  have w: "working ?s = sample_db []" by (simp add: fresh_session_def)
  have v: "verify (env_jwt sample_env) (env_settings sample_env) 2000000 (sample_payload, ''private'') = Inr (wire sample_payload)"
    by (simp add: sample_env_def sample_verify)
  have act: "get_claim (wire sample_payload) ''actor_type'' = PStr ''USER''"
    unfolding get_claim_wire
    by (simp add: get_claim_def dict_get_def sample_payload_def token_payload_def sample_claims_def)
  have tn: "require_open_tenant ''t1'' ?s = (Inr (), ?s)"
    by (simp add: method_simps first_row_def w) (simp add: sample_db_def)
  have held: "machine_permissions ''m1'' ''t1'' 2000000 ?s = (Inr [''di.case.read''], ?s)"
    by (simp add: method_simps w) (simp add: sample_db_def machine_grant_rows_def exists_row_def scope_open_def sorted_set_def)
  have req: "requested_permission_list [''di.case.read''] = Inr [''di.case.read'']"
    using sample_permissions by (simp add: requested_permission_list_def validate_permissions_def sorted_set_def)
  have ups: "validate_permissions [''di.case.list'', ''di.case.read''] = Inr [''di.case.list'', ''di.case.read'']"
    using sample_permissions by (simp add: validate_permissions_def sorted_set_def)
  show ?thesis
    unfolding exchange_run_def exchange_user_token_def
    using sample_permissions
    by (simp add: run_simps Let_def sample_credential [OF w] v act sample_subject tn held req ups
        mark_machine_credential_used_def issue_def is_set_def validate_actor_claim_shape_def validate_permissions_def)
      (simp add: sample_env_def sample_settings_def plain_jwt_def run_simps)
qed

theorem exchange_narrows_witness:
  "\<exists>principal tenant. machine_holds (sample_db []) principal tenant 2000000 ''di.case.read''"
proof -
  obtain res t where r: "exchange_run = (Inr res, t)" "mr_permissions res = [''di.case.read'']"
    using exchange_run_returns by blast
  have "working (fresh_session (sample_db []) sample_uuid) = sample_db []" by (simp add: fresh_session_def)
  with exchange_narrows [OF r(1) [unfolded exchange_run_def]] r(2) show ?thesis by auto
qed

lemma blind_to_sessions [blind_intros]:
  "blind (\<lambda>d. d\<lparr>db_sessions := ss\<rparr>) (machine_credential cl now)"
  "blind (\<lambda>d. d\<lparr>db_sessions := ss\<rparr>) (tenant_status tn)"
  "blind (\<lambda>d. d\<lparr>db_sessions := ss\<rparr>) (machine_permissions p tn now)"
  "blind (\<lambda>d. d\<lparr>db_sessions := ss\<rparr>) (mark_machine_credential_used c now)"
  "blind (\<lambda>d. d\<lparr>db_sessions := ss\<rparr>) (issue jw st now tc)"
  unfolding machine_credential_def tenant_status_def machine_permissions_def mark_machine_credential_used_def issue_def
  by (intro blind_intros; simp add: credential_rows_def machine_grant_rows_def)+

lemma exchange_blind: "blind (\<lambda>d. d\<lparr>db_sessions := ss\<rparr>) (exchange_user_token env now vf sg cl sec tok req)"
  unfolding exchange_user_token_def authenticate_credential_def require_open_tenant_def Let_def
  by (intro blind_intros)

text \<open>
  C31: the exchange never looks at the access sessions: whatever their rows say (the session
  of the token revoked, expired, or gone), it answers the same. Revoking a session does not
  stop new tokens for it from being issued this way.
\<close>

theorem exchange_ignores_sessions:
  "fst (exchange_user_token env now vf sg cl sec tok req (on_both (\<lambda>d. d\<lparr>db_sessions := ss\<rparr>) s))
     = fst (exchange_user_token env now vf sg cl sec tok req s)"
  by (rule blindD [OF exchange_blind])

end
