(* ===== verification/DeviceLifecycle.thy ===== *)
theory DeviceLifecycle
  imports AccessService
begin

text \<open>
  \<open>repositories/device_session_repository.py\<close>, \<open>services/device_lifecycle.py\<close> and
  \<open>services/session_lifecycle.py\<close>: enrolling a device, approving it under the limit of the
  tenant, and revoking an access session.
\<close>

section \<open>The repository\<close>

record new_enrollment =
  ne_request_id :: string
  ne_device_id :: string
  ne_tenant_id :: string
  ne_user_id :: string
  ne_device_type :: string
  ne_platform :: string
  ne_device_name :: "string option"
  ne_device_model :: "string option"
  ne_os_version :: "string option"
  ne_browser_name :: "string option"
  ne_browser_version :: "string option"
  ne_app_version :: "string option"
  ne_platform_identifier :: "string option"
  ne_mac_address :: "string option"
  ne_source_ip :: string
  ne_latitude :: "real option"
  ne_longitude :: "real option"
  ne_accuracy :: "real option"

definition create_pending_enrollment :: "new_enrollment \<Rightarrow> int \<Rightarrow> unit dbact" where
  "create_pending_enrollment ne now =
     seqM (execute (insert_device
       \<lparr>d_id = ne_device_id ne, d_tenant = ne_tenant_id ne, d_user = ne_user_id ne, d_type = ne_device_type ne,
        d_platform = ne_platform ne, d_name = ne_device_name ne, d_model = ne_device_model ne,
        d_os_version = ne_os_version ne, d_browser_name = ne_browser_name ne,
        d_browser_version = ne_browser_version ne, d_app_version = ne_app_version ne,
        d_platform_identifier = ne_platform_identifier ne, d_mac_address = ne_mac_address ne,
        d_first_seen_ip = Some (ne_source_ip ne), d_last_seen_ip = Some (ne_source_ip ne), d_status = ''PENDING'',
        d_registered_at = now, d_approved_by = None, d_approved_at = None, d_last_seen_at = Some now\<rparr>))
     (execute (insert_enrollment
       \<lparr>en_id = ne_request_id ne, en_tenant = ne_tenant_id ne, en_user = ne_user_id ne, en_device = ne_device_id ne,
        en_source_ip = Some (ne_source_ip ne), en_latitude = ne_latitude ne, en_longitude = ne_longitude ne,
        en_accuracy = ne_accuracy ne, en_requested_at = now, en_status = ''PENDING'', en_decided_by = None,
        en_decided_at = None\<rparr>))"

definition lock_membership_for_device_limit :: "string \<Rightarrow> string \<Rightarrow> membership option dbact" where
  "lock_membership_for_device_limit tenant_id user_id =
     query (\<lambda>d. first_row (\<lambda>m. m_tenant m = tenant_id \<and> m_user m = user_id) (db_memberships d))"

definition is_active_device :: "string \<Rightarrow> string \<Rightarrow> device \<Rightarrow> bool" where
  "is_active_device tenant_id user_id r = (d_tenant r = tenant_id \<and> d_user r = user_id \<and> d_status r = ''ACTIVE'')"

definition active_device_count :: "string \<Rightarrow> string \<Rightarrow> device list \<Rightarrow> int" where
  "active_device_count tenant_id user_id rows = int (length (filter (is_active_device tenant_id user_id) rows))"

definition count_active_devices :: "string \<Rightarrow> string \<Rightarrow> int dbact" where
  "count_active_devices tenant_id user_id = query (\<lambda>d. active_device_count tenant_id user_id (db_devices d))"

definition is_pending_device :: "string \<Rightarrow> string \<Rightarrow> string \<Rightarrow> device \<Rightarrow> bool" where
  "is_pending_device tenant_id user_id device_id r =
     (d_tenant r = tenant_id \<and> d_user r = user_id \<and> d_id r = device_id \<and> d_status r = ''PENDING'')"

definition pending_device_for_update :: "string \<Rightarrow> string \<Rightarrow> string \<Rightarrow> device option dbact" where
  "pending_device_for_update tenant_id user_id device_id =
     query (\<lambda>d. first_row (is_pending_device tenant_id user_id device_id) (db_devices d))"

definition is_pending_request :: "string \<Rightarrow> string \<Rightarrow> string \<Rightarrow> string \<Rightarrow> enrollment \<Rightarrow> bool" where
  "is_pending_request request_id tenant_id user_id device_id r =
     (en_id r = request_id \<and> en_tenant r = tenant_id \<and> en_user r = user_id \<and> en_device r = device_id
      \<and> en_status r = ''PENDING'')"

text \<open>\<open>UPDATE ... RETURNING\<close>: whether a row was hit, and the update.\<close>

definition activate_pending_device ::
  "string \<Rightarrow> string \<Rightarrow> string \<Rightarrow> string \<Rightarrow> string \<Rightarrow> int \<Rightarrow> bool dbact" where
  "activate_pending_device request_id tenant_id user_id device_id decided_by decided_at =
     bindM (query (\<lambda>d. exists_row (is_pending_request request_id tenant_id user_id device_id) (db_enrollments d)))
       (\<lambda>request_row. if \<not> request_row then returnM False else
     bindM (query (\<lambda>d. exists_row (is_pending_device tenant_id user_id device_id) (db_devices d))) (\<lambda>device_row.
     seqM (update (\<lambda>d. d\<lparr>db_devices := update_rows (is_pending_device tenant_id user_id device_id)
             (\<lambda>r. r\<lparr>d_status := ''ACTIVE'', d_approved_by := Some decided_by, d_approved_at := Some decided_at\<rparr>)
             (db_devices d)\<rparr>))
     (if \<not> device_row then returnM False else
     bindM (query (\<lambda>d. exists_row (is_pending_request request_id tenant_id user_id device_id) (db_enrollments d)))
       (\<lambda>updated_request.
     seqM (update (\<lambda>d. d\<lparr>db_enrollments := update_rows (is_pending_request request_id tenant_id user_id device_id)
             (\<lambda>r. r\<lparr>en_status := ''APPROVED'', en_decided_by := Some decided_by, en_decided_at := Some decided_at\<rparr>)
             (db_enrollments d)\<rparr>))
     (returnM updated_request)))))"

definition is_user_session :: "string \<Rightarrow> string \<Rightarrow> string \<Rightarrow> access_session \<Rightarrow> bool" where
  "is_user_session access_session_id tenant_id user_id r =
     (as_id r = access_session_id \<and> as_tenant r = tenant_id \<and> as_principal r = user_id \<and> as_actor_type r = ''USER'')"

definition user_session_for_update :: "string \<Rightarrow> string \<Rightarrow> string \<Rightarrow> access_session option dbact" where
  "user_session_for_update access_session_id tenant_id user_id =
     query (\<lambda>d. first_row (is_user_session access_session_id tenant_id user_id) (db_sessions d))"

definition is_revocable :: "string \<Rightarrow> string \<Rightarrow> string \<Rightarrow> access_session \<Rightarrow> bool" where
  "is_revocable access_session_id tenant_id user_id r =
     (is_user_session access_session_id tenant_id user_id r \<and> as_status r = ''ACTIVE'')"

definition revoke_active_user_session :: "string \<Rightarrow> string \<Rightarrow> string \<Rightarrow> bool dbact" where
  "revoke_active_user_session access_session_id tenant_id user_id =
     bindM (query (\<lambda>d. exists_row (is_revocable access_session_id tenant_id user_id) (db_sessions d))) (\<lambda>hit.
     seqM (execute (update_sessions (is_revocable access_session_id tenant_id user_id) (\<lambda>r. r\<lparr>as_status := ''REVOKED''\<rparr>)))
     (returnM hit))"

section \<open>Approving a device\<close>

definition approve_pending_device ::
  "string \<Rightarrow> string \<Rightarrow> string \<Rightarrow> string \<Rightarrow> string \<Rightarrow> int \<Rightarrow> bool dbact" where
  "approve_pending_device request_id tenant_id user_id device_id decided_by decided_at =
     rollback_on_error
       (bindM (lock_membership_for_device_limit tenant_id user_id) (\<lambda>membership.
        case membership of
          None \<Rightarrow> throwM (security_error ''TENANT_MEMBERSHIP_REQUIRED'')
        | Some m \<Rightarrow>
          seqM (raise_if (m_status m \<noteq> ''ACTIVE'') (security_error ''TENANT_MEMBERSHIP_INACTIVE''))
          (bindM (get_tenant_policy tenant_id) (\<lambda>policy.
           bindM (pending_device_for_update tenant_id user_id device_id) (\<lambda>pending.
           case pending of
             None \<Rightarrow> seqM rollback (returnM False)
           | Some _ \<Rightarrow>
             bindM (count_active_devices tenant_id user_id) (\<lambda>active_devices.
             seqM (raise_if (active_devices \<ge> max_active_devices_per_user policy) (security_error ''DEVICE_LIMIT_REACHED''))
             (bindM (activate_pending_device request_id tenant_id user_id device_id decided_by decided_at) (\<lambda>activated.
              if \<not> activated then seqM rollback (returnM False)
              else seqM commit (returnM True)))))))))"

section \<open>Refreshing and revoking sessions\<close>

definition require_refresh_geo :: "GeoSample option \<Rightarrow> exn + GeoSample" where
  "require_refresh_geo geo = (case geo of None \<Rightarrow> Inl (security_error ''GEO_REQUIRED'') | Some g \<Rightarrow> Inr g)"

definition revoke :: "string \<Rightarrow> string \<Rightarrow> string \<Rightarrow> bool dbact" where
  "revoke access_session_id tenant_id user_id =
     rollback_on_error
       (bindM (user_session_for_update access_session_id tenant_id user_id) (\<lambda>session.
        if (case session of None \<Rightarrow> True | Some r \<Rightarrow> as_status r \<noteq> ''ACTIVE'')
        then seqM rollback (returnM False)
        else bindM (revoke_active_user_session access_session_id tenant_id user_id) (\<lambda>revoked.
          if \<not> revoked then seqM rollback (returnM False) else seqM commit (returnM True))))"

section \<open>Facts\<close>

lemma device_repo_stays [stays_intros]:
  "no_commit (lock_membership_for_device_limit tn u)" "no_commit (count_active_devices tn u)"
  "no_commit (pending_device_for_update tn u dv)" "no_commit (activate_pending_device rq tn u dv by_user when)"
  "no_commit (user_session_for_update sid tn u)" "no_commit (revoke_active_user_session sid tn u)"
  "no_commit (create_pending_enrollment ne now)"
  unfolding lock_membership_for_device_limit_def count_active_devices_def pending_device_for_update_def
    activate_pending_device_def user_session_for_update_def revoke_active_user_session_def create_pending_enrollment_def
  by (intro stays_intros)+

lemma activate_Inr:
  "activate_pending_device rq tn u dv by_user when s = (Inr True, t) \<longleftrightarrow>
     exists_row (is_pending_request rq tn u dv) (db_enrollments (working s))
     \<and> exists_row (is_pending_device tn u dv) (db_devices (working s))
     \<and> t = s\<lparr>working := (working s)
         \<lparr>db_devices := update_rows (is_pending_device tn u dv)
             (\<lambda>r. r\<lparr>d_status := ''ACTIVE'', d_approved_by := Some by_user, d_approved_at := Some when\<rparr>) (db_devices (working s)),
          db_enrollments := update_rows (is_pending_request rq tn u dv)
             (\<lambda>r. r\<lparr>en_status := ''APPROVED'', en_decided_by := Some by_user, en_decided_at := Some when\<rparr>)
             (db_enrollments (working s))\<rparr>\<rparr>"
  by (auto simp: activate_pending_device_def run_simps returnM_def)

text \<open>The database an approval leaves.\<close>

definition approved_db :: "string \<Rightarrow> string \<Rightarrow> string \<Rightarrow> string \<Rightarrow> string \<Rightarrow> int \<Rightarrow> db \<Rightarrow> db" where
  "approved_db rq tn u dv by_user when d = d
     \<lparr>db_devices := update_rows (is_pending_device tn u dv)
        (\<lambda>r. r\<lparr>d_status := ''ACTIVE'', d_approved_by := Some by_user, d_approved_at := Some when\<rparr>) (db_devices d),
      db_enrollments := update_rows (is_pending_request rq tn u dv)
        (\<lambda>r. r\<lparr>en_status := ''APPROVED'', en_decided_by := Some by_user, en_decided_at := Some when\<rparr>) (db_enrollments d)\<rparr>"

lemma approve_InrD:
  assumes "approve_pending_device rq tn u dv by_user when s = (Inr True, t)"
  shows "\<exists>m p. first_row (\<lambda>m. m_tenant m = tn \<and> m_user m = u) (db_memberships (working s)) = Some m \<and> m_status m = ''ACTIVE''
    \<and> first_row (\<lambda>p. pol_tenant p = tn) (db_policies (working s)) = Some p \<and> pol_status p = ''ACTIVE''
    \<and> active_device_count tn u (db_devices (working s)) < pol_max_active_devices p
    \<and> exists_row (is_pending_request rq tn u dv) (db_enrollments (working s))
    \<and> exists_row (is_pending_device tn u dv) (db_devices (working s))
    \<and> committed t = approved_db rq tn u dv by_user when (working s)"
proof -
  from assms obtain m p s1 where
      "first_row (\<lambda>m. m_tenant m = tn \<and> m_user m = u) (db_memberships (working s)) = Some m" "m_status m = ''ACTIVE''"
      "first_row (\<lambda>p. pol_tenant p = tn) (db_policies (working s)) = Some p" "pol_status p = ''ACTIVE''"
      "active_device_count tn u (db_devices (working s)) < pol_max_active_devices p"
      "activate_pending_device rq tn u dv by_user when s = (Inr True, s1)" "t = s1\<lparr>committed := working s1\<rparr>"
    unfolding approve_pending_device_def lock_membership_for_device_limit_def pending_device_for_update_def
      count_active_devices_def
    by (auto simp: success_simps method_simps policy_of_def not_le split: option.splits if_splits)
  then show ?thesis unfolding activate_Inr by (auto simp: approved_db_def)
qed

lemma approve_otherwise:
  assumes "approve_pending_device rq tn u dv by_user when s = (r, t)" and "r \<noteq> Inr True"
  shows "committed t = committed s \<and> working t = committed s"
proof (cases r)
  case (Inl e)
  show ?thesis
    using assms(1) unfolding Inl approve_pending_device_def
    by (rule rollback_on_error_Inl [rotated]) (intro atomic_intros stays_intros)
next
  case (Inr b)
  then have b: "b = False" using assms(2) by simp
  have stay: "committed s1 = committed s"
    if "activate_pending_device rq tn u dv by_user when s = (x, s1)" for x s1
    using device_repo_stays(4) [of rq tn u dv by_user "when"] that unfolding no_commit_def by (metis snd_conv)
  show ?thesis
    using assms(1) unfolding Inr b
    unfolding approve_pending_device_def lock_membership_for_device_limit_def pending_device_for_update_def
      count_active_devices_def
    by (auto simp: success_simps method_simps dest: stay split: option.splits if_splits)
qed

end
