(* ===== verification/DeviceProperties.thy ===== *)
theory DeviceProperties
  imports DeviceLifecycle AccessProperties
begin

text \<open>
  What the device and session services promise: an approval stays under the limit of the
  tenant and is all or nothing, no sequence of device and session requests exceeds the
  limit, and revoking a session touches exactly that session.
\<close>

section \<open>Counting active devices\<close>

lemma active_count_other:
  assumes "(tn', u') \<noteq> (tn, u)" and "\<And>r. d_tenant (f r) = d_tenant r \<and> d_user (f r) = d_user r"
  shows "active_device_count tn' u' (update_rows (is_pending_device tn u dv) f rows)
       = active_device_count tn' u' rows"
  using assms unfolding active_device_count_def
  by (subst length_filter_update_rows_other) (auto simp: is_pending_device_def is_active_device_def)

lemma active_count_approved:
  "active_device_count tn u (db_devices (approved_db rq tn u dv by_user tm d))
     = active_device_count tn u (db_devices d) + int (length (filter (is_pending_device tn u dv) (db_devices d)))"
  unfolding active_device_count_def approved_db_def
  by simp (subst length_filter_update_rows; auto simp: is_pending_device_def is_active_device_def)

lemma one_pending_device:
  assumes "db_ok d"
  shows "length (filter (is_pending_device tn u dv) (db_devices d)) \<le> 1"
  using assms
  by (intro unique_index_at_most_one [where key = d_id and live = every_row and k = dv])
    (auto simp: db_ok_def is_pending_device_def)

lemma approved_count_other:
  assumes "(tn', u') \<noteq> (tn, u)"
  shows "active_device_count tn' u' (db_devices (approved_db rq tn u dv by_user tm d))
     = active_device_count tn' u' (db_devices d)"
  using assms by (simp add: approved_db_def active_count_other)

lemma pending_device_exists:
  "exists_row (is_pending_device tn u dv) rows \<Longrightarrow> 0 < length (filter (is_pending_device tn u dv) rows)"
  by (auto simp: exists_row_iff filter_empty_conv)

section \<open>An approval\<close>

lemma approval_grows:
  assumes "db_ok d"
    and "approve_pending_device rq tn u dv by_user tm (fresh_session d us) = (Inr True, t)"
  shows "\<exists>p\<in>set (db_policies d). pol_tenant p = tn
      \<and> active_device_count tn u (db_devices (committed t)) = active_device_count tn u (db_devices d) + 1
      \<and> active_device_count tn u (db_devices (committed t)) \<le> pol_max_active_devices p
      \<and> (\<exists>m\<in>set (db_memberships d). m_tenant m = tn \<and> m_user m = u \<and> m_status m = ''ACTIVE'')
      \<and> committed t = approved_db rq tn u dv by_user tm d"
proof -
  obtain m p where mp:
      "first_row (\<lambda>m. m_tenant m = tn \<and> m_user m = u) (db_memberships d) = Some m" "m_status m = ''ACTIVE''"
      "first_row (\<lambda>p. pol_tenant p = tn) (db_policies d) = Some p"
      "active_device_count tn u (db_devices d) < pol_max_active_devices p"
      "exists_row (is_pending_device tn u dv) (db_devices d)"
    and c: "committed t = approved_db rq tn u dv by_user tm d"
    using approve_InrD [OF assms(2)] by (auto simp: fresh_session_def)
  have "length (filter (is_pending_device tn u dv) (db_devices d)) = 1"
    using one_pending_device [OF assms(1), of tn u dv] pending_device_exists [OF mp(5)] by linarith
  then show ?thesis
    using mp c first_row_SomeD [OF mp(1)] first_row_SomeD [OF mp(3)] by (auto simp: active_count_approved intro!: bexI [of _ p])
qed


text \<open>C17: An approval that raises, or that returns false because nothing was pending, leaves the database as it was
  and no open work.\<close>

theorem approval_otherwise_changes_nothing:
  assumes "approve_pending_device rq tn u dv by_user tm (fresh_session d us) = (r, t)" and "r \<noteq> Inr True"
  shows "committed t = d \<and> working t = d"
  using approve_otherwise [OF assms] by (simp add: fresh_session_def)

section \<open>The requests on devices and sessions\<close>

text \<open>Enrolling is the two inserts and the commit of its caller.\<close>

inductive device_step :: "db \<Rightarrow> db \<Rightarrow> bool" where
  enroll: "request (seqM (create_pending_enrollment ne tm) commit) (fresh_session d us) = (r, t)
      \<Longrightarrow> device_step d (committed t)"
| approve: "request (approve_pending_device rq tn u dv by_user tm) (fresh_session d us) = (r, t)
      \<Longrightarrow> device_step d (committed t)"
| revoke_session: "request (revoke sid tn u) (fresh_session d us) = (r, t) \<Longrightarrow> device_step d (committed t)"

inductive device_run :: "db \<Rightarrow> db \<Rightarrow> bool" for d0 where
  start: "device_run d0 d0"
| step: "device_run d0 d \<Longrightarrow> device_step d e \<Longrightarrow> device_run d0 e"

definition within_device_limit :: "db \<Rightarrow> bool" where
  "within_device_limit d =
     (\<forall>p\<in>set (db_policies d). \<forall>u. active_device_count (pol_tenant p) u (db_devices d) \<le> pol_max_active_devices p)"

lemma policy_row_unique:
  assumes "db_ok d" "first_row (\<lambda>p. pol_tenant p = tn) (db_policies d) = Some p" "q \<in> set (db_policies d)" "pol_tenant q = tn"
  shows "q = p"
  using assms(1,3,4) first_row_SomeD [OF assms(2)]
  by (intro unique_index_eq [where key = pol_tenant and live = every_row]) (auto simp: db_ok_def)

lemma within_limit_keeps:
  "keeps within_device_limit (create_pending_enrollment ne tm)" "keeps within_device_limit (revoke sid tn u)"
  unfolding create_pending_enrollment_def revoke_def user_session_for_update_def revoke_active_user_session_def
  by (intro keeps_intros; auto simp: within_device_limit_def insert_defs update_sessions_def active_device_count_def
      is_active_device_def split: if_splits)+

lemma device_writes_keep_ok:
  "db_ok d \<Longrightarrow> calm d_id every_row f \<Longrightarrow> db_ok (d\<lparr>db_devices := update_rows p f (db_devices d)\<rparr>)"
  "db_ok d \<Longrightarrow> calm en_id every_row g \<Longrightarrow> db_ok (d\<lparr>db_enrollments := update_rows q g (db_enrollments d)\<rparr>)"
  by (auto simp: db_ok_def calm_unique_index)

lemma device_requests_keep_ok:
  "keeps db_ok (create_pending_enrollment ne tm)" "keeps db_ok (revoke sid tn u)"
  "keeps db_ok (approve_pending_device rq tn u dv by_user tm)"
  subgoal
    unfolding create_pending_enrollment_def by (intro keeps_intros; erule insert_keeps_ok)
  subgoal
    unfolding revoke_def user_session_for_update_def revoke_active_user_session_def
    by (intro keeps_intros; simp add: calm_def session_key_def session_live_def)
  subgoal
    unfolding approve_pending_device_def activate_pending_device_def lock_membership_for_device_limit_def
      pending_device_for_update_def count_active_devices_def
    by (intro keeps_intros; simp add: device_writes_keep_ok calm_def)
  done

lemma approve_keeps_limit:
  assumes "approve_pending_device rq tn u dv by_user tm (fresh_session d us) = (r, t)"
    and ok: "db_ok d" and lim: "within_device_limit d"
  shows "within_device_limit (committed t)"
proof (cases "r = Inr True")
  case True
  obtain p where p: "p \<in> set (db_policies d)" "pol_tenant p = tn"
      "active_device_count tn u (db_devices (committed t)) \<le> pol_max_active_devices p"
    and c: "committed t = approved_db rq tn u dv by_user tm d"
    using approval_grows [OF ok] assms(1) True by blast
  have "active_device_count (pol_tenant q) v (db_devices (committed t)) \<le> pol_max_active_devices q"
    if q: "q \<in> set (db_policies d)" for q v
  proof (cases "(pol_tenant q, v) = (tn, u)")
    case True
    then have "q = p" using ok p q
      by (intro unique_index_eq [where key = pol_tenant and live = every_row]) (auto simp: db_ok_def)
    then show ?thesis using True p by simp
  next
    case False
    then show ?thesis using lim q c by (simp add: approved_count_other within_device_limit_def)
  qed
  then show ?thesis by (simp add: within_device_limit_def c) (simp add: approved_db_def)
next
  case False
  then show ?thesis using approve_otherwise [OF assms(1) False] lim by (simp add: fresh_session_def)
qed

text \<open>Running a request on a fresh session, seen from the database.\<close>

lemma keeps_fresh:
  assumes "keeps J m" and "request m (fresh_session d us) = (r, t)" and "J d"
  shows "J (committed t)"
  using keepsD [OF keeps_request [OF assms(1)], of "fresh_session d us"] assms by (simp add: fresh_session_def)

lemma device_step_ok:
  assumes "device_step d e" and "db_ok d" and "within_device_limit d"
  shows "db_ok e \<and> within_device_limit e"
  using assms
proof (induction rule: device_step.induct)
  case (enroll ne tm d us r t)
  have "keeps db_ok (seqM (create_pending_enrollment ne tm) commit)"
    and "keeps within_device_limit (seqM (create_pending_enrollment ne tm) commit)"
    by (intro keeps_intros device_requests_keep_ok within_limit_keeps)+
  then show ?case using enroll by (blast intro: keeps_fresh)
next
  case (approve rq tn u dv by_user tm d us r t)
  obtain t' where "approve_pending_device rq tn u dv by_user tm (fresh_session d us) = (r, t')" "committed t = committed t'"
    using approve(1) by (auto simp: request_def split: prod.splits)
  then show ?case
    using approve approve_keeps_limit keeps_fresh [OF device_requests_keep_ok(3)] by metis
next
  case (revoke_session sid tn u d us r t)
  then show ?case using device_requests_keep_ok(2) within_limit_keeps(2) by (blast intro: keeps_fresh)
qed

text \<open>C4: However many devices are enrolled, approvals decided and sessions revoked, in whatever order and with
  whatever outcome, no user ever has more active devices in a tenant than the policy of the tenant allows, and the
  constraints of the schema hold.\<close>

theorem device_limit_invariant:
  assumes "device_run d0 d" and "db_ok d0" and "within_device_limit d0"
  shows "db_ok d \<and> within_device_limit d"
  using assms by (induction rule: device_run.induct) (auto dest: device_step_ok)

section \<open>Revoking a session\<close>

definition revoked_db :: "string \<Rightarrow> db \<Rightarrow> db" where
  "revoked_db sid d = d\<lparr>db_sessions := update_rows (\<lambda>r. as_id r = sid) (\<lambda>r. r\<lparr>as_status := ''REVOKED''\<rparr>) (db_sessions d)\<rparr>"

lemma session_id_unique:
  assumes "db_ok d" "r \<in> set (db_sessions d)" "r' \<in> set (db_sessions d)" "as_id r = as_id r'"
  shows "r = r'"
  using assms by (intro unique_index_eq [where key = as_id and live = every_row]) (auto simp: db_ok_def sessions_ok_def)

lemma update_revocable:
  assumes ok: "db_ok d" and hit: "exists_row (is_revocable sid tn u) (db_sessions d)"
  shows "update_sessions (is_revocable sid tn u) (\<lambda>r. r\<lparr>as_status := ''REVOKED''\<rparr>) d = Inr (revoked_db sid d)"
proof -
  obtain s where s: "s \<in> set (db_sessions d)" "is_revocable sid tn u s" using hit by (auto simp: exists_row_iff)
  have "is_revocable sid tn u r = (as_id r = sid)" if "r \<in> set (db_sessions d)" for r
    using s session_id_unique [OF ok that s(1)] by (auto simp: is_revocable_def is_user_session_def)
  then have "update_rows (is_revocable sid tn u) f (db_sessions d) = update_rows (\<lambda>r. as_id r = sid) f (db_sessions d)" for f
    by (simp add: update_rows_def)
  moreover have "list_all (\<lambda>r. is_revocable sid tn u r \<longrightarrow> session_check (r\<lparr>as_status := ''REVOKED''\<rparr>)) (db_sessions d)"
    using ok by (auto simp: db_ok_def sessions_ok_def list_all_iff session_check_def)
  ultimately show ?thesis by (simp add: update_sessions_def revoked_db_def)
qed

text \<open>C18: Revoking never fails: it answers whether the user has that session and it is active, and in that case
  commits exactly the change of its status to REVOKED; otherwise nothing is written.\<close>

theorem revoke_exact:
  assumes "db_ok d"
  shows "revoke sid tn u (fresh_session d us)
    = (if exists_row (is_revocable sid tn u) (db_sessions d)
       then (Inr True, fresh_session (revoked_db sid d) us) else (Inr False, fresh_session d us))"
proof -
  have first: "(case first_row (is_user_session sid tn u) (db_sessions d) of None \<Rightarrow> True | Some r \<Rightarrow> as_status r \<noteq> ''ACTIVE'')
      \<longleftrightarrow> \<not> exists_row (is_revocable sid tn u) (db_sessions d)"
    using first_row_SomeD [of "is_user_session sid tn u" "db_sessions d"]
      first_row_None_iff [of "is_user_session sid tn u" "db_sessions d"] session_id_unique [OF assms]
    by (fastforce simp: exists_row_iff is_revocable_def is_user_session_def split: option.splits)
  show ?thesis
    unfolding revoke_def user_session_for_update_def revoke_active_user_session_def
    using first update_revocable [OF assms]
    by (simp add: run_simps fresh_session_def)
qed

section \<open>Concrete runs\<close>

definition pending_db :: db where
  "pending_db = sample_db [old_session]
     \<lparr>db_memberships := [\<lparr>m_id = ''m1'', m_tenant = ''t1'', m_user = ''u1'', m_status = ''ACTIVE'', m_valid_from = None,
        m_valid_to = None, m_version = 1, m_updated_at = 0\<rparr>],
      db_devices := db_devices (sample_db []) @ [(hd (db_devices (sample_db [])))\<lparr>d_id := ''d2'', d_status := ''PENDING''\<rparr>],
      db_enrollments := [\<lparr>en_id = ''q1'', en_tenant = ''t1'', en_user = ''u1'', en_device = ''d2'', en_source_ip = None,
        en_latitude = None, en_longitude = None, en_accuracy = None, en_requested_at = 0, en_status = ''PENDING'',
        en_decided_by = None, en_decided_at = None\<rparr>]\<rparr>"

lemma pending_db_ok: "db_ok pending_db" "within_device_limit pending_db"
  subgoal using sample_db_ok(2)
    by (simp add: db_ok_def pending_db_def unique_index_def) (simp add: sample_db_def)
  subgoal by (auto simp: within_device_limit_def pending_db_def sample_db_def active_device_count_def is_active_device_def)
  done

lemma pending_run: "\<exists>t. approve_pending_device ''q1'' ''t1'' ''u1'' ''d2'' ''u9'' 5 (fresh_session pending_db sample_uuid) = (Inr True, t)"
  by (simp add: approve_pending_device_def activate_pending_device_def lock_membership_for_device_limit_def
      pending_device_for_update_def count_active_devices_def active_device_count_def is_active_device_def
      is_pending_device_def is_pending_request_def get_tenant_policy_def policy_of_def run_simps fresh_session_def
      pending_db_def sample_db_def first_row_def exists_row_def)


lemma absent_run:
  "approve_pending_device ''q1'' ''t1'' ''u1'' ''d1'' ''u9'' 5 (fresh_session pending_db sample_uuid)
     = (Inr False, fresh_session pending_db sample_uuid)"
  by (simp add: approve_pending_device_def lock_membership_for_device_limit_def pending_device_for_update_def
      is_pending_device_def get_tenant_policy_def policy_of_def run_simps fresh_session_def
      pending_db_def sample_db_def first_row_def)

theorem approval_otherwise_changes_nothing_witness:
  "\<exists>t. approve_pending_device ''q1'' ''t1'' ''u1'' ''d1'' ''u9'' 5 (fresh_session pending_db sample_uuid) = (Inr False, t)
     \<and> committed t = pending_db"
  using approval_otherwise_changes_nothing [OF absent_run] absent_run by simp

theorem device_limit_invariant_witness:
  "\<exists>d. device_run pending_db d \<and> within_device_limit d
     \<and> active_device_count ''t1'' ''u1'' (db_devices d) = active_device_count ''t1'' ''u1'' (db_devices pending_db) + 1"
proof -
  obtain t where run: "approve_pending_device ''q1'' ''t1'' ''u1'' ''d2'' ''u9'' 5 (fresh_session pending_db sample_uuid) = (Inr True, t)"
    using pending_run by blast
  then have "request (approve_pending_device ''q1'' ''t1'' ''u1'' ''d2'' ''u9'' 5) (fresh_session pending_db sample_uuid)
      = (Inr True, t\<lparr>working := committed t\<rparr>)" by (simp add: request_def)
  from device_step.approve [OF this] have "device_step pending_db (committed t)" by simp
  then have "device_run pending_db (committed t)" by (rule device_run.step [OF device_run.start])
  then show ?thesis
    using device_limit_invariant [OF _ pending_db_ok] approval_grows [OF pending_db_ok(1) run] by blast
qed

theorem revoke_exact_witness:
  "revoke ''as0'' ''t1'' ''u1'' (fresh_session (sample_db [old_session]) sample_uuid)
     = (Inr True, fresh_session (revoked_db ''as0'' (sample_db [old_session])) sample_uuid)"
  using revoke_exact [OF sample_db_ok(2), of "''as0''" "''t1''" "''u1''" sample_uuid]
  by (simp add: sample_db_def old_session_def exists_row_def is_revocable_def is_user_session_def)

end
