(* ===== verification/Refresh.thy ===== *)
theory Refresh
  imports DeviceProperties
begin

text \<open>
  \<open>repositories/session_refresh_repository.py\<close> and \<open>services/session_refresh_service.py\<close>:
  re-evaluating an active user session. The service keeps an evidence context beside the
  transaction: what it has found out survives a denial, and is written in a transaction of
  its own. While the service waits for the lock on the session row, other requests may
  commit; \<open>others\<close> is what they do to the database.
\<close>

section \<open>The repository\<close>

definition user_session :: "string \<Rightarrow> string \<Rightarrow> string \<Rightarrow> access_session option dbact" where
  "user_session access_session_id tenant_id user_id =
     query (\<lambda>d. first_row (is_user_session access_session_id tenant_id user_id) (db_sessions d))"

text \<open>The read under the row lock: it sees what was committed while it waited.\<close>

definition locked_user_session :: "(db \<Rightarrow> db) \<Rightarrow> string \<Rightarrow> string \<Rightarrow> string \<Rightarrow> access_session option dbact" where
  "locked_user_session others access_session_id tenant_id user_id s =
     user_session access_session_id tenant_id user_id
       (s\<lparr>committed := others (committed s), working := others (working s)\<rparr>)"

record session_context =
  sx_location :: string
  sx_ip :: string
  sx_vpn :: string
  sx_version :: int
  sx_expires :: int
  sx_now :: int

definition refreshed_row :: "session_context \<Rightarrow> access_session \<Rightarrow> access_session" where
  "refreshed_row c r = r\<lparr>as_location := Some (sx_location c), as_ip := sx_ip c, as_vpn := Some (sx_vpn c),
     as_version := Some (sx_version c), as_expires := sx_expires c, as_last_activity := sx_now c,
     as_last_geo := Some (sx_now c)\<rparr>"

definition update_active_session_context :: "string \<Rightarrow> string \<Rightarrow> string \<Rightarrow> session_context \<Rightarrow> bool dbact" where
  "update_active_session_context access_session_id tenant_id user_id c =
     bindM (query (\<lambda>d. exists_row (is_revocable access_session_id tenant_id user_id) (db_sessions d))) (\<lambda>hit.
     seqM (execute (update_sessions (is_revocable access_session_id tenant_id user_id) (refreshed_row c)))
     (returnM hit))"

section \<open>Evidence\<close>

record RefreshEvidenceContext =
  rx_session :: "string option"
  rx_location :: "LocationCandidate option"
  rx_distance :: "real option"
  rx_schedule :: "ScheduleDecision option"
  rx_risk :: "NetworkRiskResult option"

definition no_evidence :: RefreshEvidenceContext where
  "no_evidence = \<lparr>rx_session = None, rx_location = None, rx_distance = None, rx_schedule = None, rx_risk = None\<rparr>"

record refresh_call =
  rc_user :: string
  rc_tenant :: string
  rc_session :: string
  rc_geo :: "GeoSample option"
  rc_ip :: string
  rc_correlation :: string

definition evaluation_payload ::
  "refresh_call \<Rightarrow> string \<Rightarrow> string \<Rightarrow> string \<Rightarrow> int \<Rightarrow> RefreshEvidenceContext \<Rightarrow> evaluation" where
  "evaluation_payload c evaluation_id decision reason_code evaluated_at ev =
     \<lparr>ev_id = evaluation_id, ev_session = rx_session ev, ev_tenant = rc_tenant c, ev_principal = rc_user c,
      ev_actor_type = actor_type_value USER, ev_latitude = map_option gs_latitude (rc_geo c),
      ev_longitude = map_option gs_longitude (rc_geo c), ev_accuracy = map_option gs_accuracy_meters (rc_geo c),
      ev_captured_at = map_option gs_captured_at (rc_geo c),
      ev_geo_source = map_option (geo_source_value \<circ> gs_source) (rc_geo c),
      ev_geo_integrity = map_option (geo_integrity_value \<circ> gs_integrity_status) (rc_geo c),
      ev_geo_reason = Option.bind (rc_geo c) gs_integrity_reason,
      ev_location = map_option lc_location_id (rx_location ev),
      ev_distance = (if rx_location ev = None then None else rx_distance ev),
      ev_local_time = map_option sd_local_time (rx_schedule ev),
      ev_timezone = map_option lc_timezone_iana (rx_location ev),
      ev_schedule = map_option lc_schedule_id (rx_location ev), ev_ip = Some (rc_ip c),
      ev_vpn = map_option (vpn_status_value \<circ> nr_vpn_status) (rx_risk ev), ev_decision = decision,
      ev_reason_code = reason_code, ev_correlation = rc_correlation c, ev_evaluated_at = evaluated_at\<rparr>"

definition record_refresh_evaluation ::
  "refresh_call \<Rightarrow> string \<Rightarrow> string \<Rightarrow> int \<Rightarrow> RefreshEvidenceContext \<Rightarrow> unit dbact" where
  "record_refresh_evaluation c decision reason_code now ev =
     bindM uuid4 (\<lambda>evaluation_id. record_evaluation (evaluation_payload c evaluation_id decision reason_code now ev))"

text \<open>\<open>try: ... except Exception: rollback\<close>, which swallows the exception.\<close>

definition swallow :: "unit dbact \<Rightarrow> unit dbact" where
  "swallow m s = (case m s of (Inl e, t) \<Rightarrow> (Inr (), t\<lparr>working := committed t\<rparr>) | (Inr x, t) \<Rightarrow> (Inr x, t))"

definition persist_denial_evidence_best_effort ::
  "security_error \<Rightarrow> refresh_call \<Rightarrow> int \<Rightarrow> RefreshEvidenceContext \<Rightarrow> unit dbact" where
  "persist_denial_evidence_best_effort err c now ev =
     (if err_status err \<ge> 500 then returnM ()
      else swallow (seqM (record_refresh_evaluation c ''DENY'' (err_code err) now ev) commit))"

section \<open>Actions with evidence\<close>

type_synonym 'a evact = "(RefreshEvidenceContext, db, 'a) cact"

section \<open>The service\<close>

record 'tok RefreshedUserSession =
  rs_session :: string
  rs_token :: 'tok
  rs_expires :: int
  rs_tenant :: string
  rs_user :: string
  rs_device :: string
  rs_location :: string
  rs_roles :: "string list"
  rs_permissions :: "string list"

definition str_of_option :: "string option \<Rightarrow> string" where
  "str_of_option v = (case v of None \<Rightarrow> ''None'' | Some x \<Rightarrow> x)"

definition require_active_session :: "access_session option \<Rightarrow> access_session dbact" where
  "require_active_session row =
     (case row of
        None \<Rightarrow> throwM (security_error ''SESSION_REVOKED'')
      | Some r \<Rightarrow> if as_status r \<noteq> ''ACTIVE'' then throwM (security_error ''SESSION_REVOKED'') else returnM r)"

definition lock_session :: "(db \<Rightarrow> db) \<Rightarrow> int \<Rightarrow> refresh_call \<Rightarrow> string \<Rightarrow> access_session dbact" where
  "lock_session others now c device_id =
     bindM (locked_user_session others (rc_session c) (rc_tenant c) (rc_user c)) (\<lambda>row.
     bindM (require_active_session row) (\<lambda>session.
     seqM (raise_if (str_of_option (as_device session) \<noteq> device_id) (security_error ''SESSION_REVOKED''))
     (seqM (raise_if (as_expires session \<le> now) (security_error ''AUTH_TOKEN_EXPIRED''))
     (returnM session))))"

definition write_refreshed_session :: "refresh_call \<Rightarrow> session_context \<Rightarrow> unit dbact" where
  "write_refreshed_session c ctx =
     seqM (raise_if (sx_expires ctx \<le> sx_now ctx) (security_error ''AUTH_TOKEN_EXPIRED''))
     (bindM (update_active_session_context (rc_session c) (rc_tenant c) (rc_user c) ctx) (\<lambda>updated.
      raise_if (\<not> updated) (security_error ''SESSION_REVOKED'')))"

definition refresh_claims :: "refresh_call \<Rightarrow> string \<Rightarrow> string \<Rightarrow> string list \<Rightarrow> string list \<Rightarrow> int \<Rightarrow> AccessTokenClaims" where
  "refresh_claims c device_id location_id roles permissions expiry =
     \<lparr>tc_principal_id = rc_user c, tc_actor_type = USER, tc_tenant_id = rc_tenant c,
      tc_access_session_id = rc_session c, tc_permissions = permissions, tc_expires_at = expiry,
      tc_roles = roles, tc_device_id = Some device_id, tc_location_id = Some location_id,
      tc_delegated_actor_id = None, tc_subject = None\<rparr>"

definition refresh_body ::
  "'tok access_env \<Rightarrow> (db \<Rightarrow> db) \<Rightarrow> int \<Rightarrow> int \<Rightarrow> refresh_call \<Rightarrow> 'tok RefreshedUserSession evact" where
  "refresh_body env others now signed_at c =
     bindE (onE (liftM (require_refresh_geo (rc_geo c)))) (\<lambda>geo.
     bindE (onE (liftM (env_network env (rc_ip c) (rc_correlation c)))) (\<lambda>risk.
     seqE (noteE (\<lambda>ev. ev\<lparr>rx_risk := Some risk\<rparr>))
     (seqE (onE (require_open_tenant (rc_tenant c)))
     (bindE (onE (get_user_context (env_repo env) (rc_user c) (rc_tenant c) now)) (\<lambda>context.
      bindE (onE (get_tenant_policy (rc_tenant c))) (\<lambda>policy.
      bindE (onE (user_session (rc_session c) (rc_tenant c) (rc_user c))) (\<lambda>row.
      bindE (onE (require_active_session row)) (\<lambda>observed.
      seqE (noteE (\<lambda>ev. ev\<lparr>rx_session := Some (rc_session c)\<rparr>))
      (let device_id = str_of_option (as_device observed) in
      seqE (onE (lock_active_device (rc_user c) (rc_tenant c) device_id))
      (bindE (onE (lock_session others now c device_id)) (\<lambda>session.
       bindE (onE (match_assigned_location policy geo (rc_user c) (rc_tenant c) now)) (\<lambda>(location, distance).
       seqE (noteE (\<lambda>ev. ev\<lparr>rx_location := Some location, rx_distance := Some distance\<rparr>))
       (bindE (onE (check_schedule env location (rc_user c) (rc_tenant c) now)) (\<lambda>schedule.
        seqE (noteE (\<lambda>ev. ev\<lparr>rx_schedule := Some schedule\<rparr>))
        (seqE (onE (check_network policy risk))
        (bindE (onE (current_permissions env (rc_tenant c) (rc_user c) now)) (\<lambda>(roles, permissions).
         let session_max_end = as_started session + minutes (session_max_duration_minutes policy);
             expiry = session_expiry policy now session_max_end (sd_authorized_until_utc schedule) in
         seqE (onE (write_refreshed_session c
                 \<lparr>sx_location = lc_location_id location, sx_ip = rc_ip c,
                  sx_vpn = vpn_status_value (nr_vpn_status risk), sx_version = uc_authorization_version context,
                  sx_expires = expiry, sx_now = now\<rparr>))
         (bindE evidenceE (\<lambda>ev.
          seqE (onE (record_refresh_evaluation c ''ALLOW'' ''ACCESS_GRANTED'' now ev))
          (bindE (onE (issue (env_jwt env) (env_settings env) signed_at
                    (refresh_claims c device_id (lc_location_id location) roles permissions expiry))) (\<lambda>token.
           seqE (onE commit)
           (onE (returnM \<lparr>rs_session = rc_session c, rs_token = token, rs_expires = expiry, rs_tenant = rc_tenant c,
               rs_user = rc_user c, rs_device = device_id, rs_location = lc_location_id location,
               rs_roles = roles, rs_permissions = permissions\<rparr>)))))))))))))))))))))))"

definition refresh ::
  "'tok access_env \<Rightarrow> (db \<Rightarrow> db) \<Rightarrow> int \<Rightarrow> int \<Rightarrow> refresh_call \<Rightarrow> 'tok RefreshedUserSession dbact" where
  "refresh env others now signed_at c s =
     (case refresh_body env others now signed_at c no_evidence s of
        (Inr x, ev, t) \<Rightarrow> (Inr x, t)
      | (Inl (SecurityError err), ev, t) \<Rightarrow>
          seqM rollback (seqM (persist_denial_evidence_best_effort err c now ev) (throwM (SecurityError err))) t
      | (Inl e, ev, t) \<Rightarrow> seqM rollback (throwM e) t)"

end
