(* ===== verification/RefreshProperties.thy ===== *)
theory RefreshProperties
  imports Refresh
begin

text \<open>
  What a refresh promises: a refreshed session was active and unexpired under its lock, every
  gate of the access was open again, a revocation that commits first wins, and a denial
  changes nothing but the evidence, which 4xx denials leave and server errors do not.
\<close>

section \<open>Where the committed database can be when the service raises\<close>

text \<open>
  \<open>fails_in D C m\<close>: started with the committed database in \<open>D\<close>, an action that raises leaves
  it in \<open>C\<close>.
\<close>

definition fails_in :: "db set \<Rightarrow> db set \<Rightarrow> 'a evact \<Rightarrow> bool" where
  "fails_in D C m \<longleftrightarrow> (\<forall>ev s e ev' t. committed s \<in> D \<longrightarrow> m ev s = (Inl e, ev', t) \<longrightarrow> committed t \<in> C)"

definition quiet :: "'a evact \<Rightarrow> bool" where
  "quiet m \<longleftrightarrow> (\<forall>ev s r ev' t. m ev s = (r, ev', t) \<longrightarrow> committed t = committed s)"

lemma quiet_onE: "no_commit m \<Longrightarrow> quiet (onE m)"
  unfolding quiet_def onE_def no_commit_def by (auto split: prod.splits) (metis snd_conv)

lemma quiet_basic: "quiet (noteE f)" "quiet evidenceE"
  by (auto simp: quiet_def noteE_def evidenceE_def)

lemma fails_in_bind:
  assumes "quiet m" and "D \<subseteq> C" and "\<And>x. fails_in D C (f x)"
  shows "fails_in D C (bindE m f)"
  unfolding fails_in_def
proof (intro allI impI)
  fix ev s e ev' t assume D: "committed s \<in> D" and run: "bindE m f ev s = (Inl e, ev', t)"
  obtain r ev1 u where m: "m ev s = (r, ev1, u)" by (cases "m ev s") auto
  have u: "committed u = committed s" using assms(1) m by (auto simp: quiet_def)
  show "committed t \<in> C"
  proof (cases r)
    case (Inl e')
    then show ?thesis using run m u D assms(2) by (auto simp: bindE_def)
  next
    case (Inr x)
    then have "f x ev1 u = (Inl e, ev', t)" using run m by (simp add: bindE_def)
    moreover have "committed u \<in> D" using u D by simp
    ultimately show ?thesis using assms(3) [of x] unfolding fails_in_def by blast
  qed
qed

lemma fails_in_seq: "quiet m \<Longrightarrow> D \<subseteq> C \<Longrightarrow> fails_in D C k \<Longrightarrow> fails_in D C (seqE m k)"
  by (simp add: seqE_def fails_in_bind)

lemma fails_in_return: "fails_in D C (onE (returnM x))" "fails_in D C (seqE (onE commit) (onE (returnM x)))"
  by (auto simp: fails_in_def onE_def seqE_def bindE_def run_simps)

lemma refresh_actions_stay [stays_intros]:
  "no_commit (user_session sid tn u)" "no_commit (require_active_session row)"
  "no_commit (update_active_session_context sid tn u c)" "no_commit (record_refresh_evaluation rc dec code now ev)"
  "no_commit (write_refreshed_session rc ctx)"
  unfolding user_session_def require_active_session_def update_active_session_context_def
    record_refresh_evaluation_def write_refreshed_session_def
  by (intro stays_intros)+

lemma locked_user_session_run:
  "locked_user_session f sid tn u s
     = (Inr (first_row (is_user_session sid tn u) (db_sessions (f (working s)))),
        s\<lparr>committed := f (committed s), working := f (working s)\<rparr>)"
  by (simp add: locked_user_session_def user_session_def run_simps)

lemma lock_session_committed:
  assumes "lock_session f now c dv s = (r, t)"
  shows "committed t = f (committed s)"
proof -
  have "no_commit (bindM (require_active_session row) (\<lambda>session.
     seqM (raise_if (str_of_option (as_device session) \<noteq> dv) (security_error ''SESSION_REVOKED''))
     (seqM (raise_if (as_expires session \<le> now) (security_error ''AUTH_TOKEN_EXPIRED'')) (returnM session))))" for row
    by (intro stays_intros)
  then show ?thesis
    using assms unfolding lock_session_def bindM_def [of "locked_user_session f (rc_session c) (rc_tenant c) (rc_user c)"]
      locked_user_session_run no_commit_def
    by (auto dest: arg_cong [where f = "\<lambda>x. committed (snd x)"])
qed

lemma fails_in_lock:
  assumes "f d \<in> C" and "\<And>x. fails_in {f d} C (k x)"
  shows "fails_in {d} C (bindE (onE (lock_session f now c dv)) k)"
  unfolding fails_in_def
proof (intro allI impI)
  fix ev s e ev' t assume D: "committed s \<in> {d}" and run: "bindE (onE (lock_session f now c dv)) k ev s = (Inl e, ev', t)"
  obtain r u where m: "lock_session f now c dv s = (r, u)" by (cases "lock_session f now c dv s") auto
  have u: "committed u = f d" using lock_session_committed [OF m] D by simp
  show "committed t \<in> C"
  proof (cases r)
    case (Inl e')
    then show ?thesis using run m u assms(1) by (auto simp: bindE_def onE_def)
  next
    case (Inr x)
    then have "k x ev u = (Inl e, ev', t)" using run m by (simp add: bindE_def onE_def)
    then show ?thesis using assms(2) [of x] u unfolding fails_in_def by blast
  qed
qed

context user_repository
begin

lemma refresh_body_fails_in:
  assumes "env_repo env = repo"
  shows "fails_in {d} {d, f d} (refresh_body env f now sg c)"
proof -
  show ?thesis
    unfolding refresh_body_def Let_def
    by (intro fails_in_bind fails_in_seq fails_in_lock quiet_onE quiet_basic stays_intros fails_in_return)
      (auto simp: assms hooks_stay current_permissions_stays
        intro!: fails_in_bind fails_in_seq quiet_onE quiet_basic stays_intros fails_in_return current_permissions_stays
        split: prod.splits)
qed

end

section \<open>A refresh that raises\<close>

definition denial_row :: "security_error \<Rightarrow> refresh_call \<Rightarrow> int \<Rightarrow> evaluation \<Rightarrow> bool" where
  "denial_row err c now row \<longleftrightarrow>
     ev_decision row = ''DENY'' \<and> ev_reason_code row = err_code err \<and> ev_principal row = rc_user c
     \<and> ev_tenant row = rc_tenant c \<and> ev_correlation row = rc_correlation c \<and> ev_evaluated_at row = now"

text \<open>The database a denial leaves: with the evidence, unless its fresh id is already taken.\<close>

definition denial_recorded :: "security_error \<Rightarrow> refresh_call \<Rightarrow> int \<Rightarrow> db \<Rightarrow> db \<Rightarrow> bool" where
  "denial_recorded err c now d e \<longleftrightarrow>
     (\<exists>row. denial_row err c now row
        \<and> (if index_free ev_id every_row row (db_evaluations d)
           then e = d\<lparr>db_evaluations := db_evaluations d @ [row]\<rparr> else e = d))"

lemma persist_denial_outcome:
  assumes "persist_denial_evidence_best_effort err c now ev s = (r, t)" and "working s = committed s"
  shows "r = Inr () \<and> working t = committed t
    \<and> (if err_status err \<ge> 500 then committed t = committed s else denial_recorded err c now (committed s) (committed t))"
proof -
  let ?row = "evaluation_payload c (uuids s 0) ''DENY'' (err_code err) now ev"
  have row: "denial_row err c now ?row" by (simp add: denial_row_def evaluation_payload_def)
  have rec: "denial_recorded err c now d e"
    if "if index_free ev_id every_row ?row (db_evaluations d) then e = d\<lparr>db_evaluations := db_evaluations d @ [?row]\<rparr> else e = d"
    for d e using row that unfolding denial_recorded_def by blast
  show ?thesis
    using assms
    by (auto simp: persist_denial_evidence_best_effort_def swallow_def record_refresh_evaluation_def run_simps
        record_evaluation_def insert_evaluation_def intro!: rec split: if_splits)
qed

definition refusal :: "exn \<Rightarrow> refresh_call \<Rightarrow> int \<Rightarrow> db \<Rightarrow> db \<Rightarrow> bool" where
  "refusal e c now d d' \<longleftrightarrow>
     (case e of SecurityError err \<Rightarrow> if err_status err \<ge> 500 then d' = d else denial_recorded err c now d d' | _ \<Rightarrow> d' = d)"

lemma refresh_InlD:
  assumes "refresh env f now sg c s = (Inl e, t)"
  shows "\<exists>ev u. refresh_body env f now sg c no_evidence s = (Inl e, ev, u) \<and> working t = committed t
    \<and> refusal e c now (committed u) (committed t)"
proof -
  obtain r ev u where b: "refresh_body env f now sg c no_evidence s = (r, ev, u)"
    by (cases "refresh_body env f now sg c no_evidence s") auto
  have r: "r = Inl e"
    using assms b
    by (auto simp: refresh_def run_simps split: sum.splits exn.splits prod.splits
        dest: persist_denial_outcome)
  show ?thesis
  proof (cases e)
    case (SecurityError err)
    let ?u = "u\<lparr>working := committed u\<rparr>"
    obtain x v where p: "persist_denial_evidence_best_effort err c now ev ?u = (x, v)" by fastforce
    have "x = Inr ()" using persist_denial_outcome [OF p] by simp
    then have "t = v" using assms b r SecurityError p by (simp add: refresh_def run_simps)
    then show ?thesis using persist_denial_outcome [OF p] b r SecurityError by (auto simp: refusal_def)
  qed (use assms b r in \<open>auto simp: refresh_def run_simps refusal_def\<close>)
qed

context user_repository
begin

lemma refresh_refused:
  assumes "env_repo env = repo" and "refresh env f now sg c s = (Inl e, t)"
  shows "\<exists>d\<in>{committed s, f (committed s)}. refusal e c now d (committed t)"
proof -
  obtain ev u where "refresh_body env f now sg c no_evidence s = (Inl e, ev, u)" "refusal e c now (committed u) (committed t)"
    using refresh_InlD [OF assms(2)] by blast
  then show ?thesis
    using refresh_body_fails_in [OF assms(1), of "committed s" f now sg c] unfolding fails_in_def by blast
qed

end

section \<open>A refresh that returns\<close>

text \<open>
  The gates of a refresh: those before the wait for the session lock at the database \<open>d\<close> the
  request started on, those after it at the database \<open>d'\<close> it finds then.
\<close>

definition refresh_gates ::
  "'tok access_env \<Rightarrow> db \<Rightarrow> db \<Rightarrow> int \<Rightarrow> refresh_call \<Rightarrow> TenantPolicy \<Rightarrow> access_session \<Rightarrow> LocationCandidate
     \<Rightarrow> ScheduleDecision \<Rightarrow> 'tok RefreshedUserSession \<Rightarrow> bool" where
  "refresh_gates env d d' now c policy session location schedule res \<longleftrightarrow>
     (\<exists>t\<in>set (db_tenants d). t_id t = rc_tenant c \<and> t_status t = ''ACTIVE'')
     \<and> active_user d (rc_user c)
     \<and> (\<exists>p\<in>set (db_policies d). pol_tenant p = rc_tenant c \<and> pol_status p = ''ACTIVE'' \<and> policy = policy_of p)
     \<and> (\<exists>dv\<in>set (db_devices d). d_tenant dv = rc_tenant c \<and> d_user dv = rc_user c \<and> d_id dv = rs_device res
          \<and> d_status dv = ''ACTIVE'')
     \<and> session \<in> set (db_sessions d') \<and> is_revocable (rc_session c) (rc_tenant c) (rc_user c) session
     \<and> now < as_expires session \<and> str_of_option (as_device session) = rs_device res
     \<and> (\<exists>geo dst risk. rc_geo c = Some geo
          \<and> validate_geo geo (max_geo_accuracy_meters policy) (max_geo_age_seconds policy) now = Inr ()
          \<and> match_location geo (assigned_location_rows (rc_user c) (rc_tenant c) now d') = Inr (location, dst)
          \<and> env_network env (rc_ip c) (rc_correlation c) = Inr risk
          \<and> \<not> (nr_vpn_status risk = DETECTED \<and> vpn_detected_action policy = ''DENY'')
          \<and> \<not> (nr_vpn_status risk = UNKNOWN_VPN \<and> vpn_unknown_action policy = ''DENY''))
     \<and> evaluate_schedule (env_zoneinfo env) now (lc_timezone_iana location)
           (schedule_window_rows (rc_tenant c) (lc_schedule_id location) d')
           (latest_override (rc_tenant c) (rc_user c) (lc_location_id location) now d') = Inr schedule
     \<and> rs_location res = lc_location_id location
     \<and> rs_permissions res \<noteq> []
     \<and> (\<forall>k\<in>set (rs_permissions res). is_canonical_permission k \<and> (\<exists>rk. granted d' (rc_tenant c) (rc_user c) now rk k))"

definition refresh_recorded ::
  "'tok access_env \<Rightarrow> db \<Rightarrow> int \<Rightarrow> int \<Rightarrow> refresh_call \<Rightarrow> 'tok RefreshedUserSession \<Rightarrow> bool" where
  "refresh_recorded env d now signed_at c res \<longleftrightarrow>
     (\<exists>r\<in>set (db_sessions d). is_revocable (rc_session c) (rc_tenant c) (rc_user c) r
          \<and> as_location r = Some (rs_location res) \<and> as_expires r = rs_expires res)
     \<and> (\<exists>e\<in>set (db_evaluations d). ev_session e = Some (rc_session c) \<and> ev_principal e = rc_user c
          \<and> ev_decision e = ''ALLOW'' \<and> ev_evaluated_at e = now \<and> ev_correlation e = rc_correlation c)
     \<and> (\<exists>jti. jwt_encode (env_jwt env)
          (token_payload (env_settings env)
             (refresh_claims c (rs_device res) (rs_location res) (rs_roles res) (rs_permissions res) (rs_expires res))
             (rs_permissions res) signed_at jti)
          (the (security_private_key_pem (env_settings env))) (the (security_key_id (env_settings env)))
        = Some (rs_token res))"

lemma require_active_session_Inr:
  "require_active_session row s = (Inr r, t) \<longleftrightarrow> t = s \<and> row = Some r \<and> as_status r = ''ACTIVE''"
  by (auto simp: require_active_session_def success_simps split: option.splits)

lemma user_session_Inr:
  "user_session sid tn u s = (Inr row, t) \<longleftrightarrow> t = s \<and> row = first_row (is_user_session sid tn u) (db_sessions (working s))"
  by (auto simp: user_session_def success_simps)

lemma lock_session_InrD:
  assumes "lock_session f now c dv s = (Inr r, t)"
  shows "committed t = f (committed s) \<and> working t = f (working s) \<and> r \<in> set (db_sessions (f (working s)))
    \<and> is_revocable (rc_session c) (rc_tenant c) (rc_user c) r \<and> now < as_expires r \<and> str_of_option (as_device r) = dv"
  using assms
  by (auto simp: lock_session_def success_simps locked_user_session_run require_active_session_Inr is_revocable_def
      dest!: first_row_SomeD)

lemma write_refreshed_session_InrD:
  assumes "write_refreshed_session c ctx s = (Inr x, t)"
    and "r \<in> set (db_sessions (working s))" "is_revocable (rc_session c) (rc_tenant c) (rc_user c) r"
  shows "sx_now ctx < sx_expires ctx \<and> committed t = committed s
    \<and> working t = (working s)\<lparr>db_sessions := db_sessions (working t)\<rparr>
    \<and> refreshed_row ctx r \<in> set (db_sessions (working t))"
  using assms
  by (auto simp: write_refreshed_session_def update_active_session_context_def success_simps update_sessions_def Let_def
      set_update_rows split: if_splits intro!: rev_image_eqI)

lemma record_refresh_evaluation_InrD:
  assumes "record_refresh_evaluation c dec code now ev s = (Inr x, t)"
  shows "\<exists>i. committed t = committed s
    \<and> working t = (working s)\<lparr>db_evaluations := db_evaluations (working s) @ [evaluation_payload c i dec code now ev]\<rparr>"
  using assms by (auto simp: record_refresh_evaluation_def success_simps dest!: record_evaluation_InrD)

lemma refreshed_row_revocable:
  "is_revocable sid tn u r \<Longrightarrow> is_revocable sid tn u (refreshed_row ctx r)"
  by (simp add: is_revocable_def is_user_session_def refreshed_row_def)

lemma refresh_InrD:
  "refresh env f now sg c s = (Inr res, t) \<longleftrightarrow> (\<exists>ev. refresh_body env f now sg c no_evidence s = (Inr res, ev, t))"
  by (auto simp: refresh_def run_simps split: sum.splits exn.splits prod.splits dest: persist_denial_outcome)

context user_repository
begin

lemma refresh_granted:
  assumes env: "env_repo env = repo"
    and run: "refresh env f now sg c s = (Inr res, t)"
  shows "\<exists>policy session location schedule.
      refresh_gates env (working s) (f (working s)) now c policy session location schedule res
      \<and> now < rs_expires res \<and> expiry_bounded now policy schedule (as_started session) (rs_expires res)
      \<and> refresh_recorded env (committed t) now sg c res \<and> committed t = working t"
proof -
  from run obtain ev' where "refresh_body env f now sg c no_evidence s = (Inr res, ev', t)"
    unfolding refresh_InrD by blast
  then obtain geo risk x s0 ctx s1 pol s2 row s3 obs s4 dv s5 ses s6 loc dst s7 sd s8 y s9 roles perms s10 z s11 w s12 ev tok s13 where
      geo: "require_refresh_geo (rc_geo c) = Inr geo"
    and risk: "env_network env (rc_ip c) (rc_correlation c) = Inr risk"
    and st: "require_open_tenant (rc_tenant c) s = (Inr x, s0)"
      "get_user_context repo (rc_user c) (rc_tenant c) now s0 = (Inr ctx, s1)"
      "get_tenant_policy (rc_tenant c) s1 = (Inr pol, s2)"
      "user_session (rc_session c) (rc_tenant c) (rc_user c) s2 = (Inr row, s3)"
      "require_active_session row s3 = (Inr obs, s4)"
    and dvl: "lock_active_device (rc_user c) (rc_tenant c) (str_of_option (as_device obs)) s4 = (Inr dv, s5)"
    and ses: "lock_session f now c (str_of_option (as_device obs)) s5 = (Inr ses, s6)"
    and loc: "match_assigned_location pol geo (rc_user c) (rc_tenant c) now s6 = (Inr (loc, dst), s7)"
    and sd: "check_schedule env loc (rc_user c) (rc_tenant c) now s7 = (Inr sd, s8)"
    and net: "check_network pol risk s8 = (Inr y, s9)"
    and perms: "current_permissions env (rc_tenant c) (rc_user c) now s9 = (Inr (roles, perms), s10)"
    and wr: "write_refreshed_session c \<lparr>sx_location = lc_location_id loc, sx_ip = rc_ip c,
                  sx_vpn = vpn_status_value (nr_vpn_status risk), sx_version = uc_authorization_version ctx,
                  sx_expires = rs_expires res, sx_now = now\<rparr> s10 = (Inr z, s11)"
    and rec: "record_refresh_evaluation c ''ALLOW'' ''ACCESS_GRANTED'' now ev s11 = (Inr w, s12)"
    and evs: "rx_session ev = Some (rc_session c)"
    and iss: "issue (env_jwt env) (env_settings env) sg
        (refresh_claims c (str_of_option (as_device obs)) (lc_location_id loc) roles perms (rs_expires res)) s12 = (Inr tok, s13)"
    and t: "t = s13\<lparr>committed := working s13\<rparr>"
    and res: "rs_token res = tok" "rs_device res = str_of_option (as_device obs)" "rs_location res = lc_location_id loc"
      "rs_roles res = roles" "rs_permissions res = perms"
      "rs_expires res = session_expiry pol now (as_started ses + minutes (session_max_duration_minutes pol)) (sd_authorized_until_utc sd)"
    unfolding refresh_body_def Let_def env
    by (auto simp: bindE_Inr_iff seqE_Inr_iff onE_Inr_iff noteE_Inr_iff evidenceE_Inr_iff liftM_Inr_iff returnM_Inr_iff
        commit_Inr_iff split: prod.splits)
  have g: "rc_geo c = Some geo" using geo by (auto simp: require_refresh_geo_def split: option.splits)
  have early: "s0 = s" "s1 = s0" "active_user (working s0) (rc_user c)" "s2 = s1" "s3 = s2" "s4 = s3" "s5 = s4"
    using st(1,3-5) dvl context_Inr [OF st(2)]
    by (auto simp: method_simps user_session_Inr require_active_session_Inr)
  have ten: "\<exists>t\<in>set (db_tenants (working s)). t_id t = rc_tenant c \<and> t_status t = ''ACTIVE''"
    using st(1) by (auto simp: method_simps dest!: first_row_SomeD)
  have pol: "\<exists>p\<in>set (db_policies (working s)). pol_tenant p = rc_tenant c \<and> pol_status p = ''ACTIVE'' \<and> pol = policy_of p"
    using st(3) early by (auto simp: method_simps dest!: first_row_SomeD)
  have dvc: "\<exists>dv\<in>set (db_devices (working s)). d_tenant dv = rc_tenant c \<and> d_user dv = rc_user c
      \<and> d_id dv = rs_device res \<and> d_status dv = ''ACTIVE''"
    using dvl early res(2) by (auto simp: method_simps dest!: first_row_SomeD)
  note lk = lock_session_InrD [OF ses]
  then have w6: "working s6 = f (working s)" using early by simp
  have late: "s7 = s6" "s8 = s7" "s9 = s8" "s10 = s9"
    using loc check_schedule_InrD [OF sd] net current_permissions_InrD [OF env perms] by (auto simp: method_simps)
  have gates: "refresh_gates env (working s) (f (working s)) now c pol ses loc sd res"
    unfolding refresh_gates_def
    using ten early pol dvc lk g risk loc check_schedule_InrD [OF sd] net current_permissions_InrD [OF env perms] res late w6
    by (intro conjI) (auto simp: method_simps)
  have s10: "ses \<in> set (db_sessions (working s10))" "is_revocable (rc_session c) (rc_tenant c) (rc_user c) ses"
    using lk late w6 early by auto
  note wd = write_refreshed_session_InrD [OF wr s10]
  obtain i where rd: "working s12 = (working s11)
      \<lparr>db_evaluations := db_evaluations (working s11) @ [evaluation_payload c i ''ALLOW'' ''ACCESS_GRANTED'' now ev]\<rparr>"
    using record_refresh_evaluation_InrD [OF rec] by blast
  have fin: "committed t = working s12" "working t = committed t" using t issue_working [OF iss] by auto
  have exp: "now < rs_expires res" "expiry_bounded now pol sd (as_started ses) (rs_expires res)"
    using wd session_expiry_bounds by (auto simp: expiry_bounded_def res(6))
  have srt: "sorted_set perms = perms"
    using current_permissions_InrD [OF env perms] by (simp add: sorted_set_self)
  let ?new = "refreshed_row \<lparr>sx_location = lc_location_id loc, sx_ip = rc_ip c,
      sx_vpn = vpn_status_value (nr_vpn_status risk), sx_version = uc_authorization_version ctx,
      sx_expires = rs_expires res, sx_now = now\<rparr> ses"
  have sess: "db_sessions (committed t) = db_sessions (working s11)" unfolding fin(1) rd by simp
  have new: "?new \<in> set (db_sessions (working s11))" "is_revocable (rc_session c) (rc_tenant c) (rc_user c) ?new"
      "as_location ?new = Some (rs_location res)" "as_expires ?new = rs_expires res"
    using wd by (simp_all only: refreshed_row_revocable [OF s10(2)]) (simp_all add: refreshed_row_def res(3))
  have "refresh_recorded env (committed t) now sg c res"
    unfolding refresh_recorded_def
  proof (intro conjI)
    show "\<exists>r\<in>set (db_sessions (committed t)). is_revocable (rc_session c) (rc_tenant c) (rc_user c) r
          \<and> as_location r = Some (rs_location res) \<and> as_expires r = rs_expires res"
      using new unfolding sess by blast
    show "\<exists>e\<in>set (db_evaluations (committed t)). ev_session e = Some (rc_session c) \<and> ev_principal e = rc_user c
          \<and> ev_decision e = ''ALLOW'' \<and> ev_evaluated_at e = now \<and> ev_correlation e = rc_correlation c"
      using rd fin evs by (auto simp: evaluation_payload_def)
  next
    show "\<exists>jti. jwt_encode (env_jwt env)
          (token_payload (env_settings env)
             (refresh_claims c (rs_device res) (rs_location res) (rs_roles res) (rs_permissions res) (rs_expires res))
             (rs_permissions res) sg jti)
          (the (security_private_key_pem (env_settings env))) (the (security_key_id (env_settings env)))
        = Some (rs_token res)"
      using iss srt unfolding res(1-5) issue_Inr by (auto simp: refresh_claims_def)
  qed
  then show ?thesis using gates exp fin by metis
qed

end

section \<open>A concrete refresh\<close>

definition sample_call :: "int \<Rightarrow> refresh_call" where
  "sample_call now = \<lparr>rc_user = ''u1'', rc_tenant = ''t1'', rc_session = ''as0'', rc_geo = Some (sample_geo now),
     rc_ip = ''ip'', rc_correlation = ''cid''\<rparr>"

definition refresh_run :: "(db \<Rightarrow> db) \<Rightarrow> (exn + (claims \<times> string) RefreshedUserSession) \<times> db session" where
  "refresh_run others = refresh sample_env others 1000000000 1000000000 (sample_call 1000000000)
     (fresh_session (sample_db [old_session]) sample_uuid)"

lemma sample_token':
  assumes "sid \<noteq> []"
  shows "\<exists>tok. issue (env_jwt sample_env) (env_settings sample_env) sg
     (refresh_claims \<lparr>rc_user = ''u1'', rc_tenant = ''t1'', rc_session = sid, rc_geo = g, rc_ip = i, rc_correlation = k\<rparr>
        ''d1'' ''l1'' [''di.agent''] [''di.case.read''] ex) s = (Inr tok, s\<lparr>uuids := (\<lambda>n. uuids s (Suc n))\<rparr>)"
  using assms sample_permissions
  by (simp add: issue_Inr sample_env_def sample_settings_def is_set_def refresh_claims_def
      validate_actor_claim_shape_def plain_jwt_def sorted_set_def)

lemma refresh_run_returns: "\<exists>res t. refresh_run id = (Inr res, t) \<and> rs_expires res = 1600000000"
proof -
  let ?s = "fresh_session (sample_db [old_session]) sample_uuid"
  let ?c = "sample_call 1000000000"
  let ?r = "\<lparr>nr_vpn_status = UNKNOWN_VPN, nr_risk_reasons = [''PROVIDER_NOT_CONFIGURED''], nr_provider_reference = None\<rparr>"
  have w: "working ?s = sample_db [old_session]" by (simp add: fresh_session_def)
  have net: "env_network sample_env ''ip'' ''cid'' = Inr ?r" by (simp add: sample_env_def UnknownNetworkRiskAdapter_def)
  have row: "first_row (is_user_session ''as0'' ''t1'' ''u1'') (db_sessions (sample_db [old_session])) = Some old_session"
    by (simp add: sample_db_def first_row_def is_user_session_def old_session_def)
  have old: "as_status old_session = ''ACTIVE''" "as_device old_session = Some ''d1''" "as_started old_session = 0"
      "as_expires old_session = 10060000000"
    by (simp_all add: old_session_def)
  have us: "user_session ''as0'' ''t1'' ''u1'' ?s = (Inr (Some old_session), ?s)"
    by (simp add: user_session_Inr w row)
  have "?s\<lparr>committed := id (committed ?s), working := id (working ?s)\<rparr> = ?s" by simp
  then have lk: "lock_session id 1000000000 ?c ''d1'' ?s = (Inr old_session, ?s)"
    by (simp add: lock_session_def locked_user_session_run run_simps w require_active_session_def sample_call_def
        str_of_option_def row old)
  have ra: "require_active_session (Some old_session) ?s = (Inr old_session, ?s)"
    by (simp add: require_active_session_Inr old_session_def)
  have ex: "session_expiry sample_policy 1000000000 (minutes (session_max_duration_minutes sample_policy)) 72000000000 = 1600000000"
    by (simp add: session_expiry_def minutes_def seconds_def policy_of_def sample_db_def)
  have l: "lc_location_id (office_candidate ''l1'') = ''l1''" by (simp add: office_candidate_def)
  let ?c' = "\<lparr>rc_user = ''u1'', rc_tenant = ''t1'', rc_session = ''as0'', rc_geo = Some (sample_geo 1000000000),
     rc_ip = ''ip'', rc_correlation = ''cid''\<rparr>"
  have "\<exists>s1. write_refreshed_session ?c' \<lparr>sx_location = ''l1'', sx_ip = ''ip'', sx_vpn = ''UNKNOWN'',
      sx_version = 3, sx_expires = 1600000000, sx_now = 1000000000\<rparr> ?s = (Inr (), s1) \<and> db_evaluations (working s1) = []"
    by (simp add: write_refreshed_session_def update_active_session_context_def run_simps w update_sessions_def Let_def
        exists_row_def) (simp add: sample_db_def is_revocable_def is_user_session_def old_session_def session_check_def
        refreshed_row_def)
  then obtain s1 where wr: "write_refreshed_session ?c' \<lparr>sx_location = ''l1'', sx_ip = ''ip'', sx_vpn = ''UNKNOWN'',
      sx_version = 3, sx_expires = 1600000000, sx_now = 1000000000\<rparr> ?s = (Inr (), s1)" "db_evaluations (working s1) = []" by blast
  have rec: "\<exists>s2. record_refresh_evaluation ?c' d k n ev s1 = (Inr (), s2)" for d k n ev
    by (simp add: record_refresh_evaluation_def run_simps record_evaluation_def insert_evaluation_def index_free_def wr(2))
  let ?ev = "\<lparr>rx_session = Some ''as0'', rx_location = Some sample_location, rx_distance = Some 0,
      rx_schedule = Some \<lparr>sd_local_time = 1000000000, sd_authorized_until_utc = 72000000000\<rparr>, rx_risk = Some ?r\<rparr>"
  obtain s2 where s2: "record_refresh_evaluation ?c' ''ALLOW'' ''ACCESS_GRANTED'' 1000000000 ?ev s1 = (Inr (), s2)" using rec by blast
  obtain tok where tok: "issue (env_jwt sample_env) (env_settings sample_env) 1000000000
     (refresh_claims ?c' ''d1'' ''l1'' [''di.agent''] [''di.case.read''] 1600000000) s2 = (Inr tok, s2\<lparr>uuids := (\<lambda>n. uuids s2 (Suc n))\<rparr>)"
    using sample_token' by fastforce
  have "\<exists>res ev t. refresh_body sample_env id 1000000000 1000000000 ?c no_evidence ?s = (Inr res, ev, t)
      \<and> rs_expires res = 1600000000"
    unfolding refresh_body_def
    by (simp add: bindE_def seqE_def onE_def noteE_def evidenceE_def run_liftM require_refresh_geo_def Let_def
        sample_call_def net us lk [unfolded sample_call_def, simplified] ra old str_of_option_def
        sample_early_gates [OF w] sample_location_gate [OF w]
        sample_schedule_gate [OF w] sample_permission_gate [OF w] ex l wr(1) s2 tok no_evidence_def
        run_returnM commit_def)
  then show ?thesis by (auto simp: refresh_run_def refresh_InrD)
qed

section \<open>Refresh\<close>



text \<open>C9: A refresh that is refused commits nothing of the session: the database is what the other requests made of
  it, plus, for a denial with a 4xx status, one DENY evaluation with the reason; a failure of the service (5xx, or any
  other exception) leaves no evaluation.\<close>

theorem refresh_refusal_evidence:
  assumes "env_repo env = GroupAwareSecurityRepository"
    and "refresh env others now sg c s = (Inl e, t)"
  shows "\<exists>d\<in>{committed s, others (committed s)}. refusal e c now d (committed t)"
  using assms by (rule group_repository.refresh_refused)

lemma no_revocable_no_refresh:
  assumes "env_repo env = GroupAwareSecurityRepository"
    and "\<not> exists_row (is_revocable (rc_session c) (rc_tenant c) (rc_user c)) (db_sessions (others (working s)))"
  shows "refresh env others now sg c s \<noteq> (Inr res, t)"
proof
  assume "refresh env others now sg c s = (Inr res, t)"
  from group_repository.refresh_granted [OF assms(1) this] assms(2) show False
    by (auto simp: refresh_gates_def exists_row_iff)
qed

lemma fst_not_Inr: "(\<And>x t. m \<noteq> (Inr x, t)) \<Longrightarrow> fst m \<notin> range Inr"
  by (cases m) auto

lemma revoked_not_revocable: "\<not> exists_row (is_revocable sid tn u) (db_sessions (revoked_db sid d))"
  unfolding exists_row_iff revoked_db_def by (simp add: update_rows_def ball_Un is_revocable_def is_user_session_def)

text \<open>C3: Revocation wins: once a revoke of the session has committed, whether before the refresh starts or while the
  refresh waits for the lock on the session, the refresh does not return a token.\<close>

theorem revoked_session_cannot_be_refreshed:
  assumes "env_repo env = GroupAwareSecurityRepository" and "db_ok d"
    and "revoke (rc_session c) (rc_tenant c) (rc_user c) (fresh_session d us) = (Inr True, u)"
  shows "fst (refresh env id now sg c (fresh_session (committed u) us')) \<notin> range Inr
       \<and> fst (refresh env (\<lambda>_. committed u) now sg c (fresh_session d us')) \<notin> range Inr"
proof -
  have u: "committed u = revoked_db (rc_session c) d"
    using assms(3) revoke_exact [OF assms(2), of "rc_session c" "rc_tenant c" "rc_user c" us]
    by (auto simp: fresh_session_def split: if_splits)
  show ?thesis
    by (intro conjI fst_not_Inr no_revocable_no_refresh assms(1)) (simp_all add: u revoked_not_revocable fresh_session_def)
qed

theorem refresh_refusal_evidence_witness:
  "\<exists>e t. refresh_run (\<lambda>_. revoked_db ''as0'' (sample_db [old_session])) = (Inl e, t)
     \<and> (\<exists>d\<in>{sample_db [old_session], revoked_db ''as0'' (sample_db [old_session])}.
          refusal e (sample_call 1000000000) 1000000000 d (committed t))"
proof -
  let ?f = "\<lambda>_. revoked_db ''as0'' (sample_db [old_session])"
  have e: "env_repo sample_env = GroupAwareSecurityRepository" by (simp add: sample_env_def)
  obtain r t where r: "refresh_run ?f = (r, t)" by fastforce
  have "r \<noteq> Inr x" for x
    using no_revocable_no_refresh [OF e, of "sample_call 1000000000" ?f] r
    unfolding refresh_run_def by (auto simp: revoked_not_revocable sample_call_def)
  then obtain ex where "r = Inl ex" by (cases r) auto
  with refresh_refusal_evidence [OF e] r show ?thesis by (fastforce simp: refresh_run_def fresh_session_def)
qed

theorem revoked_session_cannot_be_refreshed_witness:
  "fst (refresh_run (\<lambda>_. revoked_db ''as0'' (sample_db [old_session]))) \<notin> range Inr"
proof -
  have e: "env_repo sample_env = GroupAwareSecurityRepository" by (simp add: sample_env_def)
  have x: "exists_row (is_revocable ''as0'' ''t1'' ''u1'') (db_sessions (sample_db [old_session]))"
    by (simp add: sample_db_def exists_row_def is_revocable_def is_user_session_def old_session_def)
  have r: "revoke (rc_session (sample_call n)) (rc_tenant (sample_call n)) (rc_user (sample_call n))
      (fresh_session (sample_db [old_session]) sample_uuid)
    = (Inr True, fresh_session (revoked_db ''as0'' (sample_db [old_session])) sample_uuid)" for n
    using x by (simp add: sample_call_def revoke_exact [OF sample_db_ok(2)])
  show ?thesis
    using revoked_session_cannot_be_refreshed [OF e sample_db_ok(2) r] by (simp add: refresh_run_def fresh_session_def)
qed

end
