(* ===== verification/RbacAdmin.thy ===== *)
theory RbacAdmin
  imports Permissions SecurityRepository
begin

text \<open>
  \<open>services/tenant_rbac_admin.py\<close>: groups, roles, permissions of roles and their assignment to
  users and groups. The four methods its subclass overrides are the fields of a record of
  hooks; every other method calls them through \<open>self\<close>, so it takes the hooks as an argument.
  Every operation writes, bumps the authorization versions of the users it affects, writes an
  audit record and commits. A \<open>ValueError\<close> becomes a response of the route; the request then
  closes its session, which rolls back.
\<close>

section \<open>The overridable methods\<close>

record rbac_hooks =
  active_membership :: "string \<Rightarrow> string \<Rightarrow> int \<Rightarrow> bool dbact"
  bump_versions :: "string \<Rightarrow> string list \<Rightarrow> int \<Rightarrow> unit dbact"
  effective_group_users :: "string \<Rightarrow> string \<Rightarrow> int \<Rightarrow> string list dbact"
  effective_role_users :: "string \<Rightarrow> string \<Rightarrow> int \<Rightarrow> string list dbact"

definition membership_open :: "string \<Rightarrow> string \<Rightarrow> int \<Rightarrow> membership \<Rightarrow> bool" where
  "membership_open tenant_id user_id now m =
     (m_tenant m = tenant_id \<and> m_user m = user_id \<and> m_status m = ''ACTIVE''
      \<and> valid_at (m_valid_from m) (m_valid_to m) now)"

definition tenant_active_membership :: "string \<Rightarrow> string \<Rightarrow> int \<Rightarrow> bool dbact" where
  "tenant_active_membership tenant_id user_id now =
     query (\<lambda>d. exists_row (membership_open tenant_id user_id now) (db_memberships d))"

definition bump_membership :: "string \<Rightarrow> int \<Rightarrow> string \<Rightarrow> unit dbact" where
  "bump_membership tenant_id now user_id =
     update (\<lambda>d. d\<lparr>db_memberships :=
       update_rows (\<lambda>m. m_tenant m = tenant_id \<and> m_user m = user_id \<and> m_status m = ''ACTIVE'')
         (\<lambda>m. m\<lparr>m_version := m_version m + 1, m_updated_at := now\<rparr>) (db_memberships d)\<rparr>)"

definition bump_membership_versions :: "string \<Rightarrow> string list \<Rightarrow> int \<Rightarrow> unit dbact" where
  "bump_membership_versions tenant_id user_ids now =
     foreachM (sorted_set user_ids) (bump_membership tenant_id now)"

definition member_now :: "string \<Rightarrow> string \<Rightarrow> int \<Rightarrow> group_member \<Rightarrow> bool" where
  "member_now tenant_id group_id now gm =
     (gm_tenant gm = tenant_id \<and> gm_group gm = group_id \<and> gm_status gm = ''ACTIVE''
      \<and> valid_at (gm_valid_from gm) (gm_valid_to gm) now)"

definition member_group_users :: "string \<Rightarrow> string \<Rightarrow> int \<Rightarrow> string list dbact" where
  "member_group_users tenant_id group_id now =
     query (\<lambda>d. [gm_user gm. gm \<leftarrow> db_group_members d, tm \<leftarrow> db_memberships d,
        m_tenant tm = gm_tenant gm, m_user tm = gm_user gm, m_status tm = ''ACTIVE'',
        member_now tenant_id group_id now gm, valid_at (m_valid_from tm) (m_valid_to tm) now])"

text \<open>The two branches of the UNION; UNION and DISTINCT remove duplicates.\<close>

definition member_role_user_rows :: "string \<Rightarrow> string \<Rightarrow> int \<Rightarrow> db \<Rightarrow> string list" where
  "member_role_user_rows tenant_id role_id now d =
     [ura_user ura. ura \<leftarrow> db_user_roles d, tm \<leftarrow> db_memberships d,
        m_tenant tm = ura_tenant ura, m_user tm = ura_user ura, m_status tm = ''ACTIVE'',
        ura_tenant ura = tenant_id, ura_role ura = role_id, ura_status ura = ''ACTIVE'',
        valid_at (ura_valid_from ura) (ura_valid_to ura) now]
     @ [gm_user gm. gra \<leftarrow> db_group_roles d, g \<leftarrow> db_groups d, gm \<leftarrow> db_group_members d, tm \<leftarrow> db_memberships d,
        g_tenant g = gra_tenant gra, g_id g = gra_group gra, g_status g = ''ACTIVE'',
        gm_tenant gm = g_tenant g, gm_group gm = g_id g, gm_status gm = ''ACTIVE'',
        m_tenant tm = gm_tenant gm, m_user tm = gm_user gm, m_status tm = ''ACTIVE'',
        gra_tenant gra = tenant_id, gra_role gra = role_id, gra_status gra = ''ACTIVE'',
        valid_at (gm_valid_from gm) (gm_valid_to gm) now]"

definition member_role_users :: "string \<Rightarrow> string \<Rightarrow> int \<Rightarrow> string list dbact" where
  "member_role_users tenant_id role_id now = query (\<lambda>d. remdups (member_role_user_rows tenant_id role_id now d))"

definition TenantRbacAdminService :: rbac_hooks where
  "TenantRbacAdminService = \<lparr>active_membership = tenant_active_membership,
     bump_versions = bump_membership_versions, effective_group_users = member_group_users,
     effective_role_users = member_role_users\<rparr>"

section \<open>Reads\<close>

definition list_groups :: "string \<Rightarrow> tenant_group list dbact" where
  "list_groups tenant_id = query (\<lambda>d. sort_key g_key (filter (\<lambda>g. g_tenant g = tenant_id) (db_groups d)))"

definition get_group :: "string \<Rightarrow> string \<Rightarrow> tenant_group option dbact" where
  "get_group tenant_id group_id =
     query (\<lambda>d. first_row (\<lambda>g. g_tenant g = tenant_id \<and> g_id g = group_id) (db_groups d))"

definition list_roles :: "string \<Rightarrow> role list dbact" where
  "list_roles tenant_id = query (\<lambda>d. sort_key r_key (filter (\<lambda>r. r_tenant r = tenant_id) (db_roles d)))"

definition get_role :: "string \<Rightarrow> string \<Rightarrow> role option dbact" where
  "get_role tenant_id role_id =
     query (\<lambda>d. first_row (\<lambda>r. r_tenant r = tenant_id \<and> r_id r = role_id) (db_roles d))"

definition list_permissions :: "permission list dbact" where
  "list_permissions = query (\<lambda>d. sort_key p_key (filter (\<lambda>p. p_status p \<noteq> ''RETIRED'') (db_permissions d)))"

definition active_group :: "string \<Rightarrow> string \<Rightarrow> bool dbact" where
  "active_group tenant_id group_id =
     query (\<lambda>d. exists_row (\<lambda>g. g_tenant g = tenant_id \<and> g_id g = group_id \<and> g_status g = ''ACTIVE'') (db_groups d))"

definition active_role :: "string \<Rightarrow> string \<Rightarrow> bool dbact" where
  "active_role tenant_id role_id =
     query (\<lambda>d. exists_row (\<lambda>r. r_tenant r = tenant_id \<and> r_id r = role_id \<and> r_status r = ''ACTIVE'') (db_roles d))"

definition ensure_active_permission :: "string \<Rightarrow> unit dbact" where
  "ensure_active_permission permission_key =
     bindM (query (\<lambda>d. first_row (\<lambda>p. p_key p = permission_key) (db_permissions d))) (\<lambda>row.
       raise_if (case row of None \<Rightarrow> True | Some p \<Rightarrow> p_status p \<noteq> ''ACTIVE'')
         (ValueError (''Permission is not ACTIVE: '' @ permission_key)))"

definition ensure_active_permissions :: "string list \<Rightarrow> unit dbact" where
  "ensure_active_permissions permission_keys = foreachM permission_keys ensure_active_permission"

section \<open>Templates\<close>

record template_item =
  ti_template :: role_template
  ti_permission_keys :: "string list"

text \<open>The rows of the LEFT JOIN, and their order (NULLS LAST).\<close>

definition template_rows :: "db \<Rightarrow> (role_template \<times> string option) list" where
  "template_rows d =
     concat (map (\<lambda>t. let ps = map tp_permission (filter (\<lambda>tp. tp_template tp = tpl_id t) (db_template_permissions d))
                       in if ps = [] then [(t, None)] else map (\<lambda>p. (t, Some p)) ps)
             (filter (\<lambda>t. tpl_status t \<noteq> ''RETIRED'') (db_templates d)))"

definition ordered_template_rows :: "db \<Rightarrow> (role_template \<times> string option) list" where
  "ordered_template_rows d =
     sort_key (tpl_module \<circ> fst) (sort_key (tpl_key \<circ> fst)
       (sort_key (\<lambda>r. snd r = None) (sort_key (\<lambda>r. case snd r of None \<Rightarrow> [] | Some p \<Rightarrow> p) (template_rows d))))"

text \<open>\<open>result.setdefault(key, ...)\<close> keeps the order of first insertion.\<close>

fun collect_template :: "role_template \<times> string option \<Rightarrow> template_item list \<Rightarrow> template_item list" where
  "collect_template (t, p) [] =
     [\<lparr>ti_template = t, ti_permission_keys = (case p of None \<Rightarrow> [] | Some k \<Rightarrow> [k])\<rparr>]"
| "collect_template (t, p) (i # is) =
     (if tpl_id (ti_template i) = tpl_id t
      then i\<lparr>ti_permission_keys := ti_permission_keys i @ (case p of None \<Rightarrow> [] | Some k \<Rightarrow> [k])\<rparr> # is
      else i # collect_template (t, p) is)"

definition list_templates :: "template_item list dbact" where
  "list_templates = query (\<lambda>d. fold collect_template (ordered_template_rows d) [])"

section \<open>The audit record and the end of an operation\<close>

record admin_call =
  cl_tenant :: string
  cl_actor :: string
  cl_correlation :: string

definition audit :: "admin_call \<Rightarrow> string \<Rightarrow> string \<Rightarrow> string \<Rightarrow> int \<Rightarrow> unit dbact" where
  "audit c operation_key resource_type resource_id now =
     bindM uuid4 (\<lambda>admin_change_id. execute (insert_change
       \<lparr>ac_id = admin_change_id, ac_correlation = cl_correlation c, ac_scope_type = ''TENANT'',
        ac_tenant = Some (cl_tenant c), ac_actor = cl_actor c, ac_operation = operation_key,
        ac_resource_type = resource_type, ac_resource_id = Some resource_id, ac_outcome = ''SUCCESS'',
        ac_occurred_at = now\<rparr>))"

definition audit_and_commit :: "admin_call \<Rightarrow> string \<Rightarrow> string \<Rightarrow> string \<Rightarrow> int \<Rightarrow> unit dbact" where
  "audit_and_commit c operation_key resource_type resource_id now =
     seqM (audit c operation_key resource_type resource_id now) commit"

text \<open>\<open>UPDATE/DELETE ... RETURNING id\<close>: whether a row matched.\<close>

definition write_if_hit :: "(db \<Rightarrow> bool) \<Rightarrow> (db \<Rightarrow> db) \<Rightarrow> bool dbact" where
  "write_if_hit hit f = bindM (query hit) (\<lambda>b. seqM (update f) (returnM b))"

section \<open>Groups\<close>

definition create_group :: "admin_call \<Rightarrow> int \<Rightarrow> string \<Rightarrow> string \<Rightarrow> string option \<Rightarrow> tenant_group dbact" where
  "create_group c now group_key group_name description =
     bindM uuid4 (\<lambda>group_id.
     seqM (execute (insert_group
       \<lparr>g_id = group_id, g_tenant = cl_tenant c, g_key = group_key, g_name = group_name, g_description = description,
        g_status = ''ACTIVE'', g_created_by = cl_actor c, g_created_at = now, g_updated_at = now\<rparr>))
     (seqM (audit_and_commit c ''security.group.create'' ''GROUP'' group_id now)
     (bindM (get_group (cl_tenant c) group_id) (\<lambda>row.
        case row of None \<Rightarrow> throwM (RuntimeError ''Created group could not be reloaded'') | Some g \<Rightarrow> returnM g))))"

definition keep_or :: "'a option \<Rightarrow> 'a \<Rightarrow> 'a" where
  "keep_or new current = (case new of None \<Rightarrow> current | Some x \<Rightarrow> x)"

definition update_group ::
  "rbac_hooks \<Rightarrow> admin_call \<Rightarrow> int \<Rightarrow> string \<Rightarrow> string option \<Rightarrow> string option \<Rightarrow> string option \<Rightarrow> tenant_group option dbact" where
  "update_group h c now group_id group_name description status =
     bindM (get_group (cl_tenant c) group_id) (\<lambda>row.
       case row of
         None \<Rightarrow> returnM None
       | Some current \<Rightarrow>
         bindM (effective_group_users h (cl_tenant c) group_id now) (\<lambda>affected_users.
         seqM (execute (update_group_rows (\<lambda>g. g_tenant g = cl_tenant c \<and> g_id g = group_id)
           (\<lambda>g. g\<lparr>g_name := keep_or group_name (g_name current),
                  g_description := (if description \<noteq> None then description else g_description current),
                  g_status := keep_or status (g_status current), g_updated_at := now\<rparr>)))
         (seqM (if g_status current \<noteq> keep_or status (g_status current)
                then bump_versions h (cl_tenant c) affected_users now else returnM ())
         (seqM (audit_and_commit c ''security.group.update'' ''GROUP'' group_id now)
           (get_group (cl_tenant c) group_id)))))"

definition is_member :: "string \<Rightarrow> string \<Rightarrow> string \<Rightarrow> group_member \<Rightarrow> bool" where
  "is_member tenant_id group_id user_id gm =
     (gm_tenant gm = tenant_id \<and> gm_group gm = group_id \<and> gm_user gm = user_id \<and> gm_status gm = ''ACTIVE'')"

definition add_group_member :: "rbac_hooks \<Rightarrow> admin_call \<Rightarrow> int \<Rightarrow> string \<Rightarrow> string \<Rightarrow> bool dbact" where
  "add_group_member h c now group_id user_id =
     bindM (active_group (cl_tenant c) group_id) (\<lambda>group_ok.
     seqM (raise_if (\<not> group_ok) (ValueError ''Group must be ACTIVE''))
     (bindM (active_membership h (cl_tenant c) user_id now) (\<lambda>member_ok.
      seqM (raise_if (\<not> member_ok) (ValueError ''User must have an ACTIVE Tenant membership''))
      (bindM (query (\<lambda>d. exists_row (is_member (cl_tenant c) group_id user_id) (db_group_members d))) (\<lambda>existing.
       if existing then returnM False
       else
         bindM uuid4 (\<lambda>id.
         seqM (execute (insert_group_member
           \<lparr>gm_id = id, gm_tenant = cl_tenant c, gm_group = group_id, gm_user = user_id, gm_status = ''ACTIVE'',
            gm_valid_from = Some now, gm_valid_to = None, gm_added_by = cl_actor c, gm_added_at = now,
            gm_ended_at = None\<rparr>))
         (seqM (bump_versions h (cl_tenant c) [user_id] now)
         (seqM (audit_and_commit c ''security.group.member.add'' ''GROUP_MEMBERSHIP'' (group_id @ '':'' @ user_id) now)
           (returnM True)))))))))"

definition remove_group_member :: "rbac_hooks \<Rightarrow> admin_call \<Rightarrow> int \<Rightarrow> string \<Rightarrow> string \<Rightarrow> bool dbact" where
  "remove_group_member h c now group_id user_id =
     bindM (write_if_hit (\<lambda>d. exists_row (is_member (cl_tenant c) group_id user_id) (db_group_members d))
              (\<lambda>d. d\<lparr>db_group_members := update_rows (is_member (cl_tenant c) group_id user_id)
                       (\<lambda>gm. gm\<lparr>gm_status := ''ENDED'', gm_ended_at := Some now\<rparr>) (db_group_members d)\<rparr>)) (\<lambda>row.
     if \<not> row then seqM rollback (returnM False)
     else
       seqM (bump_versions h (cl_tenant c) [user_id] now)
       (seqM (audit_and_commit c ''security.group.member.remove'' ''GROUP_MEMBERSHIP'' (group_id @ '':'' @ user_id) now)
         (returnM True)))"

definition is_group_role :: "string \<Rightarrow> string \<Rightarrow> string \<Rightarrow> group_role \<Rightarrow> bool" where
  "is_group_role tenant_id group_id role_id a =
     (gra_tenant a = tenant_id \<and> gra_group a = group_id \<and> gra_role a = role_id \<and> gra_status a = ''ACTIVE'')"

definition assign_group_role :: "rbac_hooks \<Rightarrow> admin_call \<Rightarrow> int \<Rightarrow> string \<Rightarrow> string \<Rightarrow> bool dbact" where
  "assign_group_role h c now group_id role_id =
     bindM (active_group (cl_tenant c) group_id) (\<lambda>group_ok.
     seqM (raise_if (\<not> group_ok) (ValueError ''Group must be ACTIVE''))
     (bindM (active_role (cl_tenant c) role_id) (\<lambda>role_ok.
      seqM (raise_if (\<not> role_ok) (ValueError ''Role must be ACTIVE''))
      (bindM (query (\<lambda>d. exists_row (is_group_role (cl_tenant c) group_id role_id) (db_group_roles d))) (\<lambda>existing.
       if existing then returnM False
       else
         bindM uuid4 (\<lambda>id.
         seqM (execute (insert_group_role
           \<lparr>gra_id = id, gra_tenant = cl_tenant c, gra_group = group_id, gra_role = role_id, gra_status = ''ACTIVE'',
            gra_assigned_by = cl_actor c, gra_assigned_at = now, gra_ended_at = None\<rparr>))
         (bindM (effective_group_users h (cl_tenant c) group_id now) (\<lambda>users.
          seqM (bump_versions h (cl_tenant c) users now)
          (seqM (audit_and_commit c ''security.group.role.assign'' ''GROUP_ROLE'' (group_id @ '':'' @ role_id) now)
            (returnM True))))))))))"

definition remove_group_role :: "rbac_hooks \<Rightarrow> admin_call \<Rightarrow> int \<Rightarrow> string \<Rightarrow> string \<Rightarrow> bool dbact" where
  "remove_group_role h c now group_id role_id =
     bindM (effective_group_users h (cl_tenant c) group_id now) (\<lambda>affected_users.
     bindM (write_if_hit (\<lambda>d. exists_row (is_group_role (cl_tenant c) group_id role_id) (db_group_roles d))
              (\<lambda>d. d\<lparr>db_group_roles := update_rows (is_group_role (cl_tenant c) group_id role_id)
                       (\<lambda>a. a\<lparr>gra_status := ''ENDED'', gra_ended_at := Some now\<rparr>) (db_group_roles d)\<rparr>)) (\<lambda>row.
     if \<not> row then seqM rollback (returnM False)
     else
       seqM (bump_versions h (cl_tenant c) affected_users now)
       (seqM (audit_and_commit c ''security.group.role.remove'' ''GROUP_ROLE'' (group_id @ '':'' @ role_id) now)
         (returnM True))))"

section \<open>Roles\<close>

definition reserved_role_key :: "string \<Rightarrow> bool" where
  "reserved_role_key k = (starts_with ''platform.'' k \<or> starts_with ''tenant.'' k)"

definition new_role_permission :: "string \<Rightarrow> string \<Rightarrow> int \<Rightarrow> string \<Rightarrow> unit dbact" where
  "new_role_permission tenant_id role_id now permission_key =
     execute (insert_role_permission
       \<lparr>rp_tenant = tenant_id, rp_role = role_id, rp_permission = permission_key, rp_assigned_at = now\<rparr>)"

definition create_role ::
  "admin_call \<Rightarrow> int \<Rightarrow> string \<Rightarrow> string \<Rightarrow> string option \<Rightarrow> string list \<Rightarrow> role dbact" where
  "create_role c now role_key role_name description permission_keys =
     seqM (raise_if (reserved_role_key role_key) (ValueError ''Reserved role key''))
     (seqM (ensure_active_permissions permission_keys)
     (bindM uuid4 (\<lambda>role_id.
      seqM (execute (insert_role
        \<lparr>r_id = role_id, r_tenant = cl_tenant c, r_key = role_key, r_name = role_name, r_description = description,
         r_status = ''ACTIVE'', r_created_at = now, r_updated_at = now\<rparr>))
      (seqM (foreachM permission_keys (new_role_permission (cl_tenant c) role_id now))
      (seqM (audit_and_commit c ''security.role.create'' ''ROLE'' role_id now)
      (bindM (get_role (cl_tenant c) role_id) (\<lambda>row.
         case row of None \<Rightarrow> throwM (RuntimeError ''Created role could not be reloaded'') | Some r \<Rightarrow> returnM r)))))))"

definition update_role ::
  "rbac_hooks \<Rightarrow> admin_call \<Rightarrow> int \<Rightarrow> string \<Rightarrow> string option \<Rightarrow> string option \<Rightarrow> string option \<Rightarrow> role option dbact" where
  "update_role h c now role_id role_name description status =
     bindM (get_role (cl_tenant c) role_id) (\<lambda>row.
       case row of
         None \<Rightarrow> returnM None
       | Some current \<Rightarrow>
         bindM (effective_role_users h (cl_tenant c) role_id now) (\<lambda>affected.
         seqM (execute (update_role_rows (\<lambda>r. r_tenant r = cl_tenant c \<and> r_id r = role_id)
           (\<lambda>r. r\<lparr>r_name := keep_or role_name (r_name current),
                  r_description := (if description \<noteq> None then description else r_description current),
                  r_status := keep_or status (r_status current), r_updated_at := now\<rparr>)))
         (seqM (if r_status current \<noteq> keep_or status (r_status current)
                then bump_versions h (cl_tenant c) affected now else returnM ())
         (seqM (audit_and_commit c ''security.role.update'' ''ROLE'' role_id now)
           (get_role (cl_tenant c) role_id)))))"

definition is_role_permission :: "string \<Rightarrow> string \<Rightarrow> string \<Rightarrow> role_permission \<Rightarrow> bool" where
  "is_role_permission tenant_id role_id permission_key rp =
     (rp_tenant rp = tenant_id \<and> rp_role rp = role_id \<and> rp_permission rp = permission_key)"

definition add_role_permission :: "rbac_hooks \<Rightarrow> admin_call \<Rightarrow> int \<Rightarrow> string \<Rightarrow> string \<Rightarrow> bool dbact" where
  "add_role_permission h c now role_id permission_key =
     seqM (ensure_active_permissions [permission_key])
     (bindM (active_role (cl_tenant c) role_id) (\<lambda>role_ok.
      seqM (raise_if (\<not> role_ok) (ValueError ''Role must be ACTIVE''))
      (bindM (query (\<lambda>d. exists_row (is_role_permission (cl_tenant c) role_id permission_key) (db_role_permissions d)))
        (\<lambda>exists.
         if exists then returnM False
         else
           seqM (new_role_permission (cl_tenant c) role_id now permission_key)
           (bindM (effective_role_users h (cl_tenant c) role_id now) (\<lambda>users.
            seqM (bump_versions h (cl_tenant c) users now)
            (seqM (audit_and_commit c ''security.role.permission.add'' ''ROLE_PERMISSION''
                     (role_id @ '':'' @ permission_key) now)
              (returnM True))))))))"

definition remove_role_permission :: "rbac_hooks \<Rightarrow> admin_call \<Rightarrow> int \<Rightarrow> string \<Rightarrow> string \<Rightarrow> bool dbact" where
  "remove_role_permission h c now role_id permission_key =
     bindM (effective_role_users h (cl_tenant c) role_id now) (\<lambda>affected.
     bindM (write_if_hit (\<lambda>d. exists_row (is_role_permission (cl_tenant c) role_id permission_key) (db_role_permissions d))
              (\<lambda>d. d\<lparr>db_role_permissions :=
                 delete_rows (is_role_permission (cl_tenant c) role_id permission_key) (db_role_permissions d)\<rparr>)) (\<lambda>row.
     if \<not> row then seqM rollback (returnM False)
     else
       seqM (bump_versions h (cl_tenant c) affected now)
       (seqM (audit_and_commit c ''security.role.permission.remove'' ''ROLE_PERMISSION''
                (role_id @ '':'' @ permission_key) now)
         (returnM True))))"

section \<open>Roles of users\<close>

definition is_user_role :: "string \<Rightarrow> string \<Rightarrow> string \<Rightarrow> user_role \<Rightarrow> bool" where
  "is_user_role tenant_id user_id role_id a =
     (ura_tenant a = tenant_id \<and> ura_user a = user_id \<and> ura_role a = role_id \<and> ura_status a = ''ACTIVE'')"

definition has_user_role :: "string \<Rightarrow> string \<Rightarrow> string \<Rightarrow> bool dbact" where
  "has_user_role tenant_id user_id role_id =
     query (\<lambda>d. exists_row (is_user_role tenant_id user_id role_id) (db_user_roles d))"

definition new_user_role :: "string \<Rightarrow> string \<Rightarrow> string \<Rightarrow> string \<Rightarrow> int \<Rightarrow> unit dbact" where
  "new_user_role tenant_id user_id role_id assigned_by now =
     bindM uuid4 (\<lambda>id. execute (insert_user_role
       \<lparr>ura_id = id, ura_tenant = tenant_id, ura_user = user_id, ura_role = role_id, ura_valid_from = Some now,
        ura_valid_to = None, ura_status = ''ACTIVE'', ura_assigned_by = assigned_by, ura_assigned_at = now\<rparr>))"

definition assign_user_role :: "rbac_hooks \<Rightarrow> admin_call \<Rightarrow> int \<Rightarrow> string \<Rightarrow> string \<Rightarrow> bool dbact" where
  "assign_user_role h c now user_id role_id =
     bindM (active_membership h (cl_tenant c) user_id now) (\<lambda>member_ok.
     seqM (raise_if (\<not> member_ok) (ValueError ''User must have an ACTIVE Tenant membership''))
     (bindM (active_role (cl_tenant c) role_id) (\<lambda>role_ok.
      seqM (raise_if (\<not> role_ok) (ValueError ''Role must be ACTIVE''))
      (bindM (has_user_role (cl_tenant c) user_id role_id) (\<lambda>exists.
       if exists then returnM False
       else
         seqM (new_user_role (cl_tenant c) user_id role_id (cl_actor c) now)
         (seqM (bump_versions h (cl_tenant c) [user_id] now)
         (seqM (audit_and_commit c ''security.role.user.assign'' ''USER_ROLE'' (user_id @ '':'' @ role_id) now)
           (returnM True))))))))"

definition remove_user_role :: "rbac_hooks \<Rightarrow> admin_call \<Rightarrow> int \<Rightarrow> string \<Rightarrow> string \<Rightarrow> bool dbact" where
  "remove_user_role h c now user_id role_id =
     bindM (write_if_hit (\<lambda>d. exists_row (is_user_role (cl_tenant c) user_id role_id) (db_user_roles d))
              (\<lambda>d. d\<lparr>db_user_roles := update_rows (is_user_role (cl_tenant c) user_id role_id)
                       (\<lambda>a. a\<lparr>ura_status := ''ENDED'', ura_valid_to := Some now\<rparr>) (db_user_roles d)\<rparr>)) (\<lambda>row.
     if \<not> row then seqM rollback (returnM False)
     else
       seqM (bump_versions h (cl_tenant c) [user_id] now)
       (seqM (audit_and_commit c ''security.role.user.remove'' ''USER_ROLE'' (user_id @ '':'' @ role_id) now)
         (returnM True)))"

end
