(* ===== verification/RbacGate.thy ===== *)
theory RbacGate
  imports RbacAdmin
begin

text \<open>
  \<open>services/tenant_rbac_gate.py\<close> and \<open>services/privileged_access.py\<close>: the administration
  over the global user registry, with its own authorization versions; the permission gate of
  the administration routes; and the maker-checker of privileged tenant roles, whose
  assignment is a request that somebody else approves or rejects.
\<close>

section \<open>The overridden methods\<close>

definition active_principal_user :: "string \<Rightarrow> db \<Rightarrow> bool" where
  "active_principal_user user_id d =
     exists_row (\<lambda>u. u_id u = user_id \<and> u_status u = ''ACTIVE''
        \<and> exists_row (\<lambda>p. sp_id p = u_id u \<and> sp_status p = ''ACTIVE'') (db_principals d)) (db_users d)"

definition global_active_membership :: "string \<Rightarrow> string \<Rightarrow> int \<Rightarrow> bool dbact" where
  "global_active_membership tenant_id user_id now = query (active_principal_user user_id)"

text \<open>\<open>INSERT ... ON CONFLICT (user_id,tenant_id) DO UPDATE\<close>.\<close>

definition is_state_of :: "string \<Rightarrow> string \<Rightarrow> authorization_state \<Rightarrow> bool" where
  "is_state_of tenant_id user_id a = (az_user a = user_id \<and> az_tenant a = tenant_id)"

definition upsert_state :: "string \<Rightarrow> int \<Rightarrow> string \<Rightarrow> authorization_state list \<Rightarrow> authorization_state list" where
  "upsert_state tenant_id now user_id rows =
     (if exists_row (is_state_of tenant_id user_id) rows
      then update_rows (is_state_of tenant_id user_id)
             (\<lambda>a. a\<lparr>az_version := az_version a + 1, az_updated_at := now\<rparr>) rows
      else rows @ [\<lparr>az_user = user_id, az_tenant = tenant_id, az_version = 2, az_updated_at = now\<rparr>])"

definition bump_state :: "string \<Rightarrow> int \<Rightarrow> string \<Rightarrow> unit dbact" where
  "bump_state tenant_id now user_id =
     update (\<lambda>d. d\<lparr>db_authz_state := upsert_state tenant_id now user_id (db_authz_state d)\<rparr>)"

definition bump_state_versions :: "string \<Rightarrow> string list \<Rightarrow> int \<Rightarrow> unit dbact" where
  "bump_state_versions tenant_id user_ids now = foreachM (sorted_set user_ids) (bump_state tenant_id now)"

definition global_group_users :: "string \<Rightarrow> string \<Rightarrow> int \<Rightarrow> string list dbact" where
  "global_group_users tenant_id group_id now =
     query (\<lambda>d. [gm_user gm. gm \<leftarrow> db_group_members d, u \<leftarrow> db_users d, p \<leftarrow> db_principals d,
        u_id u = gm_user gm, u_status u = ''ACTIVE'', sp_id p = gm_user gm, sp_status p = ''ACTIVE'',
        member_now tenant_id group_id now gm])"

definition global_role_user_rows :: "string \<Rightarrow> string \<Rightarrow> int \<Rightarrow> db \<Rightarrow> string list" where
  "global_role_user_rows tenant_id role_id now d =
     [ura_user ura. ura \<leftarrow> db_user_roles d, u \<leftarrow> db_users d, p \<leftarrow> db_principals d,
        u_id u = ura_user ura, u_status u = ''ACTIVE'', sp_id p = ura_user ura, sp_status p = ''ACTIVE'',
        ura_tenant ura = tenant_id, ura_role ura = role_id, ura_status ura = ''ACTIVE'',
        valid_at (ura_valid_from ura) (ura_valid_to ura) now]
     @ [gm_user gm. gra \<leftarrow> db_group_roles d, g \<leftarrow> db_groups d, gm \<leftarrow> db_group_members d,
        u \<leftarrow> db_users d, p \<leftarrow> db_principals d,
        g_tenant g = gra_tenant gra, g_id g = gra_group gra, g_status g = ''ACTIVE'',
        gm_tenant gm = g_tenant g, gm_group gm = g_id g, gm_status gm = ''ACTIVE'',
        u_id u = gm_user gm, u_status u = ''ACTIVE'', sp_id p = gm_user gm, sp_status p = ''ACTIVE'',
        gra_tenant gra = tenant_id, gra_role gra = role_id, gra_status gra = ''ACTIVE'',
        valid_at (gm_valid_from gm) (gm_valid_to gm) now]"

definition global_role_users :: "string \<Rightarrow> string \<Rightarrow> int \<Rightarrow> string list dbact" where
  "global_role_users tenant_id role_id now = query (\<lambda>d. remdups (global_role_user_rows tenant_id role_id now d))"

definition TenantRbacGateService :: rbac_hooks where
  "TenantRbacGateService = \<lparr>active_membership = global_active_membership, bump_versions = bump_state_versions,
     effective_group_users = global_group_users, effective_role_users = global_role_users\<rparr>"

section \<open>The gate of the administration routes\<close>

definition user_state_rows :: "string \<Rightarrow> string \<Rightarrow> db \<Rightarrow> (tenant \<times> user \<times> principal) list" where
  "user_state_rows tenant_id user_id d =
     [(t, u, p). u \<leftarrow> db_users d, p \<leftarrow> db_principals d, t \<leftarrow> db_tenants d,
        sp_id p = u_id u, u_id u = user_id, t_id t = tenant_id]"

definition authorize_user :: "string \<Rightarrow> string \<Rightarrow> string \<Rightarrow> int \<Rightarrow> (string list \<times> string list) dbact" where
  "authorize_user tenant_id user_id permission_key now =
     bindM (query (\<lambda>d. first_of (user_state_rows tenant_id user_id d))) (\<lambda>state.
       case state of
         None \<Rightarrow> throwM (security_error ''TENANT_NOT_ACTIVE'')
       | Some (t, u, p) \<Rightarrow>
         seqM (raise_if (t_status t \<noteq> ''ACTIVE'') (security_error ''TENANT_NOT_ACTIVE''))
         (seqM (raise_if (sp_status p \<noteq> ''ACTIVE'') (security_error ''PRINCIPAL_NOT_ACTIVE''))
         (seqM (raise_if (u_status u \<noteq> ''ACTIVE'') (security_error ''USER_NOT_ACTIVE''))
         (bindM (group_aware_user_permissions tenant_id user_id now) (\<lambda>(roles, permissions).
          seqM (raise_if (permission_key \<notin> set permissions) (security_error ''PERMISSION_DENIED''))
          (returnM (roles, permissions)))))))"

section \<open>Privileged roles\<close>

definition PRIVILEGED_TENANT_ROLE_KEYS :: "string list" where
  "PRIVILEGED_TENANT_ROLE_KEYS =
     [''tenant.owner'', ''tenant.admin'', ''tenant.rbac_admin'', ''tenant.access_admin'',
      ''tenant.security_policy_admin'', ''tenant.security_approver'']"

definition PRIVILEGED_ROLE_KEYS :: "string list" where
  "PRIVILEGED_ROLE_KEYS =
     [''tenant.owner'', ''tenant.admin'', ''tenant.rbac_admin'', ''tenant.access_admin'',
      ''tenant.security_policy_admin'', ''tenant.security_approver'']"

definition role_active :: "role option \<Rightarrow> bool" where
  "role_active row = (case row of None \<Rightarrow> False | Some r \<Rightarrow> r_status r = ''ACTIVE'')"

definition is_pending_access :: "string \<Rightarrow> string \<Rightarrow> string \<Rightarrow> privileged_request \<Rightarrow> bool" where
  "is_pending_access tenant_id user_id role_id r =
     (pa_tenant r = tenant_id \<and> pa_subject r = user_id \<and> pa_role r = role_id \<and> pa_status r = ''PENDING'')"

definition has_pending_access :: "string \<Rightarrow> string \<Rightarrow> string \<Rightarrow> bool dbact" where
  "has_pending_access tenant_id user_id role_id =
     query (\<lambda>d. exists_row (is_pending_access tenant_id user_id role_id) (db_requests d))"

definition new_access_request :: "admin_call \<Rightarrow> int \<Rightarrow> string \<Rightarrow> string \<Rightarrow> string \<Rightarrow> unit dbact" where
  "new_access_request c now request_id user_id role_id =
     seqM (execute (insert_request
       \<lparr>pa_id = request_id, pa_tenant = cl_tenant c, pa_subject = user_id, pa_role = role_id,
        pa_source_invitation = None, pa_status = ''PENDING'', pa_requested_by = cl_actor c, pa_requested_at = now,
        pa_approved_by = None, pa_decided_at = None, pa_reason = None, pa_correlation = cl_correlation c\<rparr>))
     (audit_and_commit c ''security.privileged_access.request'' ''PRIVILEGED_ACCESS_REQUEST'' request_id now)"

definition gate_assign_user_role :: "admin_call \<Rightarrow> int \<Rightarrow> string \<Rightarrow> string \<Rightarrow> bool dbact" where
  "gate_assign_user_role c now user_id role_id =
     bindM (get_role (cl_tenant c) role_id) (\<lambda>row.
     seqM (raise_if (\<not> role_active row) (ValueError ''Role must be ACTIVE''))
     (if r_key (the row) \<notin> set PRIVILEGED_TENANT_ROLE_KEYS
      then assign_user_role TenantRbacGateService c now user_id role_id
      else
        bindM (active_membership TenantRbacGateService (cl_tenant c) user_id now) (\<lambda>member_ok.
        seqM (raise_if (\<not> member_ok) (ValueError ''User must be ACTIVE''))
        (bindM (has_user_role (cl_tenant c) user_id role_id) (\<lambda>active.
         if active then seqM rollback (returnM False)
         else bindM (has_pending_access (cl_tenant c) user_id role_id) (\<lambda>pending.
         if pending then seqM rollback (returnM False)
         else bindM uuid4 (\<lambda>request_id.
           catch_integrity
             (seqM (new_access_request c now request_id user_id role_id) (returnM True))
             (seqM rollback
             (bindM (has_pending_access (cl_tenant c) user_id role_id) (\<lambda>existing.
                if \<not> existing then throwM IntegrityError else returnM False))))))))))"

section \<open>Requests\<close>

record request_view =
  rv_request_id :: string
  rv_tenant_id :: string
  rv_subject :: string
  rv_role_id :: string
  rv_role_key :: string
  rv_status :: string
  rv_requested_by :: string
  rv_requested_at :: int
  rv_approved_by :: "string option"
  rv_decided_at :: "int option"
  rv_reason :: "string option"
  rv_source_invitation :: "string option"

definition public_request :: "privileged_request \<Rightarrow> string \<Rightarrow> request_view" where
  "public_request r role_key =
     \<lparr>rv_request_id = pa_id r, rv_tenant_id = pa_tenant r, rv_subject = pa_subject r, rv_role_id = pa_role r,
      rv_role_key = role_key, rv_status = pa_status r, rv_requested_by = pa_requested_by r,
      rv_requested_at = pa_requested_at r, rv_approved_by = pa_approved_by r, rv_decided_at = pa_decided_at r,
      rv_reason = pa_reason r, rv_source_invitation = pa_source_invitation r\<rparr>"

datatype assign_result =
    AssignmentActive bool bool
  | RequestPending string string string string string string
  | RequestFound request_view

text \<open>The JOIN of requests with their roles; \<open>ORDER BY requested_at_utc DESC\<close> is a stable sort.\<close>

definition request_rows :: "(privileged_request \<Rightarrow> bool) \<Rightarrow> db \<Rightarrow> (privileged_request \<times> string) list" where
  "request_rows p d =
     [(r, r_key ro). r \<leftarrow> db_requests d, ro \<leftarrow> db_roles d, r_tenant ro = pa_tenant r, r_id ro = pa_role r, p r]"

definition newest_first :: "(privileged_request \<times> string) list \<Rightarrow> (privileged_request \<times> string) list" where
  "newest_first rows = sort_key (\<lambda>r. - pa_requested_at (fst r)) rows"

definition pending_request :: "string \<Rightarrow> string \<Rightarrow> string \<Rightarrow> (privileged_request \<times> string) option dbact" where
  "pending_request tenant_id user_id role_id =
     query (\<lambda>d. first_of (newest_first (request_rows (is_pending_access tenant_id user_id role_id) d)))"

definition find_request :: "string \<Rightarrow> string \<Rightarrow> (privileged_request \<times> string) dbact" where
  "find_request tenant_id request_id =
     bindM (query (\<lambda>d. first_of (request_rows (\<lambda>r. pa_tenant r = tenant_id \<and> pa_id r = request_id) d))) (\<lambda>row.
       case row of None \<Rightarrow> throwM (LookupError ''Privileged access request not found'') | Some r \<Rightarrow> returnM r)"

definition locked_request :: "string \<Rightarrow> string \<Rightarrow> (privileged_request \<times> string) dbact" where
  "locked_request tenant_id request_id = find_request tenant_id request_id"

definition list_requests :: "string \<Rightarrow> string option \<Rightarrow> request_view list dbact" where
  "list_requests tenant_id status_filter =
     query (\<lambda>d. map (\<lambda>(r, k). public_request r k)
       (newest_first [(r, k). (r, k) \<leftarrow> request_rows (\<lambda>r. pa_tenant r = tenant_id
            \<and> (case status_filter of None \<Rightarrow> True | Some st \<Rightarrow> pa_status r = st)) d, u \<leftarrow> db_users d, u_id u = pa_subject r]))"

definition require_pending_and_independent :: "privileged_request \<Rightarrow> string \<Rightarrow> unit dbact" where
  "require_pending_and_independent r approver_user_id =
     seqM (raise_if (pa_status r \<noteq> ''PENDING'') (ValueError ''Privileged access request is no longer pending''))
     (seqM (raise_if (pa_requested_by r = approver_user_id)
        (ValueError ''Requester cannot approve or reject their own privileged access request''))
     (raise_if (pa_subject r = approver_user_id)
        (ValueError ''Subject cannot approve or reject their own privileged access request'')))"

definition request_or_assign_user_role :: "admin_call \<Rightarrow> int \<Rightarrow> string \<Rightarrow> string \<Rightarrow> assign_result dbact" where
  "request_or_assign_user_role c now user_id role_id =
     bindM (active_membership TenantRbacGateService (cl_tenant c) user_id now) (\<lambda>member_ok.
     seqM (raise_if (\<not> member_ok) (ValueError ''User must be ACTIVE''))
     (bindM (get_role (cl_tenant c) role_id) (\<lambda>row.
      seqM (raise_if (\<not> role_active row) (ValueError ''Role must be ACTIVE''))
      (let role_key = r_key (the row) in
       if role_key \<notin> set PRIVILEGED_ROLE_KEYS
       then bindM (gate_assign_user_role c now user_id role_id) (\<lambda>created. returnM (AssignmentActive created False))
       else
         bindM (has_user_role (cl_tenant c) user_id role_id) (\<lambda>active.
         if active then seqM rollback (returnM (AssignmentActive False True))
         else bindM (pending_request (cl_tenant c) user_id role_id) (\<lambda>pending.
         case pending of
           Some (r, k) \<Rightarrow> seqM rollback (returnM (RequestFound (public_request r role_key)))
         | None \<Rightarrow>
           bindM uuid4 (\<lambda>request_id.
           catch_integrity
             (seqM (new_access_request c now request_id user_id role_id)
               (returnM (RequestPending request_id (cl_tenant c) user_id role_id role_key (cl_actor c))))
             (seqM rollback
             (bindM (pending_request (cl_tenant c) user_id role_id) (\<lambda>found.
                case found of None \<Rightarrow> throwM IntegrityError
                | Some (r, k) \<Rightarrow> returnM (RequestFound (public_request r role_key)))))))))))) "

definition decide_request :: "admin_call \<Rightarrow> int \<Rightarrow> string \<Rightarrow> string \<Rightarrow> string option \<Rightarrow> unit dbact" where
  "decide_request c now request_id status reason =
     execute (update_requests (\<lambda>r. pa_tenant r = cl_tenant c \<and> pa_id r = request_id)
       (\<lambda>r. r\<lparr>pa_status := status, pa_approved_by := Some (cl_actor c), pa_decided_at := Some now, pa_reason := reason\<rparr>))"

definition approve :: "admin_call \<Rightarrow> int \<Rightarrow> string \<Rightarrow> string option \<Rightarrow> request_view dbact" where
  "approve c now request_id reason =
     bindM (locked_request (cl_tenant c) request_id) (\<lambda>(r, role_key).
     seqM (require_pending_and_independent r (cl_actor c))
     (bindM (active_membership TenantRbacGateService (cl_tenant c) (pa_subject r) now) (\<lambda>member_ok.
      seqM (raise_if (\<not> member_ok) (ValueError ''Subject user must be ACTIVE''))
      (bindM (active_role (cl_tenant c) (pa_role r)) (\<lambda>role_ok.
       seqM (raise_if (\<not> role_ok) (ValueError ''Role must be ACTIVE''))
       (bindM (has_user_role (cl_tenant c) (pa_subject r) (pa_role r)) (\<lambda>exists.
        seqM (if exists then returnM ()
              else seqM (new_user_role (cl_tenant c) (pa_subject r) (pa_role r) (pa_requested_by r) now)
                     (bump_versions TenantRbacGateService (cl_tenant c) [pa_subject r] now))
        (seqM (decide_request c now request_id ''APPROVED'' reason)
        (seqM (audit_and_commit c ''security.privileged_access.approve'' ''PRIVILEGED_ACCESS_REQUEST'' request_id now)
        (bindM (find_request (cl_tenant c) request_id) (\<lambda>(r', _). returnM (public_request r' role_key))))))))))))"

definition reject :: "admin_call \<Rightarrow> int \<Rightarrow> string \<Rightarrow> string option \<Rightarrow> request_view dbact" where
  "reject c now request_id reason =
     bindM (locked_request (cl_tenant c) request_id) (\<lambda>(r, role_key).
     seqM (require_pending_and_independent r (cl_actor c))
     (seqM (decide_request c now request_id ''REJECTED'' reason)
     (seqM (audit_and_commit c ''security.privileged_access.reject'' ''PRIVILEGED_ACCESS_REQUEST'' request_id now)
     (bindM (find_request (cl_tenant c) request_id) (\<lambda>(r', _). returnM (public_request r' role_key))))))"

end
