(* ===== verification/AdminRoutes.thy ===== *)
theory AdminRoutes
  imports AccessService RbacGate
begin

text \<open>
  \<open>api/routes/tenant_groups.py\<close>, \<open>api/routes/tenant_roles.py\<close> and
  \<open>api/routes/tenant_privileged_access.py\<close>: every handler of the tenant administration. A handler
  resolves the caller, asks the gate for the permission of the route, calls the service and turns
  its exceptions into HTTP errors. The token has been read by \<open>identity_from_token\<close>, whose
  outcome is an argument; so are the clock readings of the gate, of the operation and of the
  database (\<open>CURRENT_TIMESTAMP\<close>). The creation of a role from templates and the upgrade of its
  templates are written in the route itself.
\<close>

section \<open>The call\<close>

record web_call =
  wc_identity :: "exn + AuthenticatedIdentity"
  wc_tenant :: string
  wc_correlation :: string
  wc_gate_time :: int
  wc_now :: int
  wc_clock :: int

definition admin_user :: "web_call \<Rightarrow> string \<Rightarrow> string dbact" where
  "admin_user w permission_key =
     bindM (liftM (wc_identity w)) (\<lambda>identity.
     bindM (resolve_identity_user (id_provider identity) (id_provider_subject identity)) (\<lambda>user_id.
     seqM (authorize_user (wc_tenant w) user_id permission_key (wc_gate_time w)) (returnM user_id)))"

definition call_of :: "web_call \<Rightarrow> string \<Rightarrow> admin_call" where
  "call_of w user_id = \<lparr>cl_tenant = wc_tenant w, cl_actor = user_id, cl_correlation = wc_correlation w\<rparr>"

text \<open>\<open>except ... as exc: raise HTTPException(...) from exc\<close>.\<close>

definition raise_from :: "(exn \<Rightarrow> exn) \<Rightarrow> ('d, 'a) act \<Rightarrow> ('d, 'a) act" where
  "raise_from f m s = (case m s of (Inl e, t) \<Rightarrow> (Inl (f e), t) | (Inr x, t) \<Rightarrow> (Inr x, t))"

lemma keeps_raise_from [keeps_intros]: "keeps J m \<Longrightarrow> keeps J (raise_from f m)"
  by (fastforce simp: keeps_def raise_from_def split: prod.splits sum.splits)

fun conflict_on_value :: "exn \<Rightarrow> exn" where
  "conflict_on_value (ValueError msg) = HTTPException 409 msg"
| "conflict_on_value e = e"

fun missing_or_conflict :: "exn \<Rightarrow> exn" where
  "missing_or_conflict (LookupError msg) = HTTPException 404 msg"
| "missing_or_conflict (ValueError msg) = HTTPException 409 msg"
| "missing_or_conflict e = e"

fun missing_on_lookup :: "exn \<Rightarrow> exn" where
  "missing_on_lookup (LookupError msg) = HTTPException 404 msg"
| "missing_on_lookup e = e"

fun conflict_on_both :: "exn \<Rightarrow> exn" where
  "conflict_on_both (LookupError msg) = HTTPException 409 msg"
| "conflict_on_both (ValueError msg) = HTTPException 409 msg"
| "conflict_on_both e = e"

definition found_or_404 :: "string \<Rightarrow> 'a option \<Rightarrow> 'a dbact" where
  "found_or_404 detail row = (case row of None \<Rightarrow> throwM (HTTPException 404 detail) | Some x \<Rightarrow> returnM x)"

section \<open>Groups\<close>

definition list_groups_route :: "web_call \<Rightarrow> tenant_group list dbact" where
  "list_groups_route w = seqM (admin_user w ''security.group.read'') (list_groups (wc_tenant w))"

definition create_group_route :: "web_call \<Rightarrow> string \<Rightarrow> string \<Rightarrow> string option \<Rightarrow> tenant_group dbact" where
  "create_group_route w group_key group_name description =
     bindM (admin_user w ''security.group.create'') (\<lambda>user_id.
       raise_from conflict_on_value (create_group (call_of w user_id) (wc_now w) group_key group_name description))"

definition get_group_route :: "web_call \<Rightarrow> string \<Rightarrow> tenant_group dbact" where
  "get_group_route w group_id =
     seqM (admin_user w ''security.group.read'')
       (bindM (get_group (wc_tenant w) group_id) (found_or_404 ''Group not found''))"

definition update_group_route ::
  "web_call \<Rightarrow> string \<Rightarrow> string option \<Rightarrow> string option \<Rightarrow> string option \<Rightarrow> tenant_group dbact" where
  "update_group_route w group_id group_name description status =
     bindM (admin_user w ''security.group.update'') (\<lambda>user_id.
     bindM (update_group TenantRbacGateService (call_of w user_id) (wc_now w) group_id group_name description status)
       (found_or_404 ''Group not found''))"

definition add_group_member_route :: "web_call \<Rightarrow> string \<Rightarrow> string \<Rightarrow> unit dbact" where
  "add_group_member_route w group_id user_id =
     bindM (admin_user w ''security.group.assign'') (\<lambda>actor_id.
     seqM (raise_from conflict_on_value
             (add_group_member TenantRbacGateService (call_of w actor_id) (wc_now w) group_id user_id))
       (returnM ()))"

definition remove_group_member_route :: "web_call \<Rightarrow> string \<Rightarrow> string \<Rightarrow> unit dbact" where
  "remove_group_member_route w group_id user_id =
     bindM (admin_user w ''security.group.assign'') (\<lambda>actor_id.
     seqM (remove_group_member TenantRbacGateService (call_of w actor_id) (wc_now w) group_id user_id) (returnM ()))"

definition assign_group_role_route :: "web_call \<Rightarrow> string \<Rightarrow> string \<Rightarrow> unit dbact" where
  "assign_group_role_route w group_id role_id =
     bindM (admin_user w ''security.group.assign'') (\<lambda>actor_id.
     seqM (raise_from conflict_on_value
             (assign_group_role TenantRbacGateService (call_of w actor_id) (wc_now w) group_id role_id))
       (returnM ()))"

definition remove_group_role_route :: "web_call \<Rightarrow> string \<Rightarrow> string \<Rightarrow> unit dbact" where
  "remove_group_role_route w group_id role_id =
     bindM (admin_user w ''security.group.assign'') (\<lambda>actor_id.
     seqM (remove_group_role TenantRbacGateService (call_of w actor_id) (wc_now w) group_id role_id) (returnM ()))"

section \<open>Templates of a role\<close>

record applied_template =
  at_id :: string
  at_version :: string
  at_permission_keys :: "string list"

text \<open>The LEFT JOIN of \<open>_template\<close>, by permission key with NULLS LAST.\<close>

definition active_template_rows :: "string \<Rightarrow> db \<Rightarrow> (role_template \<times> string option) list" where
  "active_template_rows template_key d =
     concat (map (\<lambda>t. let ps = map tp_permission (filter (\<lambda>tp. tp_template tp = tpl_id t) (db_template_permissions d))
                       in if ps = [] then [(t, None)] else map (\<lambda>p. (t, Some p)) ps)
             (filter (\<lambda>t. tpl_key t = template_key \<and> tpl_status t = ''ACTIVE'') (db_templates d)))"

definition by_permission :: "(role_template \<times> string option) list \<Rightarrow> (role_template \<times> string option) list" where
  "by_permission rows =
     sort_key (\<lambda>r. snd r = None) (sort_key (\<lambda>r. case snd r of None \<Rightarrow> [] | Some p \<Rightarrow> p) rows)"

definition find_template :: "string \<Rightarrow> applied_template dbact" where
  "find_template template_key =
     bindM (query (\<lambda>d. by_permission (active_template_rows template_key d))) (\<lambda>rows.
       case rows of
         [] \<Rightarrow> throwM (ValueError (''Template is not ACTIVE: '' @ template_key))
       | (t, _) # _ \<Rightarrow> returnM \<lparr>at_id = tpl_id t, at_version = tpl_catalog_version t,
                                at_permission_keys = List.map_filter snd rows\<rparr>)"

fun find_templates :: "string list \<Rightarrow> applied_template list dbact" where
  "find_templates [] = returnM []"
| "find_templates (k # ks) = bindM (find_template k) (\<lambda>t. bindM (find_templates ks) (\<lambda>ts. returnM (t # ts)))"

definition ensure_active :: "string list \<Rightarrow> unit dbact" where
  "ensure_active permission_keys = foreachM (sorted_set permission_keys) ensure_active_permission"

record role_details =
  rd_role :: role
  rd_permission_keys :: "string list"
  rd_templates :: "(string \<times> string) list"

definition current_binding :: "string \<Rightarrow> string \<Rightarrow> template_binding \<Rightarrow> bool" where
  "current_binding tenant_id role_id b = (tb_tenant b = tenant_id \<and> tb_role b = role_id \<and> tb_status b = ''CURRENT'')"

definition permission_keys_of :: "string \<Rightarrow> string \<Rightarrow> db \<Rightarrow> string list" where
  "permission_keys_of tenant_id role_id d =
     sort (map rp_permission (filter (\<lambda>rp. rp_tenant rp = tenant_id \<and> rp_role rp = role_id) (db_role_permissions d)))"

definition template_versions :: "string \<Rightarrow> string \<Rightarrow> db \<Rightarrow> (string \<times> string) list" where
  "template_versions tenant_id role_id d =
     sort_key fst [(tpl_key t, tb_version b). b \<leftarrow> db_bindings d, t \<leftarrow> db_templates d,
        tpl_id t = tb_template b, current_binding tenant_id role_id b]"

definition details :: "string \<Rightarrow> string \<Rightarrow> role_details dbact" where
  "details tenant_id role_id =
     bindM (get_role tenant_id role_id) (\<lambda>row.
       case row of
         None \<Rightarrow> throwM (LookupError ''Role not found'')
       | Some role \<Rightarrow>
         bindM (query (permission_keys_of tenant_id role_id)) (\<lambda>permissions.
         bindM (query (template_versions tenant_id role_id)) (\<lambda>bindings.
           returnM \<lparr>rd_role = role, rd_permission_keys = permissions, rd_templates = bindings\<rparr>)))"

text \<open>The trigger of migration 0003: the users who hold the role get a new authorization version.\<close>

definition template_users :: "string \<Rightarrow> string \<Rightarrow> db \<Rightarrow> string list" where
  "template_users tenant_id role_id d =
     [ura_user ura. ura \<leftarrow> db_user_roles d, u \<leftarrow> db_users d, u_id u = ura_user ura, u_status u = ''ACTIVE'',
        ura_tenant ura = tenant_id, ura_role ura = role_id, ura_status ura = ''ACTIVE'']
     @ [gm_user gm. gra \<leftarrow> db_group_roles d, g \<leftarrow> db_groups d, gm \<leftarrow> db_group_members d, u \<leftarrow> db_users d,
        g_tenant g = gra_tenant gra, g_id g = gra_group gra, g_status g = ''ACTIVE'',
        gm_tenant gm = g_tenant g, gm_group gm = g_id g, gm_status gm = ''ACTIVE'',
        u_id u = gm_user gm, u_status u = ''ACTIVE'',
        gra_tenant gra = tenant_id, gra_role gra = role_id, gra_status gra = ''ACTIVE'']"

definition bump_template_authz_state :: "int \<Rightarrow> template_binding \<Rightarrow> db \<Rightarrow> db" where
  "bump_template_authz_state clock b d =
     (if tb_status b = ''CURRENT''
      then d\<lparr>db_authz_state := fold (upsert_state (tb_tenant b) clock)
               (sorted_set (template_users (tb_tenant b) (tb_role b) d)) (db_authz_state d)\<rparr>
      else d)"

definition insert_binding :: "int \<Rightarrow> template_binding \<Rightarrow> db \<Rightarrow> exn + db" where
  "insert_binding clock b d =
     (if index_free tb_id every_row b (db_bindings d)
      then Inr (bump_template_authz_state clock b (d\<lparr>db_bindings := db_bindings d @ [b]\<rparr>)) else Inl IntegrityError)"

definition bind_template :: "admin_call \<Rightarrow> int \<Rightarrow> int \<Rightarrow> string \<Rightarrow> applied_template \<Rightarrow> unit dbact" where
  "bind_template c now clock role_id template =
     bindM uuid4 (\<lambda>binding_id. execute (insert_binding clock
       \<lparr>tb_id = binding_id, tb_tenant = cl_tenant c, tb_role = role_id, tb_template = at_id template,
        tb_version = at_version template, tb_status = ''CURRENT'', tb_applied_by = cl_actor c, tb_applied_at = now,
        tb_superseded_at = None\<rparr>))"

section \<open>Creating a role and upgrading its template\<close>

definition create_role_from_templates ::
  "admin_call \<Rightarrow> int \<Rightarrow> int \<Rightarrow> string \<Rightarrow> string \<Rightarrow> string option \<Rightarrow> string list \<Rightarrow> string list \<Rightarrow> role_details dbact" where
  "create_role_from_templates c now clock role_key role_name description template_keys permission_keys =
     seqM (raise_if (reserved_role_key role_key) (ValueError ''Reserved role key''))
     (bindM (find_templates template_keys) (\<lambda>templates.
      let keys = sorted_set (permission_keys @ concat (map at_permission_keys templates)) in
      seqM (ensure_active keys)
      (bindM uuid4 (\<lambda>role_id.
       seqM (rollback_on_error
         (seqM (execute (insert_role
            \<lparr>r_id = role_id, r_tenant = cl_tenant c, r_key = role_key, r_name = role_name, r_description = description,
             r_status = ''ACTIVE'', r_created_at = now, r_updated_at = now\<rparr>))
         (seqM (foreachM keys (new_role_permission (cl_tenant c) role_id now))
         (seqM (foreachM templates (bind_template c now clock role_id))
           (audit_and_commit c ''security.role.create'' ''ROLE'' role_id now)))))
       (details (cl_tenant c) role_id)))))"

definition affected_users :: "string \<Rightarrow> string \<Rightarrow> int \<Rightarrow> db \<Rightarrow> string list" where
  "affected_users tenant_id role_id now d =
     remdups ([ura_user ura. ura \<leftarrow> db_user_roles d,
        ura_tenant ura = tenant_id, ura_role ura = role_id, ura_status ura = ''ACTIVE'',
        valid_at (ura_valid_from ura) (ura_valid_to ura) now]
     @ [gm_user gm. gra \<leftarrow> db_group_roles d, g \<leftarrow> db_groups d, gm \<leftarrow> db_group_members d,
        g_tenant g = gra_tenant gra, g_id g = gra_group gra, g_status g = ''ACTIVE'',
        gm_tenant gm = g_tenant g, gm_group gm = g_id g, gm_status gm = ''ACTIVE'',
        gra_tenant gra = tenant_id, gra_role gra = role_id, gra_status gra = ''ACTIVE'',
        valid_at (gm_valid_from gm) (gm_valid_to gm) now])"

text \<open>\<open>INSERT ... ON CONFLICT DO NOTHING\<close>.\<close>

definition add_missing_permission :: "string \<Rightarrow> string \<Rightarrow> int \<Rightarrow> string \<Rightarrow> unit dbact" where
  "add_missing_permission tenant_id role_id now permission_key =
     update (\<lambda>d. if exists_row (is_role_permission tenant_id role_id permission_key) (db_role_permissions d) then d
       else d\<lparr>db_role_permissions := db_role_permissions d
         @ [\<lparr>rp_tenant = tenant_id, rp_role = role_id, rp_permission = permission_key, rp_assigned_at = now\<rparr>]\<rparr>)"

definition supersede_bindings :: "string \<Rightarrow> string \<Rightarrow> string \<Rightarrow> int \<Rightarrow> unit dbact" where
  "supersede_bindings tenant_id role_id template_id now =
     update (\<lambda>d. d\<lparr>db_bindings :=
       update_rows (\<lambda>b. current_binding tenant_id role_id b \<and> tb_template b = template_id)
         (\<lambda>b. b\<lparr>tb_status := ''SUPERSEDED'', tb_superseded_at := Some now\<rparr>) (db_bindings d)\<rparr>)"

definition upgrade_template :: "admin_call \<Rightarrow> int \<Rightarrow> int \<Rightarrow> string \<Rightarrow> string \<Rightarrow> role_details dbact" where
  "upgrade_template c now clock role_id template_key =
     bindM (find_template template_key) (\<lambda>template.
     let keys = sorted_set (at_permission_keys template) in
     seqM (ensure_active keys)
     (bindM (query (affected_users (cl_tenant c) role_id now)) (\<lambda>users.
      seqM (rollback_on_error
        (bindM (get_role (cl_tenant c) role_id) (\<lambda>row.
         seqM (raise_if (row = None) (LookupError ''Role not found''))
         (seqM (foreachM keys (add_missing_permission (cl_tenant c) role_id now))
         (seqM (supersede_bindings (cl_tenant c) role_id (at_id template) now)
         (seqM (bind_template c now clock role_id template)
         (seqM (bump_membership_versions (cl_tenant c) users now)
           (audit_and_commit c ''security.role.template.upgrade'' ''ROLE'' (role_id @ '':'' @ template_key) now))))))))
      (details (cl_tenant c) role_id))))"

section \<open>Roles\<close>

definition list_roles_route :: "web_call \<Rightarrow> role list dbact" where
  "list_roles_route w = seqM (admin_user w ''security.role.read'') (list_roles (wc_tenant w))"

definition create_role_route ::
  "web_call \<Rightarrow> string \<Rightarrow> string \<Rightarrow> string option \<Rightarrow> string list \<Rightarrow> string list \<Rightarrow> role_details dbact" where
  "create_role_route w role_key role_name description template_keys permission_keys =
     bindM (admin_user w ''security.role.create'') (\<lambda>actor_id.
       raise_from conflict_on_value
         (create_role_from_templates (call_of w actor_id) (wc_now w) (wc_clock w) role_key role_name description
            template_keys permission_keys))"

definition get_role_route :: "web_call \<Rightarrow> string \<Rightarrow> role_details dbact" where
  "get_role_route w role_id =
     seqM (admin_user w ''security.role.read'') (raise_from missing_on_lookup (details (wc_tenant w) role_id))"

definition update_role_route ::
  "web_call \<Rightarrow> string \<Rightarrow> string option \<Rightarrow> string option \<Rightarrow> string option \<Rightarrow> role_details dbact" where
  "update_role_route w role_id role_name description status =
     bindM (admin_user w ''security.role.update'') (\<lambda>actor_id.
     bindM (update_role TenantRbacGateService (call_of w actor_id) (wc_now w) role_id role_name description status) (\<lambda>row.
     seqM (found_or_404 ''Role not found'' row) (details (wc_tenant w) role_id)))"

definition add_role_permission_route :: "web_call \<Rightarrow> string \<Rightarrow> string \<Rightarrow> unit dbact" where
  "add_role_permission_route w role_id permission_key =
     bindM (admin_user w ''security.role.update'') (\<lambda>actor_id.
     seqM (raise_from conflict_on_value
             (add_role_permission TenantRbacGateService (call_of w actor_id) (wc_now w) role_id permission_key))
       (returnM ()))"

definition remove_role_permission_route :: "web_call \<Rightarrow> string \<Rightarrow> string \<Rightarrow> unit dbact" where
  "remove_role_permission_route w role_id permission_key =
     bindM (admin_user w ''security.role.update'') (\<lambda>actor_id.
     seqM (remove_role_permission TenantRbacGateService (call_of w actor_id) (wc_now w) role_id permission_key)
       (returnM ()))"

definition assign_user_role_route :: "web_call \<Rightarrow> string \<Rightarrow> string \<Rightarrow> unit dbact" where
  "assign_user_role_route w user_id role_id =
     bindM (admin_user w ''security.role.assign'') (\<lambda>actor_id.
     seqM (raise_from conflict_on_value (gate_assign_user_role (call_of w actor_id) (wc_now w) user_id role_id))
       (returnM ()))"

definition remove_user_role_route :: "web_call \<Rightarrow> string \<Rightarrow> string \<Rightarrow> unit dbact" where
  "remove_user_role_route w user_id role_id =
     bindM (admin_user w ''security.role.assign'') (\<lambda>actor_id.
     seqM (remove_user_role TenantRbacGateService (call_of w actor_id) (wc_now w) user_id role_id) (returnM ()))"

definition upgrade_role_template_route :: "web_call \<Rightarrow> string \<Rightarrow> string \<Rightarrow> role_details dbact" where
  "upgrade_role_template_route w role_id template_key =
     bindM (admin_user w ''security.role.update'') (\<lambda>actor_id.
       raise_from conflict_on_both (upgrade_template (call_of w actor_id) (wc_now w) (wc_clock w) role_id template_key))"

definition list_permissions_route :: "web_call \<Rightarrow> permission list dbact" where
  "list_permissions_route w = seqM (admin_user w ''security.permission.read'') list_permissions"

definition list_templates_route :: "web_call \<Rightarrow> template_item list dbact" where
  "list_templates_route w = seqM (admin_user w ''security.permission.read'') list_templates"

section \<open>Privileged access\<close>

definition list_requests_route :: "web_call \<Rightarrow> string option \<Rightarrow> request_view list dbact" where
  "list_requests_route w status =
     seqM (admin_user w ''security.privileged_access.approve'') (list_requests (wc_tenant w) status)"

definition approve_route :: "web_call \<Rightarrow> string \<Rightarrow> string option \<Rightarrow> request_view dbact" where
  "approve_route w request_id reason =
     bindM (admin_user w ''security.privileged_access.approve'') (\<lambda>approver_id.
       raise_from missing_or_conflict (approve (call_of w approver_id) (wc_now w) request_id reason))"

definition reject_route :: "web_call \<Rightarrow> string \<Rightarrow> string option \<Rightarrow> request_view dbact" where
  "reject_route w request_id reason =
     bindM (admin_user w ''security.privileged_access.approve'') (\<lambda>approver_id.
       raise_from missing_or_conflict (reject (call_of w approver_id) (wc_now w) request_id reason))"

section \<open>The routes together\<close>

datatype admin_request =
    ListGroups
  | CreateGroup string string "string option"
  | GetGroup string
  | UpdateGroup string "string option" "string option" "string option"
  | AddGroupMember string string
  | RemoveGroupMember string string
  | AssignGroupRole string string
  | RemoveGroupRole string string
  | ListRoles
  | CreateRole string string "string option" "string list" "string list"
  | GetRole string
  | UpdateRole string "string option" "string option" "string option"
  | AddRolePermission string string
  | RemoveRolePermission string string
  | AssignUserRole string string
  | RemoveUserRole string string
  | UpgradeRoleTemplate string string
  | ListPermissions
  | ListTemplates
  | ListRequests "string option"
  | ApproveRequest string "string option"
  | RejectRequest string "string option"

definition ignore :: "('d, 'a) act \<Rightarrow> ('d, unit) act" where
  "ignore m = seqM m (returnM ())"

fun handle :: "web_call \<Rightarrow> admin_request \<Rightarrow> unit dbact" where
  "handle w ListGroups = ignore (list_groups_route w)"
| "handle w (CreateGroup k n desc) = ignore (create_group_route w k n desc)"
| "handle w (GetGroup g) = ignore (get_group_route w g)"
| "handle w (UpdateGroup g n desc st) = ignore (update_group_route w g n desc st)"
| "handle w (AddGroupMember g u) = add_group_member_route w g u"
| "handle w (RemoveGroupMember g u) = remove_group_member_route w g u"
| "handle w (AssignGroupRole g rl) = assign_group_role_route w g rl"
| "handle w (RemoveGroupRole g rl) = remove_group_role_route w g rl"
| "handle w ListRoles = ignore (list_roles_route w)"
| "handle w (CreateRole k n desc ts ps) = ignore (create_role_route w k n desc ts ps)"
| "handle w (GetRole rl) = ignore (get_role_route w rl)"
| "handle w (UpdateRole rl n desc st) = ignore (update_role_route w rl n desc st)"
| "handle w (AddRolePermission rl k) = add_role_permission_route w rl k"
| "handle w (RemoveRolePermission rl k) = remove_role_permission_route w rl k"
| "handle w (AssignUserRole u rl) = assign_user_role_route w u rl"
| "handle w (RemoveUserRole u rl) = remove_user_role_route w u rl"
| "handle w (UpgradeRoleTemplate rl k) = ignore (upgrade_role_template_route w rl k)"
| "handle w ListPermissions = ignore (list_permissions_route w)"
| "handle w ListTemplates = ignore (list_templates_route w)"
| "handle w (ListRequests st) = ignore (list_requests_route w st)"
| "handle w (ApproveRequest q reason) = ignore (approve_route w q reason)"
| "handle w (RejectRequest q reason) = ignore (reject_route w q reason)"

end
