(* ===== verification/Outcomes.thy ===== *)
theory Outcomes
  imports RbacGate
begin

text \<open>
  How an administration request ends. \<open>ends m s Q\<close>: running \<open>m\<close> on \<open>s\<close> ends, with a value or
  an exception, in a session that satisfies \<open>Q\<close>. The combinators rewrite it step by step, so
  that what a whole operation commits is read off its last statements.
\<close>

section \<open>Ends\<close>

definition ends :: "('d, 'a) act \<Rightarrow> 'd session \<Rightarrow> ('d session \<Rightarrow> bool) \<Rightarrow> bool" where
  "ends m s Q \<longleftrightarrow> Q (snd (m s))"

lemma ends_bindM [run_simps]:
  "ends (bindM m f) s Q \<longleftrightarrow> (case m s of (Inl e, t) \<Rightarrow> Q t | (Inr x, t) \<Rightarrow> ends (f x) t Q)"
  by (simp add: ends_def bindM_def split: prod.splits sum.splits)

lemma ends_seqM [run_simps]:
  "ends (seqM m k) s Q \<longleftrightarrow> (case m s of (Inl e, t) \<Rightarrow> Q t | (Inr x, t) \<Rightarrow> ends k t Q)"
  by (simp add: seqM_def ends_bindM)

lemma ends_basic [run_simps]:
  "ends (returnM x) s Q \<longleftrightarrow> Q s" "ends (throwM e) s Q \<longleftrightarrow> Q s" "ends (raise_if b e) s Q \<longleftrightarrow> Q s"
  "ends (query f) s Q \<longleftrightarrow> Q s"
  by (simp_all add: ends_def returnM_def throwM_def run_raise_if query_def)

lemma ends_request: "ends (request m) s Q \<longleftrightarrow> ends m s (\<lambda>t. Q (t\<lparr>working := committed t\<rparr>))"
  by (simp add: ends_def request_def split: prod.splits)

lemma ends_catch [run_simps]:
  "ends (catch_integrity m k) s Q \<longleftrightarrow>
     (case m s of (Inl e, t) \<Rightarrow> if e = IntegrityError then ends k t Q else Q t | (Inr x, t) \<Rightarrow> Q t)"
  by (simp add: ends_def catch_integrity_def split: prod.splits sum.splits)

text \<open>An action that stays in its transaction ends with the committed database it found.\<close>

lemma ends_no_commit: "no_commit m \<Longrightarrow> (\<And>t. committed t = committed s \<Longrightarrow> Q t) \<Longrightarrow> ends m s Q"
  by (simp add: ends_def no_commit_def)

lemma ends_mono: "ends m s P \<Longrightarrow> (\<And>t. P t \<Longrightarrow> Q t) \<Longrightarrow> ends m s Q"
  by (simp add: ends_def)

section \<open>The audited commit\<close>

definition change_row :: "admin_call \<Rightarrow> string \<Rightarrow> string \<Rightarrow> string \<Rightarrow> int \<Rightarrow> string \<Rightarrow> admin_change" where
  "change_row c operation_key resource_type resource_id now change_id =
     \<lparr>ac_id = change_id, ac_correlation = cl_correlation c, ac_scope_type = ''TENANT'',
        ac_tenant = Some (cl_tenant c), ac_actor = cl_actor c, ac_operation = operation_key,
        ac_resource_type = resource_type, ac_resource_id = Some resource_id, ac_outcome = ''SUCCESS'',
        ac_occurred_at = now\<rparr>"

text \<open>The database \<open>e\<close> is \<open>d\<close> with one audit record of the call.\<close>

definition audited :: "admin_call \<Rightarrow> int \<Rightarrow> db \<Rightarrow> db \<Rightarrow> bool" where
  "audited c now d e \<longleftrightarrow> (\<exists>op ty rid i. index_free ac_id every_row (change_row c op ty rid now i) (db_changes d)
      \<and> e = d\<lparr>db_changes := db_changes d @ [change_row c op ty rid now i]\<rparr>)"

lemma audit_and_commit_run:
  "audit_and_commit c op ty rid now s =
     (let row = change_row c op ty rid now (uuids s 0); s' = s\<lparr>uuids := (\<lambda>n. uuids s (Suc n))\<rparr>;
          d = (working s)\<lparr>db_changes := db_changes (working s) @ [row]\<rparr>
      in if index_free ac_id every_row row (db_changes (working s))
         then (Inr (), s'\<lparr>working := d, committed := d\<rparr>) else (Inl IntegrityError, s'))"
  by (simp add: audit_and_commit_def audit_def run_simps insert_change_def change_row_def Let_def)

lemma audit_and_commit_cases:
  assumes "audit_and_commit c op ty rid now s = (r, t)"
  shows "r = Inl IntegrityError \<and> committed t = committed s
    \<or> r = Inr () \<and> working t = committed t \<and> audited c now (working s) (committed t)"
proof (cases "index_free ac_id every_row (change_row c op ty rid now (uuids s 0)) (db_changes (working s))")
  case True
  then have "audited c now (working s)
      ((working s)\<lparr>db_changes := db_changes (working s) @ [change_row c op ty rid now (uuids s 0)]\<rparr>)"
    unfolding audited_def by blast
  then show ?thesis using assms True by (auto simp: audit_and_commit_run Let_def)
next
  case False
  then show ?thesis using assms by (auto simp: audit_and_commit_run Let_def)
qed

lemma audited_frame:
  assumes "audited c now d e"
  obtains rows where "e = d\<lparr>db_changes := rows\<rparr>"
  using assms unfolding audited_def by blast

lemma audited_keeps_ok: "audited c now d e \<Longrightarrow> db_ok d \<Longrightarrow> db_ok e"
  by (auto simp: audited_def db_ok_def intro: unique_index_append)

section \<open>The interface of the hooks\<close>

text \<open>
  What the administration relies on of the four overridable methods: who counts as a user of
  the tenant, which users a group or role affects, and that bumping raises the version of
  exactly the given users and touches nothing else.
\<close>

definition role_held :: "db \<Rightarrow> string \<Rightarrow> string \<Rightarrow> string \<Rightarrow> int \<Rightarrow> bool" where
  "role_held d tenant user role now \<longleftrightarrow>
     (\<exists>a\<in>set (db_user_roles d). ura_tenant a = tenant \<and> ura_user a = user \<and> ura_role a = role
          \<and> ura_status a = ''ACTIVE'' \<and> valid_at (ura_valid_from a) (ura_valid_to a) now)
     \<or> (\<exists>m\<in>set (db_group_members d). \<exists>g\<in>set (db_groups d). \<exists>ga\<in>set (db_group_roles d).
          gm_tenant m = tenant \<and> gm_user m = user \<and> gm_status m = ''ACTIVE''
          \<and> valid_at (gm_valid_from m) (gm_valid_to m) now
          \<and> g_tenant g = tenant \<and> g_id g = gm_group m \<and> g_status g = ''ACTIVE''
          \<and> gra_tenant ga = tenant \<and> gra_group ga = g_id g \<and> gra_role ga = role
          \<and> gra_status ga = ''ACTIVE'')"

definition same_but_versions :: "db \<Rightarrow> db \<Rightarrow> bool" where
  "same_but_versions d e \<longleftrightarrow> (\<exists>ms az. e = d\<lparr>db_memberships := ms, db_authz_state := az\<rparr>)"

locale rbac_service =
  fixes h :: rbac_hooks
    and counts :: "string \<Rightarrow> string \<Rightarrow> int \<Rightarrow> db \<Rightarrow> bool"
    and bumped :: "string \<Rightarrow> string list \<Rightarrow> int \<Rightarrow> db \<Rightarrow> db"
    and group_users :: "string \<Rightarrow> string \<Rightarrow> int \<Rightarrow> db \<Rightarrow> string list"
    and role_users :: "string \<Rightarrow> string \<Rightarrow> int \<Rightarrow> db \<Rightarrow> string list"
    and version :: "db \<Rightarrow> string \<Rightarrow> string \<Rightarrow> int"
  assumes member_run: "active_membership h tn u now s = (Inr (counts tn u now (working s)), s)"
    and bump_run: "bump_versions h tn us now s = (Inr (), s\<lparr>working := bumped tn us now (working s)\<rparr>)"
    and group_users_run: "effective_group_users h tn g now s = (Inr (group_users tn g now (working s)), s)"
    and role_users_run: "effective_role_users h tn rl now s = (Inr (role_users tn rl now (working s)), s)"
    and group_users_complete: "gm \<in> set (db_group_members d) \<Longrightarrow> member_now tn g now gm
      \<Longrightarrow> counts tn (gm_user gm) now d \<Longrightarrow> gm_user gm \<in> set (group_users tn g now d)"
    and role_users_complete: "role_held d tn u rl now \<Longrightarrow> counts tn u now d \<Longrightarrow> u \<in> set (role_users tn rl now d)"
    and bumped_frame: "same_but_versions d (bumped tn us now d)"
    and bumped_ok: "db_ok d \<Longrightarrow> db_ok (bumped tn us now d)"
    and bumped_version: "db_ok d \<Longrightarrow> u \<in> set us \<Longrightarrow> counts tn u now d
      \<Longrightarrow> version (bumped tn us now d) tn u = version d tn u + 1"
    and bumped_mono: "version d tn' u \<le> version (bumped tn us now d) tn' u"
    and bumped_other: "tn' \<noteq> tn \<or> u \<notin> set us \<Longrightarrow> version (bumped tn us now d) tn' u = version d tn' u"
    and counts_cong: "db_users d = db_users e \<Longrightarrow> db_principals d = db_principals e
      \<Longrightarrow> db_memberships d = db_memberships e \<Longrightarrow> counts tn u now d = counts tn u now e"
    and version_cong: "db_memberships d = db_memberships e \<Longrightarrow> db_authz_state d = db_authz_state e
      \<Longrightarrow> version d tn u = version e tn u"

section \<open>The two services\<close>

lemma foreachM_update:
  "foreachM xs (\<lambda>x. update (f x)) s = (Inr (), s\<lparr>working := fold f xs (working s)\<rparr>)"
  by (induction xs arbitrary: s) (simp_all add: run_simps run_returnM)

lemma same_but_versions_refl: "same_but_versions d d"
  unfolding same_but_versions_def by (rule exI [of _ "db_memberships d"], rule exI [of _ "db_authz_state d"]) simp

lemma same_but_versions_trans:
  assumes "same_but_versions a b" and "same_but_versions b c"
  shows "same_but_versions a c"
proof -
  obtain m1 z1 m2 z2 where "b = a\<lparr>db_memberships := m1, db_authz_state := z1\<rparr>"
      "c = b\<lparr>db_memberships := m2, db_authz_state := z2\<rparr>"
    using assms unfolding same_but_versions_def by blast
  then have "c = a\<lparr>db_memberships := m2, db_authz_state := z2\<rparr>" by simp
  then show ?thesis unfolding same_but_versions_def by blast
qed

lemma fold_same_but_versions:
  assumes "\<And>x d. same_but_versions d (f x d)"
  shows "same_but_versions d (fold f xs d)"
proof (induction xs arbitrary: d)
  case Nil
  show ?case by (simp add: same_but_versions_refl)
next
  case (Cons x xs)
  then show ?case using same_but_versions_trans [OF assms Cons.IH] by simp
qed

definition membership_bump :: "string \<Rightarrow> int \<Rightarrow> string \<Rightarrow> db \<Rightarrow> db" where
  "membership_bump tenant_id now user_id d = d\<lparr>db_memberships :=
     update_rows (\<lambda>m. m_tenant m = tenant_id \<and> m_user m = user_id \<and> m_status m = ''ACTIVE'')
       (\<lambda>m. m\<lparr>m_version := m_version m + 1, m_updated_at := now\<rparr>) (db_memberships d)\<rparr>"

definition state_bump :: "string \<Rightarrow> int \<Rightarrow> string \<Rightarrow> db \<Rightarrow> db" where
  "state_bump tenant_id now user_id d =
     d\<lparr>db_authz_state := upsert_state tenant_id now user_id (db_authz_state d)\<rparr>"

definition state_version :: "db \<Rightarrow> string \<Rightarrow> string \<Rightarrow> int" where
  "state_version d tenant_id user_id =
     (case first_row (is_state_of tenant_id user_id) (db_authz_state d) of None \<Rightarrow> 1 | Some a \<Rightarrow> az_version a)"

definition membership_version :: "db \<Rightarrow> string \<Rightarrow> string \<Rightarrow> int" where
  "membership_version d tenant_id user_id =
     (case first_row (\<lambda>m. m_tenant m = tenant_id \<and> m_user m = user_id) (db_memberships d) of None \<Rightarrow> 0 | Some m \<Rightarrow> m_version m)"

text \<open>Bumping each user of a list once: the users of the list gain one version, the others none.\<close>

lemma fold_bump_version:
  fixes v :: "db \<Rightarrow> string \<Rightarrow> int"
  assumes one: "\<And>x d. P d \<Longrightarrow> Q x d \<Longrightarrow> v (f x d) x = v d x + 1"
    and other: "\<And>x y d. y \<noteq> x \<Longrightarrow> v (f x d) y = v d y"
    and inv: "\<And>x d. P d \<Longrightarrow> P (f x d)" and stable: "\<And>x y d. Q y (f x d) = Q y d"
  shows "distinct xs \<Longrightarrow> P d \<Longrightarrow> y \<in> set xs \<Longrightarrow> Q y d \<Longrightarrow> v (fold f xs d) y = v d y + 1"
    and "y \<notin> set xs \<Longrightarrow> v (fold f xs d) y = v d y"
proof -
  show outside: "y \<notin> set xs \<Longrightarrow> v (fold f xs d) y = v d y" for xs y d
    by (induction xs arbitrary: d) (simp_all add: other)
  show "distinct xs \<Longrightarrow> P d \<Longrightarrow> y \<in> set xs \<Longrightarrow> Q y d \<Longrightarrow> v (fold f xs d) y = v d y + 1"
  proof (induction xs arbitrary: d)
    case (Cons x xs)
    show ?case
    proof (cases "y = x")
      case True
      then show ?thesis using Cons.prems one [of d x] outside [of x xs "f x d"] by simp
    next
      case False
      then show ?thesis using Cons.prems Cons.IH [of "f x d"] inv stable other [of y x d] by simp
    qed
  qed simp
qed

lemma fold_keeps: "(\<And>x d. P d \<Longrightarrow> P (f x d)) \<Longrightarrow> P d \<Longrightarrow> P (fold f xs d)"
  by (induction xs arbitrary: d) simp_all

lemma first_row_update:
  assumes "\<And>r. p (f r) = p r"
  shows "first_row p (update_rows q f rows) = map_option (\<lambda>r. if q r then f r else r) (first_row p rows)"
  using assms by (induction rows) (auto simp: first_row_def update_rows_def)

lemma first_row_append: "first_row p (xs @ ys) = (case first_row p xs of None \<Rightarrow> first_row p ys | Some r \<Rightarrow> Some r)"
  by (induction xs) (auto simp: first_row_def)

lemma first_row_none_exists: "exists_row p rows = (first_row p rows \<noteq> None)"
  by (induction rows) (auto simp: first_row_def exists_row_def)

lemma state_bump_version:
  "state_version (state_bump tn now u d) tn u = state_version d tn u + 1"
  "(tn', v) \<noteq> (tn, u) \<Longrightarrow> state_version (state_bump tn now u d) tn' v = state_version d tn' v"
  subgoal
    by (auto simp: state_version_def state_bump_def upsert_state_def first_row_none_exists first_row_update
        first_row_append is_state_of_def split: option.splits dest!: first_row_SomeD)
      (simp_all add: first_row_def is_state_of_def)
  subgoal
    by (auto simp: state_version_def state_bump_def upsert_state_def first_row_none_exists first_row_update
        first_row_append is_state_of_def split: option.splits dest!: first_row_SomeD)
  done

lemma membership_bump_version:
  assumes "db_ok d" and "exists_row (membership_open tn u now) (db_memberships d)"
  shows "membership_version (membership_bump tn now' u d) tn u = membership_version d tn u + 1"
proof -
  obtain m where m: "m \<in> set (db_memberships d)" "membership_open tn u now m" using assms(2) by (auto simp: exists_row_iff)
  then obtain m' where f: "first_row (\<lambda>m. m_tenant m = tn \<and> m_user m = u) (db_memberships d) = Some m'"
    using first_row_None_iff [of "\<lambda>m. m_tenant m = tn \<and> m_user m = u" "db_memberships d"]
    by (cases "first_row (\<lambda>m. m_tenant m = tn \<and> m_user m = u) (db_memberships d)") (auto simp: membership_open_def)
  then have "m' = m"
    using first_row_SomeD [OF f] m assms(1)
    by (intro unique_index_eq [where key = "\<lambda>m. (m_tenant m, m_user m)" and live = every_row])
      (auto simp: db_ok_def membership_open_def)
  then show ?thesis
    using f m by (simp add: membership_version_def membership_bump_def first_row_update membership_open_def)
qed

lemma membership_bump_other:
  "(tn', v) \<noteq> (tn, u) \<Longrightarrow> membership_version (membership_bump tn now u d) tn' v = membership_version d tn' v"
  by (auto simp: membership_version_def membership_bump_def first_row_update split: option.splits dest!: first_row_SomeD)

lemma state_bump_ok: "db_ok d \<Longrightarrow> db_ok (state_bump tn now u d)"
  unfolding state_bump_def upsert_state_def
  by (auto simp: db_ok_def exists_row_iff index_free_def list_ex_iff is_state_of_def
      intro!: unique_index_append calm_unique_index simp: calm_def)

lemma membership_bump_ok: "db_ok d \<Longrightarrow> db_ok (membership_bump tn now u d)"
  unfolding membership_bump_def by (auto simp: db_ok_def calm_def intro!: calm_unique_index)

section \<open>Discharging the interface\<close>

definition membership_bumped :: "string \<Rightarrow> string list \<Rightarrow> int \<Rightarrow> db \<Rightarrow> db" where
  "membership_bumped tn us now d = fold (membership_bump tn now) (sorted_set us) d"

definition state_bumped :: "string \<Rightarrow> string list \<Rightarrow> int \<Rightarrow> db \<Rightarrow> db" where
  "state_bumped tn us now d = fold (state_bump tn now) (sorted_set us) d"

definition membership_counts :: "string \<Rightarrow> string \<Rightarrow> int \<Rightarrow> db \<Rightarrow> bool" where
  "membership_counts tn u now d = exists_row (membership_open tn u now) (db_memberships d)"

definition global_counts :: "string \<Rightarrow> string \<Rightarrow> int \<Rightarrow> db \<Rightarrow> bool" where
  "global_counts tn u now d = active_principal_user u d"

definition global_group_rows :: "string \<Rightarrow> string \<Rightarrow> int \<Rightarrow> db \<Rightarrow> string list" where
  "global_group_rows tn g now d = [gm_user gm. gm \<leftarrow> db_group_members d, u \<leftarrow> db_users d, p \<leftarrow> db_principals d,
        u_id u = gm_user gm, u_status u = ''ACTIVE'', sp_id p = gm_user gm, sp_status p = ''ACTIVE'',
        member_now tn g now gm]"

definition member_group_rows :: "string \<Rightarrow> string \<Rightarrow> int \<Rightarrow> db \<Rightarrow> string list" where
  "member_group_rows tn g now d = [gm_user gm. gm \<leftarrow> db_group_members d, tm \<leftarrow> db_memberships d,
        m_tenant tm = gm_tenant gm, m_user tm = gm_user gm, m_status tm = ''ACTIVE'',
        member_now tn g now gm, valid_at (m_valid_from tm) (m_valid_to tm) now]"

lemma active_principal_user_iff:
  "active_principal_user u d \<longleftrightarrow> (\<exists>x\<in>set (db_users d). u_id x = u \<and> u_status x = ''ACTIVE''
     \<and> (\<exists>p\<in>set (db_principals d). sp_id p = u \<and> sp_status p = ''ACTIVE''))"
  unfolding active_principal_user_def exists_row_iff by blast

lemma mem_global_group_rows:
  assumes "gm \<in> set (db_group_members d)" "member_now tn g now gm" "active_principal_user (gm_user gm) d"
  shows "gm_user gm \<in> set (global_group_rows tn g now d)"
  using assms unfolding global_group_rows_def mem_query active_principal_user_iff by blast

lemma mem_member_group_rows:
  assumes "gm \<in> set (db_group_members d)" "member_now tn g now gm" "membership_counts tn (gm_user gm) now d"
  shows "gm_user gm \<in> set (member_group_rows tn g now d)"
  using assms unfolding member_group_rows_def mem_query membership_counts_def exists_row_iff membership_open_def member_now_def
  by blast

lemma mem_global_role_user_rows:
  assumes "role_held d tn u rl now" and "active_principal_user u d"
  shows "u \<in> set (global_role_user_rows tn rl now d)"
  using assms unfolding global_role_user_rows_def set_append Un_iff mem_query active_principal_user_iff role_held_def
  by (elim disjE; metis)

lemma mem_member_role_user_rows:
  assumes "role_held d tn u rl now" and "membership_counts tn u now d"
  shows "u \<in> set (member_role_user_rows tn rl now d)"
  using assms unfolding member_role_user_rows_def set_append Un_iff mem_query membership_counts_def exists_row_iff
    membership_open_def role_held_def
  by (elim disjE; metis)

lemma bump_frames:
  "same_but_versions d (membership_bump tn now u d)" "same_but_versions d (state_bump tn now u d)"
  unfolding same_but_versions_def membership_bump_def state_bump_def
  by (rule exI [of _ "_"], rule exI [of _ "db_authz_state d"], simp)
    (rule exI [of _ "db_memberships d"], rule exI [of _ "_"], simp)

lemma membership_counts_bump: "membership_counts tn' v now' (membership_bump tn now u d) = membership_counts tn' v now' d"
proof -
  have "exists_row p (update_rows q f rows) = exists_row p rows" if "\<And>r. p (f r) = p r"
    for p q f and rows :: "membership list"
    using that by (induction rows) (auto simp: exists_row_def update_rows_def)
  then show ?thesis by (simp add: membership_counts_def membership_bump_def membership_open_def)
qed

lemma membership_bumped_version:
  assumes "db_ok d" "u \<in> set us" "membership_counts tn u now' d"
  shows "membership_version (membership_bumped tn us now d) tn u = membership_version d tn u + 1"
  unfolding membership_bumped_def
  by (rule fold_bump_version(1) [where P = db_ok and Q = "\<lambda>u. membership_counts tn u now'"
        and v = "\<lambda>d u. membership_version d tn u"])
    (use assms in \<open>simp_all add: membership_bump_ok membership_counts_bump membership_bump_other
        membership_bump_version [OF _ iffD1 [OF membership_counts_def]]\<close>)

lemma state_bumped_version: "u \<in> set us \<Longrightarrow> state_version (state_bumped tn us now d) tn u = state_version d tn u + 1"
  unfolding state_bumped_def
  by (rule fold_bump_version(1) [where P = "\<lambda>_. True" and Q = "\<lambda>_ _. True" and v = "\<lambda>d u. state_version d tn u"])
    (auto simp: state_bump_version)

lemma membership_bumped_other:
  assumes "tn' \<noteq> tn \<or> u \<notin> set us"
  shows "membership_version (membership_bumped tn us now d) tn' u = membership_version d tn' u"
proof (cases "tn' = tn")
  case True
  show ?thesis unfolding True membership_bumped_def
    by (rule fold_bump_version(2) [where P = "\<lambda>_. False" and Q = "\<lambda>_ _. False" and v = "\<lambda>d u. membership_version d tn u"])
      (use assms True in \<open>auto simp: membership_bump_other\<close>)
next
  case False
  show ?thesis unfolding membership_bumped_def
    by (rule fold_keeps [where P = "\<lambda>e. membership_version e tn' u = membership_version d tn' u"])
      (use False in \<open>auto simp: membership_bump_other\<close>)
qed

lemma state_bumped_other:
  assumes "tn' \<noteq> tn \<or> u \<notin> set us"
  shows "state_version (state_bumped tn us now d) tn' u = state_version d tn' u"
proof (cases "tn' = tn")
  case True
  show ?thesis unfolding True state_bumped_def
    by (rule fold_bump_version(2) [where P = "\<lambda>_. False" and Q = "\<lambda>_ _. False" and v = "\<lambda>d u. state_version d tn u"])
      (use assms True in \<open>auto simp: state_bump_version\<close>)
next
  case False
  show ?thesis unfolding state_bumped_def
    by (rule fold_keeps [where P = "\<lambda>e. state_version e tn' u = state_version d tn' u"])
      (use False in \<open>auto simp: state_bump_version\<close>)
qed

lemma bumped_mono:
  "membership_version d tn' v \<le> membership_version (membership_bumped tn us now d) tn' v"
  "state_version d tn' v \<le> state_version (state_bumped tn us now d) tn' v"
proof -
  have m: "membership_version d tn' v \<le> membership_version (membership_bump tn now u d) tn' v" for u d
    by (auto simp: membership_version_def membership_bump_def first_row_update split: option.splits)
  show "membership_version d tn' v \<le> membership_version (membership_bumped tn us now d) tn' v"
    unfolding membership_bumped_def
    by (rule fold_keeps [where P = "\<lambda>e. membership_version d tn' v \<le> membership_version e tn' v"]) (auto intro: order_trans m)
  have s: "state_version d tn' v \<le> state_version (state_bump tn now u d) tn' v" for u d
    by (cases "(tn', v) = (tn, u)") (auto simp: state_bump_version)
  show "state_version d tn' v \<le> state_version (state_bumped tn us now d) tn' v"
    unfolding state_bumped_def
    by (rule fold_keeps [where P = "\<lambda>e. state_version d tn' v \<le> state_version e tn' v"]) (auto intro: order_trans s)
qed

interpretation membership_service: rbac_service TenantRbacAdminService membership_counts membership_bumped
    member_group_rows "\<lambda>tn rl now d. remdups (member_role_user_rows tn rl now d)" membership_version
proof unfold_locales
  show "bump_versions TenantRbacAdminService tn us now s = (Inr (), s\<lparr>working := membership_bumped tn us now (working s)\<rparr>)"
    for tn us now s
    unfolding TenantRbacAdminService_def rbac_hooks.simps bump_membership_versions_def bump_membership_def
    using foreachM_update [of "sorted_set us" "membership_bump tn now" s]
    by (simp add: membership_bumped_def membership_bump_def [abs_def])
  show "same_but_versions d (membership_bumped tn us now d)" for tn us now d
    unfolding membership_bumped_def by (intro fold_same_but_versions bump_frames)
  show "db_ok d \<Longrightarrow> db_ok (membership_bumped tn us now d)" for tn us now d
    unfolding membership_bumped_def by (rule fold_keeps [where P = db_ok]) (rule membership_bump_ok)
  show "membership_version d tn u = membership_version e tn u" if "db_memberships d = db_memberships e" for d e tn u
    using that by (simp add: membership_version_def)
  show "membership_counts tn u now d = membership_counts tn u now e" if "db_memberships d = db_memberships e" for d e tn u now
    using that by (simp add: membership_counts_def)
qed (auto simp: TenantRbacAdminService_def tenant_active_membership_def member_group_users_def member_role_users_def
      query_def membership_counts_def member_group_rows_def [symmetric]
      intro: mem_member_group_rows mem_member_role_user_rows
      intro: membership_bumped_version membership_bumped_other bumped_mono)

interpretation global_service: rbac_service TenantRbacGateService global_counts state_bumped
    global_group_rows "\<lambda>tn rl now d. remdups (global_role_user_rows tn rl now d)" state_version
proof unfold_locales
  show "bump_versions TenantRbacGateService tn us now s = (Inr (), s\<lparr>working := state_bumped tn us now (working s)\<rparr>)"
    for tn us now s
    unfolding TenantRbacGateService_def rbac_hooks.simps bump_state_versions_def bump_state_def
    using foreachM_update [of "sorted_set us" "state_bump tn now" s]
    by (simp add: state_bumped_def state_bump_def [abs_def])
  show "same_but_versions d (state_bumped tn us now d)" for tn us now d
    unfolding state_bumped_def by (intro fold_same_but_versions bump_frames)
  show "db_ok d \<Longrightarrow> db_ok (state_bumped tn us now d)" for tn us now d
    unfolding state_bumped_def by (rule fold_keeps [where P = db_ok]) (rule state_bump_ok)
  show "state_version d tn u = state_version e tn u" if "db_authz_state d = db_authz_state e" for d e tn u
    using that by (simp add: state_version_def)
  show "global_counts tn u now d = global_counts tn u now e"
    if "db_users d = db_users e" "db_principals d = db_principals e" for d e tn u now
    using that by (simp add: global_counts_def active_principal_user_def)
qed (auto simp: TenantRbacGateService_def global_active_membership_def global_group_users_def global_role_users_def
      query_def global_counts_def global_group_rows_def [symmetric]
      intro: mem_global_group_rows mem_global_role_user_rows
      intro: state_bumped_version state_bumped_other bumped_mono)

end
