(* ===== verification/RbacEffects.thy ===== *)
theory RbacEffects
  imports Outcomes
begin

text \<open>
  Which users a statement of the administration can affect: for every write, the users whose
  granted permissions can differ before and after. Rows refer to rows that exist (the foreign
  keys of the schema), so that a fresh id is not yet referred to.
\<close>

section \<open>Foreign keys\<close>

definition refs_ok :: "db \<Rightarrow> bool" where
  "refs_ok d \<longleftrightarrow>
     (\<forall>a\<in>set (db_user_roles d). \<exists>r\<in>set (db_roles d). r_tenant r = ura_tenant a \<and> r_id r = ura_role a)
     \<and> (\<forall>m\<in>set (db_group_members d). \<exists>g\<in>set (db_groups d). g_tenant g = gm_tenant m \<and> g_id g = gm_group m)
     \<and> (\<forall>a\<in>set (db_group_roles d). (\<exists>g\<in>set (db_groups d). g_tenant g = gra_tenant a \<and> g_id g = gra_group a)
           \<and> (\<exists>r\<in>set (db_roles d). r_tenant r = gra_tenant a \<and> r_id r = gra_role a))
     \<and> (\<forall>p\<in>set (db_role_permissions d). \<exists>r\<in>set (db_roles d). r_tenant r = rp_tenant p \<and> r_id r = rp_role p)"

section \<open>Granted permissions through held roles\<close>

definition platform_granted :: "db \<Rightarrow> string \<Rightarrow> string \<Rightarrow> string \<Rightarrow> bool" where
  "platform_granted d user rk k \<longleftrightarrow>
     (\<exists>pu\<in>set (db_platform_user_roles d). \<exists>pr\<in>set (db_platform_roles d). \<exists>prp\<in>set (db_platform_role_permissions d).
          pura_user pu = user \<and> pura_status pu = ''ACTIVE'' \<and> pura_role pu = rk
          \<and> pr_key pr = rk \<and> pr_status pr = ''ACTIVE'' \<and> prp_role prp = rk \<and> prp_permission prp = k)"

definition permission_of :: "db \<Rightarrow> string \<Rightarrow> string \<Rightarrow> string \<Rightarrow> bool" where
  "permission_of d tenant role k \<longleftrightarrow>
     (\<exists>rp\<in>set (db_role_permissions d). rp_tenant rp = tenant \<and> rp_role rp = role \<and> rp_permission rp = k)"

definition role_open :: "db \<Rightarrow> string \<Rightarrow> string \<Rightarrow> string \<Rightarrow> bool" where
  "role_open d tenant role rk \<longleftrightarrow>
     (\<exists>r\<in>set (db_roles d). r_tenant r = tenant \<and> r_id r = role \<and> r_key r = rk \<and> r_status r = ''ACTIVE'')"

lemma holds_role_iff:
  "holds_role d tn u now r \<longleftrightarrow> r \<in> set (db_roles d) \<and> r_tenant r = tn \<and> r_status r = ''ACTIVE'' \<and> role_held d tn u (r_id r) now"
  unfolding holds_role_def role_held_def by (rule refl)

lemma granted_iff:
  "granted d tn u now rk k \<longleftrightarrow> active_permission d k \<and>
     ((\<exists>rl. role_open d tn rl rk \<and> role_held d tn u rl now \<and> permission_of d tn rl k) \<or> platform_granted d u rk k)"
proof -
  have "(\<exists>r. holds_role d tn u now r \<and> r_key r = rk \<and> permission_of d tn (r_id r) k)
      \<longleftrightarrow> (\<exists>rl. role_open d tn rl rk \<and> role_held d tn u rl now \<and> permission_of d tn rl k)"
    unfolding holds_role_iff role_open_def by auto
  then show ?thesis unfolding granted_def permission_of_def platform_granted_def by simp
qed

text \<open>Between \<open>d\<close> and \<open>e\<close>, only users \<open>P\<close> of the tenant can have gained or lost something.\<close>

definition regrants :: "string \<Rightarrow> (string \<Rightarrow> bool) \<Rightarrow> int \<Rightarrow> db \<Rightarrow> db \<Rightarrow> bool" where
  "regrants tn P now d e \<longleftrightarrow> (\<forall>tn' u rk k. granted d tn' u now rk k \<noteq> granted e tn' u now rk k \<longrightarrow> tn' = tn \<and> P u)"

lemma regrants_trans: "regrants tn P now a b \<Longrightarrow> regrants tn P now b c \<Longrightarrow> regrants tn P now a c"
  unfolding regrants_def by metis

lemma regrants_mono: "regrants tn P now a b \<Longrightarrow> (\<And>u. P u \<Longrightarrow> Q u) \<Longrightarrow> regrants tn Q now a b"
  unfolding regrants_def by blast

text \<open>The tables permissions are computed from.\<close>

lemma granted_same:
  assumes "db_permissions d = db_permissions e" "db_roles d = db_roles e" "db_role_permissions d = db_role_permissions e"
    "db_user_roles d = db_user_roles e" "db_groups d = db_groups e" "db_group_members d = db_group_members e"
    "db_group_roles d = db_group_roles e" "db_platform_user_roles d = db_platform_user_roles e"
    "db_platform_roles d = db_platform_roles e" "db_platform_role_permissions d = db_platform_role_permissions e"
  shows "granted d tn u now rk k = granted e tn u now rk k"
  unfolding granted_def holds_role_def active_permission_def assms ..

lemma granted_versions: "same_but_versions d e \<Longrightarrow> granted d tn u now rk k = granted e tn u now rk k"
  unfolding same_but_versions_def by (elim exE) (simp, intro granted_same; simp)

lemma granted_audited: "audited c now d e \<Longrightarrow> granted d tn u now' rk k = granted e tn u now' rk k"
  by (erule audited_frame) (simp, intro granted_same; simp)

text \<open>A write to the assignments: what counts is who holds a role.\<close>

lemma regrants_held:
  assumes "db_permissions d = db_permissions e" "db_roles d = db_roles e" "db_role_permissions d = db_role_permissions e"
    "db_platform_user_roles d = db_platform_user_roles e" "db_platform_roles d = db_platform_roles e"
    "db_platform_role_permissions d = db_platform_role_permissions e"
    and "\<And>tn' u rl. tn' \<noteq> tn \<or> \<not> P u \<Longrightarrow> role_held d tn' u rl now = role_held e tn' u rl now"
  shows "regrants tn P now d e"
  using assms(7) unfolding regrants_def granted_iff active_permission_def role_open_def permission_of_def platform_granted_def assms(1-6)
  by blast

text \<open>A write to a role or its permissions: what counts is who holds that role.\<close>

lemma regrants_role:
  assumes "db_permissions d = db_permissions e" "db_user_roles d = db_user_roles e" "db_groups d = db_groups e"
    "db_group_members d = db_group_members e" "db_group_roles d = db_group_roles e"
    "db_platform_user_roles d = db_platform_user_roles e" "db_platform_roles d = db_platform_roles e"
    "db_platform_role_permissions d = db_platform_role_permissions e"
    and "\<And>tn' rl' rk k. tn' \<noteq> tn \<or> rl' \<noteq> rl \<Longrightarrow> (role_open d tn' rl' rk \<and> permission_of d tn' rl' k)
        = (role_open e tn' rl' rk \<and> permission_of e tn' rl' k)"
  shows "regrants tn (\<lambda>u. role_held d tn u rl now) now d e"
proof -
  have held: "role_held d tn' u r now = role_held e tn' u r now" for tn' u r
    unfolding role_held_def assms(2-5) ..
  have act: "active_permission d k = active_permission e k" for k unfolding active_permission_def assms(1) ..
  have plat: "platform_granted d u rk k = platform_granted e u rk k" for u rk k
    unfolding platform_granted_def assms(6-8) ..
  show ?thesis
    unfolding regrants_def granted_iff act plat held
    using assms(9) by (metis held)
qed

section \<open>The four ways to hold a role\<close>

definition direct_held :: "db \<Rightarrow> string \<Rightarrow> string \<Rightarrow> string \<Rightarrow> int \<Rightarrow> bool" where
  "direct_held d tn u rl now \<longleftrightarrow> (\<exists>a\<in>set (db_user_roles d). is_user_role tn u rl a
     \<and> valid_at (ura_valid_from a) (ura_valid_to a) now)"

definition member_of :: "db \<Rightarrow> string \<Rightarrow> string \<Rightarrow> string \<Rightarrow> int \<Rightarrow> bool" where
  "member_of d tn g u now \<longleftrightarrow> (\<exists>m\<in>set (db_group_members d). is_member tn g u m
     \<and> valid_at (gm_valid_from m) (gm_valid_to m) now)"

definition group_open :: "db \<Rightarrow> string \<Rightarrow> string \<Rightarrow> bool" where
  "group_open d tn g \<longleftrightarrow> (\<exists>x\<in>set (db_groups d). g_tenant x = tn \<and> g_id x = g \<and> g_status x = ''ACTIVE'')"

definition group_has_role :: "db \<Rightarrow> string \<Rightarrow> string \<Rightarrow> string \<Rightarrow> bool" where
  "group_has_role d tn g rl \<longleftrightarrow> (\<exists>a\<in>set (db_group_roles d). is_group_role tn g rl a)"

lemma role_held_iff:
  "role_held d tn u rl now \<longleftrightarrow>
     direct_held d tn u rl now \<or> (\<exists>g. member_of d tn g u now \<and> group_open d tn g \<and> group_has_role d tn g rl)"
proof -
  have "direct_held d tn u rl now \<longleftrightarrow> (\<exists>a\<in>set (db_user_roles d). ura_tenant a = tn \<and> ura_user a = u \<and> ura_role a = rl
          \<and> ura_status a = ''ACTIVE'' \<and> valid_at (ura_valid_from a) (ura_valid_to a) now)"
    unfolding direct_held_def is_user_role_def by auto
  moreover have "(\<exists>g. member_of d tn g u now \<and> group_open d tn g \<and> group_has_role d tn g rl) \<longleftrightarrow>
      (\<exists>m\<in>set (db_group_members d). \<exists>g\<in>set (db_groups d). \<exists>ga\<in>set (db_group_roles d).
          gm_tenant m = tn \<and> gm_user m = u \<and> gm_status m = ''ACTIVE''
          \<and> valid_at (gm_valid_from m) (gm_valid_to m) now
          \<and> g_tenant g = tn \<and> g_id g = gm_group m \<and> g_status g = ''ACTIVE''
          \<and> gra_tenant ga = tn \<and> gra_group ga = g_id g \<and> gra_role ga = rl \<and> gra_status ga = ''ACTIVE'')"
    unfolding member_of_def group_open_def group_has_role_def is_member_def is_group_role_def by fastforce
  ultimately show ?thesis unfolding role_held_def by simp
qed

lemma member_of_now: "member_of d tn g u now \<longleftrightarrow> (\<exists>m\<in>set (db_group_members d). member_now tn g now m \<and> gm_user m = u)"
  unfolding member_of_def member_now_def is_member_def by auto

section \<open>What each write can change\<close>

lemma bex_update_rows:
  assumes "\<And>r. q r \<Longrightarrow> \<not> p r \<and> \<not> p (f r)"
  shows "(\<exists>r\<in>set (update_rows q f rows). p r) = (\<exists>r\<in>set rows. p r)"
  using assms by (induction rows) (auto simp: update_rows_def)

lemma bex_update_rows_same:
  assumes "\<And>r. r \<in> set rows \<Longrightarrow> q r \<Longrightarrow> p (f r) = p r"
  shows "(\<exists>r\<in>set (update_rows q f rows). p r) = (\<exists>r\<in>set rows. p r)"
  using assms by (induction rows) (auto simp: update_rows_def)

lemma bex_append: "\<not> p r \<Longrightarrow> (\<exists>x\<in>set (rows @ [r]). p x) = (\<exists>x\<in>set rows. p x)"
  by auto

text \<open>A user role: \<open>e\<close> differs from \<open>d\<close> in the assignments of \<open>u\<close>.\<close>

lemma regrants_user_roles:
  assumes "e = d\<lparr>db_user_roles := rows\<rparr>" and "\<And>tn' u' rl. (tn', u') \<noteq> (tn, u) \<Longrightarrow> direct_held e tn' u' rl now = direct_held d tn' u' rl now"
  shows "regrants tn (\<lambda>x. x = u) now d e"
proof (rule regrants_held)
  fix tn' u' rl assume "tn' \<noteq> tn \<or> \<not> u' = u"
  then show "role_held d tn' u' rl now = role_held e tn' u' rl now"
    using assms(2) [of tn' u' rl]
    by (simp add: role_held_iff) (simp add: assms(1) member_of_def group_open_def group_has_role_def)
qed (simp_all add: assms(1))

lemma regrants_new_user_role:
  assumes "insert_user_role a d = Inr e" "ura_tenant a = tn" "ura_user a = u"
  shows "regrants tn (\<lambda>x. x = u) now d e"
proof -
  have e: "e = d\<lparr>db_user_roles := db_user_roles d @ [a]\<rparr>" using assms(1) by (simp add: insert_user_role_def split: if_splits)
  show ?thesis
    by (rule regrants_user_roles [OF e]) (auto simp: e direct_held_def is_user_role_def assms(2,3))
qed

lemma regrants_end_user_role:
  "regrants tn (\<lambda>x. x = u) now d (d\<lparr>db_user_roles := update_rows (is_user_role tn u rl)
     (\<lambda>a. a\<lparr>ura_status := ''ENDED'', ura_valid_to := Some tm\<rparr>) (db_user_roles d)\<rparr>)"
  by (rule regrants_user_roles [OF refl])
    (simp add: direct_held_def, subst bex_update_rows, auto simp: is_user_role_def)

text \<open>The members of a group.\<close>

lemma regrants_members:
  assumes "e = d\<lparr>db_group_members := rows\<rparr>"
    and "\<And>tn' g' u'. (tn', u') \<noteq> (tn, u) \<Longrightarrow> member_of e tn' g' u' now = member_of d tn' g' u' now"
  shows "regrants tn (\<lambda>x. x = u) now d e"
proof (rule regrants_held)
  fix tn' u' rl assume "tn' \<noteq> tn \<or> \<not> u' = u"
  then have "member_of e tn' g' u' now = member_of d tn' g' u' now" for g' using assms(2) by simp
  then show "role_held d tn' u' rl now = role_held e tn' u' rl now"
    by (simp add: role_held_iff) (simp add: assms(1) direct_held_def group_open_def group_has_role_def)
qed (simp_all add: assms(1))

lemma regrants_new_member:
  assumes "insert_group_member a d = Inr e" "gm_tenant a = tn" "gm_user a = u"
  shows "regrants tn (\<lambda>x. x = u) now d e"
proof -
  have e: "e = d\<lparr>db_group_members := db_group_members d @ [a]\<rparr>" using assms(1) by (simp add: insert_group_member_def split: if_splits)
  show ?thesis by (rule regrants_members [OF e]) (auto simp: e member_of_def is_member_def assms(2,3))
qed

lemma regrants_end_member:
  "regrants tn (\<lambda>x. x = u) now d (d\<lparr>db_group_members := update_rows (is_member tn g u)
     (\<lambda>m. m\<lparr>gm_status := ''ENDED'', gm_ended_at := Some tm\<rparr>) (db_group_members d)\<rparr>)"
  by (rule regrants_members [OF refl]) (simp add: member_of_def, subst bex_update_rows, auto simp: is_member_def)

text \<open>The roles of a group, and the group itself.\<close>

lemma regrants_group:
  assumes "db_permissions d = db_permissions e" "db_roles d = db_roles e" "db_role_permissions d = db_role_permissions e"
    "db_platform_user_roles d = db_platform_user_roles e" "db_platform_roles d = db_platform_roles e"
    "db_platform_role_permissions d = db_platform_role_permissions e"
    "db_user_roles d = db_user_roles e" "db_group_members d = db_group_members e"
    and "\<And>tn' g' rl. (tn', g') \<noteq> (tn, g)
      \<Longrightarrow> (group_open e tn' g' \<and> group_has_role e tn' g' rl) = (group_open d tn' g' \<and> group_has_role d tn' g' rl)"
  shows "regrants tn (\<lambda>u. member_of d tn g u now) now d e"
proof (rule regrants_held)
  have same: "direct_held e tn' u rl now = direct_held d tn' u rl now" "member_of e tn' g' u now = member_of d tn' g' u now"
    for tn' g' u rl using assms(7,8) by (simp_all add: direct_held_def member_of_def)
  fix tn' u rl assume "tn' \<noteq> tn \<or> \<not> member_of d tn g u now"
  then have "(member_of d tn' g' u now \<and> group_open e tn' g' \<and> group_has_role e tn' g' rl)
      = (member_of d tn' g' u now \<and> group_open d tn' g' \<and> group_has_role d tn' g' rl)" for g'
    using assms(9) [of tn' g' rl] by auto
  then show "role_held d tn' u rl now = role_held e tn' u rl now" by (simp add: role_held_iff same)
qed (use assms in simp_all)

lemma regrants_new_group_role:
  assumes "insert_group_role a d = Inr e" "gra_tenant a = tn" "gra_group a = g"
  shows "regrants tn (\<lambda>u. member_of d tn g u now) now d e"
proof -
  have e: "e = d\<lparr>db_group_roles := db_group_roles d @ [a]\<rparr>" using assms(1) by (simp add: insert_group_role_def split: if_splits)
  show ?thesis by (rule regrants_group) (auto simp: e group_has_role_def group_open_def is_group_role_def assms(2,3))
qed

lemma regrants_end_group_role:
  "regrants tn (\<lambda>u. member_of d tn g u now) now d (d\<lparr>db_group_roles := update_rows (is_group_role tn g rl)
     (\<lambda>a. a\<lparr>gra_status := ''ENDED'', gra_ended_at := Some tm\<rparr>) (db_group_roles d)\<rparr>)"
proof (rule regrants_group)
  fix tn' g' rl' assume "(tn', g') \<noteq> (tn, g)"
  then show "(group_open (d\<lparr>db_group_roles := update_rows (is_group_role tn g rl)
     (\<lambda>a. a\<lparr>gra_status := ''ENDED'', gra_ended_at := Some tm\<rparr>) (db_group_roles d)\<rparr>) tn' g'
     \<and> group_has_role (d\<lparr>db_group_roles := update_rows (is_group_role tn g rl)
     (\<lambda>a. a\<lparr>gra_status := ''ENDED'', gra_ended_at := Some tm\<rparr>) (db_group_roles d)\<rparr>) tn' g' rl')
     = (group_open d tn' g' \<and> group_has_role d tn' g' rl')"
    unfolding group_open_def group_has_role_def
    by simp (subst bex_update_rows, auto simp: is_group_role_def)
qed simp_all

lemma regrants_new_group:
  assumes "insert_group x d = Inr e" "refs_ok d"
  shows "regrants tn (\<lambda>_. False) now d e"
proof (rule regrants_held)
  have e: "e = d\<lparr>db_groups := db_groups d @ [x]\<rparr>" and fresh: "\<And>y. y \<in> set (db_groups d) \<Longrightarrow> g_id y \<noteq> g_id x"
    using assms(1) by (auto simp: insert_group_def index_free_def list_ex_iff split: if_splits)
  have "\<not> member_of d tn' (g_id x) u now" for tn' u
    using assms(2) fresh unfolding member_of_def is_member_def refs_ok_def by metis
  moreover have "group_open e tn' g = (group_open d tn' g \<or> g_tenant x = tn' \<and> g_id x = g \<and> g_status x = ''ACTIVE'')" for tn' g
    by (auto simp: group_open_def e)
  ultimately have "(member_of d tn' g u now \<and> group_open e tn' g) = (member_of d tn' g u now \<and> group_open d tn' g)" for tn' g u
    by metis
  moreover have "direct_held e tn' u rl now = direct_held d tn' u rl now" "member_of e tn' g u now = member_of d tn' g u now"
      "group_has_role e tn' g rl = group_has_role d tn' g rl" for tn' g u rl
    by (simp_all add: e direct_held_def member_of_def group_has_role_def)
  ultimately show "role_held d tn' u rl now = role_held e tn' u rl now" for tn' u rl
    unfolding role_held_iff by metis
qed (use assms(1) in \<open>auto simp: insert_group_def split: if_splits\<close>)

lemma regrants_update_group:
  assumes "update_group_rows (\<lambda>x. g_tenant x = tn \<and> g_id x = g) f d = Inr e"
    and "\<And>x. g_tenant (f x) = g_tenant x \<and> g_id (f x) = g_id x"
  shows "regrants tn (\<lambda>u. member_of d tn g u now) now d e"
proof -
  have e: "e = d\<lparr>db_groups := update_rows (\<lambda>x. g_tenant x = tn \<and> g_id x = g) f (db_groups d)\<rparr>"
    using assms(1) by (simp add: update_group_rows_def split: if_splits)
  show ?thesis
  proof (rule regrants_group)
    fix tn' g' rl assume "(tn', g') \<noteq> (tn, g)"
    then have "group_open e tn' g' = group_open d tn' g'"
      unfolding group_open_def e by simp (subst bex_update_rows, auto simp: assms(2))
    then show "(group_open e tn' g' \<and> group_has_role e tn' g' rl) = (group_open d tn' g' \<and> group_has_role d tn' g' rl)"
      by (simp add: group_has_role_def e)
  qed (simp_all add: e)
qed

lemma regrants_rename_group:
  assumes "update_group_rows p f d = Inr e"
    and "\<And>x. x \<in> set (db_groups d) \<Longrightarrow> p x \<Longrightarrow> g_tenant (f x) = g_tenant x \<and> g_id (f x) = g_id x \<and> g_status (f x) = g_status x"
  shows "regrants tn (\<lambda>_. False) now d e"
proof (rule regrants_held)
  have e: "e = d\<lparr>db_groups := update_rows p f (db_groups d)\<rparr>"
    using assms(1) by (simp add: update_group_rows_def split: if_splits)
  have "group_open e tn' g = group_open d tn' g" for tn' g
    unfolding group_open_def e by simp (rule bex_update_rows_same, simp add: assms(2))
  then show "role_held d tn' u rl now = role_held e tn' u rl now" for tn' u rl
    unfolding role_held_iff by (simp add: e direct_held_def member_of_def group_has_role_def)
qed (use assms(1) in \<open>auto simp: update_group_rows_def split: if_splits\<close>)

text \<open>Roles and their permissions.\<close>

lemma regrants_new_role_permission:
  assumes "insert_role_permission p d = Inr e" "rp_tenant p = tn" "rp_role p = rl"
  shows "regrants tn (\<lambda>u. role_held d tn u rl now) now d e"
proof -
  have e: "e = d\<lparr>db_role_permissions := db_role_permissions d @ [p]\<rparr>" using assms(1) by (simp add: insert_role_permission_def split: if_splits)
  show ?thesis by (rule regrants_role) (auto simp: e role_open_def permission_of_def assms(2,3))
qed

lemma regrants_drop_role_permission:
  "regrants tn (\<lambda>u. role_held d tn u rl now) now d
     (d\<lparr>db_role_permissions := delete_rows (is_role_permission tn rl k) (db_role_permissions d)\<rparr>)"
  by (rule regrants_role) (auto simp: role_open_def permission_of_def set_delete_rows is_role_permission_def)

lemma regrants_update_role:
  assumes "update_role_rows (\<lambda>x. r_tenant x = tn \<and> r_id x = rl) f d = Inr e"
    and "\<And>x. r_tenant (f x) = r_tenant x \<and> r_id (f x) = r_id x"
  shows "regrants tn (\<lambda>u. role_held d tn u rl now) now d e"
proof -
  have e: "e = d\<lparr>db_roles := update_rows (\<lambda>x. r_tenant x = tn \<and> r_id x = rl) f (db_roles d)\<rparr>"
    using assms(1) by (simp add: update_role_rows_def split: if_splits)
  show ?thesis
  proof (rule regrants_role)
    fix tn' rl' rk k assume "tn' \<noteq> tn \<or> rl' \<noteq> rl"
    then have "role_open e tn' rl' rk = role_open d tn' rl' rk"
      unfolding role_open_def e by simp (rule bex_update_rows, auto simp: assms(2))
    then show "(role_open d tn' rl' rk \<and> permission_of d tn' rl' k) = (role_open e tn' rl' rk \<and> permission_of e tn' rl' k)"
      by (simp add: permission_of_def e)
  qed (simp_all add: e)
qed

lemma regrants_rename_role:
  assumes "update_role_rows p f d = Inr e"
    and "\<And>x. x \<in> set (db_roles d) \<Longrightarrow> p x \<Longrightarrow> r_tenant (f x) = r_tenant x \<and> r_id (f x) = r_id x \<and> r_key (f x) = r_key x \<and> r_status (f x) = r_status x"
  shows "regrants tn (\<lambda>_. False) now d e"
proof -
  have e: "e = d\<lparr>db_roles := update_rows p f (db_roles d)\<rparr>" using assms(1) by (simp add: update_role_rows_def split: if_splits)
  have "role_open e tn' rl rk = role_open d tn' rl rk" for tn' rl rk
    unfolding role_open_def e by simp (rule bex_update_rows_same, simp add: assms(2))
  then show ?thesis
    unfolding regrants_def granted_iff
    by (simp add: e active_permission_def role_held_def permission_of_def platform_granted_def)
qed

text \<open>A new role, whose id nobody refers to, with its first permissions.\<close>

lemma regrants_new_role:
  assumes "insert_role r d = Inr e" "refs_ok d"
    and "e' = e\<lparr>db_role_permissions := db_role_permissions d @ ps\<rparr>" "\<And>p. p \<in> set ps \<Longrightarrow> rp_role p = r_id r"
  shows "regrants tn (\<lambda>_. False) now d e'"
proof -
  have e: "e = d\<lparr>db_roles := db_roles d @ [r]\<rparr>" and fresh: "\<And>y. y \<in> set (db_roles d) \<Longrightarrow> r_id y \<noteq> r_id r"
    using assms(1) by (auto simp: insert_role_def index_free_def list_ex_iff split: if_splits)
  have "\<And>a. a \<in> set (db_user_roles d) \<Longrightarrow> ura_role a \<noteq> r_id r" "\<And>a. a \<in> set (db_group_roles d) \<Longrightarrow> gra_role a \<noteq> r_id r"
    using assms(2) fresh unfolding refs_ok_def by metis+
  then have unheld: "\<not> role_held d tn' u (r_id r) now" for tn' u
    unfolding role_held_def by blast
  have held: "role_held e' tn' u rl now = role_held d tn' u rl now" for tn' u rl
    by (simp add: assms(3) e role_held_def)
  have role: "role_open e' tn' rl rk = role_open d tn' rl rk" if "rl \<noteq> r_id r" for tn' rl rk
    using that by (auto simp: assms(3) e role_open_def)
  have perm: "permission_of e' tn' rl k = permission_of d tn' rl k" if "rl \<noteq> r_id r" for tn' rl k
    using that assms(4) by (auto simp: assms(3) e permission_of_def)
  have rest: "active_permission e' k = active_permission d k" "platform_granted e' u rk k = platform_granted d u rk k" for u rk k
    by (simp_all add: assms(3) e active_permission_def platform_granted_def)
  show ?thesis
    unfolding regrants_def granted_iff rest held by (metis unheld role perm)
qed

end
