(* ===== verification/RbacService.thy ===== *)
theory RbacService
  imports RbacEffects
begin

text \<open>
  What an administration request leaves behind, proved once for any service that keeps the
  interface of the hooks: either nothing is committed, or exactly one audit record is, the
  constraints hold, and whoever gained or lost a permission has a new authorization version.
\<close>

section \<open>Ends of the steps of an operation\<close>

lemma ends_query: "ends (bindM (query f) k) s Q = ends (k (f (working s))) s Q"
  by (simp add: ends_bindM query_def)

lemma ends_reads:
  "ends (bindM (get_group tn g) k) s Q = ends (k (first_row (\<lambda>x. g_tenant x = tn \<and> g_id x = g) (db_groups (working s)))) s Q"
  "ends (bindM (get_role tn rl) m) s Q = ends (m (first_row (\<lambda>x. r_tenant x = tn \<and> r_id x = rl) (db_roles (working s)))) s Q"
  by (simp_all add: get_group_def get_role_def ends_query)

lemma ends_raise: "ends (seqM (raise_if b e) k) s Q = (if b then Q s else ends k s Q)"
  by (simp add: ends_seqM run_raise_if)

lemma ends_uuid: "ends (bindM uuid4 k) s Q = ends (k (uuids s 0)) (s\<lparr>uuids := (\<lambda>n. uuids s (Suc n))\<rparr>) Q"
  by (simp add: ends_bindM uuid4_def)

lemma ends_execute:
  "ends (seqM (execute f) k) s Q = (case f (working s) of Inl e \<Rightarrow> Q s | Inr d \<Rightarrow> ends k (s\<lparr>working := d\<rparr>) Q)"
  by (simp add: ends_seqM execute_def split: sum.split)

lemma ends_rollback: "ends (seqM rollback k) s Q = ends k (s\<lparr>working := committed s\<rparr>) Q"
  by (simp add: ends_seqM rollback_def)

lemma ends_write_if_hit: "ends (bindM (write_if_hit hit f) k) s Q = ends (k (hit (working s))) (s\<lparr>working := f (working s)\<rparr>) Q"
  by (simp add: ends_bindM write_if_hit_def bindM_def seqM_def query_def update_def returnM_def)

lemma ends_skip: "ends (seqM (returnM x) k) s Q = ends k s Q"
  by (simp add: ends_seqM returnM_def)

lemma ends_assoc: "ends (seqM (seqM m k) l) s Q = ends (seqM m (seqM k l)) s Q"
  by (simp add: ends_seqM) (simp add: seqM_def bindM_def ends_def split: prod.split sum.split)

lemma ends_assoc_bind: "ends (seqM (bindM m f) l) s Q = ends (bindM m (\<lambda>x. seqM (f x) l)) s Q"
  by (simp add: ends_seqM ends_bindM) (simp add: bindM_def ends_def seqM_def split: prod.split sum.split)

lemma ends_seq_if:
  "ends (seqM (if b then m else n) k) s Q = (if b then ends (seqM m k) s Q else ends (seqM n k) s Q)"
  by simp

lemmas ends_steps = ends_seq_if ends_query ends_raise ends_uuid ends_execute ends_rollback ends_write_if_hit ends_skip
  ends_assoc ends_assoc_bind ends_basic

lemma ends_audit:
  assumes "\<And>t. committed t = committed s \<Longrightarrow> Q t"
    and "\<And>t. working t = committed t \<Longrightarrow> audited c now (working s) (committed t) \<Longrightarrow> ends k t Q"
  shows "ends (seqM (audit_and_commit c op ty rid now) k) s Q"
  using assms audit_and_commit_cases [of c op ty rid now s]
  by (auto simp: ends_seqM split: prod.splits sum.splits)

section \<open>Accounting\<close>

definition audit_of :: "admin_call \<Rightarrow> int \<Rightarrow> admin_change \<Rightarrow> bool" where
  "audit_of c now row \<longleftrightarrow> ac_actor row = cl_actor c \<and> ac_tenant row = Some (cl_tenant c)
     \<and> ac_correlation row = cl_correlation c \<and> ac_occurred_at row = now \<and> ac_outcome row = ''SUCCESS''"

definition accounted ::
  "(string \<Rightarrow> string \<Rightarrow> int \<Rightarrow> db \<Rightarrow> bool) \<Rightarrow> (db \<Rightarrow> string \<Rightarrow> string \<Rightarrow> int) \<Rightarrow> admin_call \<Rightarrow> int \<Rightarrow> db \<Rightarrow> db \<Rightarrow> bool" where
  "accounted counts version c now d e \<longleftrightarrow>
     (\<forall>tn u rk k. granted d tn u now rk k \<noteq> granted e tn u now rk k
        \<longrightarrow> tn = cl_tenant c \<and> (counts tn u now d \<longrightarrow> version d tn u < version e tn u))
     \<and> (\<forall>tn u. version d tn u \<le> version e tn u \<and> (tn \<noteq> cl_tenant c \<longrightarrow> version e tn u = version d tn u))
     \<and> (\<exists>row. db_changes e = db_changes d @ [row] \<and> audit_of c now row)
     \<and> db_ok e \<and> refs_ok e"

definition accounts ::
  "(string \<Rightarrow> string \<Rightarrow> int \<Rightarrow> db \<Rightarrow> bool) \<Rightarrow> (db \<Rightarrow> string \<Rightarrow> string \<Rightarrow> int) \<Rightarrow> admin_call \<Rightarrow> int \<Rightarrow> 'a dbact \<Rightarrow> bool" where
  "accounts counts version c now m \<longleftrightarrow>
     (\<forall>s. db_ok (committed s) \<longrightarrow> refs_ok (committed s) \<longrightarrow> working s = committed s
        \<longrightarrow> ends m s (\<lambda>t. committed t = committed s \<or> accounted counts version c now (committed s) (committed t)))"

text \<open>The writes of the administration: the tables of assignments, and nothing about people.\<close>

definition same_people :: "db \<Rightarrow> db \<Rightarrow> bool" where
  "same_people d e \<longleftrightarrow> db_users e = db_users d \<and> db_principals e = db_principals d
     \<and> db_memberships e = db_memberships d \<and> db_authz_state e = db_authz_state d \<and> db_changes e = db_changes d"

lemma refs_ok_versions: "same_but_versions d e \<Longrightarrow> refs_ok d = refs_ok e"
  unfolding same_but_versions_def by (elim exE) (simp add: refs_ok_def)

lemma refs_ok_audited: "audited c now d e \<Longrightarrow> refs_ok d = refs_ok e"
  by (erule audited_frame) (simp add: refs_ok_def)

context rbac_service
begin

text \<open>Whatever was written, if the versions cover it and one audit record follows.\<close>

lemma account_written:
  assumes "regrants (cl_tenant c) P now d d2" and "db_changes d2 = db_changes d" and "db_ok d2" and "refs_ok d2"
    and up: "\<And>u. P u \<Longrightarrow> counts (cl_tenant c) u now d \<Longrightarrow> version d (cl_tenant c) u < version d2 (cl_tenant c) u"
    and mono: "\<And>tn u. version d tn u \<le> version d2 tn u"
    and other: "\<And>tn u. tn \<noteq> cl_tenant c \<Longrightarrow> version d2 tn u = version d tn u"
    and aud: "audited c now d2 e"
  shows "accounted counts version c now d e"
proof -
  obtain rows where e: "e = d2\<lparr>db_changes := rows\<rparr>" using audited_frame [OF aud] .
  have ve: "version e tn u = version d2 tn u" for tn u using e by (intro version_cong) simp_all
  have raise: "tn = cl_tenant c \<and> (counts tn u now d \<longrightarrow> version d tn u < version e tn u)"
    if g: "granted d tn u now rk k \<noteq> granted e tn u now rk k" for tn u rk k
  proof -
    have "tn = cl_tenant c" "P u" using assms(1) g unfolding regrants_def granted_audited [OF aud, symmetric] by blast+
    then show ?thesis using up [of u] ve by auto
  qed
  have row: "\<exists>row. db_changes e = db_changes d @ [row] \<and> audit_of c now row"
    using aud assms(2) unfolding audited_def by (elim exE) (simp add: audit_of_def change_row_def)
  have "db_ok e" "refs_ok e"
    using audited_keeps_ok [OF aud] assms(3,4) refs_ok_audited [OF aud] by simp_all
  then show ?thesis unfolding accounted_def using raise mono other ve row by simp
qed

lemma regrants_versions: "regrants tn P now d d1 \<Longrightarrow> same_but_versions d1 d2 \<Longrightarrow> regrants tn P now d d2"
  unfolding regrants_def by (simp add: granted_versions [of d1 d2])

text \<open>A write, a bump that covers the users it affects, and the audit record.\<close>

lemma bump_covers:
  assumes "same_people d d1" and "db_ok d1" and "\<And>u. P u \<Longrightarrow> counts tn u now d1 \<Longrightarrow> u \<in> set us"
  shows "P u \<Longrightarrow> counts tn u now d \<Longrightarrow> version d tn u < version (bumped tn us now d1) tn u"
    and "version d tn' u \<le> version (bumped tn us now d1) tn' u"
    and "tn' \<noteq> tn \<Longrightarrow> version (bumped tn us now d1) tn' u = version d tn' u"
proof -
  have v: "version d tn'' u = version d1 tn'' u" for tn''
    using assms(1) by (intro version_cong) (simp_all add: same_people_def)
  have "counts tn u now d1 = counts tn u now d" using assms(1) by (intro counts_cong) (simp_all add: same_people_def)
  then show "P u \<Longrightarrow> counts tn u now d \<Longrightarrow> version d tn u < version (bumped tn us now d1) tn u"
    using bumped_version [OF assms(2,3)] v by simp
  show "version d tn' u \<le> version (bumped tn us now d1) tn' u" using bumped_mono v by simp
  show "tn' \<noteq> tn \<Longrightarrow> version (bumped tn us now d1) tn' u = version d tn' u" using bumped_other v by simp
qed

lemma bumped_changes: "db_changes (bumped tn us now d) = db_changes d" "refs_ok (bumped tn us now d) = refs_ok d"
  using bumped_frame [of d tn us now] refs_ok_versions [OF bumped_frame [of d tn us now]] by (auto simp: same_but_versions_def)

lemma account:
  assumes "regrants (cl_tenant c) P now d d1" and "same_people d d1" and "db_ok d1" and "refs_ok d1"
    and "\<And>u. P u \<Longrightarrow> counts (cl_tenant c) u now d1 \<Longrightarrow> u \<in> set us"
    and "audited c now (bumped (cl_tenant c) us now d1) e"
  shows "accounted counts version c now d e"
proof (rule account_written [OF regrants_versions [OF assms(1) bumped_frame] _ bumped_ok [OF assms(3)] _ _ _ _ assms(6)])
  show "db_changes (bumped (cl_tenant c) us now d1) = db_changes d" "refs_ok (bumped (cl_tenant c) us now d1)"
    using assms(2,4) by (simp_all add: bumped_changes same_people_def)
qed (use bump_covers [of d d1 P "cl_tenant c" now us, OF assms(2,3,5)] in blast)+

lemma account_quiet:
  assumes "regrants (cl_tenant c) (\<lambda>_. False) now d d1" and "same_people d d1" and "db_ok d1" and "refs_ok d1"
    and "audited c now d1 e"
  shows "accounted counts version c now d e"
proof -
  have "version d tn u = version d1 tn u" for tn u
    using assms(2) by (intro version_cong) (simp_all add: same_people_def)
  then show ?thesis
    using assms(2) by (intro account_written [OF assms(1) _ assms(3,4) _ _ _ assms(5)]) (simp_all add: same_people_def)
qed

lemma ends_bump: "ends (seqM (bump_versions h tn us now) k) s Q = ends k (s\<lparr>working := bumped tn us now (working s)\<rparr>) Q"
  by (simp add: ends_seqM bump_run)

lemma ends_member: "ends (bindM (active_membership h tn u now) f) s Q = ends (f (counts tn u now (working s))) s Q"
  by (simp add: ends_bindM member_run)

lemma ends_users:
  "ends (bindM (effective_group_users h tn g now) f) s Q = ends (f (group_users tn g now (working s))) s Q"
  "ends (bindM (effective_role_users h tn rl now) f) s Q = ends (f (role_users tn rl now (working s))) s Q"
  by (simp_all add: ends_bindM group_users_run role_users_run)

lemmas ends_hooks = ends_bump ends_member ends_users

lemma accountsI:
  assumes "\<And>s d. db_ok d \<Longrightarrow> refs_ok d \<Longrightarrow> committed s = d \<Longrightarrow> working s = d
    \<Longrightarrow> ends m s (\<lambda>t. committed t = d \<or> accounted counts version c now d (committed t))"
  shows "accounts counts version c now m"
  using assms unfolding accounts_def by blast

lemma ends_accounted:
  assumes "committed s = d" "no_commit k"
    and "\<And>e. audited c now (working s) e \<Longrightarrow> accounted counts version c now d e"
  shows "ends (seqM (audit_and_commit c op ty rid now) k) s (\<lambda>t. committed t = d \<or> accounted counts version c now d (committed t))"
proof (rule ends_audit)
  show "committed t = d \<or> accounted counts version c now d (committed t)" if "committed t = committed s" for t
    using that assms(1) by simp
  fix t :: "db session" assume "audited c now (working s) (committed t)"
  then show "ends k t (\<lambda>t. committed t = d \<or> accounted counts version c now d (committed t))"
    using assms(2,3) by (auto intro: ends_no_commit)
qed

lemma ends_done:
  assumes "committed s = d" "working s = bumped (cl_tenant c) us now d1" "no_commit k"
    and "regrants (cl_tenant c) P now d d1" "same_people d d1" "db_ok d1" "refs_ok d1"
    and "\<And>u. P u \<Longrightarrow> counts (cl_tenant c) u now d1 \<Longrightarrow> u \<in> set us"
  shows "ends (seqM (audit_and_commit c op ty rid now) k) s (\<lambda>t. committed t = d \<or> accounted counts version c now d (committed t))"
  using assms(2) by (intro ends_accounted assms(1,3)) (auto intro: account [OF assms(4-8)])

lemma ends_quiet:
  assumes "committed s = d" "no_commit k"
    and "regrants (cl_tenant c) (\<lambda>_. False) now d (working s)" "same_people d (working s)" "db_ok (working s)" "refs_ok (working s)"
  shows "ends (seqM (audit_and_commit c op ty rid now) k) s (\<lambda>t. committed t = d \<or> accounted counts version c now d (committed t))"
  by (intro ends_accounted assms(1,2)) (rule account_quiet [OF assms(3-6)])

end

section \<open>Constraints and references kept by the writes\<close>

lemma refs_new_rows:
  "refs_ok d \<Longrightarrow> insert_user_role a d = Inr e \<Longrightarrow> r \<in> set (db_roles d) \<Longrightarrow> r_tenant r = ura_tenant a
     \<Longrightarrow> r_id r = ura_role a \<Longrightarrow> refs_ok e"
  "refs_ok d \<Longrightarrow> insert_group_member m d = Inr e \<Longrightarrow> g \<in> set (db_groups d) \<Longrightarrow> g_tenant g = gm_tenant m
     \<Longrightarrow> g_id g = gm_group m \<Longrightarrow> refs_ok e"
  "refs_ok d \<Longrightarrow> insert_group_role b d = Inr e \<Longrightarrow> g \<in> set (db_groups d) \<Longrightarrow> g_tenant g = gra_tenant b
     \<Longrightarrow> g_id g = gra_group b \<Longrightarrow> r \<in> set (db_roles d) \<Longrightarrow> r_tenant r = gra_tenant b \<Longrightarrow> r_id r = gra_role b \<Longrightarrow> refs_ok e"
  "refs_ok d \<Longrightarrow> insert_role_permission p d = Inr e \<Longrightarrow> r \<in> set (db_roles d) \<Longrightarrow> r_tenant r = rp_tenant p
     \<Longrightarrow> r_id r = rp_role p \<Longrightarrow> refs_ok e"
  "refs_ok d \<Longrightarrow> insert_group g d = Inr e \<Longrightarrow> refs_ok e"
  "refs_ok d \<Longrightarrow> insert_role r d = Inr e \<Longrightarrow> refs_ok e"
  by (auto simp: refs_ok_def insert_defs split: if_splits; blast)+

lemma inserts_same_people:
  "insert_user_role a d = Inr e \<Longrightarrow> same_people d e" "insert_group_member m d = Inr e \<Longrightarrow> same_people d e"
  "insert_group_role b d = Inr e \<Longrightarrow> same_people d e" "insert_role_permission p d = Inr e \<Longrightarrow> same_people d e"
  "insert_group g d = Inr e \<Longrightarrow> same_people d e" "insert_role r d = Inr e \<Longrightarrow> same_people d e"
  "update_group_rows q f d = Inr e \<Longrightarrow> same_people d e" "update_role_rows q' f' d = Inr e \<Longrightarrow> same_people d e"
  by (auto simp: same_people_def insert_defs update_group_rows_def update_role_rows_def split: if_splits)

lemma ball_update_rows:
  assumes "\<And>r. P (f r) = P r"
  shows "(\<forall>r\<in>set (update_rows q f rows). P r) = (\<forall>r\<in>set rows. P r)"
  using assms by (induction rows) (auto simp: update_rows_def)

lemma refs_updates:
  "refs_ok d \<Longrightarrow> (\<And>a. ura_tenant (f a) = ura_tenant a \<and> ura_role (f a) = ura_role a)
     \<Longrightarrow> refs_ok (d\<lparr>db_user_roles := update_rows p f (db_user_roles d)\<rparr>)"
  "refs_ok d \<Longrightarrow> (\<And>a. gm_tenant (f' a) = gm_tenant a \<and> gm_group (f' a) = gm_group a)
     \<Longrightarrow> refs_ok (d\<lparr>db_group_members := update_rows p' f' (db_group_members d)\<rparr>)"
  "refs_ok d \<Longrightarrow> (\<And>a. gra_tenant (h a) = gra_tenant a \<and> gra_group (h a) = gra_group a \<and> gra_role (h a) = gra_role a)
     \<Longrightarrow> refs_ok (d\<lparr>db_group_roles := update_rows q h (db_group_roles d)\<rparr>)"
  "refs_ok d \<Longrightarrow> refs_ok (d\<lparr>db_role_permissions := delete_rows q' (db_role_permissions d)\<rparr>)"
  by (auto simp: refs_ok_def ball_update_rows set_delete_rows)

lemma refs_update_group:
  assumes "refs_ok d" "update_group_rows q f d = Inr e" "\<And>g. g_tenant (f g) = g_tenant g \<and> g_id (f g) = g_id g"
  shows "refs_ok e"
proof -
  have e: "e = d\<lparr>db_groups := update_rows q f (db_groups d)\<rparr>" using assms(2) by (simp add: update_group_rows_def split: if_splits)
  have "(\<exists>g\<in>set (update_rows q f (db_groups d)). g_tenant g = tn \<and> g_id g = i) = (\<exists>g\<in>set (db_groups d). g_tenant g = tn \<and> g_id g = i)" for tn i
    by (rule bex_update_rows_same) (simp add: assms(3))
  then show ?thesis using assms(1) unfolding refs_ok_def e by simp
qed

lemma refs_update_role:
  assumes "refs_ok d" "update_role_rows q f d = Inr e" "\<And>r. r_tenant (f r) = r_tenant r \<and> r_id (f r) = r_id r"
  shows "refs_ok e"
proof -
  have e: "e = d\<lparr>db_roles := update_rows q f (db_roles d)\<rparr>" using assms(2) by (simp add: update_role_rows_def split: if_splits)
  have "(\<exists>r\<in>set (update_rows q f (db_roles d)). r_tenant r = tn \<and> r_id r = i) = (\<exists>r\<in>set (db_roles d). r_tenant r = tn \<and> r_id r = i)" for tn i
    by (rule bex_update_rows_same) (simp add: assms(3))
  then show ?thesis using assms(1) unfolding refs_ok_def e by simp
qed

lemma ok_updates:
  "db_ok d \<Longrightarrow> db_ok (d\<lparr>db_user_roles := update_rows (is_user_role tn u rl) (\<lambda>a. a\<lparr>ura_status := ''ENDED'', ura_valid_to := Some now\<rparr>) (db_user_roles d)\<rparr>)"
  "db_ok d \<Longrightarrow> db_ok (d\<lparr>db_group_members := update_rows (is_member tn g u) (\<lambda>m. m\<lparr>gm_status := ''ENDED'', gm_ended_at := Some now\<rparr>) (db_group_members d)\<rparr>)"
  "db_ok d \<Longrightarrow> db_ok (d\<lparr>db_group_roles := update_rows (is_group_role tn g rl) (\<lambda>a. a\<lparr>gra_status := ''ENDED'', gra_ended_at := Some now\<rparr>) (db_group_roles d)\<rparr>)"
  "db_ok d \<Longrightarrow> db_ok (d\<lparr>db_role_permissions := delete_rows q (db_role_permissions d)\<rparr>)"
  by (auto simp: db_ok_def table_ok_defs calm_def user_role_active_def user_role_key_def group_member_active_def
      group_member_key_def group_role_active_def group_role_key_def intro!: calm_unique_index unique_index_delete)

section \<open>The operations that take hooks\<close>

lemma reads_stay [stays_intros]: "no_commit (get_group tn g)" "no_commit (get_role tn rl)"
  unfolding get_group_def get_role_def by (intro stays_intros)+

context rbac_service
begin

lemma accounts_add_group_member: "accounts counts version c now (add_group_member h c now g u)"
proof (rule accountsI)
  fix s :: "db session" and d assume ok: "db_ok d" "refs_ok d" and s: "committed s = d" "working s = d"
  show "ends (add_group_member h c now g u) s (\<lambda>t. committed t = d \<or> accounted counts version c now d (committed t))"
    unfolding add_group_member_def active_group_def
    by (auto simp: ends_steps ends_hooks s exists_row_iff split: sum.split
        intro!: ends_done [where us = "[u]" and P = "\<lambda>x. x = u"] stays_intros inserts_same_people(2)
        intro: regrants_new_member insert_keeps_ok(2) [OF ok(1)] refs_new_rows(2) [OF ok(2)])
qed

lemma accounts_remove_group_member: "accounts counts version c now (remove_group_member h c now g u)"
proof (rule accountsI)
  fix s :: "db session" and d assume ok: "db_ok d" "refs_ok d" and s: "committed s = d" "working s = d"
  show "ends (remove_group_member h c now g u) s (\<lambda>t. committed t = d \<or> accounted counts version c now d (committed t))"
    unfolding remove_group_member_def
    by (auto simp: ends_steps ends_hooks s same_people_def
        intro!: ends_done [where us = "[u]" and P = "\<lambda>x. x = u"] stays_intros regrants_end_member
          ok_updates [OF ok(1)] refs_updates [OF ok(2)])
qed

lemma accounts_remove_user_role: "accounts counts version c now (remove_user_role h c now u rl)"
proof (rule accountsI)
  fix s :: "db session" and d assume ok: "db_ok d" "refs_ok d" and s: "committed s = d" "working s = d"
  show "ends (remove_user_role h c now u rl) s (\<lambda>t. committed t = d \<or> accounted counts version c now d (committed t))"
    unfolding remove_user_role_def
    by (auto simp: ends_steps ends_hooks s same_people_def
        intro!: ends_done [where us = "[u]" and P = "\<lambda>x. x = u"] stays_intros regrants_end_user_role
          ok_updates [OF ok(1)] refs_updates [OF ok(2)])
qed

lemma accounts_assign_user_role: "accounts counts version c now (assign_user_role h c now u rl)"
proof (rule accountsI)
  fix s :: "db session" and d assume ok: "db_ok d" "refs_ok d" and s: "committed s = d" "working s = d"
  show "ends (assign_user_role h c now u rl) s (\<lambda>t. committed t = d \<or> accounted counts version c now d (committed t))"
    unfolding assign_user_role_def active_role_def has_user_role_def new_user_role_def
    by (auto simp: ends_steps ends_hooks s exists_row_iff split: sum.split
        intro!: ends_done [where us = "[u]" and P = "\<lambda>x. x = u"] stays_intros inserts_same_people(1)
        intro: regrants_new_user_role insert_keeps_ok(1) [OF ok(1)] refs_new_rows(1) [OF ok(2)])
qed

end

context rbac_service
begin

lemma covers_members:
  "member_of d tn g u now \<Longrightarrow> counts tn u now e \<Longrightarrow> db_group_members e = db_group_members d \<Longrightarrow> u \<in> set (group_users tn g now e)"
  unfolding member_of_now using group_users_complete [of _ e tn g now] by auto

lemma covers_holders:
  assumes "role_held d tn u rl now" "counts tn u now e" "db_user_roles e = db_user_roles d"
    "db_group_members e = db_group_members d" "db_groups e = db_groups d" "db_group_roles e = db_group_roles d"
  shows "u \<in> set (role_users tn rl now e)"
  using assms by (intro role_users_complete) (simp_all add: role_held_def)

lemma covers_before:
  assumes "counts tn u now e" "db_users e = db_users d" "db_principals e = db_principals d" "db_memberships e = db_memberships d"
  shows "member_of d tn g u now \<Longrightarrow> u \<in> set (group_users tn g now d)"
    and "role_held d tn u rl now \<Longrightarrow> u \<in> set (role_users tn rl now d)"
proof -
  have c: "counts tn u now d" using assms counts_cong [of d e] by simp
  show "member_of d tn g u now \<Longrightarrow> u \<in> set (group_users tn g now d)" using covers_members [OF _ c] by simp
  show "role_held d tn u rl now \<Longrightarrow> u \<in> set (role_users tn rl now d)" using covers_holders [OF _ c] by simp
qed

lemma accounts_assign_group_role: "accounts counts version c now (assign_group_role h c now g rl)"
proof (rule accountsI)
  fix s :: "db session" and d assume ok: "db_ok d" "refs_ok d" and s: "committed s = d" "working s = d"
  have "ends (seqM (audit_and_commit c op ty rid now) (returnM True)) (s\<lparr>uuids := z, working := bumped (cl_tenant c) (group_users (cl_tenant c) g now e) now e\<rparr>)
      (\<lambda>t. committed t = d \<or> accounted counts version c now d (committed t))"
    if "insert_group_role a d = Inr e" "gra_tenant a = cl_tenant c" "gra_group a = g" "refs_ok e" for a e z op ty rid
  proof (rule ends_done [where P = "\<lambda>u. member_of d (cl_tenant c) g u now"])
    show "regrants (cl_tenant c) (\<lambda>u. member_of d (cl_tenant c) g u now) now d e" by (rule regrants_new_group_role [OF that(1-3)])
    show "same_people d e" "db_ok e" using that(1) ok inserts_same_people(3) insert_keeps_ok(3) by blast+
    show "u \<in> set (group_users (cl_tenant c) g now e)" if "member_of d (cl_tenant c) g u now" "counts (cl_tenant c) u now e" for u
      using \<open>insert_group_role a d = Inr e\<close>
      by (intro covers_members [OF that]) (auto simp: insert_group_role_def split: if_splits)
  qed (use s that in \<open>simp_all add: stays_intros\<close>)
  note fin = this
  have refs: "refs_ok e" if "insert_group_role a d = Inr e" "gra_tenant a = cl_tenant c" "gra_group a = g" "gra_role a = rl"
      "exists_row (\<lambda>x. g_tenant x = cl_tenant c \<and> g_id x = g \<and> g_status x = ''ACTIVE'') (db_groups d)"
      "exists_row (\<lambda>x. r_tenant x = cl_tenant c \<and> r_id x = rl \<and> r_status x = ''ACTIVE'') (db_roles d)" for a e
    using that refs_new_rows(3) [OF ok(2) that(1)] unfolding exists_row_iff by auto
  show "ends (assign_group_role h c now g rl) s (\<lambda>t. committed t = d \<or> accounted counts version c now d (committed t))"
    unfolding assign_group_role_def active_group_def active_role_def
    by (auto simp: ends_steps ends_hooks s split: sum.split)
      (rule fin, assumption, simp, simp, rule refs, assumption, simp_all)
qed

lemma accounts_remove_group_role: "accounts counts version c now (remove_group_role h c now g rl)"
proof (rule accountsI)
  fix s :: "db session" and d assume ok: "db_ok d" "refs_ok d" and s: "committed s = d" "working s = d"
  show "ends (remove_group_role h c now g rl) s (\<lambda>t. committed t = d \<or> accounted counts version c now d (committed t))"
    unfolding remove_group_role_def
    by (auto simp: ends_steps ends_hooks s same_people_def
        intro!: ends_done [where us = "group_users (cl_tenant c) g now d" and P = "\<lambda>u. member_of d (cl_tenant c) g u now"]
          stays_intros regrants_end_group_role ok_updates [OF ok(1)] refs_updates [OF ok(2)]
        elim: covers_before(1) [rotated -1])
qed

lemma accounts_remove_role_permission: "accounts counts version c now (remove_role_permission h c now rl k)"
proof (rule accountsI)
  fix s :: "db session" and d assume ok: "db_ok d" "refs_ok d" and s: "committed s = d" "working s = d"
  show "ends (remove_role_permission h c now rl k) s (\<lambda>t. committed t = d \<or> accounted counts version c now d (committed t))"
    unfolding remove_role_permission_def
    by (auto simp: ends_steps ends_hooks s same_people_def
        intro!: ends_done [where us = "role_users (cl_tenant c) rl now d" and P = "\<lambda>u. role_held d (cl_tenant c) u rl now"]
          stays_intros regrants_drop_role_permission ok_updates [OF ok(1)] refs_updates [OF ok(2)]
        elim: covers_before(2) [rotated -1])
qed

end

section \<open>Groups and roles themselves\<close>

lemma no_commit_reload [stays_intros]:
  "no_commit (bindM (get_group tn g) (\<lambda>row. case row of None \<Rightarrow> throwM e | Some x \<Rightarrow> returnM x))"
  "no_commit (bindM (get_role tn rl) (\<lambda>row. case row of None \<Rightarrow> throwM e | Some y \<Rightarrow> returnM y))"
  by (intro stays_intros)+

lemma same_group:
  assumes "db_ok d" "first_row (\<lambda>x. g_tenant x = tn \<and> g_id x = g) (db_groups d) = Some cur"
    and "x \<in> set (db_groups d)" "g_tenant x = tn \<and> g_id x = g"
  shows "x = cur"
  using assms first_row_SomeD [OF assms(2)]
  by (intro unique_index_eq [where key = g_id and live = every_row]) (auto simp: db_ok_def groups_ok_def)

lemma same_role:
  assumes "db_ok d" "first_row (\<lambda>x. r_tenant x = tn \<and> r_id x = rl) (db_roles d) = Some cur"
    and "x \<in> set (db_roles d)" "r_tenant x = tn \<and> r_id x = rl"
  shows "x = cur"
  using assms first_row_SomeD [OF assms(2)]
  by (intro unique_index_eq [where key = r_id and live = every_row]) (auto simp: db_ok_def roles_ok_def)

context rbac_service
begin

lemma accounts_create_group: "accounts counts version c now (create_group c now k n desc)"
proof (rule accountsI)
  fix s :: "db session" and d assume ok: "db_ok d" "refs_ok d" and s: "committed s = d" "working s = d"
  show "ends (create_group c now k n desc) s (\<lambda>t. committed t = d \<or> accounted counts version c now d (committed t))"
    unfolding create_group_def
    by (auto simp: ends_steps s split: sum.split intro!: ends_quiet stays_intros inserts_same_people(5)
        intro: regrants_new_group [OF _ ok(2)] insert_keeps_ok(6) [OF ok(1)] refs_new_rows(5) [OF ok(2)])
qed

lemma accounts_update_group: "accounts counts version c now (update_group h c now g n desc st)"
proof (rule accountsI)
  fix s :: "db session" and d assume ok: "db_ok d" "refs_ok d" and s: "committed s = d" "working s = d"
  let ?p = "\<lambda>x. g_tenant x = cl_tenant c \<and> g_id x = g"
  let ?Q = "\<lambda>t. committed t = d \<or> accounted counts version c now d (committed t)"
  show "ends (update_group h c now g n desc st) s ?Q"
  proof (cases "first_row ?p (db_groups d)")
    case None
    then show ?thesis by (simp add: update_group_def ends_reads ends_steps s)
  next
    case (Some cur)
    obtain z where z: "keep_or st (g_status cur) = z" by simp
    obtain y where y: "(if desc \<noteq> None then desc else g_description cur) = y" by simp
    let ?f = "\<lambda>x. x\<lparr>g_name := keep_or n (g_name cur), g_description := y,
                  g_status := z, g_updated_at := now\<rparr>"
    have ok1: "db_ok e \<and> refs_ok e \<and> same_people d e" if "update_group_rows ?p ?f d = Inr e" for e
      using that ok update_group_rows_keeps_ok refs_update_group inserts_same_people(7) by (fastforce simp: calm_def)
    have bump: "ends (seqM (audit_and_commit c op ty rid now) (get_group (cl_tenant c) g)) s' ?Q"
      if e: "update_group_rows ?p ?f d = Inr e" and w: "working s' = bumped (cl_tenant c) (group_users (cl_tenant c) g now d) now e"
        and c: "committed s' = d" for e op ty rid s'
    proof (rule ends_done [OF c w])
      show "regrants (cl_tenant c) (\<lambda>u. member_of d (cl_tenant c) g u now) now d e" by (rule regrants_update_group [OF e]) simp
      show "same_people d e" "db_ok e" "refs_ok e" using ok1 [OF e] by simp_all
      show "u \<in> set (group_users (cl_tenant c) g now d)" if "member_of d (cl_tenant c) g u now" "counts (cl_tenant c) u now e" for u
        using ok1 [OF e] that by (auto simp: same_people_def elim: covers_before(1) [rotated -1])
    qed (intro stays_intros)
    have "ends (seqM (audit_and_commit c op ty rid now) (get_group (cl_tenant c) g)) s' ?Q"
      if e: "update_group_rows ?p ?f d = Inr e" and st: "g_status cur = z"
        and w: "working s' = e" and c: "committed s' = d" for e op ty rid s'
    proof (rule ends_quiet [OF c], unfold w)
      show "regrants (cl_tenant c) (\<lambda>_. False) now d e"
        by (rule regrants_rename_group [OF e]) (use st in \<open>auto dest!: same_group [OF ok(1) Some]\<close>)
      show "same_people d e" "db_ok e" "refs_ok e" using ok1 [OF e] by simp_all
    qed (intro stays_intros)
    note quiet = this
    show ?thesis
      unfolding update_group_def
      by (simp add: ends_reads ends_steps ends_hooks s Some z y del: not_None_eq split: sum.split) (intro conjI impI allI; ((rule quiet, assumption, assumption) | (rule bump, assumption)); simp add: s)
  qed
qed

lemma accounts_update_role: "accounts counts version c now (update_role h c now rl n desc st)"
proof (rule accountsI)
  fix s :: "db session" and d assume ok: "db_ok d" "refs_ok d" and s: "committed s = d" "working s = d"
  let ?p = "\<lambda>x. r_tenant x = cl_tenant c \<and> r_id x = rl"
  let ?Q = "\<lambda>t. committed t = d \<or> accounted counts version c now d (committed t)"
  show "ends (update_role h c now rl n desc st) s ?Q"
  proof (cases "first_row ?p (db_roles d)")
    case None
    then show ?thesis by (simp add: update_role_def ends_reads ends_steps s)
  next
    case (Some cur)
    obtain z where z: "keep_or st (r_status cur) = z" by simp
    obtain y where y: "(if desc \<noteq> None then desc else r_description cur) = y" by simp
    let ?f = "\<lambda>x. x\<lparr>r_name := keep_or n (r_name cur), r_description := y,
                  r_status := z, r_updated_at := now\<rparr>"
    have ok1: "db_ok e \<and> refs_ok e \<and> same_people d e" if "update_role_rows ?p ?f d = Inr e" for e
    proof -
      have "db_ok e" by (rule update_role_rows_keeps_ok [OF _ that]) (use ok in \<open>simp_all add: calm_def\<close>)
      moreover have "refs_ok e" by (rule refs_update_role [OF _ that]) (use ok in simp_all)
      ultimately show ?thesis using inserts_same_people(8) [OF that] by simp
    qed
    have bump: "ends (seqM (audit_and_commit c op ty rid now) (get_role (cl_tenant c) rl)) s' ?Q"
      if e: "update_role_rows ?p ?f d = Inr e" and w: "working s' = bumped (cl_tenant c) (role_users (cl_tenant c) rl now d) now e"
        and c: "committed s' = d" for e op ty rid s'
    proof (rule ends_done [OF c w])
      show "regrants (cl_tenant c) (\<lambda>u. role_held d (cl_tenant c) u rl now) now d e" by (rule regrants_update_role [OF e]) simp
      show "same_people d e" "db_ok e" "refs_ok e" using ok1 [OF e] by simp_all
      show "u \<in> set (role_users (cl_tenant c) rl now d)" if "role_held d (cl_tenant c) u rl now" "counts (cl_tenant c) u now e" for u
        using ok1 [OF e] that by (auto simp: same_people_def elim: covers_before(2) [rotated -1])
    qed (intro stays_intros)
    have "ends (seqM (audit_and_commit c op ty rid now) (get_role (cl_tenant c) rl)) s' ?Q"
      if e: "update_role_rows ?p ?f d = Inr e" and st: "r_status cur = z"
        and w: "working s' = e" and c: "committed s' = d" for e op ty rid s'
    proof (rule ends_quiet [OF c], unfold w)
      show "regrants (cl_tenant c) (\<lambda>_. False) now d e"
        by (rule regrants_rename_role [OF e]) (use st in \<open>auto dest!: same_role [OF ok(1) Some]\<close>)
      show "same_people d e" "db_ok e" "refs_ok e" using ok1 [OF e] by simp_all
    qed (intro stays_intros)
    note quiet = this
    show ?thesis
      unfolding update_role_def
      by (simp add: ends_reads ends_steps ends_hooks s Some z y del: not_None_eq split: sum.split) (intro conjI impI allI; ((rule quiet, assumption, assumption) | (rule bump, assumption)); simp add: s)
  qed
qed

end

lemma ends_ensure: "Q s \<Longrightarrow> ends k s Q \<Longrightarrow> ends (seqM (ensure_active_permissions ks) k) s Q"
  unfolding ensure_active_permissions_def
  by (induction ks) (simp_all add: ensure_active_permission_def ends_steps foreachM.simps)

lemma new_permissions_run:
  assumes "foreachM ks (new_role_permission tn rl now) s = (Inr x, t)"
  shows "\<exists>ps. working t = (working s)\<lparr>db_role_permissions := db_role_permissions (working s) @ ps\<rparr>
    \<and> map rp_permission ps = ks \<and> (\<forall>p\<in>set ps. rp_tenant p = tn \<and> rp_role p = rl)
    \<and> committed t = committed s \<and> uuids t = uuids s \<and> (db_ok (working s) \<longrightarrow> db_ok (working t))"
  using assms
proof (induction ks arbitrary: s)
  case Nil
  then show ?case by (auto simp: returnM_def)
next
  case (Cons k ks)
  let ?p = "\<lparr>rp_tenant = tn, rp_role = rl, rp_permission = k, rp_assigned_at = now\<rparr>"
  have run: "new_role_permission tn rl now k s = (case insert_role_permission ?p (working s) of
      Inl err \<Rightarrow> (Inl err, s) | Inr d \<Rightarrow> (Inr (), s\<lparr>working := d\<rparr>))"
    by (simp add: new_role_permission_def execute_def split: sum.split)
  obtain e where e: "insert_role_permission ?p (working s) = Inr e"
    and r: "foreachM ks (new_role_permission tn rl now) (s\<lparr>working := e\<rparr>) = (Inr x, t)"
    using Cons.prems by (cases "insert_role_permission ?p (working s)")
      (simp_all add: seqM_def bindM_def run)
  from Cons.IH [OF r] obtain ps where ps: "working t = e\<lparr>db_role_permissions := db_role_permissions e @ ps\<rparr>"
    "map rp_permission ps = ks" "\<forall>p\<in>set ps. rp_tenant p = tn \<and> rp_role p = rl"
    "committed t = committed s" "uuids t = uuids s" "db_ok e \<longrightarrow> db_ok (working t)" by auto
  have "e = (working s)\<lparr>db_role_permissions := db_role_permissions (working s) @ [?p]\<rparr>"
    using e by (simp add: insert_role_permission_def split: if_splits)
  then show ?case using ps insert_keeps_ok(5) [OF _ e] by (intro exI [of _ "?p # ps"]) simp
qed

lemma ends_new_permissions:
  assumes "\<And>t. committed t = committed s \<Longrightarrow> Q t"
    and "\<And>t ps. working t = (working s)\<lparr>db_role_permissions := db_role_permissions (working s) @ ps\<rparr>
      \<Longrightarrow> \<forall>p\<in>set ps. rp_tenant p = tn \<and> rp_role p = rl \<Longrightarrow> committed t = committed s
      \<Longrightarrow> db_ok (working s) \<longrightarrow> db_ok (working t) \<Longrightarrow> ends k t Q"
  shows "ends (seqM (foreachM ks (new_role_permission tn rl now)) k) s Q"
proof -
  have "no_commit (foreachM ks (new_role_permission tn rl now))"
    unfolding new_role_permission_def by (intro stays_intros)
  then have nc: "committed t = committed s" if "foreachM ks (new_role_permission tn rl now) s = (z, t)" for z t
    using that unfolding no_commit_def by (metis snd_conv)
  show ?thesis
  proof (cases "foreachM ks (new_role_permission tn rl now) s")
    case (Pair z t)
    show ?thesis
    proof (cases z)
      case (Inl err)
      then show ?thesis using Pair assms(1) [OF nc [OF Pair]] by (simp add: ends_seqM)
    next
      case (Inr x)
      obtain ps where ps: "working t = (working s)\<lparr>db_role_permissions := db_role_permissions (working s) @ ps\<rparr>
          \<and> map rp_permission ps = ks \<and> (\<forall>p\<in>set ps. rp_tenant p = tn \<and> rp_role p = rl)
          \<and> committed t = committed s \<and> uuids t = uuids s \<and> (db_ok (working s) \<longrightarrow> db_ok (working t))"
        using new_permissions_run [OF Pair [unfolded Inr]] ..
      have "ends k t Q"
        by (rule assms(2) [where ps = ps]) (use ps in blast)+
      then show ?thesis using Pair Inr by (simp add: ends_seqM)
    qed
  qed
qed

context rbac_service
begin

lemma accounts_add_role_permission: "accounts counts version c now (add_role_permission h c now rl k)"
proof (rule accountsI)
  fix s :: "db session" and d assume ok: "db_ok d" "refs_ok d" and s: "committed s = d" "working s = d"
  let ?Q = "\<lambda>t. committed t = d \<or> accounted counts version c now d (committed t)"
  have fin: "ends (seqM (audit_and_commit c op ty rid now) (returnM True)) (s\<lparr>working := bumped (cl_tenant c) (role_users (cl_tenant c) rl' now e) now e\<rparr>) ?Q"
    if e: "insert_role_permission p d = Inr e" and p: "rp_tenant p = cl_tenant c" "rp_role p = rl'"
      and r: "r \<in> set (db_roles d)" "r_tenant r = cl_tenant c" "r_id r = rl'" for p e op ty rid r rl'
  proof (rule ends_done [where us = "role_users (cl_tenant c) rl' now e" and P = "\<lambda>u. role_held d (cl_tenant c) u rl' now"])
    show "regrants (cl_tenant c) (\<lambda>u. role_held d (cl_tenant c) u rl' now) now d e" by (rule regrants_new_role_permission [OF e p])
    show "same_people d e" "db_ok e" "refs_ok e"
      using inserts_same_people(4) [OF e] insert_keeps_ok(5) [OF ok(1) e] refs_new_rows(4) [OF ok(2) e r(1)] p r by simp_all
    show "u \<in> set (role_users (cl_tenant c) rl' now e)" if "role_held d (cl_tenant c) u rl' now" "counts (cl_tenant c) u now e" for u
      using e by (intro covers_holders [OF that]) (auto simp: insert_role_permission_def split: if_splits)
  qed (simp_all add: s stays_intros)
  show "ends (add_role_permission h c now rl k) s ?Q"
    unfolding add_role_permission_def active_role_def new_role_permission_def
    by (rule ends_ensure) (auto simp: ends_steps ends_hooks s exists_row_iff split: sum.split intro!: fin)
qed

lemma accounts_create_role: "accounts counts version c now (create_role c now k n desc ks)"
proof (rule accountsI)
  fix s :: "db session" and d assume ok: "db_ok d" "refs_ok d" and s: "committed s = d" "working s = d"
  let ?Q = "\<lambda>t. committed t = d \<or> accounted counts version c now d (committed t)"
  have fin: "ends (seqM (audit_and_commit c op ty rid now) m) t ?Q"
    if e: "insert_role r d = Inr e" and tn: "r_tenant r = cl_tenant c" and t: "working t = e\<lparr>db_role_permissions := db_role_permissions e @ ps\<rparr>"
      and ps: "\<forall>p\<in>set ps. rp_tenant p = cl_tenant c \<and> rp_role p = r_id r" and c: "committed t = d"
      and "db_ok e \<longrightarrow> db_ok (working t)" and m: "no_commit m" for op ty rid r e ps t and m :: "role dbact"
  proof (rule ends_quiet [OF c m])
    have d: "db_role_permissions e = db_role_permissions d" "r \<in> set (db_roles e)"
      using e by (auto simp: insert_role_def split: if_splits)
    show "regrants (cl_tenant c) (\<lambda>_. False) now d (working t)"
      by (rule regrants_new_role [OF e ok(2)]) (use t ps d in auto)
    show "same_people d (working t)" using inserts_same_people(6) [OF e] t by (simp add: same_people_def)
    show "db_ok (working t)" using that(6) insert_keeps_ok(4) [OF ok(1) e] by simp
    show "refs_ok (working t)" using refs_new_rows(6) [OF ok(2) e] t ps d tn by (auto simp: refs_ok_def)
  qed
  show "ends (create_role c now k n desc ks) s ?Q"
    unfolding create_role_def
    by (auto simp: ends_steps s split: sum.split intro!: ends_ensure ends_new_permissions fin stays_intros)
qed

end

end
