(* ===== verification/RbacRequests.thy ===== *)
theory RbacRequests
  imports RbacService
begin

text \<open>
  The requests of the administration routes against the global service, with the maker-checker
  of privileged roles: each of them is accounted for like the operations of \<open>RbacService\<close>, runs of
  requests keep the constraints, and a privileged role is only assigned to a user by a decision
  of somebody who neither asked for it nor gets it.
\<close>

section \<open>The table of requests\<close>

lemma requests_only:
  assumes "e = d\<lparr>db_requests := rows\<rparr>"
  shows "same_people d e" "refs_ok e = refs_ok d" "regrants tn P now d e"
  using granted_same [of d e] by (simp_all add: assms same_people_def refs_ok_def regrants_def)

lemma ends_requests:
  "insert_request r d = Inr e \<Longrightarrow> \<exists>rows. e = d\<lparr>db_requests := rows\<rparr>"
  "update_requests p f d = Inr e \<Longrightarrow> \<exists>rows. e = d\<lparr>db_requests := rows\<rparr>"
  by (auto simp: insert_request_def update_requests_def Let_def split: if_splits)

lemma decided_ok:
  assumes "db_ok d" and "st \<in> {''APPROVED'', ''REJECTED''}"
    and "update_requests p (\<lambda>r. r\<lparr>pa_status := st, pa_approved_by := a, pa_decided_at := t, pa_reason := y\<rparr>) d = Inr e"
  shows "db_ok e"
  using assms(2) by (intro update_requests_keeps_ok [OF assms(1,3)]) (auto simp: calm_def request_key_def request_pending_def)

lemma new_request_plain:
  assumes "insert_request r d = Inr e"
  shows "same_people d e" "refs_ok d \<Longrightarrow> refs_ok e" "regrants tn P now d e" "db_ok d \<Longrightarrow> db_ok e"
proof -
  obtain rows where e: "e = d\<lparr>db_requests := rows\<rparr>" using ends_requests(1) [OF assms] ..
  show "same_people d e" "refs_ok d \<Longrightarrow> refs_ok e" "regrants tn P now d e" using requests_only [OF e] by simp_all
  show "db_ok d \<Longrightarrow> db_ok e" by (rule insert_keeps_ok(7) [OF _ assms])
qed

text \<open>A handler that only reads keeps what the body committed.\<close>

lemma ends_catch_quiet:
  assumes "ends m s (\<lambda>t. Q (committed t))" and "no_commit k"
  shows "ends (catch_integrity m k) s (\<lambda>t. Q (committed t))"
  using assms by (cases "m s") (auto simp: ends_def catch_integrity_def no_commit_def split: sum.split)

lemma gate_reads_stay [stays_intros]:
  "no_commit (has_user_role tn u rl)" "no_commit (has_pending_access tn u rl)" "no_commit (pending_request tn u rl)"
  "no_commit (find_request tn q)" "no_commit (locked_request tn q)"
  unfolding has_user_role_def has_pending_access_def pending_request_def find_request_def locked_request_def
  by (intro stays_intros)+

section \<open>Requests are accounted for\<close>

abbreviation gate_accounted :: "admin_call \<Rightarrow> int \<Rightarrow> db \<Rightarrow> db \<Rightarrow> bool" where
  "gate_accounted \<equiv> accounted global_counts state_version"

abbreviation gate_accounts :: "admin_call \<Rightarrow> int \<Rightarrow> 'a dbact \<Rightarrow> bool" where
  "gate_accounts \<equiv> accounts global_counts state_version"

lemma ends_new_request:
  assumes ok: "db_ok d" "refs_ok d" and s: "committed s = d" "working s = d" and "no_commit k"
  shows "ends (seqM (new_access_request c now q u rl) k) s (\<lambda>t. committed t = d \<or> gate_accounted c now d (committed t))"
proof -
  have "ends (seqM (audit_and_commit c op ty q' now) k) (s\<lparr>working := e\<rparr>) (\<lambda>t. committed t = d \<or> gate_accounted c now d (committed t))"
    if e: "insert_request r d = Inr e" for r e op ty q'
    by (rule global_service.ends_quiet) (use s ok new_request_plain [OF e] assms(5) in simp_all)
  then show ?thesis unfolding new_access_request_def by (auto simp: ends_steps s split: sum.split)
qed

lemma accounts_uuid:
  assumes "accounts counts version c now m" "db_ok d" "refs_ok d" "committed s = d" "working s = d"
  shows "ends m s (\<lambda>t. committed t = d \<or> accounted counts version c now d (committed t))"
  using assms unfolding accounts_def by auto

lemma accounts_gate_assign_user_role: "gate_accounts c now (gate_assign_user_role c now u rl)"
proof (rule global_service.accountsI)
  fix s :: "db session" and d assume ok: "db_ok d" "refs_ok d" and s: "committed s = d" "working s = d"
  let ?Q = "\<lambda>t. committed t = d \<or> gate_accounted c now d (committed t)"
  have plain: "ends (assign_user_role TenantRbacGateService c now u rl) s ?Q"
    by (rule accounts_uuid [OF global_service.accounts_assign_user_role ok s])
  have "ends (catch_integrity (seqM (new_access_request c now q u rl) (returnM True))
      (seqM rollback (bindM (has_pending_access (cl_tenant c) u rl) (\<lambda>b. if \<not> b then throwM IntegrityError else returnM False)))) t ?Q"
    if "committed t = d" "working t = d" for q t
    by (rule ends_catch_quiet [OF ends_new_request]) (use ok that in \<open>auto intro!: stays_intros\<close>)
  then show "ends (gate_assign_user_role c now u rl) s ?Q"
    unfolding gate_assign_user_role_def has_user_role_def
    using plain by (simp add: ends_reads ends_steps global_service.ends_hooks s has_pending_access_def)
qed

lemma accounts_request_or_assign: "gate_accounts c now (request_or_assign_user_role c now u rl)"
proof (rule global_service.accountsI)
  fix s :: "db session" and d assume ok: "db_ok d" "refs_ok d" and s: "committed s = d" "working s = d"
  let ?Q = "\<lambda>t. committed t = d \<or> gate_accounted c now d (committed t)"
  have plain: "ends (bindM (gate_assign_user_role c now u rl) (\<lambda>created. returnM (AssignmentActive created False))) s ?Q"
    using accounts_uuid [OF accounts_gate_assign_user_role ok s, of c now u rl]
    by (auto simp: ends_def bindM_def returnM_def split: prod.splits sum.splits)
  have "ends (catch_integrity (seqM (new_access_request c now q u rl) (returnM x))
      (seqM rollback (bindM (pending_request (cl_tenant c) u rl) (\<lambda>found. case found of None \<Rightarrow> throwM IntegrityError
         | Some (r, k) \<Rightarrow> returnM (RequestFound (public_request r key)))))) t ?Q"
    if "committed t = d" "working t = d" for q t x key
    by (rule ends_catch_quiet [OF ends_new_request]) (use ok that in \<open>auto intro!: stays_intros\<close>)
  then show "ends (request_or_assign_user_role c now u rl) s ?Q"
    unfolding request_or_assign_user_role_def has_user_role_def pending_request_def Let_def
    using plain by (auto simp: ends_reads ends_steps global_service.ends_hooks s split: option.split)
qed

lemma ends_find:
  "ends (bindM (find_request tn q) k) s Q =
     (case first_of (request_rows (\<lambda>r. pa_tenant r = tn \<and> pa_id r = q) (working s)) of None \<Rightarrow> Q s | Some r \<Rightarrow> ends (k r) s Q)"
  "ends (bindM (locked_request tn q) k) s Q =
     (case first_of (request_rows (\<lambda>r. pa_tenant r = tn \<and> pa_id r = q) (working s)) of None \<Rightarrow> Q s | Some r \<Rightarrow> ends (k r) s Q)"
  unfolding locked_request_def find_request_def by (simp_all add: ends_bindM bindM_def query_def throwM_def returnM_def split: option.split)

lemma ends_independent:
  "ends (seqM (require_pending_and_independent r a) k) s Q =
     (if pa_status r = ''PENDING'' \<and> pa_requested_by r \<noteq> a \<and> pa_subject r \<noteq> a then ends k s Q else Q s)"
  unfolding require_pending_and_independent_def by (simp add: ends_steps)

lemma no_commit_view [stays_intros]:
  "no_commit (bindM (find_request tn q) (\<lambda>(r', _). returnM (public_request r' k)))"
  by (intro stays_intros)

lemma accounts_reject: "gate_accounts c now (reject c now q reason)"
proof (rule global_service.accountsI)
  fix s :: "db session" and d assume ok: "db_ok d" "refs_ok d" and s: "committed s = d" "working s = d"
  let ?Q = "\<lambda>t. committed t = d \<or> gate_accounted c now d (committed t)"
  let ?f = "\<lambda>r. r\<lparr>pa_status := ''REJECTED'', pa_approved_by := Some (cl_actor c), pa_decided_at := Some now, pa_reason := reason\<rparr>"
  have old: "ends (seqM (audit_and_commit c op ty rid now) k) (s\<lparr>working := e\<rparr>) ?Q"
    if e: "update_requests p ?f d = Inr e" and k: "no_commit k" for p e op ty rid and k :: "request_view dbact"
  proof -
    obtain rows where rows: "e = d\<lparr>db_requests := rows\<rparr>" using ends_requests(2) [OF e] ..
    show ?thesis
      by (rule global_service.ends_quiet) (use s k ok requests_only [OF rows] decided_ok [OF ok(1) _ e] in simp_all)
  qed
  show "ends (reject c now q reason) s ?Q"
    unfolding reject_def decide_request_def
    by (auto simp: ends_find ends_independent ends_steps s split: option.split sum.split intro!: stays_intros old)
qed

lemma accounts_approve: "gate_accounts c now (approve c now q reason)"
proof (rule global_service.accountsI)
  fix s :: "db session" and d assume ok: "db_ok d" "refs_ok d" and s: "committed s = d" "working s = d"
  let ?Q = "\<lambda>t. committed t = d \<or> gate_accounted c now d (committed t)"
  let ?tn = "cl_tenant c"
  let ?f = "\<lambda>r. r\<lparr>pa_status := ''APPROVED'', pa_approved_by := Some (cl_actor c), pa_decided_at := Some now, pa_reason := reason\<rparr>"
  have old: "ends (seqM (audit_and_commit c op ty rid now) k) (s\<lparr>working := e\<rparr>) ?Q"
    if e: "update_requests p ?f d = Inr e" and k: "no_commit k" for p e op ty rid and k :: "request_view dbact"
  proof -
    obtain rows where rows: "e = d\<lparr>db_requests := rows\<rparr>" using ends_requests(2) [OF e] ..
    show ?thesis
      by (rule global_service.ends_quiet) (use s k ok requests_only [OF rows] decided_ok [OF ok(1) _ e] in simp_all)
  qed
  have new: "ends (seqM (audit_and_commit c op ty rid now) k) (s\<lparr>uuids := z, working := e\<rparr>) ?Q"
    if a: "insert_user_role a d = Inr d1" and u: "ura_tenant a = ?tn" "ura_user a = u"
      and r: "r \<in> set (db_roles d)" "r_tenant r = ?tn" "r_id r = ura_role a"
      and e: "update_requests p ?f (state_bumped ?tn [u] now d1) = Inr e" and k: "no_commit k"
    for a d1 u r p e op ty rid z and k :: "request_view dbact"
  proof (rule global_service.ends_accounted)
    fix x assume "audited c now (working (s\<lparr>uuids := z, working := e\<rparr>)) x"
    then have x: "audited c now e x" by simp
    have d1: "same_people d d1" "db_ok d1" "refs_ok d1"
      using inserts_same_people(1) [OF a] insert_keeps_ok(1) [OF ok(1) a] refs_new_rows(1) [OF ok(2) a r(1)] r u by simp_all
    obtain rows where rows: "e = (state_bumped ?tn [u] now d1)\<lparr>db_requests := rows\<rparr>" using ends_requests(2) [OF e] ..
    have v: "state_version e tn v = state_version (state_bumped ?tn [u] now d1) tn v" for tn v
      by (rule global_service.version_cong) (simp_all add: rows)
    have "regrants ?tn (\<lambda>x. x = u) now d d1" using regrants_new_user_role [OF a u(1)] u(2) by simp
    then have g: "regrants ?tn (\<lambda>x. x = u) now d e"
      using global_service.regrants_versions [OF _ global_service.bumped_frame] requests_only(3) [OF rows] regrants_trans by blast
    show "gate_accounted c now d x"
    proof (rule global_service.account_written [OF g _ _ _ _ _ _ x])
      show "db_changes e = db_changes d" "refs_ok e"
        using d1 by (simp_all add: rows requests_only(2) [OF refl] global_service.bumped_changes same_people_def)
      show "db_ok e" using decided_ok [OF global_service.bumped_ok [OF d1(2)] _ e] by simp
    qed (use global_service.bump_covers [OF d1(1,2), of "\<lambda>x. x = u" ?tn now "[u]"] v in auto)
  qed (use s k in simp_all)
  show "ends (approve c now q reason) s ?Q"
    unfolding approve_def decide_request_def active_role_def has_user_role_def new_user_role_def
    by (auto simp: ends_find ends_independent ends_steps global_service.ends_hooks s exists_row_iff
        split: option.split sum.split intro!: stays_intros old new)
qed

end
