(* ===== verification/AdminAccounting.thy ===== *)
theory AdminAccounting
  imports AdminRoutes RbacRequests
begin

text \<open>
  The routes of the tenant administration keep accounts: whatever a handler commits is one
  audited change of its tenant, keeps the constraints, and raises the authorization version of
  everybody whose permissions it changed. For the templates of a role this rests on the trigger
  of the table of bindings.
\<close>

section \<open>Parts of a transaction\<close>

text \<open>An action of the open transaction that relates the working databases by \<open>R\<close>.\<close>

definition tracks :: "(db \<Rightarrow> db \<Rightarrow> bool) \<Rightarrow> 'a dbact \<Rightarrow> bool" where
  "tracks R m \<longleftrightarrow> no_commit m \<and> (\<forall>s x t. m s = (Inr x, t) \<longrightarrow> R (working s) (working t))"

lemma tracks_update: "(\<And>d. R d (f d)) \<Longrightarrow> tracks R (update f)"
  unfolding tracks_def by (auto simp: update_def no_commit_def)

lemma tracks_insert: "(\<And>d e x. f x d = Inr e \<Longrightarrow> R d e) \<Longrightarrow> tracks R (bindM uuid4 (\<lambda>x. execute (f x)))"
  unfolding tracks_def by (auto simp: bindM_def uuid4_def execute_def no_commit_def split: sum.splits)

lemma tracks_foreachM:
  assumes "\<And>x. tracks R (f x)" and "reflp R" and "transp R"
  shows "tracks R (foreachM xs f)"
proof (induction xs)
  case Nil
  show ?case using assms(2) by (auto simp: tracks_def returnM_def no_commit_def reflp_def)
next
  case (Cons x xs)
  have nc: "no_commit (seqM (f x) (foreachM xs f))"
    using assms(1) Cons by (intro stays_intros) (auto simp: tracks_def)
  have "R (working s) (working t)" if run: "seqM (f x) (foreachM xs f) s = (Inr y, t)" for s y t
  proof -
    obtain z s' where "f x s = (Inr z, s')" "foreachM xs f s' = (Inr y, t)"
      using run by (auto simp: seqM_def bindM_def split: prod.splits sum.splits)
    then have "R (working s) (working s')" "R (working s') (working t)"
      using assms(1) Cons unfolding tracks_def by blast+
    then show ?thesis using assms(3) by (rule transpD [rotated])
  qed
  then show ?case using nc by (simp add: tracks_def)
qed

lemma ends_tracks:
  fixes s :: "db session"
  assumes "tracks R m" and "\<And>t :: db session. committed t = committed s \<Longrightarrow> Q t"
    and "\<And>t :: db session. committed t = committed s \<Longrightarrow> R (working s) (working t) \<Longrightarrow> ends k t Q"
  shows "ends (seqM m k) s Q"
proof (cases "m s")
  case (Pair z t)
  have c: "committed t = committed s" using assms(1) Pair unfolding tracks_def no_commit_def by (metis snd_conv)
  show ?thesis
  proof (cases z)
    case (Inl e)
    then show ?thesis using assms(2) [OF c] Pair by (simp add: ends_seqM)
  next
    case (Inr x)
    then have "R (working s) (working t)" using assms(1) Pair unfolding tracks_def by blast
    then show ?thesis using assms(3) [OF c] Pair Inr by (simp add: ends_seqM)
  qed
qed

lemma ends_last: "ends m s Q = ends (seqM m (returnM ())) s Q"
  by (auto simp: ends_def seqM_def bindM_def returnM_def split: prod.split sum.split)

lemma ends_guarded:
  assumes "ends m s (\<lambda>t. P (committed t))" and "no_commit k"
  shows "ends (seqM (rollback_on_error m) k) s (\<lambda>t. P (committed t))"
proof (cases "m s")
  case (Pair z t)
  have "committed (snd (k t)) = committed t" using assms(2) by (simp add: no_commit_def)
  then show ?thesis using assms(1) Pair by (cases z) (auto simp: ends_def seqM_def bindM_def rollback_on_error_def)
qed

section \<open>Bindings and their trigger\<close>

lemma fold_state_bump:
  "fold (state_bump tn now) us d = d\<lparr>db_authz_state := fold (upsert_state tn now) us (db_authz_state d)\<rparr>"
  by (induction us arbitrary: d) (simp_all add: state_bump_def)

lemma insert_binding_bumped:
  assumes "insert_binding clock b d = Inr e" and "tb_status b = ''CURRENT''"
  shows "e = state_bumped (tb_tenant b) (template_users (tb_tenant b) (tb_role b) d) clock (d\<lparr>db_bindings := db_bindings d @ [b]\<rparr>)"
    and "db_ok d \<Longrightarrow> db_ok e"
proof -
  have "template_users tn rl (d\<lparr>db_bindings := bs\<rparr>) = template_users tn rl d" for tn rl bs
    by (simp add: template_users_def)
  then show e: "e = state_bumped (tb_tenant b) (template_users (tb_tenant b) (tb_role b) d) clock (d\<lparr>db_bindings := db_bindings d @ [b]\<rparr>)"
    using assms by (simp add: insert_binding_def bump_template_authz_state_def state_bumped_def fold_state_bump split: if_splits)
  show "db_ok e" if "db_ok d"
  proof -
    have "db_ok (d\<lparr>db_bindings := db_bindings d @ [b]\<rparr>)"
      using that assms(1) by (auto simp: db_ok_def insert_binding_def intro: unique_index_append split: if_splits)
    then show ?thesis unfolding e by (rule global_service.bumped_ok)
  qed
qed

text \<open>Bindings and versions may change; versions only rise, and only in the tenant.\<close>

definition rebound :: "string \<Rightarrow> db \<Rightarrow> db \<Rightarrow> bool" where
  "rebound tn d e \<longleftrightarrow> (\<exists>bs az. e = d\<lparr>db_bindings := bs, db_authz_state := az\<rparr>) \<and> (db_ok d \<longrightarrow> db_ok e)
     \<and> (\<forall>tn' u. state_version d tn' u \<le> state_version e tn' u
          \<and> (tn' \<noteq> tn \<longrightarrow> state_version e tn' u = state_version d tn' u))"

lemma rebound_refl: "reflp (rebound tn)"
proof (rule reflpI)
  fix d :: db
  have "d = d\<lparr>db_bindings := db_bindings d, db_authz_state := db_authz_state d\<rparr>" by simp
  then show "rebound tn d d" unfolding rebound_def by blast
qed

lemma rebound_trans: "transp (rebound tn)"
proof (rule transpI)
  fix a b c assume ab: "rebound tn a b" and bc: "rebound tn b c"
  obtain b1 z1 b2 z2 where "b = a\<lparr>db_bindings := b1, db_authz_state := z1\<rparr>" "c = b\<lparr>db_bindings := b2, db_authz_state := z2\<rparr>"
    using ab bc unfolding rebound_def by blast
  then have "\<exists>bs az. c = a\<lparr>db_bindings := bs, db_authz_state := az\<rparr>" by auto
  moreover have "state_version a tn' u \<le> state_version c tn' u" for tn' u
    using ab bc unfolding rebound_def by (meson order_trans)
  ultimately show "rebound tn a c" using ab bc unfolding rebound_def by auto
qed

lemma state_bumped_bindings: "\<exists>az. state_bumped tn us now d = d\<lparr>db_authz_state := az\<rparr>"
  unfolding state_bumped_def fold_state_bump by blast

lemma rebound_insert:
  assumes "insert_binding clock b d = Inr e" and "tb_status b = ''CURRENT''" and "tb_tenant b = tn"
  shows "rebound tn d e"
proof -
  let ?d1 = "d\<lparr>db_bindings := db_bindings d @ [b]\<rparr>"
  note e = insert_binding_bumped(1) [OF assms(1,2)]
  have v: "state_version ?d1 tn' u = state_version d tn' u" for tn' u
    by (rule global_service.version_cong) simp_all
  have "\<exists>bs az. e = d\<lparr>db_bindings := bs, db_authz_state := az\<rparr>"
    using state_bumped_bindings [of "tb_tenant b" "template_users (tb_tenant b) (tb_role b) d" clock ?d1] e by auto
  moreover have "state_version d tn' u \<le> state_version e tn' u" for tn' u
    using global_service.bumped_mono [of ?d1 tn' u] v e by simp
  moreover have "tn' \<noteq> tn \<Longrightarrow> state_version e tn' u = state_version d tn' u" for tn' u
    using global_service.bumped_other [of tn' "tb_tenant b" u] v e assms(3) by simp
  ultimately show ?thesis using insert_binding_bumped(2) [OF assms(1,2)] unfolding rebound_def by blast
qed

lemma tracks_bind_template: "tracks (rebound (cl_tenant c)) (bind_template c now clock rl tpl)"
  unfolding bind_template_def by (rule tracks_insert) (erule rebound_insert; simp)

section \<open>Roles made from templates\<close>

lemma details_stays [stays_intros]: "no_commit (details tn rl)"
  unfolding details_def by (intro stays_intros reads_stay)

lemma find_template_stays [stays_intros]: "no_commit (find_template k)"
  unfolding find_template_def by (intro stays_intros) (auto simp: no_commit_def throwM_def returnM_def split: list.splits)

lemma find_template_run: "find_template k s = (Inl e, t) \<Longrightarrow> t = s" "find_template k s = (Inr x, t) \<Longrightarrow> t = s"
  by (auto simp: find_template_def bindM_def query_def throwM_def returnM_def split: list.splits prod.splits)

lemma find_templates_run: "snd (find_templates ks s) = s"
  by (induction ks) (auto simp: returnM_def bindM_def split: prod.splits sum.splits dest: find_template_run)

lemma ends_find_templates: "Q s \<Longrightarrow> (\<And>ts. ends (k ts) s Q) \<Longrightarrow> ends (bindM (find_templates ks) k) s Q"
  using find_templates_run [of ks s] by (auto simp: ends_bindM split: prod.splits sum.splits)

lemma ends_find_template: "Q s \<Longrightarrow> (\<And>tpl. ends (k tpl) s Q) \<Longrightarrow> ends (bindM (find_template n) k) s Q"
  by (auto simp: ends_bindM split: prod.splits sum.splits dest: find_template_run)

lemma ends_ensure_active: "Q s \<Longrightarrow> ends k s Q \<Longrightarrow> ends (seqM (ensure_active ks) k) s Q"
  unfolding ensure_active_def ensure_active_permissions_def [symmetric] by (rule ends_ensure)

lemma ends_last_audit:
  assumes "committed s = d" and "\<And>e. audited c now (working s) e \<Longrightarrow> accounted counts version c now d e"
  shows "ends (audit_and_commit c op ty rid now) s (\<lambda>t. committed t = d \<or> accounted counts version c now d (committed t))"
  unfolding ends_last [of "audit_and_commit c op ty rid now"]
proof (rule ends_audit)
  fix t :: "db session" assume "committed t = committed s"
  then show "committed t = d \<or> accounted counts version c now d (committed t)" using assms(1) by simp
next
  fix t :: "db session" assume "audited c now (working s) (committed t)"
  then show "ends (returnM ()) t (\<lambda>t. committed t = d \<or> accounted counts version c now d (committed t))"
    using assms(2) by (simp add: ends_basic)
qed

lemma refs_ok_bindings: "refs_ok (d\<lparr>db_bindings := bs, db_authz_state := az\<rparr>) = refs_ok d"
  by (simp add: refs_ok_def)

lemma regrants_bindings: "regrants tn P now d e \<Longrightarrow> regrants tn P now d (e\<lparr>db_bindings := bs, db_authz_state := az\<rparr>)"
  using granted_same [of e "e\<lparr>db_bindings := bs, db_authz_state := az\<rparr>"] by (simp add: regrants_def)

lemma accounts_create_role_from_templates:
  "gate_accounts c now (create_role_from_templates c now clock k n desc tks pks)"
proof (rule global_service.accountsI)
  fix s :: "db session" and d assume ok: "db_ok d" "refs_ok d" and s: "committed s = d" "working s = d"
  let ?tn = "cl_tenant c" and ?Q = "\<lambda>t. committed t = d \<or> gate_accounted c now d (committed t)"
  have fin: "ends (seqM (foreachM ts (bind_template c now clock (r_id r))) (audit_and_commit c op ty rid now)) t ?Q"
    if e: "insert_role r d = Inr e" and tn: "r_tenant r = ?tn" and t: "working t = e\<lparr>db_role_permissions := db_role_permissions e @ ps\<rparr>"
      and ps: "\<forall>p\<in>set ps. rp_tenant p = ?tn \<and> rp_role p = r_id r" and c: "committed t = d"
      and w: "db_ok e \<longrightarrow> db_ok (working t)" for r e ps ts t op ty rid
  proof (rule ends_tracks [where R = "rebound ?tn"])
    show "tracks (rebound ?tn) (foreachM ts (bind_template c now clock (r_id r)))"
      by (intro tracks_foreachM tracks_bind_template rebound_refl rebound_trans)
    show "?Q t'" if "committed t' = committed t" for t' :: "db session" using that c by simp
    fix u :: "db session" assume u: "committed u = committed t" and bound: "rebound ?tn (working t) (working u)"
    have same: "same_people d (working t)" "refs_ok (working t)" "db_ok (working t)"
      and g: "regrants ?tn (\<lambda>_. False) now d (working t)"
    proof -
      have d: "db_role_permissions e = db_role_permissions d" "r \<in> set (db_roles e)"
        using e by (auto simp: insert_role_def split: if_splits)
      show "same_people d (working t)" using inserts_same_people(6) [OF e] t by (simp add: same_people_def)
      show "refs_ok (working t)" using refs_new_rows(6) [OF ok(2) e] t ps d tn by (auto simp: refs_ok_def)
      show "db_ok (working t)" using w insert_keeps_ok(4) [OF ok(1) e] by simp
      show "regrants ?tn (\<lambda>_. False) now d (working t)"
        by (rule regrants_new_role [OF e ok(2)]) (use t ps d in auto)
    qed
    obtain bs az where z: "working u = (working t)\<lparr>db_bindings := bs, db_authz_state := az\<rparr>"
      using bound unfolding rebound_def by blast
    have v: "state_version d tn u' = state_version (working t) tn u'" for tn u'
      using same(1) by (intro global_service.version_cong) (simp_all add: same_people_def)
    show "ends (audit_and_commit c op ty rid now) u ?Q"
    proof (rule ends_last_audit)
      fix x assume x: "audited c now (working u) x"
      show "gate_accounted c now d x"
      proof (rule global_service.account_written [OF _ _ _ _ _ _ _ x])
        show "regrants ?tn (\<lambda>_. False) now d (working u)" unfolding z by (rule regrants_bindings [OF g])
        show "db_changes (working u) = db_changes d" "refs_ok (working u)"
          using same by (simp_all add: z refs_ok_bindings same_people_def)
      qed (use bound same(3) v in \<open>auto simp: rebound_def\<close>)
    qed (use u c in simp)
  qed
  have mid: "ends (seqM (foreachM ks (new_role_permission ?tn i now))
      (seqM (foreachM ts (bind_template c now clock i)) (audit_and_commit c op ty rid now))) s' ?Q"
    if e: "insert_role r d = Inr e" and tn: "r_tenant r = ?tn" and i: "r_id r = i" and s': "committed s' = d" "working s' = e"
    for r e i ks ts s' op ty rid
  proof (rule ends_new_permissions)
    show "?Q t" if "committed t = committed s'" for t :: "db session" using that s' by simp
    fix t :: "db session" and ps assume W: "working t = (working s')\<lparr>db_role_permissions := db_role_permissions (working s') @ ps\<rparr>"
      and P: "\<forall>p\<in>set ps. rp_tenant p = ?tn \<and> rp_role p = i" and C: "committed t = committed s'"
      and O: "db_ok (working s') \<longrightarrow> db_ok (working t)"
    show "ends (seqM (foreachM ts (bind_template c now clock i)) (audit_and_commit c op ty rid now)) t ?Q"
      by (rule fin [OF e tn W [unfolded s'(2)] P [folded i] C [unfolded s'(1)] O [unfolded s'(2)], unfolded i])
  qed
  show "ends (create_role_from_templates c now clock k n desc tks pks) s ?Q"
    unfolding create_role_from_templates_def Let_def
    by (auto simp: ends_steps s split: sum.split
        intro!: ends_find_templates ends_ensure_active stays_intros
          ends_guarded [where P = "\<lambda>e. e = d \<or> gate_accounted c now d e"]) (rule mid, assumption, simp_all add: s)
qed

section \<open>Upgrading a template\<close>

text \<open>Permissions may be added to one role.\<close>

definition widened :: "string \<Rightarrow> string \<Rightarrow> db \<Rightarrow> db \<Rightarrow> bool" where
  "widened tn rl d e \<longleftrightarrow> (\<exists>ps. e = d\<lparr>db_role_permissions := db_role_permissions d @ ps\<rparr>
     \<and> (\<forall>p\<in>set ps. rp_tenant p = tn \<and> rp_role p = rl)) \<and> (db_ok d \<longrightarrow> db_ok e)"

lemma widened_refl: "reflp (widened tn rl)"
proof (rule reflpI)
  fix d :: db
  have "d = d\<lparr>db_role_permissions := db_role_permissions d @ []\<rparr>" by simp
  then show "widened tn rl d d" unfolding widened_def by (metis empty_iff empty_set)
qed

lemma widened_trans: "transp (widened tn rl)"
proof (rule transpI)
  fix a b c assume ab: "widened tn rl a b" and bc: "widened tn rl b c"
  obtain ps qs where "b = a\<lparr>db_role_permissions := db_role_permissions a @ ps\<rparr>" "\<forall>p\<in>set ps. rp_tenant p = tn \<and> rp_role p = rl"
      "c = b\<lparr>db_role_permissions := db_role_permissions b @ qs\<rparr>" "\<forall>p\<in>set qs. rp_tenant p = tn \<and> rp_role p = rl"
    using ab bc unfolding widened_def by blast
  then have "\<exists>rs. c = a\<lparr>db_role_permissions := db_role_permissions a @ rs\<rparr> \<and> (\<forall>p\<in>set rs. rp_tenant p = tn \<and> rp_role p = rl)"
    by (intro exI [of _ "ps @ qs"]) auto
  then show "widened tn rl a c" using ab bc unfolding widened_def by blast
qed

lemma tracks_add_missing: "tracks (widened tn rl) (add_missing_permission tn rl now k)"
  unfolding add_missing_permission_def
proof (rule tracks_update)
  fix d :: db
  let ?p = "\<lparr>rp_tenant = tn, rp_role = rl, rp_permission = k, rp_assigned_at = now\<rparr>"
  show "widened tn rl d (if exists_row (is_role_permission tn rl k) (db_role_permissions d) then d
      else d\<lparr>db_role_permissions := db_role_permissions d @ [?p]\<rparr>)"
  proof (cases "exists_row (is_role_permission tn rl k) (db_role_permissions d)")
    case True
    then show ?thesis using widened_refl [of tn rl] by (simp add: reflp_def)
  next
    case False
    then have "index_free role_permission_key every_row ?p (db_role_permissions d)"
      by (auto simp: exists_row_iff is_role_permission_def index_free_def role_permission_key_def list_ex_iff)
    then have "db_ok d \<longrightarrow> db_ok (d\<lparr>db_role_permissions := db_role_permissions d @ [?p]\<rparr>)"
      by (auto simp: db_ok_def intro: unique_index_append)
    then show ?thesis using False unfolding widened_def by (auto intro!: exI [of _ "[?p]"])
  qed
qed

lemma tracks_supersede:
  "tracks (\<lambda>d e. (\<exists>bs. e = d\<lparr>db_bindings := bs\<rparr>) \<and> (db_ok d \<longrightarrow> db_ok e)) (supersede_bindings tn rl i now)"
  unfolding supersede_bindings_def
  by (rule tracks_update) (auto simp: db_ok_def calm_def intro!: calm_unique_index)

lemma template_users_cover:
  assumes "role_held d tn u rl now" and "active_principal_user u d"
  shows "u \<in> set (template_users tn rl d)"
  using assms unfolding template_users_def set_append Un_iff mem_query active_principal_user_iff role_held_def
  by (elim disjE; metis)

lemma regrants_widened: "widened tn rl d e \<Longrightarrow> regrants tn (\<lambda>u. role_held d tn u rl now) now d e"
  unfolding widened_def by (elim conjE exE, rule regrants_role) (auto simp: role_open_def permission_of_def)

lemma widened_rest:
  assumes "widened tn rl d e"
  shows "same_people d e" "template_users tn rl e = template_users tn rl d"
    "refs_ok d \<Longrightarrow> r \<in> set (db_roles d) \<Longrightarrow> r_tenant r = tn \<Longrightarrow> r_id r = rl \<Longrightarrow> refs_ok e"
proof -
  obtain ps where ps: "e = d\<lparr>db_role_permissions := db_role_permissions d @ ps\<rparr>" "\<forall>p\<in>set ps. rp_tenant p = tn \<and> rp_role p = rl"
    using assms unfolding widened_def by blast
  show "same_people d e" "template_users tn rl e = template_users tn rl d"
    by (simp_all add: ps(1) same_people_def template_users_def)
  show "refs_ok e" if "refs_ok d" "r \<in> set (db_roles d)" "r_tenant r = tn" "r_id r = rl"
    using that ps(2) unfolding refs_ok_def by (auto simp: ps(1))
qed

lemma bump_membership_run:
  "bump_membership_versions tn us now s = (Inr (), s\<lparr>working := membership_bumped tn us now (working s)\<rparr>)"
  using membership_service.bump_run [of tn us now s] by (simp add: TenantRbacAdminService_def)

lemma ends_membership_bump:
  "ends (seqM (bump_membership_versions tn us now) k) s Q = ends k (s\<lparr>working := membership_bumped tn us now (working s)\<rparr>) Q"
  by (simp add: ends_seqM bump_membership_run)

lemma membership_bumped_rest: "\<exists>ms. membership_bumped tn us now d = d\<lparr>db_memberships := ms\<rparr>"
proof -
  have "\<exists>ms. fold (membership_bump tn now) us d = d\<lparr>db_memberships := ms\<rparr>" for us d
  proof (induction us arbitrary: d)
    case Nil
    show ?case by (intro exI [of _ "db_memberships d"]) simp
  next
    case (Cons u us)
    from Cons.IH [of "membership_bump tn now u d"] show ?case by (auto simp: membership_bump_def)
  qed
  then show ?thesis by (simp add: membership_bumped_def)
qed

text \<open>From the permissions written to the audit record: what remains is bindings and versions.\<close>

lemma account_upgrade:
  assumes ok: "db_ok d" "refs_ok d" and r: "r \<in> set (db_roles d)" "r_tenant r = cl_tenant c" "r_id r = rl"
    and d1: "widened (cl_tenant c) rl d d1"
    and d2: "d2 = d1\<lparr>db_bindings := bs\<rparr>" "db_ok d2"
    and b: "insert_binding clock b d2 = Inr d3" "tb_tenant b = cl_tenant c" "tb_role b = rl" "tb_status b = ''CURRENT''"
    and aud: "audited c now (membership_bumped (cl_tenant c) us now d3) e"
  shows "gate_accounted c now d e"
proof -
  let ?tn = "cl_tenant c"
  let ?d2' = "d2\<lparr>db_bindings := db_bindings d2 @ [b]\<rparr>"
  have d3: "d3 = state_bumped ?tn (template_users ?tn rl d2) clock ?d2'" "db_ok d3"
    using insert_binding_bumped [OF b(1,4)] d2(2) b(2,3) by simp_all
  obtain ms where d4: "membership_bumped ?tn us now d3 = d3\<lparr>db_memberships := ms\<rparr>" using membership_bumped_rest by blast
  obtain az where d3': "d3 = ?d2'\<lparr>db_authz_state := az\<rparr>" using state_bumped_bindings d3(1) by metis
  have users: "template_users ?tn rl d2 = template_users ?tn rl d"
    using widened_rest(2) [OF d1] by (simp add: d2(1) template_users_def)
  have v0: "state_version d tn' u = state_version ?d2' tn' u" for tn' u
    using widened_rest(1) [OF d1] by (intro global_service.version_cong) (simp_all add: d2(1) same_people_def)
  have v: "state_version (membership_bumped ?tn us now d3) tn' u = state_version d3 tn' u" for tn' u
    by (simp add: d4 state_version_def)
  have g1: "regrants ?tn (\<lambda>u. role_held d ?tn u rl now) now d d1" by (rule regrants_widened [OF d1])
  show ?thesis
  proof (rule global_service.account_written [OF _ _ _ _ _ _ _ aud])
    have "granted d1 tn' u now rk k = granted (membership_bumped ?tn us now d3) tn' u now rk k" for tn' u rk k
      unfolding d4 by (rule granted_same) (simp_all add: d3' d2(1))
    then show "regrants ?tn (\<lambda>u. role_held d ?tn u rl now) now d (membership_bumped ?tn us now d3)"
      using g1 by (simp add: regrants_def)
    show "db_changes (membership_bumped ?tn us now d3) = db_changes d"
      using widened_rest(1) [OF d1] unfolding d4 by (simp add: d3' d2(1) same_people_def)
    show "db_ok (membership_bumped ?tn us now d3)" using membership_service.bumped_ok [OF d3(2)] by simp
    have "refs_ok d1" using widened_rest(3) [OF d1 ok(2) r] .
    then show "refs_ok (membership_bumped ?tn us now d3)" unfolding d4 by (simp add: d3' d2(1) refs_ok_def)
    fix u assume "role_held d ?tn u rl now" "global_counts ?tn u now d"
    then have "u \<in> set (template_users ?tn rl d2)" unfolding users by (intro template_users_cover) (simp_all add: global_counts_def)
    then show "state_version d ?tn u < state_version (membership_bumped ?tn us now d3) ?tn u"
      unfolding v unfolding d3(1) v0 by (simp add: state_bumped_version)
  next
    fix tn' u
    show "state_version d tn' u \<le> state_version (membership_bumped ?tn us now d3) tn' u"
      unfolding v unfolding d3(1) v0 by (rule bumped_mono)
    show "tn' \<noteq> ?tn \<Longrightarrow> state_version (membership_bumped ?tn us now d3) tn' u = state_version d tn' u"
      unfolding v unfolding d3(1) v0 by (simp add: state_bumped_other)
  qed
qed

lemma ends_query_role: "ends (bindM (get_role tn rl) m) s Q = ends (m (first_row (\<lambda>x. r_tenant x = tn \<and> r_id x = rl) (db_roles (working s)))) s Q"
  by (rule ends_reads)

lemma accounts_upgrade_template: "gate_accounts c now (upgrade_template c now clock rl k)"
proof (rule global_service.accountsI)
  fix s :: "db session" and d assume ok: "db_ok d" "refs_ok d" and s: "committed s = d" "working s = d"
  let ?tn = "cl_tenant c" and ?P = "\<lambda>e. e = d \<or> gate_accounted c now d e" and ?Q = "\<lambda>t. committed t = d \<or> gate_accounted c now d (committed t)"
  have bind: "ends (seqM (bind_template c now clock rl tpl) (seqM (bump_membership_versions ?tn us now) (audit_and_commit c op ty rid now))) t ?Q"
    if r: "r \<in> set (db_roles d)" "r_tenant r = ?tn" "r_id r = rl" and d1: "widened ?tn rl d d1"
      and t: "committed t = d" "working t = d1\<lparr>db_bindings := bs\<rparr>" "db_ok (working t)" for r d1 bs tpl us op ty rid t
  proof -
    have "ends (audit_and_commit c op ty rid now) v ?Q"
      if b: "insert_binding clock b (d1\<lparr>db_bindings := bs\<rparr>) = Inr e" "tb_tenant b = ?tn" "tb_role b = rl" "tb_status b = ''CURRENT''"
        and v: "committed v = d" "working v = membership_bumped ?tn us now e" for b e v
      using t(2,3) v by (intro ends_last_audit account_upgrade [OF ok r d1 refl _ b]) simp_all
    then show ?thesis
      unfolding bind_template_def by (simp add: ends_steps ends_membership_bump t split: sum.split)
  qed
  have main: "ends (seqM (foreachM ks (add_missing_permission ?tn rl now)) (seqM (supersede_bindings ?tn rl (at_id tpl) now)
      (seqM (bind_template c now clock rl tpl) (seqM (bump_membership_versions ?tn us now) (audit_and_commit c op ty rid now))))) s ?Q"
    if r: "r \<in> set (db_roles d)" "r_tenant r = ?tn" "r_id r = rl" for r ks tpl us op ty rid
  proof (rule ends_tracks [OF tracks_foreachM [OF tracks_add_missing widened_refl widened_trans]])
    show "?Q t" if "committed t = committed s" for t :: "db session" using that s by simp
    fix t :: "db session" assume t: "committed t = committed s" "widened ?tn rl (working s) (working t)"
    show "ends (seqM (supersede_bindings ?tn rl (at_id tpl) now) (seqM (bind_template c now clock rl tpl)
        (seqM (bump_membership_versions ?tn us now) (audit_and_commit c op ty rid now)))) t ?Q"
    proof (rule ends_tracks [OF tracks_supersede])
      show "?Q v" if "committed v = committed t" for v :: "db session" using that s t by simp
      fix v :: "db session" assume v: "committed v = committed t"
        and w: "(\<exists>bs. working v = working t\<lparr>db_bindings := bs\<rparr>) \<and> (db_ok (working t) \<longrightarrow> db_ok (working v))"
      obtain bs where bs: "working v = working t\<lparr>db_bindings := bs\<rparr>" using w by blast
      have "db_ok (working v)" using w t(2) ok s unfolding widened_def by simp
      then show "ends (seqM (bind_template c now clock rl tpl) (seqM (bump_membership_versions ?tn us now)
          (audit_and_commit c op ty rid now))) v ?Q"
        using v t s by (intro bind [OF r t(2) [unfolded s(2)] _ bs]) simp_all
    qed
  qed
  have guarded: "ends (bindM (get_role ?tn rl) (\<lambda>row. seqM (raise_if (row = None) (LookupError ''Role not found''))
      (seqM (foreachM ks (add_missing_permission ?tn rl now)) (seqM (supersede_bindings ?tn rl (at_id tpl) now)
      (seqM (bind_template c now clock rl tpl) (seqM (bump_membership_versions ?tn us now) (audit_and_commit c op ty rid now))))))) s
      (\<lambda>t. ?P (committed t))" for ks tpl us op ty rid
  proof (cases "first_row (\<lambda>x. r_tenant x = ?tn \<and> r_id x = rl) (db_roles d)")
    case None
    then show ?thesis by (simp add: ends_reads ends_raise s)
  next
    case (Some r)
    from first_row_SomeD [OF Some] have "r \<in> set (db_roles d)" "r_tenant r = ?tn" "r_id r = rl" by simp_all
    from main [OF this] show ?thesis using Some by (simp add: ends_reads ends_raise s)
  qed
  show "ends (upgrade_template c now clock rl k) s ?Q"
    unfolding upgrade_template_def Let_def
    by (auto simp: ends_query s intro!: ends_find_template ends_ensure_active stays_intros guarded ends_guarded [where P = ?P])
qed

end
