(* ===== verification/AdminRuns.thy ===== *)
theory AdminRuns
  imports AdminAccounting
begin

text \<open>
  What the routes of the tenant administration guarantee together: the gate in front of every
  one of them, the account each of them leaves, and runs of requests.
\<close>

section \<open>Every route is its gate and then its service\<close>

fun required_permission :: "admin_request \<Rightarrow> string" where
  "required_permission ListGroups = ''security.group.read''"
| "required_permission (CreateGroup _ _ _) = ''security.group.create''"
| "required_permission (GetGroup _) = ''security.group.read''"
| "required_permission (UpdateGroup _ _ _ _) = ''security.group.update''"
| "required_permission (AddGroupMember _ _) = ''security.group.assign''"
| "required_permission (RemoveGroupMember _ _) = ''security.group.assign''"
| "required_permission (AssignGroupRole _ _) = ''security.group.assign''"
| "required_permission (RemoveGroupRole _ _) = ''security.group.assign''"
| "required_permission ListRoles = ''security.role.read''"
| "required_permission (CreateRole _ _ _ _ _) = ''security.role.create''"
| "required_permission (GetRole _) = ''security.role.read''"
| "required_permission (UpdateRole _ _ _ _) = ''security.role.update''"
| "required_permission (AddRolePermission _ _) = ''security.role.update''"
| "required_permission (RemoveRolePermission _ _) = ''security.role.update''"
| "required_permission (AssignUserRole _ _) = ''security.role.assign''"
| "required_permission (RemoveUserRole _ _) = ''security.role.assign''"
| "required_permission (UpgradeRoleTemplate _ _) = ''security.role.update''"
| "required_permission ListPermissions = ''security.permission.read''"
| "required_permission ListTemplates = ''security.permission.read''"
| "required_permission (ListRequests _) = ''security.privileged_access.approve''"
| "required_permission (ApproveRequest _ _) = ''security.privileged_access.approve''"
| "required_permission (RejectRequest _ _) = ''security.privileged_access.approve''"

fun serve :: "web_call \<Rightarrow> admin_request \<Rightarrow> string \<Rightarrow> unit dbact" where
  "serve w ListGroups = (\<lambda>u. ignore (list_groups (wc_tenant w)))"
| "serve w (CreateGroup k n desc) = (\<lambda>u. ignore (raise_from conflict_on_value (create_group (call_of w u) (wc_now w) k n desc)))"
| "serve w (GetGroup g) = (\<lambda>u. ignore (bindM (get_group (wc_tenant w) g) (found_or_404 ''Group not found'')))"
| "serve w (UpdateGroup g n desc st) = (\<lambda>u. ignore (bindM (update_group TenantRbacGateService (call_of w u) (wc_now w) g n desc st)
     (found_or_404 ''Group not found'')))"
| "serve w (AddGroupMember g v) = (\<lambda>u. ignore (raise_from conflict_on_value (add_group_member TenantRbacGateService (call_of w u) (wc_now w) g v)))"
| "serve w (RemoveGroupMember g v) = (\<lambda>u. ignore (remove_group_member TenantRbacGateService (call_of w u) (wc_now w) g v))"
| "serve w (AssignGroupRole g rl) = (\<lambda>u. ignore (raise_from conflict_on_value (assign_group_role TenantRbacGateService (call_of w u) (wc_now w) g rl)))"
| "serve w (RemoveGroupRole g rl) = (\<lambda>u. ignore (remove_group_role TenantRbacGateService (call_of w u) (wc_now w) g rl))"
| "serve w ListRoles = (\<lambda>u. ignore (list_roles (wc_tenant w)))"
| "serve w (CreateRole k n desc ts ps) = (\<lambda>u. ignore (raise_from conflict_on_value
     (create_role_from_templates (call_of w u) (wc_now w) (wc_clock w) k n desc ts ps)))"
| "serve w (GetRole rl) = (\<lambda>u. ignore (raise_from missing_on_lookup (details (wc_tenant w) rl)))"
| "serve w (UpdateRole rl n desc st) = (\<lambda>u. ignore (bindM (update_role TenantRbacGateService (call_of w u) (wc_now w) rl n desc st)
     (\<lambda>row. seqM (found_or_404 ''Role not found'' row) (details (wc_tenant w) rl))))"
| "serve w (AddRolePermission rl k) = (\<lambda>u. ignore (raise_from conflict_on_value (add_role_permission TenantRbacGateService (call_of w u) (wc_now w) rl k)))"
| "serve w (RemoveRolePermission rl k) = (\<lambda>u. ignore (remove_role_permission TenantRbacGateService (call_of w u) (wc_now w) rl k))"
| "serve w (AssignUserRole v rl) = (\<lambda>u. ignore (raise_from conflict_on_value (gate_assign_user_role (call_of w u) (wc_now w) v rl)))"
| "serve w (RemoveUserRole v rl) = (\<lambda>u. ignore (remove_user_role TenantRbacGateService (call_of w u) (wc_now w) v rl))"
| "serve w (UpgradeRoleTemplate rl k) = (\<lambda>u. ignore (raise_from conflict_on_both (upgrade_template (call_of w u) (wc_now w) (wc_clock w) rl k)))"
| "serve w ListPermissions = (\<lambda>u. ignore list_permissions)"
| "serve w ListTemplates = (\<lambda>u. ignore list_templates)"
| "serve w (ListRequests st) = (\<lambda>u. ignore (list_requests (wc_tenant w) st))"
| "serve w (ApproveRequest q reason) = (\<lambda>u. ignore (raise_from missing_or_conflict (approve (call_of w u) (wc_now w) q reason)))"
| "serve w (RejectRequest q reason) = (\<lambda>u. ignore (raise_from missing_or_conflict (reject (call_of w u) (wc_now w) q reason)))"

lemma bindM_assoc: "bindM (bindM m f) g = bindM m (\<lambda>x. bindM (f x) g)"
  by (rule ext) (simp add: bindM_def split: prod.split sum.split)

lemma handle_gate: "handle w r = bindM (admin_user w (required_permission r)) (serve w r)"
  by (cases r) (simp_all add: ignore_def seqM_def bindM_assoc list_groups_route_def create_group_route_def get_group_route_def
      update_group_route_def add_group_member_route_def remove_group_member_route_def assign_group_role_route_def
      remove_group_role_route_def list_roles_route_def create_role_route_def get_role_route_def update_role_route_def
      add_role_permission_route_def remove_role_permission_route_def assign_user_role_route_def remove_user_role_route_def
      upgrade_role_template_route_def list_permissions_route_def list_templates_route_def list_requests_route_def
      approve_route_def reject_route_def)

section \<open>The gate\<close>

definition tenant_open :: "string \<Rightarrow> db \<Rightarrow> bool" where
  "tenant_open tn d \<longleftrightarrow> (\<exists>t\<in>set (db_tenants d). t_id t = tn \<and> t_status t = ''ACTIVE'')"

lemma user_state_first:
  assumes "db_ok d" and "t \<in> set (db_tenants d)" "t_id t = tn" "x \<in> set (db_users d)" "u_id x = u"
    "p \<in> set (db_principals d)" "sp_id p = u"
  shows "first_of (user_state_rows tn u d) = Some (t, x, p)"
proof -
  have all: "row = (t, x, p)" if "row \<in> set (user_state_rows tn u d)" for row
  proof -
    obtain t' x' p' where row: "row = (t', x', p')" by (cases row)
    have "x' \<in> set (db_users d)" "p' \<in> set (db_principals d)" "t' \<in> set (db_tenants d)" "sp_id p' = u" "u_id x' = u" "t_id t' = tn"
      using that by (auto simp: user_state_rows_def row split: if_splits)
    moreover have "t' = t" using calculation assms(1-3)
      by (intro unique_index_eq [where key = t_id and live = every_row]) (auto simp: db_ok_def)
    moreover have "x' = x" using calculation assms
      by (intro unique_index_eq [where key = u_id and live = every_row]) (auto simp: db_ok_def)
    moreover have "p' = p" using calculation assms
      by (intro unique_index_eq [where key = sp_id and live = every_row]) (auto simp: db_ok_def)
    ultimately show ?thesis using row by simp
  qed
  have "(t, x, p) \<in> set (user_state_rows tn u d)" using assms by (auto simp: user_state_rows_def)
  then obtain row where "first_of (user_state_rows tn u d) = Some row" by (cases "user_state_rows tn u d") auto
  then show ?thesis using all first_of_SomeD by metis
qed

lemma authorize_user_still: "snd (authorize_user tn u k now s) = s"
  by (auto simp: authorize_user_def group_aware_user_permissions_def run_simps bindM_def seqM_def query_def throwM_def
      raise_if_def returnM_def liftM_def split: option.split prod.split sum.split)

lemma active_state:
  assumes "db_ok d"
  shows "tenant_open tn d \<and> active_principal_user u d \<longleftrightarrow>
    (\<exists>t x p. first_of (user_state_rows tn u d) = Some (t, x, p) \<and> t_status t = ''ACTIVE'' \<and> sp_status p = ''ACTIVE''
       \<and> u_status x = ''ACTIVE'')"
proof
  assume "tenant_open tn d \<and> active_principal_user u d"
  then obtain t x p where "t \<in> set (db_tenants d)" "t_id t = tn" "t_status t = ''ACTIVE''" "x \<in> set (db_users d)" "u_id x = u"
      "u_status x = ''ACTIVE''" "p \<in> set (db_principals d)" "sp_id p = u" "sp_status p = ''ACTIVE''"
    unfolding tenant_open_def active_principal_user_iff by blast
  then show "\<exists>t x p. first_of (user_state_rows tn u d) = Some (t, x, p) \<and> t_status t = ''ACTIVE''
      \<and> sp_status p = ''ACTIVE'' \<and> u_status x = ''ACTIVE''"
    using user_state_first [OF assms] by metis
next
  assume "\<exists>t x p. first_of (user_state_rows tn u d) = Some (t, x, p) \<and> t_status t = ''ACTIVE''
      \<and> sp_status p = ''ACTIVE'' \<and> u_status x = ''ACTIVE''"
  then obtain t x p where "(t, x, p) \<in> set (user_state_rows tn u d)" "t_status t = ''ACTIVE''" "sp_status p = ''ACTIVE''"
      "u_status x = ''ACTIVE''"
    using first_of_SomeD by metis
  then show "tenant_open tn d \<and> active_principal_user u d"
    by (auto simp: user_state_rows_def tenant_open_def active_principal_user_iff split: if_splits)
qed

lemma authorize_user_Inr_iff:
  "authorize_user tn u k now s = (Inr (roles, perms), t) \<longleftrightarrow> t = s \<and> k \<in> set perms
     \<and> effective_user_permissions (working s) tn u now = Inr (roles, perms)
     \<and> (\<exists>tr x p. first_of (user_state_rows tn u (working s)) = Some (tr, x, p) \<and> t_status tr = ''ACTIVE''
          \<and> sp_status p = ''ACTIVE'' \<and> u_status x = ''ACTIVE'')"
  by (auto simp: authorize_user_def group_aware_user_permissions_def success_simps split: option.splits prod.splits)

lemma effective_user_permissions_iff:
  "effective_user_permissions d tn u now = Inr (roles, perms) \<longleftrightarrow> (\<exists>rk k. granted d tn u now rk k)
     \<and> roles = sorted_list_of_set {rk. \<exists>k. granted d tn u now rk k} \<and> perms = sorted_list_of_set {k. \<exists>rk. granted d tn u now rk k}"
proof -
  have "set (map fst (effective_grants d tn u now)) = {rk. \<exists>k. granted d tn u now rk k}"
    "set (map snd (effective_grants d tn u now)) = {k. \<exists>rk. granted d tn u now rk k}"
    unfolding set_map set_effective_grants by force+
  then show ?thesis
    unfolding effective_user_permissions_Inr_iff by (metis sorted_list_of_set_sort_remdups sorted_set_def)
qed

lemma finite_granted: "finite {k. \<exists>rk. granted d tn u now rk k}"
proof -
  have "{k. \<exists>rk. granted d tn u now rk k} = snd ` set (effective_grants d tn u now)"
    unfolding set_effective_grants by force
  then show ?thesis by simp
qed

text \<open>
  C15: the gate in front of the administration lets a user pass exactly when the tenant, the
  user and the principal are active and the permission is granted to the user in the tenant; it
  then returns everything granted, and whatever it answers it changes nothing.
\<close>

theorem authorize_user_exact:
  assumes "db_ok (working s)"
  shows "(authorize_user tn u k now s = (Inr (roles, perms), t) \<longleftrightarrow>
           t = s \<and> tenant_open tn (working s) \<and> active_principal_user u (working s) \<and> (\<exists>rk. granted (working s) tn u now rk k)
           \<and> roles = sorted_list_of_set {rk. \<exists>k. granted (working s) tn u now rk k}
           \<and> perms = sorted_list_of_set {k. \<exists>rk. granted (working s) tn u now rk k})
         \<and> snd (authorize_user tn u k now s) = s"
proof -
  have k: "(k \<in> set (sorted_list_of_set {k. \<exists>rk. granted (working s) tn u now rk k})) = (\<exists>rk. granted (working s) tn u now rk k)"
    using finite_granted by simp
  show ?thesis
    using k active_state [OF assms, of tn u] authorize_user_still [of tn u k now s]
    unfolding authorize_user_Inr_iff effective_user_permissions_iff by blast
qed

section \<open>Accounts of the routes\<close>

lemma accounts_no_commit: "no_commit m \<Longrightarrow> accounts counts version c now m"
  unfolding accounts_def by (auto intro: ends_no_commit)

lemma accounts_bind:
  assumes "accounts counts version c now m" and "\<And>x. no_commit (f x)"
  shows "accounts counts version c now (bindM m f)"
  unfolding accounts_def
proof (intro allI impI)
  fix s :: "db session" assume ok: "db_ok (committed s)" "refs_ok (committed s)" "working s = committed s"
  have f: "committed (snd (f x t)) = committed t" for x t using assms(2) by (simp add: no_commit_def)
  show "ends (bindM m f) s (\<lambda>t. committed t = committed s \<or> accounted counts version c now (committed s) (committed t))"
    using assms(1) ok f unfolding accounts_def by (auto simp: ends_def bindM_def split: prod.split sum.split)
qed

lemma accounts_ignore: "accounts counts version c now m \<Longrightarrow> accounts counts version c now (ignore m)"
  unfolding ignore_def seqM_def by (intro accounts_bind) (auto intro: stays_intros)

lemma accounts_raise_from: "accounts counts version c now m \<Longrightarrow> accounts counts version c now (raise_from f m)"
  unfolding accounts_def ends_def by (auto simp: raise_from_def split: prod.split sum.split)

lemma lists_stay [stays_intros]:
  "no_commit (list_groups tn)" "no_commit (list_roles tn)" "no_commit list_permissions" "no_commit list_templates"
  "no_commit (list_requests tn st)" "no_commit (found_or_404 n x)"
  unfolding list_groups_def list_roles_def list_permissions_def list_templates_def list_requests_def found_or_404_def
  by (intro stays_intros)+

lemma serve_accounts: "gate_accounts (call_of w u) (wc_now w) (serve w r u)"
  by (cases r) (auto intro: accounts_no_commit stays_intros reads_stay intro!: accounts_ignore accounts_raise_from accounts_bind
      accounts_create_role_from_templates accounts_upgrade_template accounts_gate_assign_user_role accounts_approve accounts_reject
      global_service.accounts_create_group global_service.accounts_update_group global_service.accounts_add_group_member
      global_service.accounts_remove_group_member global_service.accounts_assign_group_role
      global_service.accounts_remove_group_role global_service.accounts_update_role global_service.accounts_add_role_permission
      global_service.accounts_remove_role_permission global_service.accounts_remove_user_role)

lemma admin_user_Inr:
  assumes "admin_user w k s = (Inr u, t)"
  shows "t = s \<and> (\<exists>x. authorize_user (wc_tenant w) u k (wc_gate_time w) s = (Inr x, s))
    \<and> (\<exists>i. wc_identity w = Inr i \<and> (\<exists>y. resolve_identity_user (id_provider i) (id_provider_subject i) s = (Inr u, y)))"
proof -
  obtain i where i: "wc_identity w = Inr i" and r: "\<exists>s1 x. resolve_identity_user (id_provider i) (id_provider_subject i) s = (Inr u, s1)
      \<and> authorize_user (wc_tenant w) u k (wc_gate_time w) s1 = (Inr x, t)"
    using assms by (auto simp: admin_user_def success_simps)
  then obtain s1 x where r: "resolve_identity_user (id_provider i) (id_provider_subject i) s = (Inr u, s1)"
      "authorize_user (wc_tenant w) u k (wc_gate_time w) s1 = (Inr x, t)" by blast
  have "s1 = s" using r(1) unfolding resolve_identity_user_Inr by simp
  moreover have "t = s1" using authorize_user_still [of "wc_tenant w" u k "wc_gate_time w" s1] r(2) by simp
  ultimately show ?thesis using r i by blast
qed

lemma admin_user_still: "no_commit (admin_user w k)"
  unfolding admin_user_def by (intro stays_intros repo_stays) (auto simp: no_commit_def authorize_user_still)

text \<open>What a request that changed something went through.\<close>

lemma handle_cases:
  assumes "db_ok d" "refs_ok d"
  obtains (unchanged) "committed (snd (handle w r (fresh_session d us))) = d"
  | (served) u x where "authorize_user (wc_tenant w) u (required_permission r) (wc_gate_time w) (fresh_session d us) = (Inr x, fresh_session d us)"
      "admin_user w (required_permission r) (fresh_session d us) = (Inr u, fresh_session d us)"
      "handle w r (fresh_session d us) = serve w r u (fresh_session d us)"
      "gate_accounted (call_of w u) (wc_now w) d (committed (snd (handle w r (fresh_session d us))))"
proof (cases "admin_user w (required_permission r) (fresh_session d us)")
  case (Pair z t)
  show ?thesis
  proof (cases z)
    case (Inl e)
    have "committed t = d" using admin_user_still [of w "required_permission r"] Pair
      unfolding no_commit_def by (metis fresh_session_def session.select_convs(1) snd_conv)
    then show ?thesis using Pair Inl by (intro unchanged) (simp add: handle_gate bindM_def)
  next
    case (Inr u)
    note g = admin_user_Inr [OF Pair [unfolded Inr]]
    then have h: "handle w r (fresh_session d us) = serve w r u (fresh_session d us)"
      using Pair Inr by (simp add: handle_gate bindM_def)
    have "committed (snd (serve w r u (fresh_session d us))) = d
        \<or> gate_accounted (call_of w u) (wc_now w) d (committed (snd (serve w r u (fresh_session d us))))"
      using serve_accounts [of w u r, unfolded accounts_def ends_def, THEN spec [of _ "fresh_session d us"]] assms
      by (simp add: fresh_session_def)
    then show ?thesis using unchanged served g Pair Inr h by metis
  qed
qed


end
