(* ===== verification/MakerChecker.thy ===== *)
theory MakerChecker
  imports AdminRuns
begin

text \<open>
  The maker-checker of privileged roles: what a request of the administration can do to the
  assignments of privileged roles and to the requests for them, in one step and over runs.
\<close>

section \<open>One step\<close>

definition privileged_role :: "db \<Rightarrow> string \<Rightarrow> string \<Rightarrow> bool" where
  "privileged_role d tn rl \<longleftrightarrow>
     (\<exists>r\<in>set (db_roles d). r_tenant r = tn \<and> r_id r = rl \<and> r_key r \<in> set PRIVILEGED_TENANT_ROLE_KEYS)"

text \<open>An approved request for the assignment, decided by neither the requester nor the subject.\<close>

definition approved_for :: "db \<Rightarrow> user_role \<Rightarrow> bool" where
  "approved_for d a \<longleftrightarrow>
     (\<exists>q\<in>set (db_requests d). pa_tenant q = ura_tenant a \<and> pa_subject q = ura_user a \<and> pa_role q = ura_role a
        \<and> pa_status q = ''APPROVED''
        \<and> (\<exists>by. pa_approved_by q = Some by \<and> by \<noteq> pa_requested_by q \<and> by \<noteq> pa_subject q))"

definition decided_by :: "string \<Rightarrow> string \<Rightarrow> int \<Rightarrow> privileged_request \<Rightarrow> privileged_request \<Rightarrow> bool" where
  "decided_by tn u now q q' \<longleftrightarrow>
     pa_status q = ''PENDING'' \<and> pa_tenant q = tn \<and> pa_requested_by q \<noteq> u \<and> pa_subject q \<noteq> u
     \<and> (\<exists>st\<in>{''APPROVED'', ''REJECTED''}. \<exists>reason.
          q' = q\<lparr>pa_status := st, pa_approved_by := Some u, pa_decided_at := Some now, pa_reason := reason\<rparr>)"

definition new_request_by :: "string \<Rightarrow> string \<Rightarrow> privileged_request \<Rightarrow> bool" where
  "new_request_by tn u q \<longleftrightarrow> pa_status q = ''PENDING'' \<and> pa_tenant q = tn \<and> pa_requested_by q = u"

text \<open>The table of requests: nothing, one new request, or one decision.\<close>

definition requests_step :: "string \<Rightarrow> string \<Rightarrow> int \<Rightarrow> privileged_request list \<Rightarrow> privileged_request list \<Rightarrow> bool" where
  "requests_step tn u now rows rows' \<longleftrightarrow> rows' = rows
     \<or> (\<exists>q. new_request_by tn u q \<and> rows' = rows @ [q])
     \<or> (\<exists>q\<in>set rows. \<exists>q'. decided_by tn u now q q' \<and> rows' = update_rows (\<lambda>x. x = q) (\<lambda>_. q') rows)"

definition maker_checker_step :: "string \<Rightarrow> string \<Rightarrow> int \<Rightarrow> db \<Rightarrow> db \<Rightarrow> bool" where
  "maker_checker_step tn u now d e \<longleftrightarrow>
     (\<forall>a\<in>set (db_user_roles e). ura_status a = ''ACTIVE'' \<longrightarrow>
        a \<in> set (db_user_roles d) \<or> \<not> privileged_role d (ura_tenant a) (ura_role a) \<or> approved_for e a)
     \<and> (\<forall>tn' rl. privileged_role e tn' rl \<longrightarrow> privileged_role d tn' rl)
     \<and> requests_step tn u now (db_requests d) (db_requests e)"

section \<open>Writes that leave privileged access alone\<close>

definition calm_writes :: "db \<Rightarrow> db \<Rightarrow> bool" where
  "calm_writes d e \<longleftrightarrow>
     (\<forall>a\<in>set (db_user_roles e). ura_status a = ''ACTIVE'' \<longrightarrow>
        a \<in> set (db_user_roles d) \<or> \<not> privileged_role d (ura_tenant a) (ura_role a))
     \<and> (\<forall>tn rl. privileged_role e tn rl \<longrightarrow> privileged_role d tn rl) \<and> db_requests e = db_requests d"

lemma calm_writes_refl: "calm_writes d d"
  by (simp add: calm_writes_def)

lemma calm_writes_step: "calm_writes d e \<Longrightarrow> maker_checker_step tn u now d e"
  unfolding calm_writes_def maker_checker_step_def requests_step_def by auto

lemma calm_fields:
  "calm_writes d (e\<lparr>db_group_members := x1\<rparr>) = calm_writes d e" "calm_writes d (e\<lparr>db_group_roles := x2\<rparr>) = calm_writes d e"
  "calm_writes d (e\<lparr>db_role_permissions := x3\<rparr>) = calm_writes d e" "calm_writes d (e\<lparr>db_authz_state := x4\<rparr>) = calm_writes d e"
  "calm_writes d (e\<lparr>db_memberships := x5\<rparr>) = calm_writes d e" "calm_writes d (e\<lparr>db_bindings := x6\<rparr>) = calm_writes d e"
  "calm_writes d (e\<lparr>db_changes := x7\<rparr>) = calm_writes d e"
  "calm_writes d (e\<lparr>db_groups := x8\<rparr>) = calm_writes d e"
  by (simp_all add: calm_writes_def privileged_role_def)

lemma calm_inserts:
  "calm_writes d e \<Longrightarrow> insert_group g e = Inr e' \<Longrightarrow> calm_writes d e'"
  "calm_writes d e \<Longrightarrow> update_group_rows p f e = Inr e' \<Longrightarrow> calm_writes d e'"
  "calm_writes d e \<Longrightarrow> insert_group_member m e = Inr e' \<Longrightarrow> calm_writes d e'"
  "calm_writes d e \<Longrightarrow> insert_group_role gr e = Inr e' \<Longrightarrow> calm_writes d e'"
  "calm_writes d e \<Longrightarrow> insert_role_permission rp e = Inr e' \<Longrightarrow> calm_writes d e'"
  "calm_writes d e \<Longrightarrow> insert_change ch e = Inr e' \<Longrightarrow> calm_writes d e'"
  "calm_writes d e \<Longrightarrow> insert_binding clock b e = Inr e' \<Longrightarrow> calm_writes d e'"
  by (auto simp: insert_group_def update_group_rows_def insert_group_member_def insert_group_role_def insert_role_permission_def
      insert_change_def insert_binding_def bump_template_authz_state_def Let_def calm_fields split: if_splits)

lemma calm_insert_role:
  assumes "calm_writes d e" "insert_role r e = Inr e'" "r_key r \<notin> set PRIVILEGED_TENANT_ROLE_KEYS"
  shows "calm_writes d e'"
proof -
  have e': "e' = e\<lparr>db_roles := db_roles e @ [r]\<rparr>" using assms(2) by (simp add: insert_role_def split: if_splits)
  have "privileged_role e' tn rl = privileged_role e tn rl" for tn rl using assms(3) by (auto simp: e' privileged_role_def)
  then show ?thesis using assms(1) unfolding calm_writes_def by (simp add: e')
qed

lemma privileged_update_role:
  assumes "update_role_rows p f e = Inr e'" "\<And>r. r_tenant (f r) = r_tenant r \<and> r_id (f r) = r_id r \<and> r_key (f r) = r_key r"
  shows "privileged_role e' tn rl = privileged_role e tn rl"
proof -
  have "e' = e\<lparr>db_roles := update_rows p f (db_roles e)\<rparr>" using assms(1) by (simp add: update_role_rows_def split: if_splits)
  then show ?thesis unfolding privileged_role_def
    by simp (rule bex_update_rows_same, simp add: assms(2))
qed

lemma calm_update_role:
  assumes "calm_writes d e" "update_role_rows p f e = Inr e'"
    "\<And>r. r_tenant (f r) = r_tenant r \<and> r_id (f r) = r_id r \<and> r_key (f r) = r_key r"
  shows "calm_writes d e'"
proof -
  have "db_user_roles e' = db_user_roles e" "db_requests e' = db_requests e"
    using assms(2) by (auto simp: update_role_rows_def split: if_splits)
  then show ?thesis using assms(1) privileged_update_role [OF assms(2,3)] unfolding calm_writes_def by simp
qed

lemma calm_insert_user_role:
  assumes "calm_writes d e" "insert_user_role a e = Inr e'" "\<not> privileged_role d (ura_tenant a) (ura_role a)"
  shows "calm_writes d e'"
proof -
  have e': "e' = e\<lparr>db_user_roles := db_user_roles e @ [a]\<rparr>" using assms(2) by (simp add: insert_user_role_def split: if_splits)
  have "privileged_role e' tn rl = privileged_role e tn rl" for tn rl by (simp add: e' privileged_role_def)
  then show ?thesis using assms(1,3) unfolding calm_writes_def by (auto simp: e')
qed

lemma calm_end_user_role:
  assumes "calm_writes d e" "\<And>a. ura_status (f a) \<noteq> ''ACTIVE''"
  shows "calm_writes d (e\<lparr>db_user_roles := update_rows p f (db_user_roles e)\<rparr>)"
proof -
  have "privileged_role (e\<lparr>db_user_roles := x\<rparr>) tn rl = privileged_role e tn rl" for x tn rl by (simp add: privileged_role_def)
  then show ?thesis using assms unfolding calm_writes_def by (auto simp: set_update_rows)
qed

section \<open>Operations that leave privileged access alone\<close>

lemmas calm_rules = keeps_intros calm_inserts calm_insert_role calm_insert_user_role calm_end_user_role

lemma calm_bump: "keeps (calm_writes d) (bump_versions TenantRbacGateService tn us now)"
  unfolding TenantRbacGateService_def rbac_hooks.simps bump_state_versions_def bump_state_def
  by (intro keeps_intros) (simp add: calm_fields)

lemma calm_hook_reads:
  "keeps J (active_membership TenantRbacGateService tn u now)" "keeps J (effective_group_users TenantRbacGateService tn g now)"
  "keeps J (effective_role_users TenantRbacGateService tn rl now)"
  by (auto simp: TenantRbacGateService_def global_active_membership_def global_group_users_def global_role_users_def intro: keeps_intros)

lemma calm_audit: "keeps (calm_writes d) (audit_and_commit c op ty rid now)"
  unfolding audit_and_commit_def audit_def by (intro keeps_intros) (rule calm_inserts(6))

lemma calm_reads:
  "keeps J (get_group tn g)" "keeps J (get_role tn rl)" "keeps J (active_group tn g)" "keeps J (active_role tn rl)"
  "keeps J (has_user_role tn u rl)" "keeps J (ensure_active_permission k)" "keeps J (ensure_active_permissions ks)" "keeps J (ensure_active ks)"
  unfolding get_group_def get_role_def active_group_def active_role_def has_user_role_def ensure_active_permission_def
    ensure_active_permissions_def ensure_active_def
  by (intro keeps_intros)+

lemma calm_write_if_hit: "(\<And>e. calm_writes d e \<Longrightarrow> calm_writes d (f e)) \<Longrightarrow> keeps (calm_writes d) (write_if_hit hit f)"
  unfolding write_if_hit_def by (intro keeps_intros)

lemmas calm_steps = calm_bump calm_hook_reads calm_audit calm_reads calm_write_if_hit

lemma calm_groups:
  "keeps (calm_writes d) (create_group c now k n desc)"
  "keeps (calm_writes d) (update_group TenantRbacGateService c now g n' desc' st)"
  "keeps (calm_writes d) (add_group_member TenantRbacGateService c now g u)"
  "keeps (calm_writes d) (remove_group_member TenantRbacGateService c now g u)"
  "keeps (calm_writes d) (assign_group_role TenantRbacGateService c now g rl)"
  "keeps (calm_writes d) (remove_group_role TenantRbacGateService c now g rl)"
  unfolding create_group_def update_group_def add_group_member_def remove_group_member_def assign_group_role_def remove_group_role_def
  by (intro keeps_intros calm_steps; auto simp: calm_fields intro: calm_inserts)+

lemma calm_role_permission: "keeps (calm_writes d) (new_role_permission tn rl now k)"
  unfolding new_role_permission_def by (intro keeps_intros) (rule calm_inserts(5))

lemma calm_roles:
  "keeps (calm_writes d) (update_role TenantRbacGateService c now rl n desc st)"
  "keeps (calm_writes d) (add_role_permission TenantRbacGateService c now rl k)"
  "keeps (calm_writes d) (remove_role_permission TenantRbacGateService c now rl k)"
  "keeps (calm_writes d) (remove_user_role TenantRbacGateService c now u rl)"
  unfolding update_role_def add_role_permission_def remove_role_permission_def remove_user_role_def
  by (intro keeps_intros calm_steps calm_role_permission; auto simp: calm_fields intro: calm_update_role calm_end_user_role)+

lemma calm_assign_user_role:
  assumes "\<not> privileged_role d (cl_tenant c) rl"
  shows "keeps (calm_writes d) (assign_user_role TenantRbacGateService c now u rl)"
  unfolding assign_user_role_def new_user_role_def
  by (intro keeps_intros calm_steps) (erule calm_insert_user_role, assumption, simp add: assms)

lemma privileged_keys_reserved: "\<not> reserved_role_key k \<Longrightarrow> k \<notin> set PRIVILEGED_TENANT_ROLE_KEYS"
  by (auto simp: PRIVILEGED_TENANT_ROLE_KEYS_def reserved_role_key_def starts_with_iff)

lemma keeps_guard: "(\<not> b \<Longrightarrow> keeps J k) \<Longrightarrow> keeps J (seqM (raise_if b e) k)"
  by (cases b) (simp_all add: keeps_def seqM_def bindM_def run_raise_if)

lemma keeps_find_templates: "keeps J (find_template k)" "keeps J (find_templates ks)"
proof -
  show "keeps J (find_template k)"
    unfolding find_template_def by (intro keeps_intros) (auto simp: keeps_def throwM_def returnM_def split: list.splits)
  show "keeps J (find_templates ks)" using find_templates_run [of ks] by (simp add: keeps_def)
qed

lemma keeps_details: "keeps J (details tn rl)"
  unfolding details_def by (intro keeps_intros calm_reads)

lemma calm_bind_template: "keeps (calm_writes d) (bind_template c now clock rl tpl)"
  unfolding bind_template_def by (intro keeps_intros) (rule calm_inserts(7))

lemma calm_template_roles:
  "keeps (calm_writes d) (create_role_from_templates c now clock k n desc tks pks)"
  "keeps (calm_writes d) (upgrade_template c now clock rl tk)"
  unfolding create_role_from_templates_def upgrade_template_def Let_def
   apply (intro keeps_guard keeps_bindM keeps_find_templates keeps_seqM keeps_rollback_on_error keeps_uuid4 keeps_execute
      keeps_foreachM calm_steps calm_role_permission calm_bind_template keeps_details)
   apply (erule calm_insert_role, assumption, simp add: privileged_keys_reserved)
  unfolding add_missing_permission_def supersede_bindings_def bump_membership_versions_def bump_membership_def
  by (intro keeps_guard keeps_bindM keeps_find_templates keeps_seqM keeps_rollback_on_error keeps_query keeps_update
      keeps_foreachM calm_steps calm_bind_template keeps_details; simp add: calm_fields)

section \<open>Decisions\<close>

lemma maker_checker_changes: "maker_checker_step tn u now d (e\<lparr>db_changes := x\<rparr>) = maker_checker_step tn u now d e"
  by (simp add: maker_checker_step_def privileged_role_def approved_for_def)

lemma maker_checker_refl: "maker_checker_step tn u now d d"
  by (rule calm_writes_step) (rule calm_writes_refl)

lemma ends_audited_step:
  assumes "committed s = d" and "maker_checker_step tn u now d (working s)" and "no_commit k"
  shows "ends (seqM (audit_and_commit c op ty rid now) k) s (\<lambda>t. maker_checker_step tn u now d (committed t))"
proof (rule ends_audit)
  show "maker_checker_step tn u now d (committed t)" if "committed t = committed s" for t :: "db session"
    using that assms(1) by (simp add: maker_checker_refl)
  fix t :: "db session" assume "audited c now (working s) (committed t)"
  then obtain rows where "committed t = (working s)\<lparr>db_changes := rows\<rparr>" using audited_frame by blast
  then show "ends k t (\<lambda>t. maker_checker_step tn u now d (committed t))"
    using assms(2,3) by (intro ends_no_commit) (simp_all add: maker_checker_changes)
qed

definition decision :: "string \<Rightarrow> string \<Rightarrow> int \<Rightarrow> string option \<Rightarrow> privileged_request \<Rightarrow> privileged_request" where
  "decision st u now reason r = r\<lparr>pa_status := st, pa_approved_by := Some u, pa_decided_at := Some now, pa_reason := reason\<rparr>"

lemma decided_requests:
  assumes ok: "db_ok d" and r: "r \<in> set (db_requests d)" "pa_tenant r = tn" "pa_id r = q"
    and free: "pa_status r = ''PENDING''" "pa_requested_by r \<noteq> u" "pa_subject r \<noteq> u" and st: "st \<in> {''APPROVED'', ''REJECTED''}"
    and rows: "rows = update_rows (\<lambda>x. pa_tenant x = tn \<and> pa_id x = q) (decision st u now reason) (db_requests d)"
  shows "decision st u now reason r \<in> set rows" and "requests_step tn u now (db_requests d) rows"
proof -
  have one: "x = r" if "x \<in> set (db_requests d)" "pa_id x = q" for x
    using ok r that by (intro unique_index_eq [where key = pa_id and live = every_row]) (auto simp: db_ok_def requests_ok_def)
  have dec: "decided_by tn u now r (decision st u now reason r)"
    using r free st unfolding decided_by_def decision_def by blast
  have "decision st u now reason r = (if pa_tenant r = tn \<and> pa_id r = q then decision st u now reason r else r)" using r by simp
  then show "decision st u now reason r \<in> set rows" unfolding rows update_rows_def set_map using r(1) by (rule image_eqI)
  have "rows = update_rows (\<lambda>x. x = r) (\<lambda>_. decision st u now reason r) (db_requests d)"
    unfolding rows update_rows_def
  proof (rule map_cong [OF refl])
    fix x assume "x \<in> set (db_requests d)"
    then have "pa_tenant x = tn \<and> pa_id x = q \<longleftrightarrow> x = r" using one r by blast
    then show "(if pa_tenant x = tn \<and> pa_id x = q then decision st u now reason x else x)
        = (if x = r then decision st u now reason r else x)" by simp
  qed
  then show "requests_step tn u now (db_requests d) rows" using dec r(1) unfolding requests_step_def by blast
qed

lemma update_requests_rows:
  "update_requests p f d = Inr e \<Longrightarrow> e = d\<lparr>db_requests := update_rows p f (db_requests d)\<rparr>"
  by (simp add: update_requests_def Let_def split: if_splits)

lemma found_request:
  "first_of (request_rows (\<lambda>r. pa_tenant r = tn \<and> pa_id r = q) d) = Some (r, k)
     \<Longrightarrow> r \<in> set (db_requests d) \<and> pa_tenant r = tn \<and> pa_id r = q"
  by (drule first_of_SomeD) (auto simp: request_rows_def split: if_splits)

lemma step_reject:
  assumes ok: "db_ok d" and s: "committed s = d" "working s = d"
  shows "ends (reject c now q reason) s (\<lambda>t. maker_checker_step (cl_tenant c) (cl_actor c) now d (committed t))"
proof -
  let ?step = "maker_checker_step (cl_tenant c) (cl_actor c) now d"
  have fin: "ends (seqM (audit_and_commit c op ty rid now) k) (s\<lparr>working := e\<rparr>) (\<lambda>t. ?step (committed t))"
    if f: "first_of (request_rows (\<lambda>r. pa_tenant r = cl_tenant c \<and> pa_id r = q) d) = Some (r, key)"
      and free: "pa_status r = ''PENDING''" "pa_requested_by r \<noteq> cl_actor c" "pa_subject r \<noteq> cl_actor c"
      and e: "update_requests (\<lambda>r. pa_tenant r = cl_tenant c \<and> pa_id r = q) (decision ''REJECTED'' (cl_actor c) now reason) d = Inr e"
      and k: "no_commit k" for r key e op ty rid and k :: "request_view dbact"
  proof (rule ends_audited_step [OF _ _ k])
    have r: "r \<in> set (db_requests d)" "pa_tenant r = cl_tenant c" "pa_id r = q" using found_request [OF f] by simp_all
    note e' = update_requests_rows [OF e]
    note req = decided_requests [OF ok r free, of "''REJECTED''", OF _ refl, of now reason]
    show "?step (working (s\<lparr>working := e\<rparr>))"
      using req(2) unfolding maker_checker_step_def by (simp add: e' privileged_role_def)
  qed (use s in simp)
  show ?thesis
    unfolding reject_def decide_request_def decision_def [symmetric, abs_def]
    by (auto simp: ends_find ends_independent ends_steps s maker_checker_refl split: option.split sum.split intro!: no_commit_view fin)
qed

lemma step_approve:
  assumes ok: "db_ok d" and s: "committed s = d" "working s = d"
  shows "ends (approve c now q reason) s (\<lambda>t. maker_checker_step (cl_tenant c) (cl_actor c) now d (committed t))"
proof -
  let ?tn = "cl_tenant c" and ?u = "cl_actor c" and ?step = "maker_checker_step (cl_tenant c) (cl_actor c) now d"
  let ?p = "\<lambda>r. pa_tenant r = cl_tenant c \<and> pa_id r = q"
  have old: "ends (seqM (audit_and_commit c op ty rid now) k) (s\<lparr>working := e\<rparr>) (\<lambda>t. ?step (committed t))"
    if f: "first_of (request_rows ?p d) = Some (r, key)"
      and free: "pa_status r = ''PENDING''" "pa_requested_by r \<noteq> ?u" "pa_subject r \<noteq> ?u"
      and e: "update_requests ?p (decision ''APPROVED'' ?u now reason) d = Inr e" and k: "no_commit k"
    for r key e op ty rid and k :: "request_view dbact"
  proof (rule ends_audited_step [OF _ _ k])
    have r: "r \<in> set (db_requests d)" "pa_tenant r = ?tn" "pa_id r = q" using found_request [OF f] by simp_all
    note e' = update_requests_rows [OF e]
    note req = decided_requests [OF ok r free, of "''APPROVED''", OF _ refl, of now reason]
    show "?step (working (s\<lparr>working := e\<rparr>))"
      using req(2) unfolding maker_checker_step_def by (simp add: e' privileged_role_def)
  qed (use s in simp)
  have new: "ends (seqM (audit_and_commit c op ty rid now) k) (s\<lparr>uuids := z, working := e\<rparr>) (\<lambda>t. ?step (committed t))"
    if f: "first_of (request_rows ?p d) = Some (r, key)"
      and free: "pa_status r = ''PENDING''" "pa_requested_by r \<noteq> ?u" "pa_subject r \<noteq> ?u"
      and a: "insert_user_role a d = Inr d1" "ura_tenant a = ?tn" "ura_user a = pa_subject r" "ura_role a = pa_role r"
      and e: "update_requests ?p (decision ''APPROVED'' ?u now reason) (state_bumped ?tn us now d1) = Inr e" and k: "no_commit k"
    for r key a d1 us e op ty rid z and k :: "request_view dbact"
  proof (rule ends_audited_step [OF _ _ k])
    have r: "r \<in> set (db_requests d)" "pa_tenant r = ?tn" "pa_id r = q" using found_request [OF f] by simp_all
    obtain az where az: "state_bumped ?tn us now d1 = d1\<lparr>db_authz_state := az\<rparr>" using state_bumped_bindings by blast
    have d1: "d1 = d\<lparr>db_user_roles := db_user_roles d @ [a]\<rparr>" using a(1) by (simp add: insert_user_role_def split: if_splits)
    have e': "e = d\<lparr>db_user_roles := db_user_roles d @ [a], db_authz_state := az,
        db_requests := update_rows ?p (decision ''APPROVED'' ?u now reason) (db_requests d)\<rparr>"
      using update_requests_rows [OF e] unfolding az by (simp add: d1)
    note req = decided_requests [OF ok r free, of "''APPROVED''", OF _ refl, of now reason]
    have "decision ''APPROVED'' ?u now reason r \<in> set (db_requests e)" using req(1) by (simp add: e')
    then have "approved_for e a"
      unfolding approved_for_def by (rule bexI [rotated]) (use a r free in \<open>auto simp: decision_def\<close>)
    then show "?step (working (s\<lparr>uuids := z, working := e\<rparr>))"
      using req(2) unfolding maker_checker_step_def by (simp add: e' privileged_role_def)
  qed (use s in simp)
  show ?thesis
    unfolding approve_def decide_request_def decision_def [symmetric, abs_def] active_role_def has_user_role_def new_user_role_def
    by (auto simp: ends_find ends_independent ends_steps global_service.ends_hooks s maker_checker_refl
        split: option.split sum.split intro!: no_commit_view old new)
qed

lemma step_new_request:
  assumes s: "committed s = d" "working s = d" and k: "no_commit k"
  shows "ends (seqM (new_access_request c now q v rl) k) s (\<lambda>t. maker_checker_step (cl_tenant c) (cl_actor c) now d (committed t))"
proof -
  let ?step = "maker_checker_step (cl_tenant c) (cl_actor c) now d"
  have "ends (seqM (audit_and_commit c op ty rid now) k) (s\<lparr>working := e\<rparr>) (\<lambda>t. ?step (committed t))"
    if e: "insert_request r d = Inr e" and r: "new_request_by (cl_tenant c) (cl_actor c) r" for r e op ty rid
  proof (rule ends_audited_step [OF _ _ k])
    have "e = d\<lparr>db_requests := db_requests d @ [r]\<rparr>" using e by (simp add: insert_request_def split: if_splits)
    then show "?step (working (s\<lparr>working := e\<rparr>))"
      using r unfolding maker_checker_step_def requests_step_def by (simp add: privileged_role_def)
  qed (use s in simp)
  then show ?thesis
    unfolding new_access_request_def
    by (auto simp: ends_steps s maker_checker_refl split: sum.split) (auto simp: new_request_by_def)
qed

lemma step_gate_assign:
  assumes ok: "db_ok d" and s: "committed s = d" "working s = d"
  shows "ends (gate_assign_user_role c now v rl) s (\<lambda>t. maker_checker_step (cl_tenant c) (cl_actor c) now d (committed t))"
proof -
  let ?step = "maker_checker_step (cl_tenant c) (cl_actor c) now d"
  have plain: "ends (assign_user_role TenantRbacGateService c now v rl) s (\<lambda>t. ?step (committed t))"
    if "first_row (\<lambda>x. r_tenant x = cl_tenant c \<and> r_id x = rl) (db_roles d) = Some r" "r_key r \<notin> set PRIVILEGED_TENANT_ROLE_KEYS" for r
  proof -
    have "\<not> privileged_role d (cl_tenant c) rl"
      using same_role [OF ok that(1)] that(2) unfolding privileged_role_def by blast
    then have "keeps (calm_writes d) (assign_user_role TenantRbacGateService c now v rl)" by (rule calm_assign_user_role)
    then show ?thesis
      using calm_writes_refl [of d] s calm_writes_step unfolding keeps_def ends_def by metis
  qed
  have ask: "ends (catch_integrity (seqM (new_access_request c now q v rl) (returnM True))
      (seqM rollback (bindM (has_pending_access (cl_tenant c) v rl) (\<lambda>b. if \<not> b then throwM IntegrityError else returnM False)))) t
      (\<lambda>t. ?step (committed t))"
    if "committed t = d" "working t = d" for q t
    by (rule ends_catch_quiet [OF step_new_request]) (use that in \<open>auto intro!: stays_intros\<close>)
  show ?thesis
    unfolding gate_assign_user_role_def has_user_role_def role_active_def
    using ask by (auto simp: ends_reads ends_steps global_service.ends_hooks s has_pending_access_def maker_checker_refl
        split: option.splits intro!: plain)
qed

lemma keeps_step: "keeps (calm_writes d) m \<Longrightarrow> committed s = d \<Longrightarrow> working s = d
    \<Longrightarrow> ends m s (\<lambda>t. maker_checker_step tn u now d (committed t))"
  using calm_writes_refl [of d] calm_writes_step unfolding keeps_def ends_def by metis

lemma ends_ignore: "ends m s (\<lambda>t. Q (committed t)) \<Longrightarrow> ends (ignore m) s (\<lambda>t. Q (committed t))"
  by (auto simp: ignore_def ends_def seqM_def bindM_def returnM_def split: prod.split sum.split)

lemma ends_raise_from: "ends m s Q \<Longrightarrow> ends (raise_from f m) s Q"
  by (auto simp: ends_def raise_from_def split: prod.split sum.split)

lemma keeps_lists:
  "keeps J (list_groups tn)" "keeps J (list_roles tn)" "keeps J list_permissions" "keeps J list_templates"
  "keeps J (list_requests tn st)" "keeps J (found_or_404 n x)"
  unfolding list_groups_def list_roles_def list_permissions_def list_templates_def list_requests_def found_or_404_def
  by (intro keeps_intros)+


lemma serve_maker_checker:
  assumes "db_ok d" "committed s = d" "working s = d"
  shows "ends (serve w r u) s (\<lambda>t. maker_checker_step (wc_tenant w) u (wc_now w) d (committed t))"
proof -
  have c: "cl_tenant (call_of w u) = wc_tenant w" "cl_actor (call_of w u) = u" by (simp_all add: call_of_def)
  note dec = step_gate_assign [OF assms, of "call_of w u", unfolded c] step_approve [OF assms, of "call_of w u", unfolded c]
    step_reject [OF assms, of "call_of w u", unfolded c]
  show ?thesis
    by (cases r; simp; intro ends_ignore; (intro ends_raise_from dec)?; (rule keeps_step [OF _ assms(2,3)])?;
      (intro keeps_intros keeps_lists keeps_details calm_reads calm_groups calm_roles calm_template_roles)?)
qed

end
