(* ===== verification/PrivilegedRuns.thy ===== *)
theory PrivilegedRuns
  imports MakerChecker
begin

text \<open>
  Runs of requests to the tenant administration, in any order, by anybody, with any clock: what
  always holds of the database, of the assignments of privileged roles and of the requests for
  them; and the table of requests as an implementation of an abstract ledger of decisions.
\<close>

section \<open>Runs\<close>

inductive admin_run :: "db \<Rightarrow> db \<Rightarrow> bool" for d0 where
  start: "admin_run d0 d0"
| request: "admin_run d0 d \<Longrightarrow> admin_run d0 (committed (snd (handle w r (fresh_session d us))))"

lemma handle_step:
  assumes "db_ok d" "refs_ok d"
  obtains u where "maker_checker_step (wc_tenant w) u (wc_now w) d (committed (snd (handle w r (fresh_session d us))))"
proof (cases rule: handle_cases [OF assms, of w r us, case_names unchanged served])
  case unchanged
  then show ?thesis using that maker_checker_refl by metis
next
  case (served u x)
  have "ends (serve w r u) (fresh_session d us) (\<lambda>t. maker_checker_step (wc_tenant w) u (wc_now w) d (committed t))"
    by (rule serve_maker_checker [OF assms(1)]) (simp_all add: fresh_session_def)
  then show ?thesis using that served(3) by (simp add: ends_def)
qed

lemma handle_accounted:
  assumes "db_ok d" "refs_ok d" and "e = committed (snd (handle w r (fresh_session d us)))"
  shows "db_ok e \<and> refs_ok e \<and> (\<exists>rows. db_changes e = db_changes d @ rows) \<and> (\<forall>tn u. state_version d tn u \<le> state_version e tn u)"
proof (cases rule: handle_cases [OF assms(1,2), of w r us, case_names unchanged served])
  case unchanged
  then show ?thesis using assms by simp
next
  case (served u x)
  then show ?thesis unfolding assms(3) [symmetric] accounted_def by auto
qed

text \<open>
  C14: whatever requests the tenant administration serves, in any order and with any outcome, the
  constraints and references of the schema hold, the audit trail is only appended to, and no
  authorization version ever falls.
\<close>

theorem administration_invariant:
  assumes "admin_run d0 d" and "db_ok d0" and "refs_ok d0"
  shows "db_ok d \<and> refs_ok d \<and> (\<exists>rows. db_changes d = db_changes d0 @ rows)
     \<and> (\<forall>tn u. state_version d0 tn u \<le> state_version d tn u)"
  using assms
proof (induction rule: admin_run.induct)
  case (request d w r us)
  then have ih: "db_ok d" "refs_ok d" "\<exists>rows. db_changes d = db_changes d0 @ rows" "\<forall>tn u. state_version d0 tn u \<le> state_version d tn u"
    by simp_all
  from handle_accounted [OF ih(1,2) refl, of w r us] ih(3,4) show ?case by (auto intro: order_trans [OF spec [OF spec [OF ih(4)]]])
qed simp

section \<open>Requests along a run\<close>

text \<open>A request after a run: itself, or decided by somebody independent while it was pending.\<close>

definition settled :: "privileged_request \<Rightarrow> privileged_request \<Rightarrow> bool" where
  "settled q q' \<longleftrightarrow> (\<exists>u now. decided_by (pa_tenant q) u now q q')"

lemma decided_status: "decided_by tn u now q q' \<Longrightarrow> pa_status q = ''PENDING'' \<and> pa_status q' \<noteq> ''PENDING'' \<and> pa_tenant q = tn"
  by (auto simp: decided_by_def)

lemma set_replaced: "r \<in> set rows \<Longrightarrow> set (update_rows (\<lambda>x. x = r) (\<lambda>_. r') rows) = insert r' (set rows - {r})"
  unfolding update_rows_def by (auto simp: image_iff)

lemma requests_step_forward:
  assumes "requests_step tn u now rows rows'" and "q \<in> set rows"
  shows "q \<in> set rows' \<or> (\<exists>q'\<in>set rows'. decided_by tn u now q q')"
  using assms(1) unfolding requests_step_def
proof (elim disjE exE bexE conjE)
  fix r r' assume r: "r \<in> set rows" "decided_by tn u now r r'" "rows' = update_rows (\<lambda>x. x = r) (\<lambda>_. r') rows"
  show ?thesis unfolding r(3) set_replaced [OF r(1)] using assms(2) r(2) by blast
qed (use assms(2) in auto)

lemma requests_step_backward:
  assumes "requests_step tn u now rows rows'" and "q \<in> set rows'"
  shows "q \<in> set rows \<or> new_request_by tn u q \<or> (\<exists>q0\<in>set rows. decided_by tn u now q0 q)"
  using assms(1) unfolding requests_step_def
proof (elim disjE exE bexE conjE)
  fix r r' assume r: "r \<in> set rows" "decided_by tn u now r r'" "rows' = update_rows (\<lambda>x. x = r) (\<lambda>_. r') rows"
  show ?thesis using assms(2) r(1,2) unfolding r(3) set_replaced [OF r(1)] by blast
qed (use assms(2) in auto)

lemma decided_stays: "requests_step tn u now rows rows' \<Longrightarrow> q \<in> set rows \<Longrightarrow> pa_status q \<noteq> ''PENDING'' \<Longrightarrow> q \<in> set rows'"
  using requests_step_forward decided_status by blast

lemma run_ok: "admin_run d0 d \<Longrightarrow> db_ok d0 \<Longrightarrow> refs_ok d0 \<Longrightarrow> db_ok d \<and> refs_ok d"
  by (induction rule: admin_run.induct) (auto dest: handle_accounted [OF _ _ refl])

text \<open>
  C12: a request for privileged access never disappears. As long as nobody decides it, it is as it
  was; it is decided at most once, while it is pending, to APPROVED or REJECTED, by a user who is
  neither its requester nor its subject; and once decided it never changes again.
\<close>

theorem request_lifecycle:
  assumes "admin_run d0 d" and "db_ok d0" and "refs_ok d0" and "q \<in> set (db_requests d0)"
  shows "q \<in> set (db_requests d) \<or> (pa_status q = ''PENDING'' \<and> (\<exists>q'\<in>set (db_requests d). \<exists>u now st reason.
      u \<noteq> pa_requested_by q \<and> u \<noteq> pa_subject q \<and> st \<in> {''APPROVED'', ''REJECTED''}
      \<and> q' = q\<lparr>pa_status := st, pa_approved_by := Some u, pa_decided_at := Some now, pa_reason := reason\<rparr>))"
proof -
  have "q \<in> set (db_requests d) \<or> (\<exists>q'\<in>set (db_requests d). settled q q')"
    using assms
  proof (induction rule: admin_run.induct)
    case (request d w r us)
    have ok: "db_ok d" "refs_ok d" using run_ok request.hyps request.prems by blast+
    obtain u where "maker_checker_step (wc_tenant w) u (wc_now w) d (committed (snd (handle w r (fresh_session d us))))"
      using handle_step [OF ok] .
    then have st: "requests_step (wc_tenant w) u (wc_now w) (db_requests d) (db_requests (committed (snd (handle w r (fresh_session d us)))))"
      unfolding maker_checker_step_def by blast
    from request.IH [OF request.prems] show ?case
    proof (elim disjE bexE)
      assume "q \<in> set (db_requests d)"
      from requests_step_forward [OF st this] show ?case unfolding settled_def using decided_status by metis
    next
      fix q' assume q': "q' \<in> set (db_requests d)" "settled q q'"
      then have "pa_status q' \<noteq> ''PENDING''" using decided_status unfolding settled_def by blast
      from decided_stays [OF st q'(1) this] show ?case using q'(2) by blast
    qed
  qed simp
  then show ?thesis
  proof (elim disjE bexE)
    fix q' assume q': "q' \<in> set (db_requests d)" and "settled q q'"
    then obtain u now st reason where "pa_status q = ''PENDING''" "u \<noteq> pa_requested_by q" "u \<noteq> pa_subject q"
        "st \<in> {''APPROVED'', ''REJECTED''}"
        "q' = q\<lparr>pa_status := st, pa_approved_by := Some u, pa_decided_at := Some now, pa_reason := reason\<rparr>"
      unfolding settled_def decided_by_def by metis
    with q' show ?thesis by blast
  qed simp
qed

section \<open>Privileged assignments\<close>

lemma approved_stays:
  assumes "requests_step tn u now (db_requests d) (db_requests e)" and "approved_for d a"
  shows "approved_for e a"
proof -
  obtain q where q: "q \<in> set (db_requests d)" "pa_tenant q = ura_tenant a" "pa_subject q = ura_user a" "pa_role q = ura_role a"
      "pa_status q = ''APPROVED''" "\<exists>by. pa_approved_by q = Some by \<and> by \<noteq> pa_requested_by q \<and> by \<noteq> pa_subject q"
    using assms(2) unfolding approved_for_def by blast
  then have "q \<in> set (db_requests e)" using decided_stays [OF assms(1) q(1)] by simp
  then show ?thesis using q unfolding approved_for_def by blast
qed

text \<open>
  C10: nobody comes to hold a privileged role alone. Every active assignment of a privileged role
  to a user that was not there when the run began is backed by a request for exactly this tenant,
  user and role that was approved by somebody who is neither its requester nor the user.
\<close>

theorem privileged_assignments_approved:
  assumes "admin_run d0 d" and "db_ok d0" and "refs_ok d0"
    and "a \<in> set (db_user_roles d)" and "ura_status a = ''ACTIVE''" and "privileged_role d (ura_tenant a) (ura_role a)"
  shows "a \<in> set (db_user_roles d0) \<or> (\<exists>q\<in>set (db_requests d). pa_tenant q = ura_tenant a \<and> pa_subject q = ura_user a
      \<and> pa_role q = ura_role a \<and> pa_status q = ''APPROVED''
      \<and> (\<exists>by. pa_approved_by q = Some by \<and> by \<noteq> pa_requested_by q \<and> by \<noteq> ura_user a))"
proof -
  have "a \<in> set (db_user_roles d0) \<or> approved_for d a"
    using assms
  proof (induction rule: admin_run.induct)
    case (request d w r us)
    let ?e = "committed (snd (handle w r (fresh_session d us)))"
    have ok: "db_ok d" "refs_ok d" using run_ok request.hyps request.prems by blast+
    obtain u where st: "maker_checker_step (wc_tenant w) u (wc_now w) d ?e" using handle_step [OF ok] .
    then have priv: "privileged_role d (ura_tenant a) (ura_role a)" using request.prems(5) unfolding maker_checker_step_def by blast
    then have "a \<in> set (db_user_roles d) \<or> approved_for ?e a"
      using st request.prems(3,4) unfolding maker_checker_step_def by blast
    moreover have "a \<in> set (db_user_roles d0) \<or> approved_for ?e a" if "a \<in> set (db_user_roles d)"
      using request.IH [OF request.prems(1,2) that request.prems(4) priv] approved_stays st
      unfolding maker_checker_step_def by blast
    ultimately show ?case by blast
  qed simp
  then show ?thesis unfolding approved_for_def by fastforce
qed

section \<open>The ledger of decisions\<close>

text \<open>
  What the table of requests implements: a ledger of entries that are opened once, and closed at
  most once by somebody independent. At most one entry per tenant, subject and role is open.
\<close>

datatype phase = Open | Granted string | Refused string | Other string

record entry =
  e_tenant :: string
  e_subject :: string
  e_role :: string
  e_requester :: string
  e_phase :: phase

type_synonym ledger = "string \<Rightarrow> entry option"

definition phase_of :: "privileged_request \<Rightarrow> phase" where
  "phase_of q =
     (if pa_status q = ''PENDING'' then Open
      else case pa_approved_by q of
             None \<Rightarrow> Other (pa_status q)
           | Some by \<Rightarrow> if pa_status q = ''APPROVED'' then Granted by
                        else if pa_status q = ''REJECTED'' then Refused by else Other (pa_status q))"

definition entry_of :: "privileged_request \<Rightarrow> entry" where
  "entry_of q = \<lparr>e_tenant = pa_tenant q, e_subject = pa_subject q, e_role = pa_role q, e_requester = pa_requested_by q,
     e_phase = phase_of q\<rparr>"

definition ledger_of :: "db \<Rightarrow> ledger" where
  "ledger_of d i = map_option entry_of (first_row (\<lambda>q. pa_id q = i) (db_requests d))"

definition one_open :: "ledger \<Rightarrow> bool" where
  "one_open L \<longleftrightarrow> (\<forall>i j x y. L i = Some x \<longrightarrow> L j = Some y \<longrightarrow> e_phase x = Open \<longrightarrow> e_phase y = Open
     \<longrightarrow> (e_tenant x, e_subject x, e_role x) = (e_tenant y, e_subject y, e_role y) \<longrightarrow> i = j)"

inductive ledger_step :: "ledger \<Rightarrow> ledger \<Rightarrow> bool" where
  stay: "ledger_step L L"
| open_entry: "L i = None \<Longrightarrow> e_phase x = Open \<Longrightarrow> one_open (L(i \<mapsto> x)) \<Longrightarrow> ledger_step L (L(i \<mapsto> x))"
| close_entry: "L i = Some x \<Longrightarrow> e_phase x = Open \<Longrightarrow> who \<noteq> e_requester x \<Longrightarrow> who \<noteq> e_subject x
    \<Longrightarrow> p \<in> {Granted who, Refused who} \<Longrightarrow> ledger_step L (L(i \<mapsto> x\<lparr>e_phase := p\<rparr>))"

inductive_cases ledger_stepE [consumes 1, case_names stay open_entry close_entry]: "ledger_step L M"

lemma ledger_lookup:
  assumes "db_ok d" and "q \<in> set (db_requests d)"
  shows "ledger_of d (pa_id q) = Some (entry_of q)"
proof -
  obtain r where r: "first_row (\<lambda>x. pa_id x = pa_id q) (db_requests d) = Some r"
    using assms(2) by (cases "first_row (\<lambda>x. pa_id x = pa_id q) (db_requests d)") (auto simp: first_row_None_iff)
  have "r = q"
    using assms first_row_SomeD [OF r]
    by (intro unique_index_eq [where key = pa_id and live = every_row]) (auto simp: db_ok_def requests_ok_def)
  then show ?thesis using r by (simp add: ledger_of_def)
qed

lemma ledger_absent: "ledger_of d i = None \<longleftrightarrow> (\<forall>q\<in>set (db_requests d). pa_id q \<noteq> i)"
  by (auto simp: ledger_of_def first_row_None_iff)

lemma ledger_someD: "ledger_of d i = Some x \<Longrightarrow> \<exists>q\<in>set (db_requests d). pa_id q = i \<and> x = entry_of q"
  unfolding ledger_of_def using first_row_SomeD by fastforce

lemma phase_open: "phase_of q = Open \<longleftrightarrow> pa_status q = ''PENDING''"
  by (auto simp: phase_of_def split: option.split)

lemma ledger_one_open:
  assumes "db_ok d"
  shows "one_open (ledger_of d)"
  unfolding one_open_def
proof (intro allI impI)
  fix i j x y
  assume "ledger_of d i = Some x" "ledger_of d j = Some y" and open_both: "e_phase x = Open" "e_phase y = Open"
    and key: "(e_tenant x, e_subject x, e_role x) = (e_tenant y, e_subject y, e_role y)"
  then obtain q r where q: "q \<in> set (db_requests d)" "pa_id q = i" "x = entry_of q"
    and r: "r \<in> set (db_requests d)" "pa_id r = j" "y = entry_of r" by (meson ledger_someD)
  have "q = r"
    using assms q(1) r(1) open_both key unfolding q(3) r(3)
    by (intro unique_index_eq [where key = request_key and live = request_pending])
      (auto simp: db_ok_def requests_ok_def entry_of_def phase_open request_key_def request_pending_def)
  then show "i = j" using q r by simp
qed

lemma ledger_iff: "db_ok d \<Longrightarrow> ledger_of d i = Some x \<longleftrightarrow> (\<exists>q\<in>set (db_requests d). pa_id q = i \<and> x = entry_of q)"
  using ledger_lookup ledger_someD by fastforce

lemma ledger_eqI:
  assumes "db_ok d" and "\<And>i x. (\<exists>q\<in>set (db_requests d). pa_id q = i \<and> x = entry_of q) \<longleftrightarrow> L i = Some x"
  shows "ledger_of d = L"
proof
  fix i show "ledger_of d i = L i"
    using ledger_iff [OF assms(1), of i] assms(2) [of i] by (cases "L i"; cases "ledger_of d i") auto
qed

lemma unique_snoc: "unique_index key every_row (xs @ [y]) \<Longrightarrow> x \<in> set xs \<Longrightarrow> key x \<noteq> key y"
  by (auto simp: unique_index_def rev_image_eqI)

lemma ledger_opened:
  assumes d: "db_ok d" "db_ok e" and e: "db_requests e = db_requests d @ [q]" and q: "new_request_by tn u q"
  shows "ledger_step (ledger_of d) (ledger_of e)"
proof -
  have "unique_index pa_id every_row (db_requests d @ [q])" using d(2) e by (simp add: db_ok_def requests_ok_def)
  then have fresh: "r \<in> set (db_requests d) \<Longrightarrow> pa_id r \<noteq> pa_id q" for r
    using unique_snoc by metis
  have M: "ledger_of e = (ledger_of d)(pa_id q \<mapsto> entry_of q)"
    using fresh by (intro ledger_eqI [OF d(2)]) (auto simp: e ledger_iff [OF d(1)])
  have "ledger_of d (pa_id q) = None" using fresh by (auto simp: ledger_absent)
  moreover have "e_phase (entry_of q) = Open" using q by (simp add: entry_of_def phase_open new_request_by_def)
  ultimately show ?thesis using ledger_one_open [OF d(2)] unfolding M by (intro open_entry)
qed

lemma ledger_closed:
  assumes d: "db_ok d" "db_ok e" and r: "r \<in> set (db_requests d)" and r': "decided_by tn u now r r'"
    and e: "db_requests e = update_rows (\<lambda>x. x = r) (\<lambda>_. r') (db_requests d)"
  shows "ledger_step (ledger_of d) (ledger_of e)"
proof -
  obtain st reason where st: "st \<in> {''APPROVED'', ''REJECTED''}" "pa_status r = ''PENDING''" "pa_requested_by r \<noteq> u" "pa_subject r \<noteq> u"
      and eq: "r' = r\<lparr>pa_status := st, pa_approved_by := Some u, pa_decided_at := Some now, pa_reason := reason\<rparr>"
    using r' unfolding decided_by_def by blast
  let ?p = "if st = ''APPROVED'' then Granted u else Refused u"
  have x: "entry_of r' = (entry_of r)\<lparr>e_phase := ?p\<rparr>" using st(1) by (auto simp: eq entry_of_def phase_of_def)
  have id: "pa_id r' = pa_id r" by (simp add: eq)
  have other: "y \<in> set (db_requests d) \<Longrightarrow> pa_id y = pa_id r \<Longrightarrow> y = r" for y
    using d(1) r by (intro unique_index_eq [where key = pa_id and live = every_row]) (auto simp: db_ok_def requests_ok_def)
  have "(\<exists>q\<in>set (db_requests e). pa_id q = i \<and> z = entry_of q) \<longleftrightarrow> ((ledger_of d)(pa_id r \<mapsto> entry_of r')) i = Some z" for i z
    unfolding e set_replaced [OF r] using id other by (auto simp: ledger_iff [OF d(1)])
  then have M: "ledger_of e = (ledger_of d)(pa_id r \<mapsto> (entry_of r)\<lparr>e_phase := ?p\<rparr>)"
    unfolding x by (intro ledger_eqI [OF d(2)])
  show ?thesis
    unfolding M
    by (rule close_entry [where who = u])
      (use st ledger_lookup [OF d(1) r] in \<open>simp_all add: entry_of_def phase_open\<close>)
qed

text \<open>
  C13: the table of requests implements the ledger: every request to the administration is one
  step of it. It leaves the entries alone, opens one entry while no other is open for the same
  tenant, subject and role, or closes one open entry in the name of somebody independent.
\<close>

theorem administration_refines_ledger:
  assumes "db_ok d" and "refs_ok d"
  shows "ledger_step (ledger_of d) (ledger_of (committed (snd (handle w r (fresh_session d us)))))"
proof -
  let ?e = "committed (snd (handle w r (fresh_session d us)))"
  have e: "db_ok ?e" using handle_accounted [OF assms refl] by blast
  obtain u where "requests_step (wc_tenant w) u (wc_now w) (db_requests d) (db_requests ?e)"
    using handle_step [OF assms, of w r us] unfolding maker_checker_step_def by metis
  then show ?thesis
    unfolding requests_step_def
  proof (elim disjE exE bexE conjE)
    assume "db_requests ?e = db_requests d"
    then have "ledger_of ?e = ledger_of d" by (simp add: ledger_of_def fun_eq_iff)
    then show ?thesis using ledger_step.stay by simp
  qed (use assms(1) e in \<open>auto intro: ledger_opened ledger_closed\<close>)
qed

end
