(* ===== verification/AdminSamples.thy ===== *)
theory AdminSamples
  imports PrivilegedRuns AccessProperties
begin

text \<open>
  A tenant with two administrators and one user, and a run of two requests evaluated on it: one
  administrator asks for the privileged role of the user, the other approves it. The theorems on
  the administration are applied to this run.
\<close>

section \<open>The tenant\<close>

definition sample_call :: "string \<Rightarrow> int \<Rightarrow> web_call" where
  "sample_call subject now =
     \<lparr>wc_identity = Inr \<lparr>id_provider = ''CLERK'', id_provider_subject = subject, id_session_id = ''sid''\<rparr>,
      wc_tenant = ''t1'', wc_correlation = ''corr'', wc_gate_time = now, wc_now = now, wc_clock = now\<rparr>"

definition sample_permission :: "string \<Rightarrow> permission" where
  "sample_permission k = \<lparr>p_key = k, p_module = ''security'', p_resource = ''role'', p_action = ''assign'',
     p_description = None, p_status = ''ACTIVE'', p_display_name = None, p_catalog_version = None\<rparr>"

definition sample_role :: "string \<Rightarrow> string \<Rightarrow> role" where
  "sample_role i k = \<lparr>r_id = i, r_tenant = ''t1'', r_key = k, r_name = k, r_description = None, r_status = ''ACTIVE'',
     r_created_at = 0, r_updated_at = 0\<rparr>"

definition sample_user_role :: "string \<Rightarrow> string \<Rightarrow> string \<Rightarrow> string \<Rightarrow> int \<Rightarrow> user_role" where
  "sample_user_role i u rl actor now = \<lparr>ura_id = i, ura_tenant = ''t1'', ura_user = u, ura_role = rl, ura_valid_from = Some now,
     ura_valid_to = None, ura_status = ''ACTIVE'', ura_assigned_by = actor, ura_assigned_at = now\<rparr>"

definition admin_db :: db where
  "admin_db = (sample_db [])
     \<lparr>db_principals := map (\<lambda>u. \<lparr>sp_id = u, sp_actor_type = ''USER'', sp_name = u, sp_status = ''ACTIVE''\<rparr>) [''u1'', ''u2'', ''u3''],
      db_users := map (\<lambda>u. \<lparr>u_id = u, u_display_name = u, u_first_name = None, u_last_name = None,
        u_primary_email = None, u_primary_mobile = None, u_status = ''ACTIVE'', u_created_at = 0, u_updated_at = 0\<rparr>) [''u1'', ''u2'', ''u3''],
      db_identities := map (\<lambda>u. \<lparr>ei_id = u, ei_user = u, ei_provider = ''CLERK'', ei_subject = u, ei_status = ''ACTIVE'',
        ei_linked_at = 0\<rparr>) [''u1'', ''u2'', ''u3''],
      db_permissions := map sample_permission [''security.role.assign'', ''security.privileged_access.approve''],
      db_roles := [sample_role ''r1'' ''tenant.rbac_admin'', sample_role ''r2'' ''tenant.access_admin''],
      db_role_permissions := map (\<lambda>k. \<lparr>rp_tenant = ''t1'', rp_role = ''r1'', rp_permission = k, rp_assigned_at = 0\<rparr>)
        [''security.role.assign'', ''security.privileged_access.approve''],
      db_user_roles := [sample_user_role ''a1'' ''u1'' ''r1'' ''u0'' 0, sample_user_role ''a2'' ''u2'' ''r1'' ''u0'' 0],
      db_scopes := [], db_grants := [], db_credentials := [], db_locations := [], db_user_locations := [], db_devices := []\<rparr>"

definition sample_request :: "string \<Rightarrow> privileged_request" where
  "sample_request i = \<lparr>pa_id = i, pa_tenant = ''t1'', pa_subject = ''u3'', pa_role = ''r2'',
     pa_source_invitation = None, pa_status = ''PENDING'', pa_requested_by = ''u1'', pa_requested_at = 10,
     pa_approved_by = None, pa_decided_at = None, pa_reason = None, pa_correlation = ''corr''\<rparr>"

definition sample_change :: "string \<Rightarrow> string \<Rightarrow> string \<Rightarrow> int \<Rightarrow> admin_change" where
  "sample_change i actor operation now = \<lparr>ac_id = i, ac_correlation = ''corr'', ac_scope_type = ''TENANT'', ac_tenant = Some ''t1'',
     ac_actor = actor, ac_operation = operation, ac_resource_type = ''PRIVILEGED_ACCESS_REQUEST'', ac_resource_id = Some ''x'',
     ac_outcome = ''SUCCESS'', ac_occurred_at = now\<rparr>"

definition asked_db :: db where
  "asked_db = admin_db\<lparr>db_requests := [sample_request ''x''],
     db_changes := [sample_change ''xx'' ''u1'' ''security.privileged_access.request'' 10]\<rparr>"

definition approved_db :: db where
  "approved_db = asked_db
     \<lparr>db_requests := [(sample_request ''x'')\<lparr>pa_status := ''APPROVED'', pa_approved_by := Some ''u2'', pa_decided_at := Some 20\<rparr>],
      db_user_roles := db_user_roles asked_db @ [sample_user_role ''bx'' ''u3'' ''r2'' ''u1'' 20],
      db_authz_state := db_authz_state asked_db @ [\<lparr>az_user = ''u3'', az_tenant = ''t1'', az_version = 2, az_updated_at = 20\<rparr>],
      db_changes := db_changes asked_db @ [sample_change ''bxx'' ''u2'' ''security.privileged_access.approve'' 20]\<rparr>"

lemma admin_db_ok: "db_ok admin_db \<and> refs_ok admin_db"
  by code_simp

lemma asked_run: "committed (snd (handle (sample_call ''u1'' 10) (AssignUserRole ''u3'' ''r2'') (fresh_session admin_db sample_uuid))) = asked_db"
  by code_simp

lemma approved_run: "committed (snd (handle (sample_call ''u2'' 20) (ApproveRequest ''x'' None)
     (fresh_session asked_db (\<lambda>n. ''b'' @ sample_uuid n)))) = approved_db"
  by code_simp

lemma asked: "db_requests asked_db = [sample_request ''x'']" "db_changes asked_db \<noteq> db_changes admin_db"
  by (simp_all add: asked_db_def admin_db_def sample_db_def)

lemma approved: "db_requests approved_db = [(sample_request ''x'')\<lparr>pa_status := ''APPROVED'', pa_approved_by := Some ''u2'',
    pa_decided_at := Some 20\<rparr>]"
  "\<exists>a\<in>set (db_user_roles approved_db). ura_user a = ''u3'' \<and> ura_role a = ''r2'' \<and> ura_status a = ''ACTIVE''
     \<and> (\<exists>r\<in>set (db_roles approved_db). r_tenant r = ura_tenant a \<and> r_id r = ura_role a
          \<and> r_key r \<in> set PRIVILEGED_TENANT_ROLE_KEYS)"
  by (simp_all add: approved_db_def asked_db_def admin_db_def sample_user_role_def sample_role_def PRIVILEGED_TENANT_ROLE_KEYS_def)

lemma sample_run: "admin_run admin_db approved_db" "admin_run asked_db approved_db"
  unfolding approved_run [symmetric] by (intro admin_run.intros | unfold asked_run [symmetric])+

lemma asked_db_ok: "db_ok asked_db" "refs_ok asked_db"
  using run_ok admin_run.request [OF admin_run.start] admin_db_ok unfolding asked_run [symmetric] by blast+

section \<open>The theorems at work\<close>

theorem authorize_user_exact_witness:
  "authorize_user ''t1'' ''u1'' ''security.role.assign'' 10 (fresh_session admin_db sample_uuid)
     = (Inr ([''tenant.rbac_admin''], [''security.privileged_access.approve'', ''security.role.assign'']), fresh_session admin_db sample_uuid)
   \<and> (\<exists>rk. granted admin_db ''t1'' ''u1'' 10 rk ''security.role.assign'')"
proof -
  have "fst (authorize_user ''t1'' ''u1'' ''security.role.assign'' 10 (fresh_session admin_db sample_uuid))
     = Inr ([''tenant.rbac_admin''], [''security.privileged_access.approve'', ''security.role.assign''])"
    by code_simp
  then show ?thesis
    using authorize_user_exact [of "fresh_session admin_db sample_uuid" "''t1''" "''u1''" "''security.role.assign''" 10
        "[''tenant.rbac_admin'']" "[''security.privileged_access.approve'', ''security.role.assign'']"
        "fresh_session admin_db sample_uuid"] admin_db_ok
    by (auto simp: fresh_session_def prod_eq_iff)
qed


theorem administration_invariant_witness: "db_ok approved_db \<and> (\<exists>rows. db_changes approved_db = db_changes admin_db @ rows)"
  using administration_invariant [OF sample_run(1)] admin_db_ok by blast

theorem request_lifecycle_witness:
  "\<exists>q\<in>set (db_requests approved_db). pa_status q = ''APPROVED'' \<and> pa_approved_by q = Some ''u2'' \<and> pa_requested_by q = ''u1''"
  using request_lifecycle [OF sample_run(2) asked_db_ok, of "sample_request ''x''"]
  by (auto simp: asked(1) approved(1) sample_request_def)

theorem privileged_assignments_approved_witness:
  "\<exists>a\<in>set (db_user_roles approved_db). ura_user a = ''u3'' \<and> ura_role a = ''r2''
     \<and> (\<exists>q\<in>set (db_requests approved_db). pa_status q = ''APPROVED'' \<and> pa_subject q = ura_user a)"
proof -
  obtain a where a: "a \<in> set (db_user_roles approved_db)" "ura_user a = ''u3''" "ura_role a = ''r2''" "ura_status a = ''ACTIVE''"
      "privileged_role approved_db (ura_tenant a) (ura_role a)"
    using approved(2) unfolding privileged_role_def by blast
  have "a \<notin> set (db_user_roles admin_db)" using a(2) by (auto simp: admin_db_def sample_user_role_def)
  with privileged_assignments_approved [OF sample_run(1) _ _ a(1,4,5)] admin_db_ok a show ?thesis by metis
qed

theorem administration_refines_ledger_witness:
  "ledger_step (ledger_of admin_db) (ledger_of asked_db) \<and> ledger_of admin_db ''x'' = None
     \<and> ledger_of asked_db ''x'' = Some (entry_of (sample_request ''x''))"
proof -
  have "ledger_step (ledger_of admin_db) (ledger_of asked_db)"
    unfolding asked_run [symmetric] using administration_refines_ledger admin_db_ok by blast
  then show ?thesis by (simp add: ledger_of_def asked first_row_def sample_request_def) (simp add: admin_db_def sample_db_def)
qed

end
