(* ===== verification/Registry.thy ===== *)
theory Registry
  imports Store PyStrings Core
begin

text \<open>
  The tables of the registration of users: principals and users with their contact columns,
  signup attempts, onboarding requests, the onboarding key and the security events. Their
  constraints (migrations 0001, 0003, 0006, 0007 and 0009) as an invariant of the database, and
  the statements the services run on them.
\<close>

section \<open>Constraints\<close>

text \<open>\<open>lower(primary_email)\<close> and \<open>regexp_replace(primary_mobile, '[^0-9]', '', 'g')\<close>.\<close>

definition email_key :: "user \<Rightarrow> string option" where
  "email_key u = map_option py_lower (u_primary_email u)"

definition mobile_digits :: "string \<Rightarrow> string" where
  "mobile_digits m = filter ascii_digit m"

definition mobile_key :: "user \<Rightarrow> string option" where
  "mobile_key u = map_option mobile_digits (u_primary_mobile u)"

definition user_check :: "user \<Rightarrow> bool" where
  "user_check u = (u_status u \<in> {''PENDING'', ''INVITED'', ''ACTIVE'', ''SUSPENDED'', ''DISABLED'', ''EXITED''})"

definition contacts_ok :: "user list \<Rightarrow> bool" where
  "contacts_ok rows =
     (unique_index email_key (\<lambda>u. u_primary_email u \<noteq> None) rows
      \<and> unique_index mobile_key (\<lambda>u. u_primary_mobile u \<noteq> None) rows \<and> list_all user_check rows)"

definition attempt_live :: "signup_attempt \<Rightarrow> bool" where
  "attempt_live a = (sa_status a = ''AUTHORIZED_FOR_CLERK'')"

definition attempt_check :: "signup_attempt \<Rightarrow> bool" where
  "attempt_check a =
     (sa_status a \<in> {''AUTHORIZED_FOR_CLERK'', ''COMPLETED'', ''EXPIRED'', ''CANCELLED''}
      \<and> sa_created_at a < sa_expires_at a
      \<and> (if sa_status a = ''COMPLETED'' then sa_clerk_user a \<noteq> None \<and> sa_completed_at a \<noteq> None
         else sa_completed_at a = None))"

definition attempts_ok :: "signup_attempt list \<Rightarrow> bool" where
  "attempts_ok rows =
     (unique_index sa_id every_row rows
      \<and> unique_index (\<lambda>a. py_lower (sa_email a)) attempt_live rows
      \<and> unique_index sa_mobile attempt_live rows
      \<and> unique_index sa_clerk_user (\<lambda>a. sa_clerk_user a \<noteq> None) rows
      \<and> unique_index sa_clerk_email (\<lambda>a. sa_clerk_email a \<noteq> None) rows
      \<and> list_all attempt_check rows)"

definition onboarding_check :: "onboarding_request \<Rightarrow> bool" where
  "onboarding_check r =
     (or_status r \<in> {''PENDING_CLERK'', ''CLERK_INVITED'', ''PENDING_ADMIN_APPROVAL'', ''APPROVED'', ''REJECTED'',
        ''CANCELLED'', ''CLERK_PROVISIONING_FAILED''})"

definition onboarding_ok :: "onboarding_request list \<Rightarrow> bool" where
  "onboarding_ok rows =
     (unique_index or_id every_row rows \<and> unique_index or_user every_row rows \<and> list_all onboarding_check rows)"

definition setting_check :: "onboarding_setting \<Rightarrow> bool" where
  "setting_check r = (os_key_version r \<ge> 1 \<and> os_status r \<in> {''ACTIVE'', ''DISABLED''})"

text \<open>The key of the settings is the constant 1.\<close>

definition registry_ok :: "db \<Rightarrow> bool" where
  "registry_ok d =
     (contacts_ok (db_users d) \<and> attempts_ok (db_attempts d) \<and> onboarding_ok (db_onboarding d)
      \<and> unique_index (\<lambda>_. ()) every_row (db_onboarding_key d) \<and> list_all setting_check (db_onboarding_key d)
      \<and> unique_index se_id every_row (db_events d))"

section \<open>Statements\<close>

definition insert_principal :: "principal \<Rightarrow> db \<Rightarrow> exn + db" where
  "insert_principal r d =
     (if index_free sp_id every_row r (db_principals d)
      then Inr (d\<lparr>db_principals := db_principals d @ [r]\<rparr>) else Inl IntegrityError)"

definition insert_user :: "user \<Rightarrow> db \<Rightarrow> exn + db" where
  "insert_user u d =
     (if user_check u \<and> index_free u_id every_row u (db_users d)
         \<and> index_free email_key (\<lambda>x. u_primary_email x \<noteq> None) u (db_users d)
         \<and> index_free mobile_key (\<lambda>x. u_primary_mobile x \<noteq> None) u (db_users d)
      then Inr (d\<lparr>db_users := db_users d @ [u]\<rparr>) else Inl IntegrityError)"

definition insert_attempt :: "signup_attempt \<Rightarrow> db \<Rightarrow> exn + db" where
  "insert_attempt a d =
     (let rows = db_attempts d @ [a]
      in if attempts_ok rows then Inr (d\<lparr>db_attempts := rows\<rparr>) else Inl IntegrityError)"

definition update_attempts ::
  "(signup_attempt \<Rightarrow> bool) \<Rightarrow> (signup_attempt \<Rightarrow> signup_attempt) \<Rightarrow> db \<Rightarrow> exn + db" where
  "update_attempts p f d =
     (let rows = update_rows p f (db_attempts d)
      in if attempts_ok rows then Inr (d\<lparr>db_attempts := rows\<rparr>) else Inl IntegrityError)"

definition insert_onboarding :: "onboarding_request \<Rightarrow> db \<Rightarrow> exn + db" where
  "insert_onboarding r d =
     (if onboarding_check r \<and> index_free or_id every_row r (db_onboarding d)
         \<and> index_free or_user every_row r (db_onboarding d)
      then Inr (d\<lparr>db_onboarding := db_onboarding d @ [r]\<rparr>) else Inl IntegrityError)"

definition update_onboarding ::
  "(onboarding_request \<Rightarrow> bool) \<Rightarrow> (onboarding_request \<Rightarrow> onboarding_request) \<Rightarrow> db \<Rightarrow> exn + db" where
  "update_onboarding p f d =
     (if list_all (\<lambda>r. p r \<longrightarrow> onboarding_check (f r)) (db_onboarding d)
      then Inr (d\<lparr>db_onboarding := update_rows p f (db_onboarding d)\<rparr>) else Inl IntegrityError)"

definition update_users :: "(user \<Rightarrow> bool) \<Rightarrow> (user \<Rightarrow> user) \<Rightarrow> db \<Rightarrow> exn + db" where
  "update_users p f d =
     (if list_all (\<lambda>u. p u \<longrightarrow> user_check (f u)) (db_users d)
      then Inr (d\<lparr>db_users := update_rows p f (db_users d)\<rparr>) else Inl IntegrityError)"

definition insert_event :: "security_event \<Rightarrow> db \<Rightarrow> exn + db" where
  "insert_event r d =
     (if index_free se_id every_row r (db_events d)
      then Inr (d\<lparr>db_events := db_events d @ [r]\<rparr>) else Inl IntegrityError)"

section \<open>The statements keep the constraints\<close>

lemmas registry_defs =
  insert_principal_def insert_user_def insert_attempt_def update_attempts_def insert_onboarding_def
  update_onboarding_def update_users_def insert_event_def

lemma registry_keeps_db_ok:
  "db_ok d \<Longrightarrow> insert_principal p d = Inr e \<Longrightarrow> db_ok e"
  "db_ok d \<Longrightarrow> insert_user u d = Inr e \<Longrightarrow> db_ok e"
  "db_ok d \<Longrightarrow> insert_attempt a d = Inr e \<Longrightarrow> db_ok e"
  "db_ok d \<Longrightarrow> update_attempts pa fa d = Inr e \<Longrightarrow> db_ok e"
  "db_ok d \<Longrightarrow> insert_onboarding r d = Inr e \<Longrightarrow> db_ok e"
  "db_ok d \<Longrightarrow> update_onboarding pr fr d = Inr e \<Longrightarrow> db_ok e"
  "db_ok d \<Longrightarrow> insert_event v d = Inr e \<Longrightarrow> db_ok e"
  by (simp_all only: registry_defs Let_def split: if_split_asm; clarsimp simp: db_ok_def unique_index_append)+

lemma update_users_keeps_db_ok:
  assumes "db_ok d" and "update_users p f d = Inr e" and "calm u_id every_row f"
  shows "db_ok e"
  using assms
  by (simp only: update_users_def split: if_split_asm; clarsimp simp: db_ok_def calm_unique_index)

lemma registry_keeps_ok:
  "registry_ok d \<Longrightarrow> insert_principal p d = Inr e \<Longrightarrow> registry_ok e"
  "registry_ok d \<Longrightarrow> insert_user u d = Inr e \<Longrightarrow> registry_ok e"
  "registry_ok d \<Longrightarrow> insert_attempt a d = Inr e \<Longrightarrow> registry_ok e"
  "registry_ok d \<Longrightarrow> update_attempts pa fa d = Inr e \<Longrightarrow> registry_ok e"
  "registry_ok d \<Longrightarrow> insert_onboarding r d = Inr e \<Longrightarrow> registry_ok e"
  "registry_ok d \<Longrightarrow> insert_event v d = Inr e \<Longrightarrow> registry_ok e"
  by (simp_all only: registry_defs Let_def split: if_split_asm;
      clarsimp simp: registry_ok_def contacts_ok_def onboarding_ok_def unique_index_append)+

lemma update_users_keeps_ok:
  assumes "registry_ok d" and "update_users p f d = Inr e"
    and "\<And>u. u_primary_email (f u) = u_primary_email u \<and> u_primary_mobile (f u) = u_primary_mobile u"
  shows "registry_ok e"
proof -
  have "calm email_key (\<lambda>u. u_primary_email u \<noteq> None) f" "calm mobile_key (\<lambda>u. u_primary_mobile u \<noteq> None) f"
    using assms(3) by (simp_all add: calm_def email_key_def mobile_key_def)
  then show ?thesis
    using assms(1,2)
    by (simp only: update_users_def split: if_split_asm;
        clarsimp simp: registry_ok_def contacts_ok_def calm_unique_index list_all_update_rows)
qed

lemma update_onboarding_keeps_ok:
  assumes "registry_ok d" and "update_onboarding p f d = Inr e" and "calm or_id every_row f" and "calm or_user every_row f"
  shows "registry_ok e"
  using assms
  by (simp only: update_onboarding_def split: if_split_asm;
      clarsimp simp: registry_ok_def onboarding_ok_def calm_unique_index list_all_update_rows)

end
