(* ===== verification/ClerkBackend.thy ===== *)
theory ClerkBackend
  imports Tokens PyStrings
begin

text \<open>
  \<open>adapters/clerk_backend.py\<close>: the client of Clerk's Backend API, over HTTP. The service at the
  other end is a parameter: what it answers to a request, given the requests it has answered
  before. The requests sent are kept beside the transaction, oldest first; a rollback does not
  take them back. A reply is the status, whether it has content, and its JSON if it is JSON.
\<close>

section \<open>HTTP\<close>

record http_request =
  hq_method :: string
  hq_url :: string
  hq_bearer :: string
  hq_params :: "(string \<times> string) list"
  hq_json :: "pyval option"

datatype http_reply = TransportError | Response int bool "pyval option"

type_synonym ('d, 'a) net = "(http_request list, 'd, 'a) cact"

record clerk_client =
  ck_base_url :: string
  ck_secret_key :: string
  ck_http :: "http_request list \<Rightarrow> http_request \<Rightarrow> http_reply"

definition returnE :: "'a \<Rightarrow> ('c, 'd, 'a) cact" where
  "returnE x = onE (returnM x)"

definition throwE :: "exn \<Rightarrow> ('c, 'd, 'a) cact" where
  "throwE e = onE (throwM e)"

definition liftE :: "exn + 'a \<Rightarrow> ('c, 'd, 'a) cact" where
  "liftE r = onE (liftM r)"

text \<open>\<open>try: m except Exception as exc: h(exc)\<close>, its use for cleaning up, and \<open>suppress(Exception)\<close>.\<close>

definition catchE :: "('c, 'd, 'a) cact \<Rightarrow> (exn \<Rightarrow> ('c, 'd, 'a) cact) \<Rightarrow> ('c, 'd, 'a) cact" where
  "catchE m h c s = (case m c s of (Inl e, c', t) \<Rightarrow> h e c' t | (Inr x, c', t) \<Rightarrow> (Inr x, c', t))"

definition cleanupE :: "('c, 'd, 'a) cact \<Rightarrow> ('c, 'd, unit) cact \<Rightarrow> ('c, 'd, 'a) cact" where
  "cleanupE m h = catchE m (\<lambda>e. seqE h (throwE e))"

definition suppressE :: "('c, 'd, unit) cact \<Rightarrow> ('c, 'd, unit) cact" where
  "suppressE m = catchE m (\<lambda>_. returnE ())"

section \<open>Requests\<close>

definition rstrip_slash :: "string \<Rightarrow> string" where
  "rstrip_slash s = rev (dropWhile (\<lambda>c. c = CHR ''/'') (rev s))"

text \<open>\<open>ClerkBackendClient(settings)\<close>: the secret key is required.\<close>

definition new_clerk_client ::
  "string \<Rightarrow> string \<Rightarrow> (http_request list \<Rightarrow> http_request \<Rightarrow> http_reply) \<Rightarrow> exn + clerk_client" where
  "new_clerk_client clerk_backend_api_url clerk_secret_key http =
     (if py_strip clerk_secret_key = [] then Inl (ClerkError None)
      else Inr \<lparr>ck_base_url = rstrip_slash clerk_backend_api_url, ck_secret_key = py_strip clerk_secret_key, ck_http = http\<rparr>)"

definition send_request :: "clerk_client \<Rightarrow> http_request \<Rightarrow> ('d, http_reply) net" where
  "send_request c q = bindE evidenceE (\<lambda>sent. seqE (noteE (\<lambda>qs. qs @ [q])) (returnE (ck_http c sent q)))"

definition request_json ::
  "clerk_client \<Rightarrow> string \<Rightarrow> string \<Rightarrow> (string \<times> string) list \<Rightarrow> pyval option \<Rightarrow> bool \<Rightarrow> ('d, pyval) net" where
  "request_json c http_method path params json allow_empty =
     bindE (send_request c \<lparr>hq_method = http_method, hq_url = ck_base_url c @ path, hq_bearer = ck_secret_key c,
              hq_params = params, hq_json = json\<rparr>) (\<lambda>reply.
       case reply of
         TransportError \<Rightarrow> throwE (ClerkError None)
       | Response status content body \<Rightarrow>
           if status < 200 \<or> status \<ge> 300 then throwE (ClerkError (Some status))
           else if allow_empty \<and> \<not> content then returnE PNone
           else (case body of
                   Some v \<Rightarrow> returnE v
                 | None \<Rightarrow> if allow_empty then returnE PNone else throwE (ClerkError None)))"

fun as_object :: "pyval \<Rightarrow> exn + claims" where
  "as_object (PDict d) = Inr d"
| "as_object _ = Inl (ClerkError None)"

definition request_object ::
  "clerk_client \<Rightarrow> string \<Rightarrow> string \<Rightarrow> (string \<times> string) list \<Rightarrow> pyval option \<Rightarrow> ('d, claims) net" where
  "request_object c http_method path params json =
     bindE (request_json c http_method path params json False) (\<lambda>body. liftE (as_object body))"

section \<open>Reading Clerk's objects\<close>

fun str_value :: "pyval \<Rightarrow> string option" where
  "str_value (PStr s) = Some s"
| "str_value _ = None"

fun dict_items :: "pyval list \<Rightarrow> claims list" where
  "dict_items [] = []"
| "dict_items (PDict d # vs) = d # dict_items vs"
| "dict_items (_ # vs) = dict_items vs"

definition same_address :: "string \<Rightarrow> claims \<Rightarrow> bool" where
  "same_address expected item =
     (case str_value (get_claim item ''email_address'') of None \<Rightarrow> False | Some v \<Rightarrow> py_lower (py_strip v) = expected)"

definition email_address_id :: "claims \<Rightarrow> string \<Rightarrow> exn + string" where
  "email_address_id user expected_email =
     (case get_claim user ''email_addresses'' of
        PList values \<Rightarrow>
          (let expected = py_lower (py_strip expected_email);
               primary_id = get_claim user ''primary_email_address_id'';
               fits = (\<lambda>item. same_address expected item \<and> non_empty_str (get_claim item ''id'')
                         \<and> (primary_id = PNone \<or> get_claim item ''id'' = primary_id))
           in case first_row fits (dict_items values) of
                Some item \<Rightarrow> Inr (the (str_value (get_claim item ''id'')))
              | None \<Rightarrow> Inl (ClerkError None))
      | _ \<Rightarrow> Inl (ClerkError None))"

definition is_verified :: "claims \<Rightarrow> bool" where
  "is_verified item =
     (case get_claim item ''verification'' of PDict v \<Rightarrow> get_claim v ''status'' = PStr ''verified'' | _ \<Rightarrow> False)"

text \<open>Rows that are equal ignoring case to the identifier; \<open>None\<close> is not iterable.\<close>

fun matches_identifier :: "claims \<Rightarrow> string \<Rightarrow> exn + bool" where
  "matches_identifier row identifier =
     (let target = py_casefold identifier;
          is_target = (\<lambda>v. case str_value v of None \<Rightarrow> False | Some s \<Rightarrow> py_casefold s = target)
      in if is_target (get_claim row ''username'') then Inr True
         else (case dict_get row ''email_addresses'' of
                 None \<Rightarrow> Inr False
               | Some (PList values) \<Rightarrow>
                   Inr (list_ex (\<lambda>item. is_target (get_claim item ''email_address'')) (dict_items values))
               | Some (PStr s) \<Rightarrow> Inr False
               | Some (PDict d) \<Rightarrow> Inr False
               | Some _ \<Rightarrow> Inl (TypeError ''object is not iterable'')))"

record ClerkBackendUser =
  cu_user_id :: string
  cu_display_name :: string
  cu_primary_email :: "string option"
  cu_totp_enabled :: bool
  cu_banned :: bool
  cu_locked :: bool

text \<open>The loop over the addresses: the first one, unless one of them is the primary one.\<close>

fun primary_address :: "pyval \<Rightarrow> claims list \<Rightarrow> string option \<Rightarrow> string option" where
  "primary_address primary_id [] found = found"
| "primary_address primary_id (item # items) found =
     (case str_value (get_claim item ''email_address'') of
        None \<Rightarrow> primary_address primary_id items found
      | Some v \<Rightarrow>
          if get_claim item ''id'' = primary_id then Some v
          else primary_address primary_id items (if found = None then Some v else found))"

definition user_from_payload :: "claims \<Rightarrow> exn + ClerkBackendUser" where
  "user_from_payload row =
     (case str_value (get_claim row ''id'') of
        None \<Rightarrow> Inl (ClerkError None)
      | Some user_id \<Rightarrow>
          if user_id = [] then Inl (ClerkError None)
          else (let name_of = (\<lambda>key. case str_value (get_claim row key) of None \<Rightarrow> [] | Some s \<Rightarrow> s);
                    display_name = py_strip (join_with '' '' (filter (\<lambda>v. v \<noteq> []) [name_of ''first_name'', name_of ''last_name'']));
                    primary_email = (case get_claim row ''email_addresses'' of
                        PList values \<Rightarrow> primary_address (get_claim row ''primary_email_address_id'') (dict_items values) None
                      | _ \<Rightarrow> None)
                in Inr \<lparr>cu_user_id = user_id,
                     cu_display_name = (if display_name \<noteq> [] then display_name
                        else case primary_email of None \<Rightarrow> user_id | Some e \<Rightarrow> if e \<noteq> [] then e else user_id),
                     cu_primary_email = primary_email,
                     cu_totp_enabled = truthy (get_claim row ''totp_enabled''),
                     cu_banned = truthy (get_claim row ''banned''),
                     cu_locked = truthy (get_claim row ''locked'')\<rparr>))"

fun exact_users :: "claims list \<Rightarrow> string \<Rightarrow> exn + ClerkBackendUser list" where
  "exact_users [] identifier = Inr []"
| "exact_users (row # rows) identifier =
     (case matches_identifier row identifier of
        Inl e \<Rightarrow> Inl e
      | Inr False \<Rightarrow> exact_users rows identifier
      | Inr True \<Rightarrow>
          (case user_from_payload row of
             Inl e \<Rightarrow> Inl e
           | Inr u \<Rightarrow> (case exact_users rows identifier of Inl e \<Rightarrow> Inl e | Inr us \<Rightarrow> Inr (u # us))))"

section \<open>Operations\<close>

definition get_clerk_user :: "clerk_client \<Rightarrow> string \<Rightarrow> ('d, claims) net" where
  "get_clerk_user c clerk_user_id =
     bindE (request_object c ''GET'' (''/users/'' @ clerk_user_id) [] None) (\<lambda>data.
       if is_str (get_claim data ''id'') then returnE data else throwE (ClerkError None))"

definition delete_clerk_user :: "clerk_client \<Rightarrow> string \<Rightarrow> ('d, unit) net" where
  "delete_clerk_user c clerk_user_id =
     seqE (request_json c ''DELETE'' (''/users/'' @ clerk_user_id) [] None True) (returnE ())"

definition ban_user :: "clerk_client \<Rightarrow> string \<Rightarrow> ('d, unit) net" where
  "ban_user c clerk_user_id = seqE (request_object c ''POST'' (''/users/'' @ clerk_user_id @ ''/ban'') [] None) (returnE ())"

definition unban_user :: "clerk_client \<Rightarrow> string \<Rightarrow> ('d, unit) net" where
  "unban_user c clerk_user_id = seqE (request_object c ''POST'' (''/users/'' @ clerk_user_id @ ''/unban'') [] None) (returnE ())"

definition update_user_profile :: "clerk_client \<Rightarrow> string \<Rightarrow> string \<Rightarrow> string \<Rightarrow> ('d, unit) net" where
  "update_user_profile c clerk_user_id first_name last_name =
     seqE (request_object c ''PATCH'' (''/users/'' @ clerk_user_id) []
             (Some (PDict [(''first_name'', PStr first_name), (''last_name'', PStr last_name)])))
       (returnE ())"

definition prepare_email_verification :: "clerk_client \<Rightarrow> string \<Rightarrow> ('d, unit) net" where
  "prepare_email_verification c address_id =
     seqE (request_object c ''POST'' (''/email_addresses/'' @ address_id @ ''/prepare_verification'') []
             (Some (PDict [(''strategy'', PStr ''email_code'')])))
       (returnE ())"

definition prepared_user_id :: "claims \<Rightarrow> exn + string" where
  "prepared_user_id data =
     (case str_value (get_claim data ''id'') of
        Some i \<Rightarrow> if starts_with ''user_'' i then Inr i else Inl (ClerkError None)
      | None \<Rightarrow> Inl (ClerkError None))"

definition new_user_body :: "string \<Rightarrow> string \<Rightarrow> string \<Rightarrow> string \<Rightarrow> claims" where
  "new_user_body first_name last_name email password =
     [(''first_name'', PStr first_name), (''last_name'', PStr last_name), (''email_address'', PList [PStr email]),
      (''password'', PStr password)]"

definition create_pending_email_user ::
  "clerk_client \<Rightarrow> string \<Rightarrow> string \<Rightarrow> string \<Rightarrow> string \<Rightarrow> ('d, string \<times> string) net" where
  "create_pending_email_user c first_name last_name email password =
     bindE (request_object c ''POST'' ''/users'' []
              (Some (PDict (new_user_body first_name last_name email password @ [(''banned'', PBool True)])))) (\<lambda>data.
     bindE (liftE (prepared_user_id data)) (\<lambda>clerk_user_id.
     bindE (liftE (email_address_id data email)) (\<lambda>address_id.
     seqE (cleanupE
             (seqE (request_object c ''PATCH'' (''/email_addresses/'' @ address_id) [] (Some (PDict [(''verified'', PBool False)])))
                (prepare_email_verification c address_id))
             (suppressE (delete_clerk_user c clerk_user_id)))
       (returnE (clerk_user_id, address_id)))))"

definition create_clerk_user :: "clerk_client \<Rightarrow> string \<Rightarrow> string \<Rightarrow> string \<Rightarrow> string \<Rightarrow> ('d, string) net" where
  "create_clerk_user c first_name last_name email password =
     bindE (request_object c ''POST'' ''/users'' [] (Some (PDict (new_user_body first_name last_name email password))))
       (\<lambda>data. liftE (prepared_user_id data))"

text \<open>A rejection of the credential is an answer, every other failure is not.\<close>

definition rejected :: "exn \<Rightarrow> bool" where
  "rejected e = (\<exists>st\<in>{400, 401, 403, 409, 422}. e = ClerkError (Some st))"

lemma rejected_code [code]: "rejected e = (case e of ClerkError (Some st) \<Rightarrow> st \<in> {400, 401, 403, 409, 422} | _ \<Rightarrow> False)"
  by (auto simp: rejected_def split: exn.split option.split)

definition ask_clerk :: "('d, claims) net \<Rightarrow> (claims \<Rightarrow> bool) \<Rightarrow> ('d, bool) net" where
  "ask_clerk m answer =
     catchE (bindE m (\<lambda>data. returnE (answer data))) (\<lambda>e. if rejected e then returnE False else throwE e)"

definition attempt_email_verification :: "clerk_client \<Rightarrow> string \<Rightarrow> string \<Rightarrow> ('d, bool) net" where
  "attempt_email_verification c address_id code =
     ask_clerk (request_object c ''POST'' (''/email_addresses/'' @ address_id @ ''/attempt_verification'') []
                 (Some (PDict [(''code'', PStr code)]))) is_verified"

definition verify_password :: "clerk_client \<Rightarrow> string \<Rightarrow> string \<Rightarrow> ('d, bool) net" where
  "verify_password c clerk_user_id password =
     ask_clerk (request_object c ''POST'' (''/users/'' @ clerk_user_id @ ''/verify_password'') []
                 (Some (PDict [(''password'', PStr password)]))) (\<lambda>data. get_claim data ''verified'' = PBool True)"

definition verify_totp :: "clerk_client \<Rightarrow> string \<Rightarrow> string \<Rightarrow> ('d, bool) net" where
  "verify_totp c clerk_user_id code =
     ask_clerk (request_object c ''POST'' (''/users/'' @ clerk_user_id @ ''/verify_totp'') []
                 (Some (PDict [(''code'', PStr code)]))) (\<lambda>data. get_claim data ''verified'' = PBool True)"

definition create_clerk_invitation :: "clerk_client \<Rightarrow> string \<Rightarrow> string \<Rightarrow> string \<Rightarrow> ('d, string) net" where
  "create_clerk_invitation c email security_user_id onboarding_request_id =
     bindE (request_object c ''POST'' ''/invitations'' []
       (Some (PDict [(''email_address'', PStr email), (''notify'', PBool True),
          (''public_metadata'', PDict [(''verigence_user_id'', PStr security_user_id),
             (''verigence_onboarding_request_id'', PStr onboarding_request_id)])]))) (\<lambda>data.
     if non_empty_str (get_claim data ''id'') then returnE (the (str_value (get_claim data ''id'')))
     else throwE (ClerkError None))"

definition verified_in :: "claims \<Rightarrow> string \<Rightarrow> bool" where
  "verified_in user expected_email =
     (case get_claim user ''email_addresses'' of
        PList values \<Rightarrow>
          (case first_row (same_address (py_lower (py_strip expected_email))) (dict_items values) of
             Some item \<Rightarrow> is_verified item | None \<Rightarrow> False)
      | _ \<Rightarrow> False)"

definition is_email_verified :: "clerk_client \<Rightarrow> string \<Rightarrow> string \<Rightarrow> ('d, bool) net" where
  "is_email_verified c clerk_user_id expected_email =
     bindE (get_clerk_user c clerk_user_id) (\<lambda>user. returnE (verified_in user expected_email))"

definition given_address :: "claims \<Rightarrow> bool" where
  "given_address item = (case str_value (get_claim item ''email_address'') of None \<Rightarrow> False | Some v \<Rightarrow> py_strip v \<noteq> [])"

definition primary_in :: "claims \<Rightarrow> string option" where
  "primary_in user =
     (case get_claim user ''email_addresses'' of
        PList values \<Rightarrow>
          (let primary_id = get_claim user ''primary_email_address_id'';
               clean = (\<lambda>item. py_lower (py_strip (the (str_value (get_claim item ''email_address'')))))
           in case first_row (\<lambda>item. given_address item \<and> (primary_id = PNone \<or> get_claim item ''id'' = primary_id)) (dict_items values) of
                Some item \<Rightarrow> Some (clean item)
              | None \<Rightarrow> map_option clean (first_row given_address (dict_items values)))
      | _ \<Rightarrow> None)"

definition clerk_primary_email :: "clerk_client \<Rightarrow> string \<Rightarrow> ('d, string option) net" where
  "clerk_primary_email c clerk_user_id = bindE (get_clerk_user c clerk_user_id) (\<lambda>user. returnE (primary_in user))"

fun user_rows :: "pyval \<Rightarrow> exn + pyval list" where
  "user_rows (PList rows) = Inr rows"
| "user_rows (PDict d) = (case get_claim d ''data'' of PList rows \<Rightarrow> Inr rows | _ \<Rightarrow> Inl (ClerkError None))"
| "user_rows _ = Inl (ClerkError None)"

definition find_clerk_user :: "clerk_client \<Rightarrow> string \<Rightarrow> ('d, ClerkBackendUser option) net" where
  "find_clerk_user c identifier =
     (let normalized = py_strip identifier in
      if normalized = [] then returnE None
      else bindE (request_json c ''GET'' ''/users'' [(''query'', normalized), (''limit'', ''20'')] None False) (\<lambda>payload.
           bindE (liftE (user_rows payload)) (\<lambda>rows.
           bindE (liftE (exact_users (dict_items rows) normalized)) (\<lambda>exact.
             case exact of [] \<Rightarrow> returnE None | [u] \<Rightarrow> returnE (Some u) | _ \<Rightarrow> throwE (ClerkError None)))))"

end
