(* ===== verification/SignUp.thy ===== *)
theory SignUp
  imports Registry ClerkBackend AccessService
begin

text \<open>
  \<open>services/phase1_self_onboarding.py\<close>: somebody signs up, Clerk mails a code, the code comes back
  and a PENDING user is registered. The hash of the onboarding key is checked by Argon2, a
  parameter. No transaction is open while Clerk is asked: what other requests commit meanwhile
  is the parameter \<open>others\<close>, as at the row lock of the refresh.
\<close>

section \<open>Input\<close>

definition clean_email :: "string \<Rightarrow> exn + string" where
  "clean_email value =
     (let clean = py_lower (py_strip value) in
      if clean = [] \<or> CHR ''@'' \<notin> set clean \<or> starts_with ''@'' clean \<or> ends_with ''@'' clean
      then Inl (ValueError ''A valid email address is required'')
      else if list_ex py_space clean then Inl (ValueError ''A valid email address is required'')
      else Inr clean)"

definition clean_name :: "string \<Rightarrow> string \<Rightarrow> exn + string" where
  "clean_name value label =
     (let clean = join_with '' '' (py_split (py_strip value)) in
      if clean = [] then Inl (ValueError (label @ '' is required'')) else Inr clean)"

definition national_digits :: "string \<Rightarrow> string" where
  "national_digits digits =
     (if length digits = 12 \<and> starts_with ''91'' digits then drop 2 digits
      else if length digits = 11 \<and> starts_with ''0'' digits then drop 1 digits
      else digits)"

definition indian_mobile :: "string \<Rightarrow> exn + string" where
  "indian_mobile value =
     (let digits = national_digits (filter py_digit value) in
      if length digits \<noteq> 10 \<or> hd digits \<notin> set ''6789''
      then Inl (ValueError ''A valid 10-digit Indian mobile number is required'')
      else Inr (''+91'' @ digits))"

section \<open>The registry\<close>

definition require_valid_onboarding_key :: "(string \<Rightarrow> string \<Rightarrow> bool) \<Rightarrow> string \<Rightarrow> unit dbact" where
  "require_valid_onboarding_key hash_verifies supplied =
     bindM (query (\<lambda>d. first_of (db_onboarding_key d))) (\<lambda>row.
       case row of
         None \<Rightarrow> throwM (security_error ''PERMISSION_DENIED'')
       | Some r \<Rightarrow>
           raise_if (os_status r \<noteq> ''ACTIVE'' \<or> \<not> hash_verifies (os_key_hash r) supplied) (security_error ''PERMISSION_DENIED''))"

definition email_registered :: "string \<Rightarrow> db \<Rightarrow> bool" where
  "email_registered email d = exists_row (\<lambda>u. email_key u = Some email) (db_users d)"

definition mobile_registered :: "string \<Rightarrow> db \<Rightarrow> bool" where
  "mobile_registered mobile d = exists_row (\<lambda>u. mobile_key u = Some (remove_prefix ''+'' mobile)) (db_users d)"

definition require_identity_not_registered :: "string \<Rightarrow> string \<Rightarrow> unit dbact" where
  "require_identity_not_registered email mobile =
     bindM (query (email_registered email)) (\<lambda>e.
     seqM (raise_if e (ValueError ''Email address is already registered''))
     (bindM (query (mobile_registered mobile)) (\<lambda>m.
       raise_if m (ValueError ''Mobile number is already registered''))))"

definition same_identity :: "string \<Rightarrow> string \<Rightarrow> signup_attempt \<Rightarrow> bool" where
  "same_identity email mobile a = (py_lower (sa_email a) = email \<or> sa_mobile a = mobile)"

definition require_no_live_attempt :: "string \<Rightarrow> string \<Rightarrow> unit dbact" where
  "require_no_live_attempt email mobile =
     bindM (query (\<lambda>d. exists_row (\<lambda>a. attempt_live a \<and> same_identity email mobile a) (db_attempts d))) (\<lambda>live.
       raise_if live (ValueError ''Email or mobile number already has an active signup attempt''))"

definition require_clerk_identity_not_registered :: "string \<Rightarrow> unit dbact" where
  "require_clerk_identity_not_registered clerk_user_id =
     bindM (query (\<lambda>d. exists_row (\<lambda>e. ei_provider e = ''CLERK'' \<and> ei_subject e = clerk_user_id) (db_identities d))) (\<lambda>known.
       raise_if known (ValueError ''Clerk identity is already registered''))"

section \<open>Attempts\<close>

definition set_attempt_status :: "string \<Rightarrow> (signup_attempt \<Rightarrow> bool) \<Rightarrow> unit dbact" where
  "set_attempt_status status p = execute (update_attempts p (\<lambda>a. a\<lparr>sa_status := status\<rparr>))"

definition load_attempt :: "string \<Rightarrow> signup_attempt dbact" where
  "load_attempt attempt_id =
     bindM (query (\<lambda>d. first_row (\<lambda>a. sa_id a = attempt_id) (db_attempts d))) (\<lambda>row.
       case row of None \<Rightarrow> throwM (LookupError ''Signup attempt was not found'') | Some a \<Rightarrow> returnM a)"

definition require_completable :: "signup_attempt \<Rightarrow> int \<Rightarrow> unit dbact" where
  "require_completable attempt current =
     seqM (raise_if (sa_status attempt \<noteq> ''AUTHORIZED_FOR_CLERK'')
             (ValueError ''Signup attempt is no longer available for completion''))
     (if sa_expires_at attempt \<le> current
      then seqM (set_attempt_status ''EXPIRED'' (\<lambda>a. sa_id a = sa_id attempt \<and> attempt_live a))
           (seqM commit (throwM (ValueError ''Signup attempt has expired'')))
      else returnM ())"

definition required_clerk_user_id :: "signup_attempt \<Rightarrow> exn + string" where
  "required_clerk_user_id attempt =
     (case sa_clerk_user attempt of
        Some v \<Rightarrow> if starts_with ''user_'' v then Inr v else Inl (ValueError ''Signup identity has not been prepared'')
      | None \<Rightarrow> Inl (ValueError ''Signup identity has not been prepared''))"

definition required_clerk_email_id :: "signup_attempt \<Rightarrow> exn + string" where
  "required_clerk_email_id attempt =
     (case sa_clerk_email attempt of
        Some v \<Rightarrow> if v \<noteq> [] then Inr v else Inl (ValueError ''Signup email verification has not been prepared'')
      | None \<Rightarrow> Inl (ValueError ''Signup email verification has not been prepared''))"

fun foreachE :: "'x list \<Rightarrow> ('x \<Rightarrow> ('c, 'd, unit) cact) \<Rightarrow> ('c, 'd, unit) cact" where
  "foreachE [] f = returnE ()"
| "foreachE (x # xs) f = seqE (f x) (foreachE xs f)"

definition delete_stale_user :: "clerk_client \<Rightarrow> string option \<Rightarrow> (db, unit) net" where
  "delete_stale_user clerk clerk_user_id =
     (if is_set clerk_user_id
      then catchE (delete_clerk_user clerk (the clerk_user_id))
             (\<lambda>e. case e of ClerkError st \<Rightarrow> if st = Some 404 then returnE () else throwE e | _ \<Rightarrow> throwE e)
      else returnE ())"

definition stale_attempt :: "string \<Rightarrow> string \<Rightarrow> int \<Rightarrow> signup_attempt \<Rightarrow> bool" where
  "stale_attempt email mobile now a = (attempt_live a \<and> sa_expires_at a \<le> now \<and> same_identity email mobile a)"

text \<open>Other requests commit; the transaction that begins next sees them.\<close>

definition interfere :: "('d \<Rightarrow> 'd) \<Rightarrow> ('d, unit) act" where
  "interfere others s = (Inr (), s\<lparr>committed := others (committed s), working := others (committed s)\<rparr>)"

definition expire_stale_identity_attempts :: "clerk_client \<Rightarrow> (db \<Rightarrow> db) \<Rightarrow> string \<Rightarrow> string \<Rightarrow> int \<Rightarrow> (db, unit) net" where
  "expire_stale_identity_attempts clerk others email mobile now =
     bindE (onE (query (\<lambda>d. filter (stale_attempt email mobile now) (db_attempts d)))) (\<lambda>rows.
       if rows = [] then returnE ()
       else seqE (onE (set_attempt_status ''EXPIRED'' (stale_attempt email mobile now)))
            (seqE (onE commit)
            (seqE (foreachE rows (\<lambda>a. delete_stale_user clerk (sa_clerk_user a)))
            (onE (interfere others)))))"

section \<open>Start\<close>

text \<open>The lifetime of an attempt is 30 minutes.\<close>

definition ATTEMPT_TTL :: int where
  "ATTEMPT_TTL = minutes 30"

record signup_form =
  sf_first_name :: string
  sf_last_name :: string
  sf_email :: string
  sf_mobile :: string
  sf_password :: string
  sf_onboarding_key :: string
  sf_ip :: string
  sf_correlation :: string

definition new_attempt :: "string \<Rightarrow> string \<Rightarrow> string \<Rightarrow> string \<Rightarrow> string \<Rightarrow> signup_form \<Rightarrow> int \<Rightarrow> signup_attempt" where
  "new_attempt attempt_id first_name last_name email mobile form now =
     \<lparr>sa_id = attempt_id, sa_first_name = first_name, sa_last_name = last_name, sa_email = email, sa_mobile = mobile,
      sa_status = ''AUTHORIZED_FOR_CLERK'', sa_ip = sf_ip form, sa_correlation = sf_correlation form,
      sa_created_at = now, sa_expires_at = now + ATTEMPT_TTL, sa_clerk_user = None, sa_clerk_email = None,
      sa_completed_at = None\<rparr>"

definition insert_new_attempt :: "signup_attempt \<Rightarrow> unit dbact" where
  "insert_new_attempt a =
     catch_integrity (seqM (execute (insert_attempt a)) commit)
       (seqM rollback (throwM (ValueError ''Email or mobile number already has an active signup attempt'')))"

definition cancel_attempt :: "string \<Rightarrow> unit dbact" where
  "cancel_attempt attempt_id =
     seqM rollback
     (seqM (set_attempt_status ''CANCELLED'' (\<lambda>a. sa_id a = attempt_id \<and> attempt_live a)) commit)"

definition note_clerk_ids :: "string \<Rightarrow> string \<Rightarrow> string \<Rightarrow> unit dbact" where
  "note_clerk_ids attempt_id clerk_user_id address_id =
     seqM (execute (update_attempts (\<lambda>a. sa_id a = attempt_id \<and> attempt_live a)
            (\<lambda>a. a\<lparr>sa_clerk_user := Some clerk_user_id, sa_clerk_email := Some address_id\<rparr>)))
     commit"

record signup_result =
  sr_attempt_id :: string
  sr_status :: string
  sr_expires_at :: int

definition prepare_clerk_user ::
  "clerk_client \<Rightarrow> (db \<Rightarrow> db) \<Rightarrow> string \<Rightarrow> string \<Rightarrow> string \<Rightarrow> string \<Rightarrow> string \<Rightarrow> (db, unit) net" where
  "prepare_clerk_user clerk others attempt_id first_name last_name email password =
     bindE (cleanupE (create_pending_email_user clerk first_name last_name email password)
              (onE (seqM (interfere others) (cancel_attempt attempt_id)))) (\<lambda>(clerk_user_id, address_id).
     cleanupE (onE (seqM (interfere others) (note_clerk_ids attempt_id clerk_user_id address_id)))
       (seqE (onE (cancel_attempt attempt_id)) (suppressE (delete_clerk_user clerk clerk_user_id))))"

definition start_signup ::
  "(string \<Rightarrow> string \<Rightarrow> bool) \<Rightarrow> clerk_client \<Rightarrow> (db \<Rightarrow> db) \<Rightarrow> int \<Rightarrow> signup_form \<Rightarrow> (db, signup_result) net" where
  "start_signup hash_verifies clerk others now form =
     bindE (liftE (clean_name (sf_first_name form) ''First name'')) (\<lambda>first_name.
     bindE (liftE (clean_name (sf_last_name form) ''Last name'')) (\<lambda>last_name.
     bindE (liftE (clean_email (sf_email form))) (\<lambda>email.
     bindE (liftE (indian_mobile (sf_mobile form))) (\<lambda>mobile.
     seqE (onE (raise_if (sf_password form = []) (ValueError ''Password is required'')))
     (seqE (onE (require_valid_onboarding_key hash_verifies (py_strip (sf_onboarding_key form))))
     (seqE (expire_stale_identity_attempts clerk others email mobile now)
     (seqE (onE (require_identity_not_registered email mobile))
     (seqE (onE (require_no_live_attempt email mobile))
     (bindE (onE uuid4) (\<lambda>attempt_id.
      let a = new_attempt attempt_id first_name last_name email mobile form now in
      seqE (onE (insert_new_attempt a))
      (seqE (prepare_clerk_user clerk others attempt_id first_name last_name email (sf_password form))
      (returnE \<lparr>sr_attempt_id = attempt_id, sr_status = ''EMAIL_VERIFICATION_REQUIRED'', sr_expires_at = sa_expires_at a\<rparr>))))))))))))"

section \<open>Sending the code again\<close>

definition resend_email_code :: "clerk_client \<Rightarrow> int \<Rightarrow> string \<Rightarrow> (db, signup_result) net" where
  "resend_email_code clerk now attempt_id =
     bindE (onE (load_attempt attempt_id)) (\<lambda>attempt.
     seqE (onE (require_completable attempt now))
     (bindE (liftE (required_clerk_email_id attempt)) (\<lambda>address_id.
     seqE (onE rollback)
     (seqE (prepare_email_verification clerk address_id)
     (returnE \<lparr>sr_attempt_id = attempt_id, sr_status = ''EMAIL_VERIFICATION_REQUIRED'',
               sr_expires_at = sa_expires_at attempt\<rparr>)))))"

section \<open>Verifying the code\<close>

record registration =
  rg_user_id :: string
  rg_request_id :: string
  rg_clerk_user_id :: string
  rg_ip :: string
  rg_correlation :: string
  rg_now :: int

definition registered_user :: "registration \<Rightarrow> signup_attempt \<Rightarrow> user" where
  "registered_user g attempt =
     \<lparr>u_id = rg_user_id g, u_display_name = py_strip (sa_first_name attempt @ '' '' @ sa_last_name attempt),
      u_first_name = Some (sa_first_name attempt), u_last_name = Some (sa_last_name attempt),
      u_primary_email = Some (sa_email attempt), u_primary_mobile = Some (sa_mobile attempt),
      u_status = ''PENDING'', u_created_at = rg_now g, u_updated_at = rg_now g\<rparr>"

definition registration_request :: "registration \<Rightarrow> signup_attempt \<Rightarrow> onboarding_request" where
  "registration_request g attempt =
     \<lparr>or_id = rg_request_id g, or_user = rg_user_id g, or_email = sa_email attempt, or_clerk_invitation = None,
      or_clerk_user = Some (rg_clerk_user_id g), or_status = ''PENDING_ADMIN_APPROVAL'', or_ip = rg_ip g,
      or_submitted_at = rg_now g, or_reviewed_by = None, or_reviewed_at = None, or_review_reason = None,
      or_correlation = rg_correlation g\<rparr>"

definition registration_event :: "string \<Rightarrow> registration \<Rightarrow> security_event" where
  "registration_event event_id g =
     \<lparr>se_id = event_id, se_principal = rg_user_id g, se_type = ''GLOBAL_USER_EMAIL_VERIFIED_REGISTERED'',
      se_entity = rg_user_id g, se_outcome = ''PENDING_ADMIN_APPROVAL'', se_reason = ''SECURITY_ADMIN_APPROVAL_REQUIRED'',
      se_ip = rg_ip g, se_correlation = rg_correlation g, se_occurred_at = rg_now g\<rparr>"

definition register_statements :: "registration \<Rightarrow> signup_attempt \<Rightarrow> string \<Rightarrow> unit dbact" where
  "register_statements g attempt attempt_id =
     seqM (execute (insert_principal \<lparr>sp_id = rg_user_id g, sp_actor_type = ''USER'', sp_name = sa_email attempt,
              sp_status = ''ACTIVE''\<rparr>))
     (seqM (execute (insert_user (registered_user g attempt)))
     (bindM uuid4 (\<lambda>identity_id.
      seqM (execute (insert_identity \<lparr>ei_id = identity_id, ei_user = rg_user_id g, ei_provider = ''CLERK'',
              ei_subject = rg_clerk_user_id g, ei_status = ''ACTIVE'', ei_linked_at = rg_now g\<rparr>))
     (seqM (execute (insert_onboarding (registration_request g attempt)))
     (seqM (execute (update_attempts (\<lambda>a. sa_id a = attempt_id)
              (\<lambda>a. a\<lparr>sa_status := ''COMPLETED'', sa_completed_at := Some (rg_now g)\<rparr>)))
     (bindM uuid4 (\<lambda>event_id.
      seqM (execute (insert_event (registration_event event_id g))) commit)))))))"

definition register :: "registration \<Rightarrow> signup_attempt \<Rightarrow> string \<Rightarrow> unit dbact" where
  "register g attempt attempt_id =
     catch_integrity (rollback_on_error (register_statements g attempt attempt_id))
       (throwM (ValueError ''Email, mobile, or Clerk identity is already registered''))"

record verify_call =
  vc_attempt_id :: string
  vc_code :: string
  vc_ip :: string
  vc_correlation :: string
  vc_first_clock :: int
  vc_now :: int

definition verify_locked :: "verify_call \<Rightarrow> signup_attempt \<Rightarrow> string \<Rightarrow> string dbact" where
  "verify_locked v attempt clerk_user_id =
     bindM (load_attempt (vc_attempt_id v)) (\<lambda>locked.
     seqM (require_completable locked (vc_now v))
     (bindM (liftM (required_clerk_user_id locked)) (\<lambda>locked_id.
     seqM (raise_if (locked_id \<noteq> clerk_user_id) (ValueError ''Signup identity changed during verification''))
     (seqM (require_identity_not_registered (sa_email attempt) (sa_mobile attempt))
     (seqM (require_clerk_identity_not_registered clerk_user_id)
     (bindM uuid4 (\<lambda>user_id.
      bindM uuid4 (\<lambda>request_id.
      seqM (register \<lparr>rg_user_id = user_id, rg_request_id = request_id,
              rg_clerk_user_id = clerk_user_id, rg_ip = vc_ip v, rg_correlation = vc_correlation v, rg_now = vc_now v\<rparr>
              attempt (vc_attempt_id v))
      (returnM request_id)))))))))"

definition ask_about_code :: "clerk_client \<Rightarrow> string \<Rightarrow> string \<Rightarrow> string \<Rightarrow> string \<Rightarrow> (db, unit) net" where
  "ask_about_code clerk clerk_user_id address_id email code =
     bindE (attempt_email_verification clerk address_id (py_strip code)) (\<lambda>accepted.
     bindE (is_email_verified clerk clerk_user_id email) (\<lambda>verified.
     seqE (onE (raise_if (\<not> accepted \<and> \<not> verified) (ValueError ''Invalid or expired email verification code'')))
     (onE (raise_if (\<not> verified) (ValueError ''Email verification did not complete for the signup address'')))))"

definition verify_email_code :: "clerk_client \<Rightarrow> (db \<Rightarrow> db) \<Rightarrow> verify_call \<Rightarrow> (db, string) net" where
  "verify_email_code clerk others v =
     seqE (onE (raise_if (py_strip (vc_code v) = []) (ValueError ''Verification code is required'')))
     (bindE (onE (load_attempt (vc_attempt_id v))) (\<lambda>attempt.
      seqE (onE (require_completable attempt (vc_first_clock v)))
      (bindE (liftE (required_clerk_user_id attempt)) (\<lambda>clerk_user_id.
      bindE (liftE (required_clerk_email_id attempt)) (\<lambda>address_id.
      seqE (onE rollback)
      (seqE (ask_about_code clerk clerk_user_id address_id (sa_email attempt) (vc_code v))
      (seqE (onE (interfere others))
      (onE (verify_locked v attempt clerk_user_id)))))))))"

end
