(* ===== verification/OnboardingKey.thy ===== *)
theory OnboardingKey
  imports SignUp
begin

text \<open>
  The onboarding key of \<open>services/global_user_onboarding.py\<close>: setting, rotating, disabling and
  reading it. The key is stored hashed by Argon2, to be checked, and encrypted by AES-GCM, to be
  read again; both libraries are parameters. Base64 is Python's: the decoder skips characters
  that are not in the alphabet.
\<close>

section \<open>Bytes\<close>

definition utf8_encode :: "string \<Rightarrow> nat list" where
  "utf8_encode s = concat (map (\<lambda>c. let n = of_char c in if n < 128 then [n] else [192 + n div 64, 128 + n mod 64]) s)"

text \<open>A text with code points above 255 is outside the model.\<close>

fun utf8_decode :: "nat list \<Rightarrow> string option" where
  "utf8_decode [] = Some []"
| "utf8_decode [a] = (if a < 128 then Some [char_of a] else None)"
| "utf8_decode (a # b # bs) =
     (if a < 128 then map_option ((#) (char_of a)) (utf8_decode (b # bs))
      else if (a = 194 \<or> a = 195) \<and> 128 \<le> b \<and> b < 192
        then map_option ((#) (char_of ((a - 192) * 64 + (b - 128)))) (utf8_decode bs)
      else None)"

text \<open>\<open>base64.urlsafe_b64decode\<close>: \<open>-\<close> and \<open>_\<close> stand for \<open>+\<close> and \<open>/\<close>, which are still accepted.\<close>

definition b64_value :: "char \<Rightarrow> nat option" where
  "b64_value c =
     (if c = CHR ''+'' then Some 62 else if c = CHR ''/'' then Some 63
      else if c \<in> set B64_ALPHABET then Some (index_of B64_ALPHABET c) else None)"

text \<open>The position in the group of four, the bits left over and the padding seen.\<close>

fun a2b_base64 :: "nat \<Rightarrow> nat \<Rightarrow> nat \<Rightarrow> string \<Rightarrow> nat list option" where
  "a2b_base64 quad left pads [] = (if quad = 0 then Some [] else None)"
| "a2b_base64 quad left pads (c # cs) =
     (if c = CHR ''='' then
        (if quad \<ge> 2 then (if quad + pads + 1 \<ge> 4 then Some [] else a2b_base64 quad left (pads + 1) cs)
         else a2b_base64 quad left pads cs)
      else case b64_value c of
        None \<Rightarrow> a2b_base64 quad left pads cs
      | Some v \<Rightarrow>
          if quad = 0 then a2b_base64 1 v 0 cs
          else if quad = 1 then map_option ((#) (left * 4 + v div 16)) (a2b_base64 2 (v mod 16) 0 cs)
          else if quad = 2 then map_option ((#) (left * 16 + v div 4)) (a2b_base64 3 (v mod 4) 0 cs)
          else map_option ((#) (left * 64 + v)) (a2b_base64 0 0 0 cs))"

definition is_ascii :: "string \<Rightarrow> bool" where
  "is_ascii s = list_all (\<lambda>c. (of_char c :: nat) < 128) s"

text \<open>\<open>base64.urlsafe_b64decode(value.encode("ascii"))\<close>; both failures are \<open>ValueError\<close>s.\<close>

definition urlsafe_b64decode :: "string \<Rightarrow> exn + nat list" where
  "urlsafe_b64decode value =
     (if \<not> is_ascii value then Inl (ValueError ''ordinal not in range(128)'')
      else case a2b_base64 0 0 0 value of None \<Rightarrow> Inl (ValueError ''Incorrect padding'') | Some bs \<Rightarrow> Inr bs)"

section \<open>The key\<close>

definition ALLOWED_ONBOARDING_CHARS :: string where
  "ALLOWED_ONBOARDING_CHARS = ''ABCDEFGHJKLMNPQRSTUVWXYZabcdefghijkmnopqrstuvwxyz23456789-_''"

definition validate_onboarding_key :: "string \<Rightarrow> exn + string" where
  "validate_onboarding_key value =
     (let clean = py_strip value in
      if length clean < 8 \<or> length clean > 64 then Inl (ValueError ''Onboarding key must be between 8 and 64 characters'')
      else if list_ex (\<lambda>c. c \<notin> set ALLOWED_ONBOARDING_CHARS) clean
        then Inl (ValueError ''Onboarding key contains unsupported characters'')
      else Inr clean)"

record key_env =
  ke_encryption_key :: string
  ke_hash :: "string \<Rightarrow> string \<Rightarrow> string"
  ke_encrypt :: "nat list \<Rightarrow> nat list \<Rightarrow> nat list \<Rightarrow> nat list \<Rightarrow> nat list"
  ke_decrypt :: "nat list \<Rightarrow> nat list \<Rightarrow> nat list \<Rightarrow> nat list \<Rightarrow> nat list option"

definition aes_key :: "key_env \<Rightarrow> exn + nat list" where
  "aes_key env =
     (let value = py_strip (ke_encryption_key env) in
      if value = [] then Inl (RuntimeError ''SECURITY_USER_ONBOARDING_KEY_ENCRYPTION_KEY is not configured'')
      else (let padded = value @ replicate ((4 - length value mod 4) mod 4) (CHR ''='') in
            case urlsafe_b64decode padded of
              Inl _ \<Rightarrow> Inl (RuntimeError ''Onboarding-key encryption key is not valid URL-safe base64'')
            | Inr decoded \<Rightarrow>
                if length decoded \<noteq> 32 then Inl (RuntimeError ''Onboarding-key encryption key must decode to exactly 32 bytes'')
                else Inr decoded))"

definition KEY_AAD :: "nat list" where
  "KEY_AAD = utf8_encode ''v1.4.2''"

definition encrypt_key :: "key_env \<Rightarrow> nat list \<Rightarrow> string \<Rightarrow> exn + string" where
  "encrypt_key env nonce plaintext =
     (case aes_key env of
        Inl e \<Rightarrow> Inl e
      | Inr k \<Rightarrow> Inr (urlsafe_b64encode (nonce @ ke_encrypt env k nonce (utf8_encode plaintext) KEY_AAD)))"

definition decrypt_key :: "key_env \<Rightarrow> string \<Rightarrow> exn + string" where
  "decrypt_key env value =
     (case urlsafe_b64decode value of
        Inl e \<Rightarrow> Inl e
      | Inr raw \<Rightarrow>
          if length raw \<le> 12 then Inl (RuntimeError ''Stored onboarding-key ciphertext is invalid'')
          else (case aes_key env of
                  Inl e \<Rightarrow> Inl e
                | Inr k \<Rightarrow>
                    (case ke_decrypt env k (take 12 raw) (drop 12 raw) KEY_AAD of
                       None \<Rightarrow> Inl InvalidTag
                     | Some plain \<Rightarrow>
                         (case utf8_decode plain of
                            None \<Rightarrow> Inl (ValueError ''invalid utf-8'')
                          | Some s \<Rightarrow> Inr s))))"

section \<open>Operations\<close>

record key_call =
  kc_actor :: string
  kc_correlation :: string
  kc_now :: int
  kc_nonce :: "nat list"
  kc_salt :: string

definition platform_audit :: "string \<Rightarrow> string \<Rightarrow> string \<Rightarrow> string \<Rightarrow> string \<Rightarrow> int \<Rightarrow> unit dbact" where
  "platform_audit actor_user_id correlation_id operation_key resource_type resource_id now =
     bindM uuid4 (\<lambda>change_id. execute (insert_change
       \<lparr>ac_id = change_id, ac_correlation = correlation_id, ac_scope_type = ''PLATFORM'', ac_tenant = None,
        ac_actor = actor_user_id, ac_operation = operation_key, ac_resource_type = resource_type,
        ac_resource_id = Some resource_id, ac_outcome = ''SUCCESS'', ac_occurred_at = now\<rparr>))"

text \<open>\<open>INSERT ... ON CONFLICT (singleton_id) DO UPDATE\<close>.\<close>

definition upsert_setting :: "onboarding_setting \<Rightarrow> db \<Rightarrow> exn + db" where
  "upsert_setting r d =
     (if setting_check r
      then Inr (d\<lparr>db_onboarding_key :=
             (case db_onboarding_key d of
                [] \<Rightarrow> [r]
              | rows \<Rightarrow> map (\<lambda>x. r\<lparr>os_created_by := os_created_by x, os_created_at := os_created_at x\<rparr>) rows)\<rparr>)
      else Inl IntegrityError)"

record key_view =
  kv_onboarding_key :: string
  kv_version :: int
  kv_status :: string
  kv_created_at :: int
  kv_updated_at :: int

definition get_onboarding_key :: "key_env \<Rightarrow> key_view dbact" where
  "get_onboarding_key env =
     bindM (query (\<lambda>d. first_of (db_onboarding_key d))) (\<lambda>row.
       case row of
         None \<Rightarrow> throwM (LookupError ''Global user onboarding key is not configured'')
       | Some r \<Rightarrow>
           bindM (liftM (decrypt_key env (os_key_ciphertext r))) (\<lambda>key.
             returnM \<lparr>kv_onboarding_key = key, kv_version = os_key_version r, kv_status = os_status r,
                      kv_created_at = os_created_at r, kv_updated_at = os_updated_at r\<rparr>))"

definition set_onboarding_key :: "key_env \<Rightarrow> key_call \<Rightarrow> string \<Rightarrow> bool \<Rightarrow> key_view dbact" where
  "set_onboarding_key env c onboarding_key enabled =
     bindM (liftM (validate_onboarding_key onboarding_key)) (\<lambda>value.
     bindM (liftM (encrypt_key env (kc_nonce c) value)) (\<lambda>encrypted.
     bindM (query (\<lambda>d. first_of (db_onboarding_key d))) (\<lambda>row.
     let version = (case row of None \<Rightarrow> 1 | Some r \<Rightarrow> os_key_version r + 1);
         status = (if enabled then ''ACTIVE'' else ''DISABLED'') in
     seqM (rollback_on_error
       (seqM (execute (upsert_setting
          \<lparr>os_key_hash = ke_hash env (kc_salt c) value, os_key_ciphertext = encrypted, os_key_version = version,
           os_status = status, os_created_by = kc_actor c, os_created_at = kc_now c, os_updated_by = kc_actor c,
           os_updated_at = kc_now c\<rparr>))
       (seqM (platform_audit (kc_actor c) (kc_correlation c) ''security.user_onboarding.key.set''
                ''GLOBAL_USER_ONBOARDING_KEY'' ''1'' (kc_now c))
        commit)))
     (get_onboarding_key env))))"

definition KEY_CHOICES :: string where
  "KEY_CHOICES = ''ABCDEFGHJKLMNPQRSTUVWXYZ23456789''"

text \<open>\<open>secrets.choice\<close> picks an element; \<open>pick i\<close> is the position of the i-th pick.\<close>

definition generated_key :: "(nat \<Rightarrow> nat) \<Rightarrow> string" where
  "generated_key pick = ''VGN-'' @ map (\<lambda>i. KEY_CHOICES ! (pick i mod length KEY_CHOICES)) [0..<8]"

definition rotate_onboarding_key :: "key_env \<Rightarrow> key_call \<Rightarrow> (nat \<Rightarrow> nat) \<Rightarrow> key_view dbact" where
  "rotate_onboarding_key env c pick = set_onboarding_key env c (generated_key pick) True"

definition disable_onboarding_key :: "string \<Rightarrow> string \<Rightarrow> int \<Rightarrow> bool dbact" where
  "disable_onboarding_key actor_user_id correlation_id now =
     bindM (query (\<lambda>d. db_onboarding_key d \<noteq> [])) (\<lambda>present.
     seqM (update (\<lambda>d. d\<lparr>db_onboarding_key := map (\<lambda>r. r\<lparr>os_status := ''DISABLED'', os_updated_by := actor_user_id,
             os_updated_at := now\<rparr>) (db_onboarding_key d)\<rparr>))
     (if \<not> present then seqM rollback (returnM False)
      else seqM (platform_audit actor_user_id correlation_id ''security.user_onboarding.key.disable''
                   ''GLOBAL_USER_ONBOARDING_KEY'' ''1'' now)
           (seqM commit (returnM True))))"

end
