(* ===== verification/GlobalUsers.thy ===== *)
theory GlobalUsers
  imports OnboardingKey
begin

text \<open>
  The registry of users in \<open>services/global_user_onboarding.py\<close>: onboarding by invitation, binding
  the invited Clerk identity, the lifecycle of a user, and the check before a login.
\<close>

section \<open>Reading the registry\<close>

record global_user =
  gu_user :: user
  gu_clerk_user :: "string option"
  gu_request :: "onboarding_request option"

text \<open>A LEFT JOIN keeps a row without a match once.\<close>

definition left_join :: "'b list \<Rightarrow> 'b option list" where
  "left_join ms = (if ms = [] then [None] else map Some ms)"

definition clerk_identity_of :: "string \<Rightarrow> external_identity \<Rightarrow> bool" where
  "clerk_identity_of user_id e = (ei_user e = user_id \<and> ei_provider e = ''CLERK'' \<and> ei_status e = ''ACTIVE'')"

definition registry_rows :: "(user \<Rightarrow> bool) \<Rightarrow> db \<Rightarrow> global_user list" where
  "registry_rows p d =
     [\<lparr>gu_user = u, gu_clerk_user = map_option ei_subject e, gu_request = r\<rparr>.
        u \<leftarrow> filter p (db_users d),
        e \<leftarrow> left_join (filter (clerk_identity_of (u_id u)) (db_identities d)),
        r \<leftarrow> left_join (filter (\<lambda>r. or_user r = u_id u) (db_onboarding d))]"

definition list_users :: "string option \<Rightarrow> global_user list dbact" where
  "list_users status =
     query (\<lambda>d. sort_key (\<lambda>g. - u_created_at (gu_user g))
       (registry_rows (\<lambda>u. \<not> is_set status \<or> u_status u = the status) d))"

definition user_by_id :: "string \<Rightarrow> global_user dbact" where
  "user_by_id user_id =
     bindM (list_users None) (\<lambda>rows.
       case first_row (\<lambda>g. u_id (gu_user g) = user_id) rows of
         None \<Rightarrow> throwM (LookupError ''USER not found'')
       | Some g \<Rightarrow> returnM g)"

definition precheck :: "string \<Rightarrow> bool dbact" where
  "precheck email =
     query (\<lambda>d. [u. u \<leftarrow> db_users d, p \<leftarrow> db_principals d, e \<leftarrow> db_identities d,
        sp_id p = u_id u, clerk_identity_of (u_id u) e, email_key u = Some (py_lower (py_strip email)),
        u_status u = ''ACTIVE'', sp_status p = ''ACTIVE''] \<noteq> [])"

section \<open>Lifecycle of a user\<close>

record status_call =
  st_user :: string
  st_status :: string
  st_actor :: string
  st_reason :: "string option"
  st_correlation :: string
  st_now :: int

definition revoke_user_sessions :: "string \<Rightarrow> int \<Rightarrow> unit dbact" where
  "revoke_user_sessions user_id now =
     execute (update_sessions (\<lambda>r. as_principal r = user_id \<and> as_actor_type r = ''USER'' \<and> as_status r = ''ACTIVE'')
       (\<lambda>r. r\<lparr>as_status := ''REVOKED'', as_last_activity := now\<rparr>))"

definition approve_onboarding :: "status_call \<Rightarrow> unit dbact" where
  "approve_onboarding c =
     execute (update_onboarding (\<lambda>r. or_user r = st_user c \<and> or_status r = ''PENDING_ADMIN_APPROVAL'')
       (\<lambda>r. r\<lparr>or_status := ''APPROVED'', or_reviewed_by := Some (st_actor c), or_reviewed_at := Some (st_now c),
             or_review_reason := st_reason c\<rparr>))"

definition write_user_status :: "status_call \<Rightarrow> string \<Rightarrow> bool \<Rightarrow> unit dbact" where
  "write_user_status c target onboarded =
     seqM (execute (update_users (\<lambda>u. u_id u = st_user c) (\<lambda>u. u\<lparr>u_status := target, u_updated_at := st_now c\<rparr>)))
     (seqM (if target \<noteq> ''ACTIVE'' then revoke_user_sessions (st_user c) (st_now c) else returnM ())
     (seqM (if target = ''ACTIVE'' \<and> onboarded then approve_onboarding c else returnM ())
     (seqM (platform_audit (st_actor c) (st_correlation c) ''security.user.status.change'' ''USER'' (st_user c) (st_now c))
      commit)))"

definition set_user_status :: "clerk_client \<Rightarrow> (db \<Rightarrow> db) \<Rightarrow> status_call \<Rightarrow> (db, global_user) net" where
  "set_user_status clerk others c =
     (let target = py_upper (st_status c) in
      seqE (onE (raise_if (target \<notin> {''ACTIVE'', ''SUSPENDED'', ''DISABLED'', ''EXITED''}) (ValueError ''Unsupported USER status'')))
      (bindE (onE (query (\<lambda>d. first_of (registry_rows (\<lambda>u. u_id u = st_user c) d)))) (\<lambda>row.
       case row of
         None \<Rightarrow> throwE (LookupError ''USER not found'')
       | Some g \<Rightarrow>
         let current = u_status (gu_user g);
             finish = seqE (onE (rollback_on_error (write_user_status c target (gu_request g \<noteq> None))))
                      (seqE (case gu_clerk_user g of
                               Some clerk_user_id \<Rightarrow> if target \<noteq> ''ACTIVE'' then seqE (ban_user clerk clerk_user_id) (onE (interfere others)) else returnE ()
                             | None \<Rightarrow> returnE ())
                      (onE (user_by_id (st_user c)))) in
         if target = ''ACTIVE''
         then if current \<notin> {''PENDING'', ''INVITED'', ''SUSPENDED'', ''DISABLED''}
              then throwE (ValueError (''USER cannot transition from '' @ current @ '' to ACTIVE''))
              else (case gu_clerk_user g of
                      None \<Rightarrow> throwE (ValueError ''USER has no active Clerk identity'')
                    | Some clerk_user_id \<Rightarrow>
                        seqE (unban_user clerk clerk_user_id) (seqE (onE (interfere others)) finish))
         else if current = ''EXITED'' then throwE (ValueError ''EXITED USER is terminal'')
         else if current = target then onE (user_by_id (st_user c))
         else finish)))"

section \<open>Onboarding by invitation\<close>

record submit_call =
  sb_email :: string
  sb_display_name :: string
  sb_onboarding_key :: string
  sb_ip :: string
  sb_correlation :: string
  sb_now :: int

definition onboarding_event :: "string \<Rightarrow> string \<Rightarrow> string \<Rightarrow> string \<Rightarrow> string \<Rightarrow> string \<Rightarrow> int \<Rightarrow> unit dbact" where
  "onboarding_event user_id event_type event_outcome reason_code source_ip correlation_id now =
     bindM uuid4 (\<lambda>event_id. execute (insert_event
       \<lparr>se_id = event_id, se_principal = user_id, se_type = event_type, se_entity = user_id, se_outcome = event_outcome,
        se_reason = reason_code, se_ip = source_ip, se_correlation = correlation_id, se_occurred_at = now\<rparr>))"

definition accept_submission :: "submit_call \<Rightarrow> string \<Rightarrow> string \<Rightarrow> string \<Rightarrow> string \<Rightarrow> unit dbact" where
  "accept_submission c user_id request_id email clean_display_name =
     catch_integrity (rollback_on_error
       (seqM (execute (insert_principal \<lparr>sp_id = user_id, sp_actor_type = ''USER'', sp_name = clean_display_name,
                sp_status = ''ACTIVE''\<rparr>))
       (seqM (execute (insert_user \<lparr>u_id = user_id, u_display_name = clean_display_name, u_first_name = None,
                u_last_name = None, u_primary_email = Some email, u_primary_mobile = None, u_status = ''PENDING'',
                u_created_at = sb_now c, u_updated_at = sb_now c\<rparr>))
       (seqM (execute (insert_onboarding \<lparr>or_id = request_id, or_user = user_id, or_email = email,
                or_clerk_invitation = None, or_clerk_user = None, or_status = ''PENDING_CLERK'', or_ip = sb_ip c,
                or_submitted_at = sb_now c, or_reviewed_by = None, or_reviewed_at = None, or_review_reason = None,
                or_correlation = sb_correlation c\<rparr>))
       (seqM (onboarding_event user_id ''GLOBAL_USER_ONBOARDING_ACCEPTED'' ''PENDING_CLERK'' ''ONBOARDING_KEY_VALID''
                (sb_ip c) (sb_correlation c) (sb_now c))
        commit)))))
     (throwM (ValueError ''A Verigence USER already exists for this email''))"

definition note_onboarding :: "string \<Rightarrow> (onboarding_request \<Rightarrow> onboarding_request) \<Rightarrow> unit dbact" where
  "note_onboarding request_id f = seqM (execute (update_onboarding (\<lambda>r. or_id r = request_id) f)) commit"

definition submit_onboarding ::
  "(string \<Rightarrow> string \<Rightarrow> bool) \<Rightarrow> clerk_client \<Rightarrow> (db \<Rightarrow> db) \<Rightarrow> submit_call \<Rightarrow> (db, string \<times> string) net" where
  "submit_onboarding hash_verifies clerk others c =
     (let email = py_lower (py_strip (sb_email c)); display_name = py_strip (sb_display_name c) in
      seqE (onE (raise_if (email = [] \<or> CHR ''@'' \<notin> set email) (ValueError ''A valid email is required'')))
      (seqE (onE (raise_if (display_name = []) (ValueError ''Display name is required'')))
      (seqE (onE (require_valid_onboarding_key hash_verifies (sb_onboarding_key c)))
      (bindE (onE (query (email_registered email))) (\<lambda>existing.
      seqE (onE (raise_if existing (ValueError ''A Verigence USER already exists for this email'')))
      (bindE (onE uuid4) (\<lambda>user_id.
      bindE (onE uuid4) (\<lambda>request_id.
      seqE (onE (accept_submission c user_id request_id email display_name))
      (bindE (catchE (create_clerk_invitation clerk email user_id request_id)
                (\<lambda>e. case e of
                   ClerkError _ \<Rightarrow>
                     seqE (onE (seqM (interfere others)
                             (note_onboarding request_id (\<lambda>r. r\<lparr>or_status := ''CLERK_PROVISIONING_FAILED''\<rparr>))))
                       (throwE e)
                 | _ \<Rightarrow> throwE e)) (\<lambda>invitation_id.
       seqE (onE (seqM (interfere others)
               (note_onboarding request_id (\<lambda>r. r\<lparr>or_status := ''CLERK_INVITED'', or_clerk_invitation := Some invitation_id\<rparr>))))
       (returnE (request_id, user_id))))))))))))"

section \<open>Binding the Clerk identity\<close>

record bind_call =
  bc_request_id :: string
  bc_identity :: AuthenticatedIdentity
  bc_ip :: string
  bc_correlation :: string
  bc_now :: int

definition onboarding_rows :: "string \<Rightarrow> db \<Rightarrow> (onboarding_request \<times> user) list" where
  "onboarding_rows request_id d =
     [(r, u). r \<leftarrow> db_onboarding d, u \<leftarrow> db_users d, u_id u = or_user r, or_id r = request_id]"

definition bind_statements :: "bind_call \<Rightarrow> string \<Rightarrow> bool \<Rightarrow> unit dbact" where
  "bind_statements c user_id identity_exists =
     seqM (if identity_exists then returnM ()
           else bindM uuid4 (\<lambda>identity_id.
             execute (insert_identity \<lparr>ei_id = identity_id, ei_user = user_id, ei_provider = ''CLERK'',
               ei_subject = id_provider_subject (bc_identity c), ei_status = ''ACTIVE'', ei_linked_at = bc_now c\<rparr>)))
     (seqM (execute (update_onboarding (\<lambda>r. or_id r = bc_request_id c)
        (\<lambda>r. r\<lparr>or_clerk_user := Some (id_provider_subject (bc_identity c)), or_status := ''PENDING_ADMIN_APPROVAL''\<rparr>)))
     (seqM (onboarding_event user_id ''CLERK_IDENTITY_BOUND'' ''PENDING_ADMIN_APPROVAL'' ''SECURITY_ADMIN_APPROVAL_REQUIRED''
              (bc_ip c) (bc_correlation c) (bc_now c))
      commit))"

definition bind_authenticated_clerk_user :: "clerk_client \<Rightarrow> (db \<Rightarrow> db) \<Rightarrow> bind_call \<Rightarrow> (db, string) net" where
  "bind_authenticated_clerk_user clerk others c =
     (let subject = id_provider_subject (bc_identity c) in
      seqE (onE (raise_if (id_provider (bc_identity c) \<noteq> ''CLERK'') (security_error ''AUTH_TOKEN_INVALID'')))
      (bindE (onE (query (\<lambda>d. first_of (onboarding_rows (bc_request_id c) d)))) (\<lambda>row.
       case row of
         None \<Rightarrow> throwE (LookupError ''Onboarding request not found'')
       | Some (r, u) \<Rightarrow>
         seqE (onE (raise_if (or_status r \<notin> {''CLERK_INVITED'', ''PENDING_ADMIN_APPROVAL''})
                 (ValueError ''Onboarding request is not ready for Clerk identity binding'')))
         (seqE (onE (raise_if (u_status u \<noteq> ''PENDING'') (ValueError ''Security USER is not pending onboarding approval'')))
         (bindE (clerk_primary_email clerk subject) (\<lambda>clerk_email.
          seqE (onE (raise_if (map_option py_lower clerk_email \<noteq> Some (py_lower (or_email r))) (security_error ''PERMISSION_DENIED'')))
          (seqE (onE (interfere others))
          (bindE (onE (query (\<lambda>d. first_row (\<lambda>e. ei_provider e = ''CLERK'' \<and> ei_subject e = subject) (db_identities d)))) (\<lambda>existing.
           seqE (onE (raise_if (case existing of None \<Rightarrow> False | Some e \<Rightarrow> ei_user e \<noteq> or_user r) (security_error ''PERMISSION_DENIED'')))
           (seqE (onE (rollback_on_error (bind_statements c (or_user r) (existing \<noteq> None))))
           (seqE (ban_user clerk subject)
           (returnE (or_user r)))))))))))))"

end
