(* ===== verification/PlatformTokens.thy ===== *)
theory PlatformTokens
  imports Tokens PyStrings
begin

text \<open>
  \<open>services/platform_admin_token.py\<close> and \<open>api/platform_dependencies.py\<close>: the control-plane tokens
  of platform administrators and the permission every platform route asks for.
\<close>

section \<open>Issue\<close>

record PlatformAdminClaims =
  pl_user_id :: string
  pl_roles :: "string list"
  pl_permissions :: "string list"
  pl_must_change_password :: bool

definition ADMIN_AUDIENCE :: string where
  "ADMIN_AUDIENCE = ''verigence-security-admin''"

definition admin_payload :: "token_settings \<Rightarrow> PlatformAdminClaims \<Rightarrow> string list \<Rightarrow> int \<Rightarrow> int \<Rightarrow> string \<Rightarrow> claims" where
  "admin_payload st c permissions now expires_at jti =
     [(''iss'', PStr (security_token_issuer st)), (''sub'', PStr (pl_user_id c)), (''aud'', PStr ADMIN_AUDIENCE),
      (''iat'', PTime now), (''exp'', PTime expires_at), (''jti'', PStr jti),
      (''roles'', PList (map PStr (pl_roles c))), (''permissions'', PList (map PStr permissions)),
      (''must_change_password'', PBool (pl_must_change_password c))]"

definition issue_admin :: "'tok jwt_env \<Rightarrow> token_settings \<Rightarrow> int option \<Rightarrow> int \<Rightarrow> PlatformAdminClaims \<Rightarrow> ('d, 'tok \<times> int) act" where
  "issue_admin env st ttl_minutes now c =
     (if \<not> is_set (security_private_key_pem st) \<or> \<not> is_set (security_key_id st)
      then throwM (security_error ''SIGNING_KEY_UNAVAILABLE'')
      else case ttl_minutes of
        None \<Rightarrow> throwM (RuntimeError ''PLATFORM_ADMIN_TOKEN_TTL_MINUTES is not configured'')
      | Some ttl \<Rightarrow>
          bindM (liftM (validate_permissions (pl_permissions c))) (\<lambda>permissions.
          seqM (raise_if (pl_roles c = [] \<or> list_ex (\<lambda>r. \<not> starts_with ''platform.'' r) (pl_roles c))
                  (ValueError ''Platform Admin token requires Platform roles''))
          (let expires_at = now + ttl * 60000000 in
           bindM uuid4 (\<lambda>jti.
             case jwt_encode env (admin_payload st c permissions now expires_at jti)
                    (the (security_private_key_pem st)) (the (security_key_id st)) of
               None \<Rightarrow> throwM (security_error ''SIGNING_KEY_UNAVAILABLE'')
             | Some token \<Rightarrow> returnM (token, expires_at)))))"

section \<open>Verify\<close>

definition REQUIRED_ADMIN_CLAIMS :: "string list" where
  "REQUIRED_ADMIN_CLAIMS = [''exp'', ''iat'', ''sub'', ''jti'', ''roles'', ''permissions'', ''must_change_password'']"

text \<open>The elements of an iterable claim: of a list, the characters of a string, the keys of a dict.\<close>

fun iter_values :: "pyval \<Rightarrow> exn + pyval list" where
  "iter_values (PList xs) = Inr xs"
| "iter_values (PStr s) = Inr (map (\<lambda>c. PStr [c]) s)"
| "iter_values (PDict d) = Inr (map (\<lambda>(k, v). PStr k) d)"
| "iter_values _ = Inl (TypeError ''object is not iterable'')"

definition claim_values :: "claims \<Rightarrow> string \<Rightarrow> exn + pyval list" where
  "claim_values payload key = (case dict_get payload key of None \<Rightarrow> Inr [] | Some v \<Rightarrow> iter_values v)"

text \<open>The string form of a value that is not a string neither is a role of the platform nor a permission key.\<close>

fun platform_role_value :: "pyval \<Rightarrow> bool" where
  "platform_role_value (PStr s) = starts_with ''platform.'' s"
| "platform_role_value v = False"

definition check_admin_payload :: "claims \<Rightarrow> exn + claims" where
  "check_admin_payload payload =
     (case claim_values payload ''roles'' of
        Inl e \<Rightarrow> Inl e
      | Inr roles \<Rightarrow>
        (case claim_values payload ''permissions'' of
           Inl e \<Rightarrow> Inl e
         | Inr permissions \<Rightarrow>
           if roles = [] \<or> \<not> list_all platform_role_value roles then Inl (security_error ''AUTH_TOKEN_INVALID'')
           else if \<not> list_all canonical_value permissions then Inl (security_error ''AUTH_TOKEN_INVALID'')
           else if dict_get payload ''tenant_id'' \<noteq> None \<or> dict_get payload ''access_session_id'' \<noteq> None
             then Inl (security_error ''AUTH_TOKEN_INVALID'')
           else Inr payload))"

definition verify_admin :: "'tok jwt_env \<Rightarrow> token_settings \<Rightarrow> int \<Rightarrow> 'tok \<Rightarrow> exn + claims" where
  "verify_admin env st now token =
     (if \<not> is_set (security_public_key_pem st) then Inl (security_error ''SIGNING_KEY_UNAVAILABLE'')
      else case jwt_decode env token (the (security_public_key_pem st)) (security_token_issuer st)
                  ADMIN_AUDIENCE REQUIRED_ADMIN_CLAIMS now of
             ExpiredSignature \<Rightarrow> Inl (security_error ''AUTH_TOKEN_EXPIRED'')
           | PyJWTError \<Rightarrow> Inl (security_error ''AUTH_TOKEN_INVALID'')
           | Decoded payload \<Rightarrow> check_admin_payload payload)"

section \<open>The gate of a platform route\<close>

text \<open>The credentials of an \<open>Authorization\<close> header: scheme and value.\<close>

definition platform_token :: "(string \<times> string) option \<Rightarrow> exn + string" where
  "platform_token credentials =
     (case credentials of
        None \<Rightarrow> Inl (security_error ''AUTH_TOKEN_INVALID'')
      | Some (scheme, given) \<Rightarrow>
          if py_lower scheme \<noteq> ''bearer'' then Inl (security_error ''AUTH_TOKEN_INVALID'')
          else if py_strip given = [] then Inl (security_error ''AUTH_TOKEN_INVALID'')
          else Inr (py_strip given))"

definition require_platform_permission :: "string \<Rightarrow> claims \<Rightarrow> exn + claims" where
  "require_platform_permission permission_key claims =
     (if truthy (get_claim claims ''must_change_password'') then Inl (security_error ''PERMISSION_DENIED'')
      else case claim_values claims ''permissions'' of
             Inl e \<Rightarrow> Inl e
           | Inr permissions \<Rightarrow>
               if PStr permission_key \<notin> set permissions then Inl (security_error ''PERMISSION_DENIED'') else Inr claims)"

text \<open>The subject, which PyJWT only accepts if it is a string.\<close>

definition admin_subject :: "claims \<Rightarrow> string" where
  "admin_subject claims = (case get_claim claims ''sub'' of PStr s \<Rightarrow> s | _ \<Rightarrow> [])"

definition platform_gate ::
  "string jwt_env \<Rightarrow> token_settings \<Rightarrow> int \<Rightarrow> (string \<times> string) option \<Rightarrow> string \<Rightarrow> exn + string" where
  "platform_gate env st now credentials permission_key =
     (case platform_token credentials of
        Inl e \<Rightarrow> Inl e
      | Inr token \<Rightarrow>
        (case verify_admin env st now token of
           Inl e \<Rightarrow> Inl e
         | Inr claims \<Rightarrow>
           (case require_platform_permission permission_key claims of
              Inl e \<Rightarrow> Inl e
            | Inr claims \<Rightarrow> Inr (admin_subject claims))))"

end
