(* ===== verification/GlobalUserRoutes.thy ===== *)
theory GlobalUserRoutes
  imports GlobalUsers PlatformTokens AdminRoutes
begin

text \<open>
  \<open>api/routes/global_users.py\<close>: the handlers of the sign-up and of the registry of users. A
  platform handler runs behind the permission it asks for; the Clerk client is built from the
  settings for every request. Exceptions become HTTP errors.
\<close>

section \<open>Errors\<close>

definition raise_fromE :: "(exn \<Rightarrow> exn) \<Rightarrow> ('c, 'd, 'a) cact \<Rightarrow> ('c, 'd, 'a) cact" where
  "raise_fromE f m = catchE m (\<lambda>e. throwE (f e))"

definition identity_provider_client :: "exn + clerk_client \<Rightarrow> exn + clerk_client" where
  "identity_provider_client client =
     (case client of
        Inl (ClerkError _) \<Rightarrow> Inl (HTTPException 503 ''Identity provider integration is not configured'')
      | _ \<Rightarrow> client)"

fun clerk_failure :: "int option \<Rightarrow> exn" where
  "clerk_failure status =
     (if status \<in> {Some 400, Some 409, Some 422} then HTTPException 422 ''Identity provider rejected the signup request''
      else HTTPException 503 ''Identity provider is temporarily unavailable'')"

fun start_errors :: "exn \<Rightarrow> exn" where
  "start_errors (ClerkError status) = clerk_failure status"
| "start_errors (ValueError msg) = HTTPException 409 msg"
| "start_errors e = e"

fun attempt_errors :: "exn \<Rightarrow> exn" where
  "attempt_errors (LookupError msg) = HTTPException 404 msg"
| "attempt_errors (ClerkError status) = clerk_failure status"
| "attempt_errors (ValueError msg) = HTTPException 409 msg"
| "attempt_errors e = e"

fun status_errors :: "exn \<Rightarrow> exn" where
  "status_errors (LookupError msg) = HTTPException 404 msg"
| "status_errors (ValueError msg) = HTTPException 409 msg"
| "status_errors (ClerkError _) = HTTPException 502 ''Identity-provider lifecycle synchronization failed''"
| "status_errors e = e"

fun read_key_errors :: "exn \<Rightarrow> exn" where
  "read_key_errors (LookupError msg) = HTTPException 404 msg"
| "read_key_errors (RuntimeError msg) = HTTPException 503 msg"
| "read_key_errors e = e"

fun set_key_errors :: "exn \<Rightarrow> exn" where
  "set_key_errors (ValueError msg) = HTTPException 409 msg"
| "set_key_errors (RuntimeError msg) = HTTPException 409 msg"
| "set_key_errors e = e"

fun rotate_key_errors :: "exn \<Rightarrow> exn" where
  "rotate_key_errors (RuntimeError msg) = HTTPException 503 msg"
| "rotate_key_errors e = e"

section \<open>Handlers of the onboarding key\<close>

text \<open>
  The gate of a platform route takes the permission and yields the user of the token. A route
  without one has no argument \<open>gate\<close>.
\<close>

type_synonym gate = "string \<Rightarrow> exn + string"

definition get_key_route :: "gate \<Rightarrow> key_env \<Rightarrow> key_view dbact" where
  "get_key_route gate env =
     seqM (liftM (gate ''security.user_onboarding.read'')) (raise_from read_key_errors (get_onboarding_key env))"

definition set_key_route :: "gate \<Rightarrow> key_env \<Rightarrow> key_call \<Rightarrow> string \<Rightarrow> bool \<Rightarrow> key_view dbact" where
  "set_key_route gate env c onboarding_key enabled =
     bindM (liftM (gate ''security.user_onboarding.manage'')) (\<lambda>user_id.
       raise_from set_key_errors (set_onboarding_key env (c\<lparr>kc_actor := user_id\<rparr>) onboarding_key enabled))"

definition rotate_key_route :: "gate \<Rightarrow> key_env \<Rightarrow> key_call \<Rightarrow> (nat \<Rightarrow> nat) \<Rightarrow> key_view dbact" where
  "rotate_key_route gate env c pick =
     bindM (liftM (gate ''security.user_onboarding.manage'')) (\<lambda>user_id.
       raise_from rotate_key_errors (rotate_onboarding_key env (c\<lparr>kc_actor := user_id\<rparr>) pick))"

definition disable_key_route :: "gate \<Rightarrow> key_call \<Rightarrow> unit dbact" where
  "disable_key_route gate c =
     bindM (liftM (gate ''security.user_onboarding.manage'')) (\<lambda>user_id.
     bindM (disable_onboarding_key user_id (kc_correlation c) (kc_now c)) (\<lambda>changed.
       raise_if (\<not> changed) (HTTPException 404 ''Global user onboarding key is not configured'')))"

section \<open>Handlers of the sign-up\<close>

definition start_route ::
  "exn + clerk_client \<Rightarrow> (string \<Rightarrow> string \<Rightarrow> bool) \<Rightarrow> (db \<Rightarrow> db) \<Rightarrow> int \<Rightarrow> signup_form \<Rightarrow> (db, signup_result) net" where
  "start_route client hash_verifies others now form =
     raise_fromE start_errors (bindE (liftE (identity_provider_client client)) (\<lambda>clerk.
       start_signup hash_verifies clerk others now form))"

definition resend_route :: "exn + clerk_client \<Rightarrow> int \<Rightarrow> string \<Rightarrow> (db, signup_result) net" where
  "resend_route client now attempt_id =
     raise_fromE attempt_errors (bindE (liftE (identity_provider_client client)) (\<lambda>clerk.
       resend_email_code clerk now attempt_id))"

definition verify_route :: "exn + clerk_client \<Rightarrow> (db \<Rightarrow> db) \<Rightarrow> verify_call \<Rightarrow> (db, string) net" where
  "verify_route client others v =
     raise_fromE attempt_errors (bindE (liftE (identity_provider_client client)) (\<lambda>clerk.
       verify_email_code clerk others v))"

section \<open>Handlers of the registry\<close>

definition list_users_route :: "gate \<Rightarrow> string option \<Rightarrow> global_user list dbact" where
  "list_users_route gate status_filter =
     seqM (liftM (gate ''security.user.read''))
       (list_users (if is_set status_filter then map_option py_upper status_filter else None))"

definition change_status_route ::
  "gate \<Rightarrow> exn + clerk_client \<Rightarrow> (db \<Rightarrow> db) \<Rightarrow> status_call \<Rightarrow> (db, global_user) net" where
  "change_status_route gate client others c =
     bindE (liftE (gate ''security.user.manage'')) (\<lambda>user_id.
       raise_fromE status_errors (bindE (liftE (identity_provider_client client)) (\<lambda>clerk.
         set_user_status clerk others (c\<lparr>st_actor := user_id\<rparr>))))"

definition precheck_route :: "string \<Rightarrow> bool dbact" where
  "precheck_route email = precheck email"

end
