(* ===== verification/OnboardingKeyProperties.thy ===== *)
theory OnboardingKeyProperties
  imports OnboardingKey
begin

text \<open>
  What the onboarding key promises: the base64 and UTF-8 the service stores it with lose
  nothing, a key that was set is read back and opens the sign-up until it is disabled.
\<close>

section \<open>Base64\<close>

lemma b64_value_char:
  assumes "i < 64"
  shows "b64_value (b64_char i) = Some i"
proof -
  have mem: "b64_char i \<in> set B64_ALPHABET" using assms b64_alphabet(2) by (simp add: b64_char_def)
  have "CHR ''+'' \<notin> set B64_ALPHABET" "CHR ''/'' \<notin> set B64_ALPHABET" by (simp_all add: B64_ALPHABET_def)
  then have "b64_char i \<noteq> CHR ''+''" "b64_char i \<noteq> CHR ''/''" using mem by auto
  then show ?thesis using mem by (simp add: b64_value_def index_b64_char [OF assms])
qed

lemma b64_char_ascii: "i < 64 \<Longrightarrow> (of_char (b64_char i) :: nat) < 128"
proof -
  have "list_all (\<lambda>i. (of_char (b64_char i) :: nat) < 128) [0..<64]" by code_simp
  then show "i < 64 \<Longrightarrow> (of_char (b64_char i) :: nat) < 128" by (simp add: list_all_iff)
qed

lemma a2b_step:
  assumes "v < 64"
  shows "a2b_base64 0 l p (b64_char v # cs) = a2b_base64 (Suc 0) v 0 cs"
    "a2b_base64 (Suc 0) l p (b64_char v # cs) = map_option ((#) (l * 4 + v div 16)) (a2b_base64 2 (v mod 16) 0 cs)"
    "a2b_base64 2 l p (b64_char v # cs) = map_option ((#) (l * 16 + v div 4)) (a2b_base64 3 (v mod 4) 0 cs)"
    "a2b_base64 3 l p (b64_char v # cs) = map_option ((#) (l * 64 + v)) (a2b_base64 0 0 0 cs)"
  using assms by (simp_all add: b64_value_char b64_char_not_eq)

lemma a2b_pad: "a2b_base64 2 l 0 ''=='' = Some []" "a2b_base64 3 l 0 ''='' = Some []" "a2b_base64 0 l p [] = Some []"
  by simp_all

declare a2b_base64.simps [simp del]

lemma base64_roundtrip: "list_all (\<lambda>b. b < 256) bs \<Longrightarrow> a2b_base64 0 0 0 (urlsafe_b64encode bs) = Some bs"
proof (induction bs rule: urlsafe_b64encode.induct)
  case (2 a)
  then have a: "a < 256" by simp
  show ?case using sextet_bounds [OF a a a] by (simp add: a2b_step a2b_pad)
next
  case (3 a b)
  then have ab: "a < 256" "b < 256" by simp_all
  show ?case using ab sextet_bounds [OF ab ab(2)] by (simp add: a2b_step a2b_pad)
next
  case (4 a b c rest)
  then have abc: "a < 256" "b < 256" "c < 256" by simp_all
  show ?case using 4 abc sextet_bounds [OF abc] by (simp add: a2b_step)
qed (simp add: a2b_pad)

lemma b64encode_ascii: "list_all (\<lambda>b. b < 256) bs \<Longrightarrow> is_ascii (urlsafe_b64encode bs)"
proof (induction bs rule: urlsafe_b64encode.induct)
  case (2 a)
  then have a: "a < 256" by simp
  show ?case using sextet_bounds [OF a a a] by (simp add: is_ascii_def b64_char_ascii)
next
  case (3 a b)
  then have ab: "a < 256" "b < 256" by simp_all
  show ?case using sextet_bounds [OF ab ab(2)] by (simp add: is_ascii_def b64_char_ascii)
next
  case (4 a b c rest)
  then have abc: "a < 256" "b < 256" "c < 256" by simp_all
  show ?case using 4 sextet_bounds [OF abc] by (simp add: is_ascii_def b64_char_ascii)
qed (simp add: is_ascii_def)

section \<open>UTF-8\<close>

lemma utf8_encode_Cons: "utf8_encode (c # s) = (let n = of_char c in if n < 128 then [n] else [192 + n div 64, 128 + n mod 64]) @ utf8_encode s"
  by (simp add: utf8_encode_def)

lemma utf8_decode_ascii: "a < 128 \<Longrightarrow> utf8_decode (a # bs) = map_option ((#) (char_of a)) (utf8_decode bs)"
  by (cases bs) simp_all

lemma utf8_roundtrip: "utf8_decode (utf8_encode s) = Some s"
proof (induction s)
  case (Cons c s)
  have n: "(of_char c :: nat) < 256" by simp
  show ?case
  proof (cases "(of_char c :: nat) < 128")
    case True
    then show ?thesis using Cons by (simp add: utf8_encode_Cons utf8_decode_ascii)
  next
    case False
    define n :: nat where "n = of_char c"
    have high: "192 + n div 64 = 194 \<or> 192 + n div 64 = 195" 
    proof -
      have "128 \<le> n" "n < 4 * 64" using False n by (simp_all add: n_def)
      then have "2 \<le> n div 64" "n div 64 < 4" using div_le_mono [of 128 n 64] less_mult_imp_div_less by simp_all
      then show ?thesis by linarith
    qed
    have not_ascii: "(192 + n div 64 < 128) = False" by simp
    have two: "((192 + n div 64 = 194 \<or> 192 + n div 64 = 195) \<and> 128 \<le> 128 + n mod 64 \<and> 128 + n mod 64 < 192) = True"
      using high by simp
    have char: "char_of ((192 + n div 64 - 192) * 64 + (128 + n mod 64 - 128)) = c" by (simp add: n_def)
    have "utf8_decode ((192 + n div 64) # (128 + n mod 64) # bs) = map_option ((#) c) (utf8_decode bs)" for bs
      by (simp only: utf8_decode.simps(3) not_ascii two if_True if_False char)
    then show ?thesis using False Cons by (simp add: utf8_encode_Cons n_def [symmetric] Let_def del: utf8_decode.simps)
  qed
qed (simp add: utf8_encode_def)

section \<open>Encryption\<close>

text \<open>
  What is assumed of AES-GCM: of bytes it yields bytes, at least the tag, and with the same key, nonce and
  associated data decryption gives the plaintext back.
\<close>

definition aead_ok :: "key_env \<Rightarrow> bool" where
  "aead_ok env \<longleftrightarrow>
     (\<forall>k n p a. length k = 32 \<longrightarrow> length n = 12 \<longrightarrow> list_all (\<lambda>b. b < 256) p \<longrightarrow>
        ke_encrypt env k n p a \<noteq> [] \<and> list_all (\<lambda>b. b < 256) (ke_encrypt env k n p a)
        \<and> ke_decrypt env k n (ke_encrypt env k n p a) a = Some p)"

definition nonce_ok :: "nat list \<Rightarrow> bool" where
  "nonce_ok n \<longleftrightarrow> length n = 12 \<and> list_all (\<lambda>b. b < 256) n"

lemma utf8_bytes: "list_all (\<lambda>b. b < 256) (utf8_encode s)"
proof -
  have "(of_char c :: nat) div 64 < 64" for c
  proof -
    have "(of_char c :: nat) < 256" by simp
    then show ?thesis by linarith
  qed
  then show ?thesis by (auto simp: utf8_encode_def list_all_iff Let_def)
qed

lemma aes_key_length: "aes_key env = Inr k \<Longrightarrow> length k = 32"
  by (auto simp: aes_key_def Let_def split: if_splits sum.splits)

lemma decrypt_encrypt:
  assumes "aead_ok env" and "nonce_ok nonce" and "encrypt_key env nonce value = Inr c"
  shows "decrypt_key env c = Inr value"
proof -
  obtain k where k: "aes_key env = Inr k" and c: "c = urlsafe_b64encode (nonce @ ke_encrypt env k nonce (utf8_encode value) KEY_AAD)"
    using assms(3) by (auto simp: encrypt_key_def split: sum.splits)
  let ?ct = "ke_encrypt env k nonce (utf8_encode value) KEY_AAD"
  have ct: "?ct \<noteq> []" "list_all (\<lambda>b. b < 256) ?ct" "ke_decrypt env k nonce ?ct KEY_AAD = Some (utf8_encode value)"
    using assms(1,2) aes_key_length [OF k] utf8_bytes unfolding aead_ok_def nonce_ok_def by blast+
  have raw: "urlsafe_b64decode c = Inr (nonce @ ?ct)"
    unfolding c urlsafe_b64decode_def using assms(2) ct(2) by (simp add: b64encode_ascii base64_roundtrip nonce_ok_def)
  have "length ?ct > 0" using ct(1) by simp
  then show ?thesis
    unfolding decrypt_key_def raw using assms(2) k ct(3) by (simp add: nonce_ok_def utf8_roundtrip)
qed

section \<open>The operations\<close>

lemma first_upserted:
  assumes "upsert_setting r d = Inr e"
  shows "\<exists>actor since. first_of (db_onboarding_key e) = Some (r\<lparr>os_created_by := actor, os_created_at := since\<rparr>)"
  using assms by (cases "db_onboarding_key d"; cases r) (auto simp: upsert_setting_def split: if_splits)

lemma audit_leaves_key: "platform_audit u co op ty i now s = (r, t) \<Longrightarrow> db_onboarding_key (working t) = db_onboarding_key (working s)"
  by (auto simp: platform_audit_def insert_change_def run_simps split: if_splits)

lemma get_key_of_row:
  assumes "first_of (db_onboarding_key (working s)) = Some r" and "decrypt_key env (os_key_ciphertext r) = Inr key"
  shows "get_onboarding_key env s = (Inr \<lparr>kv_onboarding_key = key, kv_version = os_key_version r, kv_status = os_status r,
           kv_created_at = os_created_at r, kv_updated_at = os_updated_at r\<rparr>, s)"
  by (simp add: get_onboarding_key_def run_simps assms)

text \<open>What a key that was set stands for.\<close>

definition key_in_force :: "key_env \<Rightarrow> key_call \<Rightarrow> string \<Rightarrow> bool \<Rightarrow> int \<Rightarrow> db \<Rightarrow> bool" where
  "key_in_force env c key enabled version d \<longleftrightarrow>
     (\<exists>r. first_of (db_onboarding_key d) = Some r \<and> os_key_hash r = ke_hash env (kc_salt c) key \<and> os_key_version r = version
        \<and> os_status r = (if enabled then ''ACTIVE'' else ''DISABLED'') \<and> decrypt_key env (os_key_ciphertext r) = Inr key)"

definition next_version :: "db \<Rightarrow> int" where
  "next_version d = (case first_of (db_onboarding_key d) of None \<Rightarrow> 1 | Some r \<Rightarrow> os_key_version r + 1)"

definition set_key_statements :: "key_env \<Rightarrow> key_call \<Rightarrow> string \<Rightarrow> string \<Rightarrow> bool \<Rightarrow> int \<Rightarrow> unit dbact" where
  "set_key_statements env c value encrypted enabled version =
     seqM (execute (upsert_setting
          \<lparr>os_key_hash = ke_hash env (kc_salt c) value, os_key_ciphertext = encrypted, os_key_version = version,
           os_status = (if enabled then ''ACTIVE'' else ''DISABLED''), os_created_by = kc_actor c, os_created_at = kc_now c,
           os_updated_by = kc_actor c, os_updated_at = kc_now c\<rparr>))
       (seqM (platform_audit (kc_actor c) (kc_correlation c) ''security.user_onboarding.key.set''
                ''GLOBAL_USER_ONBOARDING_KEY'' ''1'' (kc_now c))
        commit)"

lemma set_key_unfold:
  "set_onboarding_key env c key enabled s =
     (case validate_onboarding_key key of
        Inl e \<Rightarrow> (Inl e, s)
      | Inr value \<Rightarrow>
          (case encrypt_key env (kc_nonce c) value of
             Inl e \<Rightarrow> (Inl e, s)
           | Inr encrypted \<Rightarrow>
               seqM (rollback_on_error (set_key_statements env c value encrypted enabled (next_version (working s))))
                 (get_onboarding_key env) s))"
  by (simp add: set_onboarding_key_def set_key_statements_def next_version_def bindM_def liftM_def query_def Let_def
      split: sum.split option.split)

lemma set_key_statements_atomic: "atomic (set_key_statements env c value encrypted enabled version)"
  unfolding set_key_statements_def platform_audit_def by (intro atomic_intros stays_intros)

lemma set_key_statements_Inr:
  assumes "set_key_statements env c value encrypted enabled version s = (Inr x, t)" and "decrypt_key env encrypted = Inr value"
  shows "key_in_force env c value enabled version (committed t) \<and> working t = committed t"
proof -
  obtain d s1 where up: "upsert_setting
          \<lparr>os_key_hash = ke_hash env (kc_salt c) value, os_key_ciphertext = encrypted, os_key_version = version,
           os_status = (if enabled then ''ACTIVE'' else ''DISABLED''), os_created_by = kc_actor c, os_created_at = kc_now c,
           os_updated_by = kc_actor c, os_updated_at = kc_now c\<rparr> (working s) = Inr d"
    and au: "platform_audit (kc_actor c) (kc_correlation c) ''security.user_onboarding.key.set''
                ''GLOBAL_USER_ONBOARDING_KEY'' ''1'' (kc_now c) (s\<lparr>working := d\<rparr>) = (Inr (), s1)"
    and t: "t = s1\<lparr>committed := working s1\<rparr>"
    using assms(1) unfolding set_key_statements_def by (auto simp: success_simps)
  have "db_onboarding_key (working s1) = db_onboarding_key d" using audit_leaves_key [OF au] by simp
  then show ?thesis
    using first_upserted [OF up] assms(2) unfolding t key_in_force_def by auto
qed

lemma get_key_keeps: "\<exists>r. get_onboarding_key env s = (r, s)"
  by (auto simp: get_onboarding_key_def bindM_def query_def throwM_def liftM_def returnM_def split: option.split sum.split)

lemma set_key_body_cases:
  assumes "seqM (rollback_on_error (set_key_statements env c value encrypted enabled version)) (get_onboarding_key env)
      (fresh_session d us) = (res, t)" and "decrypt_key env encrypted = Inr value"
  shows "(\<exists>e. res = Inl e \<and> committed t = d)
    \<or> key_in_force env c value enabled version (committed t) \<and> working t = committed t \<and> get_onboarding_key env t = (res, t)"
proof (cases "set_key_statements env c value encrypted enabled version (fresh_session d us)")
  case (Pair r u)
  show ?thesis
  proof (cases r)
    case (Inl e)
    have "committed u = d" using atomicD [OF set_key_statements_atomic Pair [unfolded Inl]] by (simp add: fresh_session_def)
    then show ?thesis using assms(1) Pair Inl by (auto simp: seqM_def bindM_def rollback_on_error_def)
  next
    case (Inr x)
    then have "get_onboarding_key env u = (res, t)" using assms(1) Pair by (simp add: seqM_def bindM_def rollback_on_error_def)
    moreover from this have "t = u" using get_key_keeps [of env u] by auto
    ultimately show ?thesis using set_key_statements_Inr [OF Pair [unfolded Inr] assms(2)] by simp
  qed
qed

lemma set_key_cases:
  assumes "aead_ok env" and "nonce_ok (kc_nonce c)" and run: "set_onboarding_key env c key enabled (fresh_session d us) = (res, t)"
  shows "(\<exists>e. res = Inl e \<and> committed t = d)
    \<or> key_in_force env c (py_strip key) enabled (next_version d) (committed t) \<and> working t = committed t
       \<and> get_onboarding_key env t = (res, t)"
proof (cases "\<exists>clean encrypted. validate_onboarding_key key = Inr clean \<and> encrypt_key env (kc_nonce c) clean = Inr encrypted")
  case True
  then obtain clean encrypted where ok: "validate_onboarding_key key = Inr clean" "encrypt_key env (kc_nonce c) clean = Inr encrypted"
    by blast
  have "clean = py_strip key" using ok(1) by (auto simp: validate_onboarding_key_def Let_def split: if_splits)
  moreover have "seqM (rollback_on_error (set_key_statements env c clean encrypted enabled (next_version d))) (get_onboarding_key env)
      (fresh_session d us) = (res, t)"
    using run ok by (simp add: set_key_unfold fresh_session_def)
  ultimately show ?thesis using set_key_body_cases decrypt_encrypt [OF assms(1,2) ok(2)] by blast
next
  case False
  then show ?thesis using run by (auto simp: set_key_unfold fresh_session_def split: sum.splits)
qed

text \<open>
  C37: setting the onboarding key does all or nothing. If it raises, the database is as it was. If
  it returns, what it returns is the stripped key with the next version, reading the key gives
  the same again, and a sign-up is let in exactly with a key that the stored hash verifies, while
  the key is enabled.
\<close>

theorem onboarding_key_roundtrip:
  assumes "aead_ok env" and "nonce_ok (kc_nonce c)"
    and "set_onboarding_key env c key enabled (fresh_session d us) = (res, t)"
  shows "case res of
      Inl e \<Rightarrow> committed t = d
    | Inr v \<Rightarrow> kv_onboarding_key v = py_strip key \<and> kv_version v = next_version d
        \<and> get_onboarding_key env (fresh_session (committed t) us') = (Inr v, fresh_session (committed t) us')
        \<and> (fst (require_valid_onboarding_key verifies supplied (fresh_session (committed t) us')) = Inr ()
             \<longleftrightarrow> enabled \<and> verifies (ke_hash env (kc_salt c) (py_strip key)) supplied)"
  using set_key_cases [OF assms]
proof (elim disjE conjE exE)
  assume "key_in_force env c (py_strip key) enabled (next_version d) (committed t)"
    and now: "working t = committed t" "get_onboarding_key env t = (res, t)"
  then obtain row where row: "first_of (db_onboarding_key (committed t)) = Some row" "os_key_hash row = ke_hash env (kc_salt c) (py_strip key)"
      "os_key_version row = next_version d" "os_status row = (if enabled then ''ACTIVE'' else ''DISABLED'')"
      "decrypt_key env (os_key_ciphertext row) = Inr (py_strip key)"
    unfolding key_in_force_def by blast
  show ?thesis
    using row now get_key_of_row [of t row env "py_strip key"] get_key_of_row [of "fresh_session (committed t) us'" row env "py_strip key"]
    by (auto simp: require_valid_onboarding_key_def run_simps fresh_session_def)
qed simp

end
