(* ===== verification/ClerkCredentials.thy ===== *)
theory ClerkCredentials
  imports ClerkBackend AccessService
begin

text \<open>
  \<open>services/clerk_credentials.py\<close> and the login route of \<open>api/routes/access.py\<close>: the credential of a
  person is verified by Clerk, everything else by the access service.
\<close>

section \<open>Verifying a credential\<close>

fun retryable :: "int option \<Rightarrow> bool" where
  "retryable None = True"
| "retryable (Some status) = (status \<ge> 500)"

definition check_credential :: "clerk_client \<Rightarrow> string \<Rightarrow> string \<Rightarrow> string option \<Rightarrow> ('d, ClerkBackendUser) net" where
  "check_credential clerk normalized password totp_code =
     bindE (find_clerk_user clerk normalized) (\<lambda>found.
       case found of
         None \<Rightarrow> throwE (security_error ''AUTH_TOKEN_INVALID'')
       | Some user \<Rightarrow>
         seqE (onE (raise_if (cu_banned user \<or> cu_locked user) (security_error ''AUTH_TOKEN_INVALID'')))
         (bindE (verify_password clerk (cu_user_id user) password) (\<lambda>password_ok.
          seqE (onE (raise_if (\<not> password_ok) (security_error ''AUTH_TOKEN_INVALID'')))
          (if \<not> cu_totp_enabled user then returnE user
           else if \<not> is_set totp_code then throwE (security_error ''AUTH_TOKEN_INVALID'')
           else bindE (verify_totp clerk (cu_user_id user) (the totp_code)) (\<lambda>totp_ok.
             seqE (onE (raise_if (\<not> totp_ok) (security_error ''AUTH_TOKEN_INVALID''))) (returnE user))))))"

definition authenticate :: "clerk_client \<Rightarrow> string \<Rightarrow> string \<Rightarrow> string option \<Rightarrow> ('d, ClerkBackendUser) net" where
  "authenticate clerk identifier password totp_code =
     (if py_strip identifier = [] \<or> password = [] then throwE (security_error ''AUTH_TOKEN_INVALID'')
      else catchE (check_credential clerk (py_strip identifier) password totp_code)
        (\<lambda>e. case e of
           ClerkError status \<Rightarrow>
             if retryable status then throwE (security_error ''IDENTITY_PROVIDER_UNAVAILABLE'')
             else throwE (security_error ''AUTH_TOKEN_INVALID'')
         | _ \<Rightarrow> throwE e))"

section \<open>Login\<close>

record login_call =
  lg_identifier :: string
  lg_password :: string
  lg_totp_code :: "string option"
  lg_tenant :: string
  lg_device :: string
  lg_geo :: GeoSample
  lg_ip :: string
  lg_correlation :: string
  lg_now :: int
  lg_signed_at :: int

definition credential_login ::
  "'tok access_env \<Rightarrow> clerk_client \<Rightarrow> login_call \<Rightarrow> (db, 'tok access_result) net" where
  "credential_login env clerk c =
     bindE (authenticate clerk (lg_identifier c) (lg_password c) (lg_totp_code c)) (\<lambda>authenticated.
     bindE (onE uuid4) (\<lambda>session_uuid.
     onE (create_or_reuse (env\<lparr>env_repo := GroupAwareSecurityRepository\<rparr>) (lg_now c) (lg_signed_at c)
       \<lparr>id_provider = ''CLERK'', id_provider_subject = cu_user_id authenticated,
        id_session_id = ''clerk-backend-'' @ session_uuid\<rparr>
       (lg_tenant c) (lg_device c) (lg_geo c) (lg_ip c) (lg_correlation c))))"

end
