(* ===== verification/RegistryRuns.thy ===== *)
theory RegistryRuns
  imports GlobalUserRoutes OnboardingKeyProperties ClerkCredentials RefreshProperties
begin

text \<open>
  Runs of requests to the sign-up and the registry of users, interleaved where a request waits
  for Clerk: what they keep of the database, and the life of a signup attempt.
\<close>

section \<open>Invariants of actions over the network\<close>

definition keepsE :: "('d \<Rightarrow> bool) \<Rightarrow> ('c, 'd, 'a) cact \<Rightarrow> bool" where
  "keepsE J m \<longleftrightarrow> (\<forall>c s. J (committed s) \<and> J (working s)
      \<longrightarrow> J (committed (snd (snd (m c s)))) \<and> J (working (snd (snd (m c s)))))"

lemma keepsE_onE [keeps_intros]: "keeps J m \<Longrightarrow> keepsE J (onE m)"
  by (fastforce simp: keepsE_def keeps_def onE_def split: prod.splits)

lemma keepsE_bindE [keeps_intros]: "keepsE J m \<Longrightarrow> (\<And>x. keepsE J (f x)) \<Longrightarrow> keepsE J (bindE m f)"
  unfolding keepsE_def bindE_def
  by (clarsimp split: prod.splits sum.splits) (metis fst_conv snd_conv)

lemma keepsE_seqE [keeps_intros]: "keepsE J m \<Longrightarrow> keepsE J k \<Longrightarrow> keepsE J (seqE m k)"
  by (simp add: seqE_def keepsE_bindE)

lemma keepsE_basic [keeps_intros]:
  "keepsE J (returnE x)" "keepsE J (throwE e)" "keepsE J (liftE r)" "keepsE J (noteE f)" "keepsE J evidenceE"
  by (simp_all add: keepsE_def returnE_def throwE_def liftE_def onE_def returnM_def throwM_def liftM_def noteE_def evidenceE_def)

lemma keepsE_catchE [keeps_intros]: "keepsE J m \<Longrightarrow> (\<And>e. keepsE J (h e)) \<Longrightarrow> keepsE J (catchE m h)"
  unfolding keepsE_def catchE_def
  by (clarsimp split: prod.splits sum.splits) (metis fst_conv snd_conv)

lemma keepsE_cleanup [keeps_intros]:
  "keepsE J m \<Longrightarrow> keepsE J h \<Longrightarrow> keepsE J (cleanupE m h)" "keepsE J k \<Longrightarrow> keepsE J (suppressE k)"
  "keepsE J n \<Longrightarrow> keepsE J (raise_fromE f n)"
  unfolding cleanupE_def suppressE_def raise_fromE_def by (intro keeps_intros; assumption)+

lemma keepsE_foreachE [keeps_intros]: "(\<And>x. keepsE J (f x)) \<Longrightarrow> keepsE J (foreachE xs f)"
  by (induction xs) (simp_all add: keepsE_seqE keepsE_basic)

lemma keepsE_if [keeps_intros]: "(b \<Longrightarrow> keepsE J m) \<Longrightarrow> (\<not> b \<Longrightarrow> keepsE J k) \<Longrightarrow> keepsE J (if b then m else k)"
  by simp

lemma keepsE_cases [keeps_intros]:
  "(z = None \<Longrightarrow> keepsE J m) \<Longrightarrow> (\<And>y. z = Some y \<Longrightarrow> keepsE J (f y)) \<Longrightarrow> keepsE J (case z of None \<Rightarrow> m | Some y \<Rightarrow> f y)"
  "(\<And>x y. w = (x, y) \<Longrightarrow> keepsE J (g x y)) \<Longrightarrow> keepsE J (case w of (x, y) \<Rightarrow> g x y)"
  by (cases z, simp_all) (cases w, simp)

lemma keeps_interfere [keeps_intros]: "(\<And>d. J d \<Longrightarrow> J (others d)) \<Longrightarrow> keeps J (interfere others)"
  by (simp add: keeps_def interfere_def)

section \<open>Asking Clerk leaves the database alone\<close>

definition pureE :: "('c, 'd, 'a) cact \<Rightarrow> bool" where
  "pureE m \<longleftrightarrow> (\<forall>c s. snd (snd (m c s)) = s)"

named_theorems pure_intros "rules for actions that only use the network"

lemma pureE_basic [pure_intros]:
  "pureE (returnE x)" "pureE (throwE e)" "pureE (liftE r)" "pureE (noteE f)" "pureE evidenceE" "pureE (onE (raise_if b e))"
  by (simp_all add: pureE_def returnE_def throwE_def liftE_def onE_def returnM_def throwM_def liftM_def noteE_def evidenceE_def
      run_raise_if)

lemma pureE_bindE [pure_intros]: "pureE m \<Longrightarrow> (\<And>x. pureE (f x)) \<Longrightarrow> pureE (bindE m f)"
  unfolding pureE_def bindE_def by (clarsimp split: prod.splits sum.splits) (metis snd_conv)

lemma pureE_seqE [pure_intros]: "pureE m \<Longrightarrow> pureE k \<Longrightarrow> pureE (seqE m k)"
  by (simp add: seqE_def pureE_bindE)

lemma pureE_catchE [pure_intros]: "pureE m \<Longrightarrow> (\<And>e. pureE (h e)) \<Longrightarrow> pureE (catchE m h)"
  unfolding pureE_def catchE_def by (clarsimp split: prod.splits sum.splits) (metis snd_conv)

lemma pureE_cleanup [pure_intros]: "pureE m \<Longrightarrow> pureE h \<Longrightarrow> pureE (cleanupE m h)" "pureE k \<Longrightarrow> pureE (suppressE k)"
  unfolding cleanupE_def suppressE_def by (intro pure_intros; assumption)+

lemma pureE_if [pure_intros]: "pureE m \<Longrightarrow> pureE k \<Longrightarrow> pureE (if b then m else k)"
  by simp

lemma pureE_case_option [pure_intros]: "pureE m \<Longrightarrow> (\<And>y. pureE (f y)) \<Longrightarrow> pureE (case z of None \<Rightarrow> m | Some y \<Rightarrow> f y)"
  by (cases z) simp_all

lemma pureE_request [pure_intros]: "pureE (request_json c me path ps js al)"
  unfolding request_json_def send_request_def
  by (intro pure_intros) (auto split: http_reply.split intro!: pure_intros)

lemma pureE_clerk [pure_intros]:
  "pureE (request_object c me path ps js)" "pureE (get_clerk_user c i)" "pureE (delete_clerk_user c i)" "pureE (ban_user c i)"
  "pureE (unban_user c i)" "pureE (prepare_email_verification c a)" "pureE (attempt_email_verification c a code)"
  "pureE (is_email_verified c i em)" "pureE (create_clerk_invitation c em u r)" "pureE (clerk_primary_email c i)"
  "pureE (create_pending_email_user c fn la em pw)" "pureE (verify_password c i pw)" "pureE (verify_totp c i code)"
  "pureE (update_user_profile c i fn la)" "pureE (create_clerk_user c fn la em pw)"
  unfolding request_object_def get_clerk_user_def delete_clerk_user_def ban_user_def unban_user_def prepare_email_verification_def
    attempt_email_verification_def is_email_verified_def create_clerk_invitation_def clerk_primary_email_def
    create_pending_email_user_def verify_password_def verify_totp_def ask_clerk_def update_user_profile_def create_clerk_user_def
  by (intro pure_intros)+

lemma pureE_keeps: "pureE m \<Longrightarrow> keepsE J m"
  by (simp add: pureE_def keepsE_def)

section \<open>What a request may do to the database\<close>

text \<open>An attempt keeps what was submitted; once it is not live any more, it never changes.\<close>

definition attempt_forward :: "signup_attempt \<Rightarrow> signup_attempt \<Rightarrow> bool" where
  "attempt_forward a b \<longleftrightarrow>
     sa_id b = sa_id a \<and> sa_first_name b = sa_first_name a \<and> sa_last_name b = sa_last_name a \<and> sa_email b = sa_email a
     \<and> sa_mobile b = sa_mobile a \<and> sa_ip b = sa_ip a \<and> sa_correlation b = sa_correlation a
     \<and> sa_created_at b = sa_created_at a \<and> sa_expires_at b = sa_expires_at a \<and> (attempt_live a \<or> b = a)"

definition attempts_forward :: "db \<Rightarrow> db \<Rightarrow> bool" where
  "attempts_forward d e \<longleftrightarrow> (\<forall>a\<in>set (db_attempts d). \<exists>b\<in>set (db_attempts e). attempt_forward a b)"

definition people_grow :: "db \<Rightarrow> db \<Rightarrow> bool" where
  "people_grow d e \<longleftrightarrow>
     (\<forall>u\<in>set (db_users d). \<exists>v\<in>set (db_users e). u_id v = u_id u \<and> u_primary_email v = u_primary_email u
        \<and> u_primary_mobile v = u_primary_mobile u)
     \<and> set (db_principals d) \<subseteq> set (db_principals e) \<and> set (db_identities d) \<subseteq> set (db_identities e)"

text \<open>A completed attempt has its user, with the address, number and Clerk identity of the attempt.\<close>

definition registered_for :: "db \<Rightarrow> signup_attempt \<Rightarrow> bool" where
  "registered_for d a \<longleftrightarrow>
     (\<exists>u\<in>set (db_users d). \<exists>p\<in>set (db_principals d). \<exists>e\<in>set (db_identities d).
        u_primary_email u = Some (sa_email a) \<and> u_primary_mobile u = Some (sa_mobile a) \<and> sp_id p = u_id u
        \<and> ei_user e = u_id u \<and> ei_provider e = ''CLERK'' \<and> sa_clerk_user a = Some (ei_subject e))"

definition linked :: "db \<Rightarrow> bool" where
  "linked d \<longleftrightarrow> (\<forall>a\<in>set (db_attempts d). sa_status a = ''COMPLETED'' \<longrightarrow> registered_for d a)"

definition good :: "db \<Rightarrow> bool" where
  "good d \<longleftrightarrow> db_ok d \<and> registry_ok d \<and> linked d"

definition moves :: "db \<Rightarrow> db \<Rightarrow> bool" where
  "moves d e \<longleftrightarrow> (good d \<longrightarrow> good e \<and> attempts_forward d e \<and> people_grow d e)"

lemma attempt_forward_refl: "attempt_forward a a"
  by (simp add: attempt_forward_def)

lemma attempt_forward_trans: "attempt_forward a b \<Longrightarrow> attempt_forward b c \<Longrightarrow> attempt_forward a c"
  by (auto simp: attempt_forward_def)

lemma moves_refl: "moves d d"
  unfolding moves_def attempts_forward_def people_grow_def using attempt_forward_refl by blast

lemma moves_trans:
  assumes "moves d e" and "moves e f"
  shows "moves d f"
proof -
  have "attempts_forward d f" if "attempts_forward d e" "attempts_forward e f"
    using that unfolding attempts_forward_def by (meson attempt_forward_trans)
  moreover have "people_grow d f" if "people_grow d e" "people_grow e f"
    using that unfolding people_grow_def by (metis (no_types, lifting) subset_trans)
  ultimately show ?thesis using assms unfolding moves_def by blast
qed

lemma registered_for_grow:
  assumes "people_grow d e" and "registered_for d a"
  shows "registered_for e a"
proof -
  obtain u p i where u: "u \<in> set (db_users d)" and p: "p \<in> set (db_principals d)" and i: "i \<in> set (db_identities d)"
    and eq: "u_primary_email u = Some (sa_email a)" "u_primary_mobile u = Some (sa_mobile a)" "sp_id p = u_id u"
      "ei_user i = u_id u" "ei_provider i = ''CLERK''" "sa_clerk_user a = Some (ei_subject i)"
    using assms(2) unfolding registered_for_def by blast
  obtain v where v: "v \<in> set (db_users e)" "u_id v = u_id u" "u_primary_email v = u_primary_email u"
      "u_primary_mobile v = u_primary_mobile u"
    using assms(1) u unfolding people_grow_def by blast
  have "p \<in> set (db_principals e)" "i \<in> set (db_identities e)" using assms(1) p i unfolding people_grow_def by blast+
  then show ?thesis using v eq unfolding registered_for_def by metis
qed

lemma moves_same_attempts:
  assumes "db_ok d \<Longrightarrow> db_ok e" and "registry_ok d \<Longrightarrow> registry_ok e" and "db_attempts e = db_attempts d" and "people_grow d e"
  shows "moves d e"
  using assms registered_for_grow [OF assms(4)] attempt_forward_refl
  unfolding moves_def good_def linked_def attempts_forward_def by auto

lemma people_grow_frame:
  "db_users e = db_users d \<Longrightarrow> db_principals e = db_principals d \<Longrightarrow> db_identities e = db_identities d \<Longrightarrow> people_grow d e"
  by (auto simp: people_grow_def)

lemma people_grow_append:
  "set (db_users d) \<subseteq> set (db_users e) \<Longrightarrow> set (db_principals d) \<subseteq> set (db_principals e)
    \<Longrightarrow> set (db_identities d) \<subseteq> set (db_identities e) \<Longrightarrow> people_grow d e"
  by (auto simp: people_grow_def)

section \<open>The statements move\<close>

lemma registry_ok_frame:
  "db_users e = db_users d \<Longrightarrow> db_attempts e = db_attempts d \<Longrightarrow> db_onboarding e = db_onboarding d
    \<Longrightarrow> db_onboarding_key e = db_onboarding_key d \<Longrightarrow> db_events e = db_events d \<Longrightarrow> registry_ok e = registry_ok d"
  by (simp add: registry_ok_def)

lemma moves_insert:
  "insert_principal p d = Inr e \<Longrightarrow> moves d e" "insert_user u d = Inr e \<Longrightarrow> moves d e"
  "insert_onboarding r d = Inr e \<Longrightarrow> moves d e" "insert_event v d = Inr e \<Longrightarrow> moves d e"
proof -
  show "insert_principal p d = Inr e \<Longrightarrow> moves d e"
    by (rule moves_same_attempts, erule (1) registry_keeps_db_ok, erule (1) registry_keeps_ok)
      (clarsimp simp: insert_principal_def people_grow_append subset_insertI split: if_split_asm)+
  show "insert_user u d = Inr e \<Longrightarrow> moves d e"
    by (rule moves_same_attempts, erule (1) registry_keeps_db_ok, erule (1) registry_keeps_ok)
      (clarsimp simp: insert_user_def people_grow_append subset_insertI split: if_split_asm)+
  show "insert_onboarding r d = Inr e \<Longrightarrow> moves d e"
    by (rule moves_same_attempts, erule (1) registry_keeps_db_ok, erule (1) registry_keeps_ok)
      (clarsimp simp: insert_onboarding_def people_grow_append subset_insertI split: if_split_asm)+
  show "insert_event v d = Inr e \<Longrightarrow> moves d e"
    by (rule moves_same_attempts, erule (1) registry_keeps_db_ok, erule (1) registry_keeps_ok)
      (clarsimp simp: insert_event_def people_grow_append subset_insertI split: if_split_asm)+
qed

lemma moves_frame:
  assumes "db_ok d \<Longrightarrow> db_ok e"
    and "db_users e = db_users d" "db_principals e = db_principals d" "db_identities e = db_identities d"
      "db_attempts e = db_attempts d" "db_onboarding e = db_onboarding d" "db_onboarding_key e = db_onboarding_key d"
      "db_events e = db_events d"
  shows "moves d e"
  using assms by (intro moves_same_attempts people_grow_frame) (simp_all add: registry_ok_frame [of e d])

lemma moves_insert_identity: "insert_identity i d = Inr e \<Longrightarrow> moves d e"
  by (rule moves_same_attempts) (auto intro: insert_keeps_ok people_grow_append
      simp: insert_identity_def registry_ok_def split: if_splits)

lemma moves_insert_change:
  assumes "insert_change r d = Inr e"
  shows "moves d e"
  by (rule moves_frame) (use assms in \<open>auto intro: insert_keeps_ok simp: insert_change_def split: if_splits\<close>)

lemma moves_update_sessions:
  assumes "update_sessions p f d = Inr e" and "calm as_id every_row f" "calm session_key session_live f"
  shows "moves d e"
  by (rule moves_frame) (use assms in \<open>auto intro: update_sessions_keeps_ok simp: update_sessions_def Let_def split: if_splits\<close>)

lemma moves_update_onboarding:
  assumes "update_onboarding p f d = Inr e" and "calm or_id every_row f" "calm or_user every_row f"
  shows "moves d e"
proof (rule moves_same_attempts)
  show "db_ok d \<Longrightarrow> db_ok e" by (rule registry_keeps_db_ok(6) [OF _ assms(1)])
  show "registry_ok d \<Longrightarrow> registry_ok e" using update_onboarding_keeps_ok assms by blast
qed (use assms(1) in \<open>auto simp: update_onboarding_def people_grow_frame split: if_splits\<close>)

lemma moves_update_users:
  assumes "update_users p f d = Inr e"
    and "\<And>u. u_id (f u) = u_id u \<and> u_primary_email (f u) = u_primary_email u \<and> u_primary_mobile (f u) = u_primary_mobile u"
  shows "moves d e"
proof (rule moves_same_attempts)
  have "calm u_id every_row f" using assms(2) by (simp add: calm_def)
  then show "db_ok d \<Longrightarrow> db_ok e" using update_users_keeps_db_ok assms(1) by blast
  show "registry_ok d \<Longrightarrow> registry_ok e" using update_users_keeps_ok [OF _ assms(1)] assms(2) by blast
  have e: "e = d\<lparr>db_users := update_rows p f (db_users d)\<rparr>" using assms(1) by (auto simp: update_users_def split: if_splits)
  show "db_attempts e = db_attempts d" by (simp add: e)
  show "people_grow d e"
    unfolding people_grow_def e update_rows_def using assms(2) by (auto simp del: set_update_rows)
qed

lemma moves_setting:
  assumes "list_all setting_check rows" and "length rows \<le> 1"
  shows "moves d (d\<lparr>db_onboarding_key := rows\<rparr>)"
proof (rule moves_same_attempts)
  have "unique_index (\<lambda>_. ()) every_row rows"
    using assms(2) by (cases rows) (auto simp: unique_index_def)
  then show "registry_ok d \<Longrightarrow> registry_ok (d\<lparr>db_onboarding_key := rows\<rparr>)" using assms(1) by (simp add: registry_ok_def)
qed (simp_all add: db_ok_def people_grow_frame)

lemma one_setting:
  assumes "registry_ok d"
  shows "length (db_onboarding_key d) \<le> 1"
proof -
  have "distinct (map (\<lambda>_. ()) (db_onboarding_key d))" using assms by (simp add: registry_ok_def unique_index_def)
  then show ?thesis by (cases "db_onboarding_key d" rule: remdups_adj.cases) auto
qed

lemma moves_by_good: "(good d \<Longrightarrow> moves d e) \<Longrightarrow> moves d e"
  by (auto simp: moves_def)

lemma moves_upsert_setting:
  assumes "upsert_setting r d = Inr e"
  shows "moves d e"
proof (rule moves_by_good)
  assume "good d"
  then have one: "length (db_onboarding_key d) \<le> 1" and ok: "list_all setting_check (db_onboarding_key d)"
    using one_setting by (auto simp: good_def registry_ok_def)
  obtain rows where e: "e = d\<lparr>db_onboarding_key := rows\<rparr>" "list_all setting_check rows" "length rows \<le> 1"
    using assms one by (cases "db_onboarding_key d")
      (auto simp: upsert_setting_def setting_check_def list_all_iff split: if_splits)
  show "moves d e" unfolding e(1) using moves_setting e(2,3) by blast
qed

lemma moves_disable:
  "moves d (d\<lparr>db_onboarding_key := map (\<lambda>r. r\<lparr>os_status := ''DISABLED'', os_updated_by := u, os_updated_at := n\<rparr>) (db_onboarding_key d)\<rparr>)"
proof (rule moves_by_good)
  assume "good d"
  then have "length (db_onboarding_key d) \<le> 1" "list_all setting_check (db_onboarding_key d)"
    using one_setting by (auto simp: good_def registry_ok_def)
  then show ?thesis by (intro moves_setting) (auto simp: list_all_iff setting_check_def)
qed

text \<open>Live attempts may change their state, not what was submitted, and not to \<open>COMPLETED\<close>.\<close>

lemma moves_update_attempts:
  assumes "update_attempts p f d = Inr e" and "\<And>a. p a \<Longrightarrow> attempt_live a"
    and "\<And>a. p a \<Longrightarrow> attempt_forward a (f a) \<and> sa_status (f a) \<noteq> ''COMPLETED''"
  shows "moves d e"
proof -
  have e: "e = d\<lparr>db_attempts := update_rows p f (db_attempts d)\<rparr>"
    using assms(1) by (auto simp: update_attempts_def Let_def split: if_splits)
  have rows: "set (db_attempts e) = (\<lambda>a. if p a then f a else a) ` set (db_attempts d)" by (simp add: e update_rows_def)
  have grow: "people_grow d e" by (simp add: e people_grow_frame)
  have "attempt_forward a (if p a then f a else a)" for a using assms(3) attempt_forward_refl by simp
  then have "attempts_forward d e" unfolding attempts_forward_def rows by blast
  moreover have "linked e" if "linked d"
    using that registered_for_grow [OF grow] assms(3) unfolding linked_def rows by auto
  ultimately show ?thesis
    using grow assms(1) registry_keeps_db_ok(4) registry_keeps_ok(4) unfolding moves_def good_def by blast
qed

lemma moves_insert_attempt:
  assumes "insert_attempt a d = Inr e" and "attempt_live a"
  shows "moves d e"
proof -
  have e: "e = d\<lparr>db_attempts := db_attempts d @ [a]\<rparr>"
    using assms(1) by (auto simp: insert_attempt_def Let_def split: if_splits)
  have grow: "people_grow d e" by (simp add: e people_grow_frame)
  have "attempts_forward d e" unfolding attempts_forward_def e using attempt_forward_refl by auto
  moreover have "linked e" if "linked d"
    using that registered_for_grow [OF grow] assms(2) unfolding linked_def by (auto simp: e attempt_live_def)
  ultimately show ?thesis
    using grow assms(1) registry_keeps_db_ok(3) registry_keeps_ok(3) unfolding moves_def good_def by blast
qed

end
