(* ===== verification/RegistryLaws.thy ===== *)
theory RegistryLaws
  imports RegistryRuns
begin

text \<open>
  The contract between the statements of the registry and its operations: what every statement
  keeps, every operation keeps. A property of databases has to be checked on the statements only.
\<close>

section \<open>The statements of the registry\<close>

locale registry_law =
  fixes J :: "db \<Rightarrow> bool"
  assumes principal: "J d \<Longrightarrow> insert_principal x d = Inr e \<Longrightarrow> J e"
    and new_user: "J d \<Longrightarrow> insert_user u d = Inr e \<Longrightarrow> u_status u = ''PENDING'' \<Longrightarrow> J e"
    and identity: "J d \<Longrightarrow> insert_identity i d = Inr e \<Longrightarrow> J e"
    and onboarding: "J d \<Longrightarrow> insert_onboarding r d = Inr e \<Longrightarrow> J e"
    and event: "J d \<Longrightarrow> insert_event v d = Inr e \<Longrightarrow> J e"
    and change: "J d \<Longrightarrow> insert_change c d = Inr e \<Longrightarrow> J e"
    and noted: "J d \<Longrightarrow> update_onboarding q f d = Inr e \<Longrightarrow> (\<And>r. or_id (f r) = or_id r \<and> or_user (f r) = or_user r) \<Longrightarrow> J e"
    and attempted: "J d \<Longrightarrow> insert_attempt a d = Inr e \<Longrightarrow> attempt_live a \<Longrightarrow> J e"
    and attempts: "J d \<Longrightarrow> update_attempts p g d = Inr e \<Longrightarrow> (\<And>a. p a \<Longrightarrow> attempt_live a \<and> sa_status (g a) \<noteq> ''COMPLETED'')
        \<Longrightarrow> (\<And>a. attempt_live a \<Longrightarrow> attempt_forward a (g a)) \<Longrightarrow> J e"
    and setting: "J d \<Longrightarrow> upsert_setting s d = Inr e \<Longrightarrow> J e"
    and disabled: "J d \<Longrightarrow> J (d\<lparr>db_onboarding_key := map (\<lambda>r. r\<lparr>os_status := ''DISABLED'', os_updated_by := b, os_updated_at := n\<rparr>)
        (db_onboarding_key d)\<rparr>)"
begin

lemma keeps_statements:
  "keeps J (execute (insert_principal p))" "u_status u = ''PENDING'' \<Longrightarrow> keeps J (execute (insert_user u))"
  "keeps J (execute (insert_onboarding r))" "keeps J (execute (insert_identity i))" "keeps J (execute (upsert_setting st))"
  "attempt_live a \<Longrightarrow> keeps J (insert_new_attempt a)" "keeps J (onboarding_event us ty oc rc ip co now)"
  "keeps J (platform_audit us co op ty ri now)"
  "keeps J (execute (insert_event v))"
  unfolding onboarding_event_def platform_audit_def insert_new_attempt_def
  by (intro keeps_intros; (erule (2) principal new_user onboarding identity setting attempted event change
    | erule (1) principal new_user onboarding identity setting attempted event change))+

lemma keeps_update_onboarding:
  assumes "\<And>r. or_id (f r) = or_id r \<and> or_user (f r) = or_user r"
  shows "keeps J (execute (update_onboarding p f))"
  by (rule keeps_execute) (rule noted [OF _ _ assms])

lemma keeps_note_onboarding:
  "(\<And>r. or_id (f r) = or_id r \<and> or_user (f r) = or_user r) \<Longrightarrow> keeps J (note_onboarding i f)"
  unfolding note_onboarding_def by (intro keeps_seqM keeps_update_onboarding keeps_commit)

lemma keeps_approve: "keeps J (approve_onboarding c)"
  unfolding approve_onboarding_def by (rule keeps_update_onboarding) simp

lemma keeps_update_attempts:
  assumes "\<And>a. p a \<Longrightarrow> attempt_live a \<and> sa_status (f a) \<noteq> ''COMPLETED''" and "\<And>a. attempt_live a \<Longrightarrow> attempt_forward a (f a)"
  shows "keeps J (execute (update_attempts p f))"
  by (rule keeps_execute) (rule attempts [OF _ _ assms])

lemma keeps_attempt_status:
  assumes "\<And>a. p a \<Longrightarrow> attempt_live a" and "st \<noteq> ''COMPLETED''"
  shows "keeps J (set_attempt_status st p)"
  unfolding set_attempt_status_def
  by (rule keeps_update_attempts) (use assms in \<open>auto simp: attempt_forward_def\<close>)

lemma keeps_clerk_ids: "keeps J (note_clerk_ids i u a)"
proof -
  have "keeps J (execute (update_attempts (\<lambda>a. sa_id a = i \<and> attempt_live a)
          (\<lambda>b. b\<lparr>sa_clerk_user := Some u, sa_clerk_email := Some a\<rparr>)))"
    by (rule keeps_update_attempts) (auto simp: attempt_forward_def attempt_live_def)
  from this keeps_commit show ?thesis unfolding note_clerk_ids_def by (rule keeps_seqM)
qed

lemma keeps_cancel: "keeps J (cancel_attempt i)"
  unfolding cancel_attempt_def by (intro keeps_intros keeps_attempt_status) simp_all

lemma keeps_completable: "keeps J (require_completable a now)"
  unfolding require_completable_def by (intro keeps_intros keeps_attempt_status) simp_all

end

lemma keeps_reads:
  "keeps J (require_valid_onboarding_key v k)" "keeps J (require_identity_not_registered em mo)" "keeps J (require_no_live_attempt em mo)"
  "keeps J (require_clerk_identity_not_registered i)" "keeps J (load_attempt i)" "keeps J (user_by_id i)" "keeps J (get_onboarding_key env)"
  unfolding require_valid_onboarding_key_def require_identity_not_registered_def require_no_live_attempt_def
    require_clerk_identity_not_registered_def load_attempt_def user_by_id_def list_users_def get_onboarding_key_def
  by (intro keeps_intros)+

lemma keepsE_clerk [keeps_intros]:
  "keepsE J (get_clerk_user c i)" "keepsE J (delete_clerk_user c i)" "keepsE J (ban_user c i)"
  "keepsE J (unban_user c i)" "keepsE J (prepare_email_verification c a)" "keepsE J (create_clerk_invitation c em u r)"
  "keepsE J (clerk_primary_email c i)" "keepsE J (create_pending_email_user c fn la em pw)"
  by (intro pureE_keeps pureE_clerk)+

section \<open>The operations\<close>

context registry_law
begin

lemmas operation_intros =
  keeps_reads keeps_statements keeps_cancel keeps_clerk_ids keeps_completable keeps_interfere

lemma keeps_start:
  assumes "\<And>d. J d \<Longrightarrow> J (others d)"
  shows "keepsE J (start_signup hv clerk others now form)"
proof -
  have "keeps J (set_attempt_status ''EXPIRED'' (stale_attempt em mo now))" for em mo
    by (rule keeps_attempt_status) (simp_all add: stale_attempt_def)
  moreover have "keepsE J (delete_stale_user clerk cu)" for cu
    unfolding delete_stale_user_def by (intro keeps_intros) (auto split: exn.split intro!: keeps_intros)
  ultimately show ?thesis
    unfolding start_signup_def expire_stale_identity_attempts_def prepare_clerk_user_def Let_def
    by (intro keeps_intros operation_intros assms) (simp_all add: attempt_live_def new_attempt_def)
qed

lemma keeps_resend: "keepsE J (resend_email_code clerk now i)"
  unfolding resend_email_code_def by (intro keeps_intros operation_intros)

lemma keeps_accept: "keeps J (accept_submission sc u r em n)"
  unfolding accept_submission_def by (intro keeps_intros operation_intros) simp_all

lemma keeps_submit:
  assumes "\<And>d. J d \<Longrightarrow> J (others d)"
  shows "keepsE J (submit_onboarding hv clerk others sc)"
proof -
  have clerk: "keepsE J (case e of ClerkError _ \<Rightarrow> m | _ \<Rightarrow> throwE e)" if "keepsE J m" for e and m :: "(db, string) net"
    using that by (auto split: exn.split intro: keeps_intros)
  show ?thesis
    unfolding submit_onboarding_def Let_def
    by (intro clerk keeps_intros operation_intros keeps_note_onboarding keeps_accept assms) simp_all
qed

lemma keeps_bind:
  assumes "\<And>d. J d \<Longrightarrow> J (others d)"
  shows "keepsE J (bind_authenticated_clerk_user clerk others bc)"
proof -
  have "keeps J (bind_statements bc u k)" for u k
    unfolding bind_statements_def by (intro keeps_intros operation_intros keeps_update_onboarding) simp_all
  then show ?thesis
    unfolding bind_authenticated_clerk_user_def Let_def by (intro keeps_intros operation_intros assms) simp_all
qed

lemma keeps_key:
  "keeps J (set_onboarding_key env kc k b)" "keeps J (disable_onboarding_key u co now)"
  unfolding set_onboarding_key_def disable_onboarding_key_def Let_def
  by (intro keeps_intros operation_intros keeps_update disabled; assumption)+

lemma keeps_routes:
  assumes "\<And>d. J d \<Longrightarrow> J (others d)"
  shows "keepsE J (start_route client hv others now form)" "keepsE J (resend_route client now i)"
    "keeps J (set_key_route gt env kc k b)" "keeps J (rotate_key_route gt env kc pick)"
    "keeps J (disable_key_route gt kc)" "keeps J (get_key_route gt env)"
    "keeps J (list_users_route gt st)" "keeps J (precheck_route em)"
  unfolding start_route_def resend_route_def set_key_route_def rotate_key_route_def disable_key_route_def
    get_key_route_def list_users_route_def precheck_route_def rotate_onboarding_key_def list_users_def precheck_def
  by (intro keeps_intros keeps_reads keeps_start keeps_resend keeps_key assms; assumption)+

end

section \<open>Completing an attempt and changing the status of a user\<close>

locale registry_completion_law = registry_law +
  assumes completed: "J d \<Longrightarrow> update_attempts p g d = Inr e \<Longrightarrow> J e"
begin

lemma keeps_verify_route:
  assumes "\<And>d. J d \<Longrightarrow> J (others d)"
  shows "keepsE J (verify_route client others v)"
proof -
  have upd: "keeps J (execute (update_attempts p f))" for p f by (rule keeps_execute) (rule completed)
  have reg: "keeps J (register g attempt i)" for g attempt i
    unfolding register_def register_statements_def
    by (intro operation_intros upd keeps_intros) (simp add: registered_user_def)
  show ?thesis
    unfolding verify_route_def verify_email_code_def verify_locked_def ask_about_code_def
    by (intro keeps_intros operation_intros reg pureE_keeps [OF pureE_clerk(7)] pureE_keeps [OF pureE_clerk(8)] assms)
qed

end

locale registry_status_law = registry_law +
  assumes status: "J d \<Longrightarrow> update_users p (\<lambda>u. u\<lparr>u_status := st, u_updated_at := n\<rparr>) d = Inr e \<Longrightarrow> J e"
    and sessions: "J d \<Longrightarrow> update_sessions q (\<lambda>r. r\<lparr>as_status := ''REVOKED'', as_last_activity := n\<rparr>) d = Inr e \<Longrightarrow> J e"
begin

lemma keeps_change_status_route:
  assumes "\<And>d. J d \<Longrightarrow> J (others d)"
  shows "keepsE J (change_status_route gt client others sc)"
proof -
  have "keeps J (write_user_status c target onb)" for c target onb
    unfolding write_user_status_def revoke_user_sessions_def
    by (intro keeps_intros operation_intros keeps_approve; (erule (1) status sessions)?)
  then show ?thesis
    unfolding change_status_route_def set_user_status_def Let_def
    by (intro keeps_intros operation_intros assms)
qed

end

end
