(* ===== verification/RegistryInvariant.thy ===== *)
theory RegistryInvariant
  imports RegistryLaws
begin

text \<open>
  Every request to the sign-up and the registry only moves the database forward, also when other
  requests move it while Clerk is asked; and what a verified code registers.
\<close>

section \<open>The statements only move forward\<close>

interpretation moving: registry_status_law "moves d0" for d0
proof
  fix d e assume m: "moves d0 d"
  show "insert_principal p d = Inr e \<Longrightarrow> moves d0 e" for p using m moves_insert(1) moves_trans by blast
  show "insert_user u d = Inr e \<Longrightarrow> moves d0 e" for u using m moves_insert(2) moves_trans by blast
  show "insert_identity i d = Inr e \<Longrightarrow> moves d0 e" for i using m moves_insert_identity moves_trans by blast
  show "insert_onboarding r d = Inr e \<Longrightarrow> moves d0 e" for r using m moves_insert(3) moves_trans by blast
  show "insert_event v d = Inr e \<Longrightarrow> moves d0 e" for v using m moves_insert(4) moves_trans by blast
  show "insert_change c d = Inr e \<Longrightarrow> moves d0 e" for c using m moves_insert_change moves_trans by blast
  show "insert_attempt a d = Inr e \<Longrightarrow> attempt_live a \<Longrightarrow> moves d0 e" for a using m moves_insert_attempt moves_trans by blast
  show "upsert_setting s d = Inr e \<Longrightarrow> moves d0 e" for s using m moves_upsert_setting moves_trans by blast
  show "moves d0 (d\<lparr>db_onboarding_key := map (\<lambda>r. r\<lparr>os_status := ''DISABLED'', os_updated_by := b, os_updated_at := n\<rparr>)
        (db_onboarding_key d)\<rparr>)" for b n
    using m moves_disable moves_trans by blast
next
  fix d e q and f :: "onboarding_request \<Rightarrow> onboarding_request"
  assume m: "moves d0 d" and u: "update_onboarding q f d = Inr e" and f: "\<And>r. or_id (f r) = or_id r \<and> or_user (f r) = or_user r"
  have "moves d e" by (rule moves_update_onboarding [OF u]) (simp_all add: calm_def f)
  then show "moves d0 e" using m moves_trans by blast
next
  fix d e p and g :: "signup_attempt \<Rightarrow> signup_attempt"
  assume m: "moves d0 d" and u: "update_attempts p g d = Inr e"
    and p: "\<And>a. p a \<Longrightarrow> attempt_live a \<and> sa_status (g a) \<noteq> ''COMPLETED''" and g: "\<And>a. attempt_live a \<Longrightarrow> attempt_forward a (g a)"
  have "moves d e" by (rule moves_update_attempts [OF u]) (use p g in auto)
  then show "moves d0 e" using m moves_trans by blast
next
  fix d e p st n assume m: "moves d0 d" and u: "update_users p (\<lambda>u. u\<lparr>u_status := st, u_updated_at := n\<rparr>) d = Inr e"
  have "moves d e" by (rule moves_update_users [OF u]) simp
  then show "moves d0 e" using m moves_trans by blast
next
  fix d e q n assume m: "moves d0 d" and u: "update_sessions q (\<lambda>r. r\<lparr>as_status := ''REVOKED'', as_last_activity := n\<rparr>) d = Inr e"
  have "moves d e" by (rule moves_update_sessions [OF u]) (simp_all add: calm_def session_live_def session_key_def)
  then show "moves d0 e" using m moves_trans by blast
qed

section \<open>Registering a user\<close>

lemma moves_complete:
  assumes "update_attempts (\<lambda>a. sa_id a = i) (\<lambda>a. a\<lparr>sa_status := ''COMPLETED'', sa_completed_at := Some now\<rparr>) d = Inr e"
    and "a \<in> set (db_attempts d)" "sa_id a = i" "attempt_live a" "registered_for d a"
  shows "moves d e"
proof (rule moves_by_good)
  assume good: "good d"
  let ?f = "\<lambda>a. if sa_id a = i then a\<lparr>sa_status := ''COMPLETED'', sa_completed_at := Some now\<rparr> else a"
  have e: "e = d\<lparr>db_attempts := map ?f (db_attempts d)\<rparr>"
    using assms(1) by (auto simp: update_attempts_def update_rows_def Let_def split: if_splits)
  have only: "b = a" if "b \<in> set (db_attempts d)" "sa_id b = i" for b
    using that assms(2,3) good
    by (intro unique_index_eq [where key = sa_id and live = every_row]) (auto simp: good_def registry_ok_def attempts_ok_def)
  have grow: "people_grow d e" by (simp add: e people_grow_frame)
  have "attempt_forward b (?f b)" if "b \<in> set (db_attempts d)" for b
    using only [OF that] assms(4) attempt_forward_refl by (auto simp: attempt_forward_def)
  moreover have rows: "set (db_attempts e) = ?f ` set (db_attempts d)" by (simp add: e)
  ultimately have "attempts_forward d e" unfolding attempts_forward_def by blast
  moreover have "registered_for e (?f b)" if "b \<in> set (db_attempts d)" "sa_status (?f b) = ''COMPLETED''" for b
  proof (cases "sa_id b = i")
    case True
    then show ?thesis using only [OF that(1)] registered_for_grow [OF grow assms(5)] by (simp add: registered_for_def)
  next
    case False
    then show ?thesis using that good registered_for_grow [OF grow] by (simp add: good_def linked_def)
  qed
  then have "linked e" unfolding linked_def rows by blast
  ultimately show "moves d e"
    using grow assms(1) registry_keeps_db_ok(4) registry_keeps_ok(4) unfolding moves_def good_def by blast
qed

definition new_principal :: "registration \<Rightarrow> signup_attempt \<Rightarrow> principal" where
  "new_principal g attempt = \<lparr>sp_id = rg_user_id g, sp_actor_type = ''USER'', sp_name = sa_email attempt, sp_status = ''ACTIVE''\<rparr>"

definition new_identity :: "registration \<Rightarrow> string \<Rightarrow> external_identity" where
  "new_identity g identity_id = \<lparr>ei_id = identity_id, ei_user = rg_user_id g, ei_provider = ''CLERK'',
     ei_subject = rg_clerk_user_id g, ei_status = ''ACTIVE'', ei_linked_at = rg_now g\<rparr>"

text \<open>The database after a registration.\<close>

definition registered_db :: "registration \<Rightarrow> signup_attempt \<Rightarrow> string \<Rightarrow> string \<Rightarrow> string \<Rightarrow> db \<Rightarrow> db" where
  "registered_db g attempt attempt_id identity_id event_id d =
     d\<lparr>db_principals := db_principals d @ [new_principal g attempt], db_users := db_users d @ [registered_user g attempt],
       db_identities := db_identities d @ [new_identity g identity_id],
       db_onboarding := db_onboarding d @ [registration_request g attempt],
       db_attempts := update_rows (\<lambda>a. sa_id a = attempt_id)
         (\<lambda>a. a\<lparr>sa_status := ''COMPLETED'', sa_completed_at := Some (rg_now g)\<rparr>) (db_attempts d),
       db_events := db_events d @ [registration_event event_id g]\<rparr>"

lemma register_steps:
  assumes "register_statements g attempt i s = (Inr x, t)"
  obtains d1 d2 d3 d4 d5 where "insert_principal (new_principal g attempt) (working s) = Inr d1"
    "insert_user (registered_user g attempt) d1 = Inr d2" "insert_identity (new_identity g (uuids s 0)) d2 = Inr d3"
    "insert_onboarding (registration_request g attempt) d3 = Inr d4"
    "update_attempts (\<lambda>a. sa_id a = i) (\<lambda>a. a\<lparr>sa_status := ''COMPLETED'', sa_completed_at := Some (rg_now g)\<rparr>) d4 = Inr d5"
    "insert_event (registration_event (uuids s 1) g) d5 = Inr (committed t)" "working t = committed t"
  using assms unfolding register_statements_def new_principal_def new_identity_def by (auto simp: success_simps)

lemma register_result:
  assumes "register_statements g attempt i s = (Inr x, t)"
  shows "committed t = registered_db g attempt i (uuids s 0) (uuids s 1) (working s)"
proof -
  obtain d1 d2 d3 d4 d5 where steps: "insert_principal (new_principal g attempt) (working s) = Inr d1"
    "insert_user (registered_user g attempt) d1 = Inr d2" "insert_identity (new_identity g (uuids s 0)) d2 = Inr d3"
    "insert_onboarding (registration_request g attempt) d3 = Inr d4"
    "update_attempts (\<lambda>a. sa_id a = i) (\<lambda>a. a\<lparr>sa_status := ''COMPLETED'', sa_completed_at := Some (rg_now g)\<rparr>) d4 = Inr d5"
    "insert_event (registration_event (uuids s 1) g) d5 = Inr (committed t)"
    using register_steps [OF assms] .
  have "d1 = (working s)\<lparr>db_principals := db_principals (working s) @ [new_principal g attempt]\<rparr>"
    "d2 = d1\<lparr>db_users := db_users d1 @ [registered_user g attempt]\<rparr>"
    "d3 = d2\<lparr>db_identities := db_identities d2 @ [new_identity g (uuids s 0)]\<rparr>"
    "d4 = d3\<lparr>db_onboarding := db_onboarding d3 @ [registration_request g attempt]\<rparr>"
    "d5 = d4\<lparr>db_attempts := update_rows (\<lambda>a. sa_id a = i)
         (\<lambda>a. a\<lparr>sa_status := ''COMPLETED'', sa_completed_at := Some (rg_now g)\<rparr>) (db_attempts d4)\<rparr>"
    "committed t = d5\<lparr>db_events := db_events d5 @ [registration_event (uuids s 1) g]\<rparr>"
    using steps by (simp_all add: registry_defs insert_identity_def Let_def split: if_splits)
  then show ?thesis by (simp add: registered_db_def)
qed

lemma register_moves:
  assumes "register_statements g attempt i s = (Inr x, t)"
    and a: "a \<in> set (db_attempts (working s))" "sa_id a = i" "attempt_live a" "sa_email a = sa_email attempt"
      "sa_mobile a = sa_mobile attempt" "sa_clerk_user a = Some (rg_clerk_user_id g)"
  shows "moves (working s) (committed t)"
proof -
  obtain d1 d2 d3 d4 d5 where steps: "insert_principal (new_principal g attempt) (working s) = Inr d1"
    "insert_user (registered_user g attempt) d1 = Inr d2" "insert_identity (new_identity g (uuids s 0)) d2 = Inr d3"
    "insert_onboarding (registration_request g attempt) d3 = Inr d4"
    "update_attempts (\<lambda>a. sa_id a = i) (\<lambda>a. a\<lparr>sa_status := ''COMPLETED'', sa_completed_at := Some (rg_now g)\<rparr>) d4 = Inr d5"
    "insert_event (registration_event (uuids s 1) g) d5 = Inr (committed t)"
    using register_steps [OF assms(1)] .
  have to4: "moves (working s) d4"
    using moves_insert(1) [OF steps(1)] moves_insert(2) [OF steps(2)] moves_insert_identity [OF steps(3)]
      moves_insert(3) [OF steps(4)] by (meson moves_trans)
  have d: "db_attempts d4 = db_attempts (working s)" "new_principal g attempt \<in> set (db_principals d4)"
    "registered_user g attempt \<in> set (db_users d4)" "new_identity g (uuids s 0) \<in> set (db_identities d4)"
    using steps(1-4) by (auto simp: registry_defs insert_identity_def split: if_splits)
  have "registered_for d4 a"
    unfolding registered_for_def
    using d(2-4) a(4-6)
    by (intro bexI [OF _ d(3)] bexI [OF _ d(2)] bexI [OF _ d(4)]) (simp add: new_principal_def new_identity_def registered_user_def)
  then have "moves d4 d5" using moves_complete [OF steps(5)] a(1-3) d(1) by simp
  then show ?thesis using to4 moves_insert(4) [OF steps(6)] by (meson moves_trans)
qed

end
