(* ===== verification/RegistryHistory.thy ===== *)
theory RegistryHistory
  imports RegistryInvariant
begin

text \<open>
  Every handler of the sign-up and the registry moves the database forward, and so do their
  interleaved runs.
\<close>

section \<open>Verifying a code\<close>

lemma bindE_cases:
  assumes "\<And>e c1 u. m c s = (Inl e, c1, u) \<Longrightarrow> P (Inl e, c1, u)" and "\<And>x c1 u. m c s = (Inr x, c1, u) \<Longrightarrow> P (f x c1 u)"
  shows "P (bindE m f c s)"
  using assms by (auto simp: bindE_def split: prod.split sum.split)

lemma seqE_cases:
  assumes "\<And>e c1 u. m c s = (Inl e, c1, u) \<Longrightarrow> P (Inl e, c1, u)" and "\<And>x c1 u. m c s = (Inr x, c1, u) \<Longrightarrow> P (k c1 u)"
  shows "P (seqE m k c s)"
  unfolding seqE_def using assms by (rule bindE_cases)

lemma bindM_cases:
  assumes "\<And>e u. m s = (Inl e, u) \<Longrightarrow> P (Inl e, u)" and "\<And>x u. m s = (Inr x, u) \<Longrightarrow> P (f x u)"
  shows "P (bindM m f s)"
  using assms by (auto simp: bindM_def split: prod.split sum.split)

lemma seqM_cases:
  assumes "\<And>e u. m s = (Inl e, u) \<Longrightarrow> P (Inl e, u)" and "\<And>x u. m s = (Inr x, u) \<Longrightarrow> P (k u)"
  shows "P (seqM m k s)"
  unfolding seqM_def using assms by (rule bindM_cases)

lemma reads_only_reads:
  "reads_only (load_attempt i)" "reads_only (require_identity_not_registered em mo)"
  "reads_only (require_clerk_identity_not_registered cu)"
  by (auto simp: reads_only_def load_attempt_def require_identity_not_registered_def require_clerk_identity_not_registered_def
      run_simps split: option.split)

lemma reads_onlyD: "reads_only m \<Longrightarrow> m s = (r, t) \<Longrightarrow> t = s"
  by (metis reads_only_def snd_conv)

lemma load_attempt_Inr:
  "load_attempt i s = (Inr a, t) \<Longrightarrow> t = s \<and> a \<in> set (db_attempts (working s)) \<and> sa_id a = i"
  by (auto simp: load_attempt_def success_simps dest: first_row_SomeD split: option.splits)

lemma completable_Inr: "require_completable a n s = (Inr x, t) \<Longrightarrow> t = s \<and> attempt_live a \<and> n < sa_expires_at a"
  by (auto simp: require_completable_def attempt_live_def success_simps split: if_splits)

lemma completable_moves:
  assumes "require_completable a n s = (r, t)" and "working s = committed s"
  shows "moves (committed s) (committed t)"
  using keepsD [OF moving.keeps_completable, of "committed s" s a n] assms moves_refl by auto

lemma atomic_register: "atomic (register_statements g attempt i)"
  unfolding register_statements_def by (intro atomic_intros stays_intros)

lemma register_cases:
  assumes "register g attempt i s = (r, t)"
  shows "committed t = committed s \<or> (\<exists>x u. register_statements g attempt i s = (Inr x, u) \<and> committed t = committed u)"
  using assms atomicD [OF atomic_register]
  by (auto simp: register_def catch_integrity_def rollback_on_error_def throwM_def split: prod.splits sum.splits if_splits)

text \<open>The attempt that was read before Clerk was asked is still the row that is locked now.\<close>

definition still_known :: "db \<Rightarrow> string \<Rightarrow> signup_attempt \<Rightarrow> bool" where
  "still_known d i attempt \<longleftrightarrow>
     (\<forall>a\<in>set (db_attempts d). sa_id a = i \<longrightarrow> sa_email a = sa_email attempt \<and> sa_mobile a = sa_mobile attempt)"

definition ends_moved :: "db \<Rightarrow> 'a dbact \<Rightarrow> db session \<Rightarrow> bool" where
  "ends_moved d m s \<longleftrightarrow> moves d (committed (snd (m s)))"

lemma moved_bind_read:
  assumes "reads_only m" and "moves d (committed s)" and "\<And>x. m s = (Inr x, s) \<Longrightarrow> ends_moved d (f x) s"
  shows "ends_moved d (bindM m f) s"
  unfolding ends_moved_def
  by (rule bindM_cases) (use assms reads_onlyD [OF assms(1)] in \<open>fastforce simp: ends_moved_def\<close>)+

lemma moved_seq_read:
  assumes "reads_only m" and "moves d (committed s)" and "\<And>x. m s = (Inr x, s) \<Longrightarrow> ends_moved d k s"
  shows "ends_moved d (seqM m k) s"
  unfolding seqM_def using assms by (rule moved_bind_read)

lemma reads_only_basic: "reads_only (liftM r)" "reads_only (raise_if b e)"
  by (simp_all add: reads_only_def run_simps)

lemma moved_uuid:
  assumes "ends_moved d (f (uuids s 0)) (s\<lparr>uuids := \<lambda>n. uuids s (Suc n)\<rparr>)"
  shows "ends_moved d (bindM uuid4 f) s"
  using assms by (simp add: ends_moved_def bindM_def uuid4_def)

lemma moved_completable:
  assumes "working s = committed s" and "moves d (committed s)" and "attempt_live a \<Longrightarrow> ends_moved d k s"
  shows "ends_moved d (seqM (require_completable a n) k) s"
  unfolding ends_moved_def
proof (rule seqM_cases)
  show "moves d (committed (snd (Inl e, u)))" if "require_completable a n s = (Inl e, u)" for e u
    using completable_moves [OF that assms(1)] assms(2) moves_trans by simp
  show "moves d (committed (snd (k u)))" if "require_completable a n s = (Inr x, u)" for x u
    using completable_Inr [OF that] assms(3) by (simp add: ends_moved_def)
qed

lemma moved_register:
  assumes w: "working s = committed s" and known: "still_known (working s) i attempt"
    and a: "a \<in> set (db_attempts (working s))" "sa_id a = i" "attempt_live a" "sa_clerk_user a = Some (rg_clerk_user_id g)"
  shows "ends_moved (committed s) (seqM (register g attempt i) (returnM x)) s"
  unfolding ends_moved_def
proof (rule seqM_cases)
  have *: "moves (committed s) (committed t)" if "register g attempt i s = (r, t)" for r t
    using register_cases [OF that]
  proof
    assume "\<exists>x u. register_statements g attempt i s = (Inr x, u) \<and> committed t = committed u"
    then obtain x u where u: "register_statements g attempt i s = (Inr x, u)" "committed t = committed u" by blast
    have "sa_email a = sa_email attempt" "sa_mobile a = sa_mobile attempt" using known a(1,2) by (auto simp: still_known_def)
    then show ?thesis using register_moves [OF u(1) a(1-3) _ _ a(4)] u(2) w by simp
  qed (simp add: moves_refl)
  show "moves (committed s) (committed (snd (Inl e, u)))" if "register g attempt i s = (Inl e, u)" for e u
    using * [OF that] by simp
  show "moves (committed s) (committed (snd (returnM x u)))" if "register g attempt i s = (Inr y, u)" for y u
    using * [OF that] by (simp add: returnM_def)
qed

lemma required_clerk_user_id_Inr: "required_clerk_user_id a = Inr i \<longleftrightarrow> sa_clerk_user a = Some i \<and> starts_with ''user_'' i"
  by (auto simp: required_clerk_user_id_def split: option.splits)

lemma verify_locked_moves:
  assumes w: "working s = committed s" and known: "still_known (working s) (vc_attempt_id v) attempt"
  shows "ends_moved (committed s) (verify_locked v attempt cu) s"
  unfolding verify_locked_def
proof (intro moved_completable [OF w] moved_uuid moved_bind_read [OF reads_only_reads(1)] moved_bind_read [OF reads_only_basic(1)]
    moved_seq_read [OF reads_only_basic(2)] moved_seq_read [OF reads_only_reads(2)] moved_seq_read [OF reads_only_reads(3)] moves_refl)
  fix a locked_id x1 x2 x3
  assume row: "load_attempt (vc_attempt_id v) s = (Inr a, s)" and live: "attempt_live a"
    and cu: "liftM (required_clerk_user_id a) s = (Inr locked_id, s)"
    and same: "raise_if (locked_id \<noteq> cu) (ValueError ''Signup identity changed during verification'') s = (Inr x1, s)"
  let ?s = "s\<lparr>uuids := \<lambda>n. uuids s (Suc n)\<rparr>"
  let ?t = "?s\<lparr>uuids := \<lambda>n. uuids ?s (Suc n)\<rparr>"
  let ?g = "\<lparr>rg_user_id = uuids s 0, rg_request_id = uuids ?s 0, rg_clerk_user_id = cu, rg_ip = vc_ip v,
              rg_correlation = vc_correlation v, rg_now = vc_now v\<rparr>"
  have "sa_clerk_user a = Some cu"
    using cu same by (simp add: liftM_def required_clerk_user_id_Inr run_raise_if split: if_splits)
  then have "ends_moved (committed ?t) (seqM (register ?g attempt (vc_attempt_id v)) (returnM (uuids ?s 0))) ?t"
    using w known load_attempt_Inr [OF row] live by (intro moved_register) simp_all
  then show "ends_moved (committed s) (seqM (register ?g attempt (vc_attempt_id v)) (returnM (uuids ?s 0))) ?t" by simp
qed

definition ends_movedE :: "db \<Rightarrow> (db, 'a) net \<Rightarrow> http_request list \<Rightarrow> db session \<Rightarrow> bool" where
  "ends_movedE d m c s \<longleftrightarrow> moves d (committed (snd (snd (m c s))))"

lemma pureE_onE: "reads_only m \<Longrightarrow> pureE (onE m)"
  by (auto simp: pureE_def onE_def reads_only_def split: prod.split) (metis snd_conv)

lemma pureED: "pureE m \<Longrightarrow> m c s = (r, c1, t) \<Longrightarrow> t = s"
  by (metis pureE_def snd_conv)

lemma movedE_bind_pure:
  assumes "pureE m" and "moves d (committed s)" and "\<And>x c1. m c s = (Inr x, c1, s) \<Longrightarrow> ends_movedE d (f x) c1 s"
  shows "ends_movedE d (bindE m f) c s"
  unfolding ends_movedE_def
  by (rule bindE_cases) (use assms pureED [OF assms(1)] in \<open>fastforce simp: ends_movedE_def\<close>)+

lemma movedE_seq_pure:
  assumes "pureE m" and "moves d (committed s)" and "\<And>x c1. m c s = (Inr x, c1, s) \<Longrightarrow> ends_movedE d k c1 s"
  shows "ends_movedE d (seqE m k) c s"
  unfolding seqE_def using assms by (rule movedE_bind_pure)

lemma movedE_completable:
  assumes "working s = committed s" and "moves d (committed s)" and "ends_movedE d k c s"
  shows "ends_movedE d (seqE (onE (require_completable a n)) k) c s"
  unfolding ends_movedE_def
proof (rule seqE_cases)
  show "moves d (committed (snd (snd (Inl e, c1, u))))" if "onE (require_completable a n) c s = (Inl e, c1, u)" for e c1 u
    using that completable_moves [of a n s] assms(1,2) moves_trans by (fastforce simp: onE_def split: prod.splits)
  show "moves d (committed (snd (snd (k c1 u))))" if "onE (require_completable a n) c s = (Inr x, c1, u)" for x c1 u
    using that completable_Inr [of a n s] assms(3) by (auto simp: onE_Inr_iff ends_movedE_def)
qed

lemma movedE_rollback: "ends_movedE d k c (s\<lparr>working := committed s\<rparr>) \<Longrightarrow> ends_movedE d (seqE (onE rollback) k) c s"
  by (simp add: ends_movedE_def seqE_def bindE_def onE_def rollback_def)

lemma unclosed_moves_refl: "moves (committed s) (committed (s\<lparr>working := x\<rparr>))"
  by (simp add: moves_refl)

lemma movedE_interfere:
  "ends_movedE d k c (s\<lparr>committed := others (committed s), working := others (committed s)\<rparr>)
    \<Longrightarrow> ends_movedE d (seqE (onE (interfere others)) k) c s"
  by (simp add: ends_movedE_def seqE_def bindE_def onE_def interfere_def)

lemma forward_still_known:
  assumes "good d" and "moves d e" and "attempt \<in> set (db_attempts d)" and "sa_id attempt = i"
  shows "still_known e i attempt"
proof -
  have "good e" "attempts_forward d e" using assms(1,2) by (auto simp: moves_def)
  then obtain b where b: "b \<in> set (db_attempts e)" "attempt_forward attempt b" using assms(3) by (auto simp: attempts_forward_def)
  have "a = b" if "a \<in> set (db_attempts e)" "sa_id a = i" for a
    using \<open>good e\<close> b that assms(4)
    by (intro unique_index_eq [where key = sa_id and live = every_row])
      (auto simp: good_def registry_ok_def attempts_ok_def attempt_forward_def)
  then show ?thesis using b(2) by (auto simp: still_known_def attempt_forward_def)
qed

lemma verify_moves:
  assumes others: "\<And>d. moves d (others d)" and w: "working s = committed s"
  shows "ends_movedE (committed s) (verify_email_code clerk others v) c s"
proof -
  have "ends_movedE (committed s) (verify_email_code clerk others v) c s" if good: "good (committed s)"
    unfolding verify_email_code_def ask_about_code_def liftE_def
  proof (intro movedE_completable [OF w] movedE_rollback movedE_interfere movedE_seq_pure movedE_bind_pure pureE_onE pure_intros
      pureE_clerk reads_only_reads reads_only_basic moves_refl unclosed_moves_refl)
    fix attempt x1 x2 c1 c2 c3 x3
    assume row: "onE (load_attempt (vc_attempt_id v)) c1 s = (Inr attempt, c2, s)"
    let ?s = "s\<lparr>working := committed s\<rparr>"
    let ?t = "?s\<lparr>committed := others (committed ?s), working := others (committed ?s)\<rparr>"
    have "attempt \<in> set (db_attempts (committed s)) \<and> sa_id attempt = vc_attempt_id v"
      using row load_attempt_Inr [of "vc_attempt_id v" s attempt s] w by (simp add: onE_Inr_iff)
    then have known: "still_known (working ?t) (vc_attempt_id v) attempt"
      using forward_still_known [OF good others [of "committed s"]] by simp
    have "ends_moved (committed ?t) (verify_locked v attempt x1) ?t"
      by (rule verify_locked_moves) (use known in simp_all)
    then show "ends_movedE (committed s) (onE (verify_locked v attempt x1)) c3 ?t"
      using others [of "committed s"] moves_trans
      by (auto simp: ends_moved_def ends_movedE_def onE_def split: prod.split)
  qed
  then show ?thesis unfolding ends_movedE_def by (rule moves_by_good)
qed

section \<open>Requests and their runs\<close>

record registry_env =
  re_gate :: gate
  re_client :: "exn + clerk_client"
  re_hash_verifies :: "string \<Rightarrow> string \<Rightarrow> bool"
  re_key :: key_env

datatype registry_request =
    StartSignup signup_form int
  | ResendCode string int
  | VerifyCode verify_call
  | ChangeStatus status_call
  | SetKey key_call string bool
  | RotateKey key_call "nat \<Rightarrow> nat"
  | DisableKey key_call
  | ReadKey
  | ListUsers "string option"
  | Precheck string
  | SubmitOnboarding clerk_client submit_call
  | BindIdentity clerk_client bind_call

definition ignoreE :: "('c, 'd, 'a) cact \<Rightarrow> ('c, 'd, unit) cact" where
  "ignoreE m = bindE m (\<lambda>_. returnE ())"

fun handle_registry :: "registry_env \<Rightarrow> (db \<Rightarrow> db) \<Rightarrow> registry_request \<Rightarrow> (db, unit) net" where
  "handle_registry env others (StartSignup form now) =
     ignoreE (start_route (re_client env) (re_hash_verifies env) others now form)"
| "handle_registry env others (ResendCode attempt_id now) = ignoreE (resend_route (re_client env) now attempt_id)"
| "handle_registry env others (VerifyCode v) = ignoreE (verify_route (re_client env) others v)"
| "handle_registry env others (ChangeStatus c) = ignoreE (change_status_route (re_gate env) (re_client env) others c)"
| "handle_registry env others (SetKey c k on) = ignoreE (onE (set_key_route (re_gate env) (re_key env) c k on))"
| "handle_registry env others (RotateKey c pick) = ignoreE (onE (rotate_key_route (re_gate env) (re_key env) c pick))"
| "handle_registry env others (DisableKey c) = onE (disable_key_route (re_gate env) c)"
| "handle_registry env others ReadKey = ignoreE (onE (get_key_route (re_gate env) (re_key env)))"
| "handle_registry env others (ListUsers st) = ignoreE (onE (list_users_route (re_gate env) st))"
| "handle_registry env others (Precheck email) = ignoreE (onE (precheck_route email))"
| "handle_registry env others (SubmitOnboarding clerk c) = ignoreE (submit_onboarding (re_hash_verifies env) clerk others c)"
| "handle_registry env others (BindIdentity clerk c) = ignoreE (bind_authenticated_clerk_user clerk others c)"

definition served :: "registry_env \<Rightarrow> (db \<Rightarrow> db) \<Rightarrow> registry_request \<Rightarrow> http_request list \<Rightarrow> (nat \<Rightarrow> string) \<Rightarrow> db \<Rightarrow> db" where
  "served env others q sent ids d = committed (snd (snd (handle_registry env others q sent (fresh_session d ids))))"

text \<open>
  A run of requests. While a request waits for Clerk, a run of other requests may commit: the
  function \<open>others\<close> picks one for every database it meets.
\<close>

inductive registry_run :: "db \<Rightarrow> db \<Rightarrow> bool" where
  registry_idle: "registry_run d d"
| registry_serve: "registry_run d e \<Longrightarrow> (\<forall>x. registry_run x (others x)) \<Longrightarrow> registry_run d (served env others q sent ids e)"

lemma ends_movedE_keeps: "(\<And>d0. keepsE (moves d0) m) \<Longrightarrow> working s = committed s \<Longrightarrow> ends_movedE (committed s) m c s"
  unfolding ends_movedE_def keepsE_def by (metis moves_refl)

lemma ends_movedE_ignore: "ends_movedE d m c s \<Longrightarrow> ends_movedE d (ignoreE m) c s"
  by (auto simp: ends_movedE_def ignoreE_def bindE_def returnE_def onE_def returnM_def split: prod.split sum.split)

lemma ends_movedE_raise_from: "ends_movedE d m c s \<Longrightarrow> ends_movedE d (raise_fromE f m) c s"
  by (auto simp: ends_movedE_def raise_fromE_def catchE_def throwE_def onE_def throwM_def split: prod.split sum.split)

lemma verify_route_moves:
  assumes "\<And>d. moves d (others d)" and "working s = committed s"
  shows "ends_movedE (committed s) (verify_route client others v) c s"
  unfolding verify_route_def
  by (intro ends_movedE_raise_from movedE_bind_pure pure_intros moves_refl verify_moves assms)

lemma served_moves:
  assumes "\<And>d. moves d (others d)"
  shows "moves d (served env others q sent ids d)"
proof -
  let ?s = "fresh_session d ids"
  have others: "moves d0 (others x)" if "moves d0 x" for d0 x using that assms moves_trans by blast
  have w: "working ?s = committed ?s" and d: "committed ?s = d" by (simp_all add: fresh_session_def)
  have "ends_movedE (committed ?s) (handle_registry env others q) sent ?s"
    by (cases q; simp only: handle_registry.simps;
      (rule ends_movedE_ignore)?; ((rule verify_route_moves [OF assms w])
        | (rule ends_movedE_keeps [OF _ w], intro keepsE_onE moving.keeps_routes [of _ others]
          moving.keeps_change_status_route moving.keeps_submit moving.keeps_bind others)))
  then show ?thesis unfolding ends_movedE_def served_def d .
qed

lemma registry_run_moves: "registry_run d e \<Longrightarrow> moves d e"
proof (induction rule: registry_run.induct)
  case (registry_serve d e others env q sent ids)
  then show ?case using served_moves [of others] moves_trans by blast
qed (simp add: moves_refl)

end
