(* ===== verification/ClerkAnswers.thy ===== *)
theory ClerkAnswers
  imports ClerkCredentials
begin

text \<open>
  What a result of the Clerk client says about the requests that were sent and the answers of
  Clerk: every operation that returns did so because of an answer.
\<close>

section \<open>One request\<close>

definition clerk_request ::
  "clerk_client \<Rightarrow> string \<Rightarrow> string \<Rightarrow> (string \<times> string) list \<Rightarrow> pyval option \<Rightarrow> http_request" where
  "clerk_request c http_method path params json =
     \<lparr>hq_method = http_method, hq_url = ck_base_url c @ path, hq_bearer = ck_secret_key c, hq_params = params, hq_json = json\<rparr>"

definition answers :: "clerk_client \<Rightarrow> http_request list \<Rightarrow> http_request \<Rightarrow> pyval \<Rightarrow> bool" where
  "answers c sent q v \<longleftrightarrow> (\<exists>st content. ck_http c sent q = Response st content (Some v) \<and> 200 \<le> st \<and> st < 300)"

lemmas net_run_defs = bindE_def seqE_def evidenceE_def noteE_def returnE_def throwE_def liftE_def onE_def
  returnM_def throwM_def liftM_def

lemma send_request_run: "send_request c q sent s = (Inr (ck_http c sent q), sent @ [q], s)"
  by (simp add: send_request_def net_run_defs)

lemma request_json_run:
  "request_json c me path ps js al sent s =
     ((case ck_http c sent (clerk_request c me path ps js) of
         TransportError \<Rightarrow> Inl (ClerkError None)
       | Response status content body \<Rightarrow>
           if status < 200 \<or> status \<ge> 300 then Inl (ClerkError (Some status))
           else if al \<and> \<not> content then Inr PNone
           else (case body of Some v \<Rightarrow> Inr v | None \<Rightarrow> if al then Inr PNone else Inl (ClerkError None))),
      sent @ [clerk_request c me path ps js], s)"
  unfolding request_json_def clerk_request_def [symmetric]
  by (simp add: bindE_def send_request_run returnE_def throwE_def onE_def returnM_def throwM_def
      split: http_reply.split option.split)

lemma request_json_Inr:
  "request_json c me path ps js False sent s = (Inr v, sent', t) \<longleftrightarrow>
     sent' = sent @ [clerk_request c me path ps js] \<and> t = s \<and> answers c sent (clerk_request c me path ps js) v"
  by (auto simp: request_json_run answers_def split: http_reply.splits option.splits if_splits)

lemma as_object_Inr: "as_object v = Inr d \<longleftrightarrow> v = PDict d"
  by (cases v) auto

lemma liftE_Inr_iff [success_simps]: "liftE r c s = (Inr x, c', t) \<longleftrightarrow> r = Inr x \<and> c' = c \<and> t = s"
  by (auto simp: liftE_def success_simps)

lemma returnE_Inr_iff [success_simps]: "returnE y c s = (Inr x, c', t) \<longleftrightarrow> x = y \<and> c' = c \<and> t = s"
  by (auto simp: returnE_def success_simps)

lemma throwE_Inr_iff [success_simps]: "throwE e c s = (Inr x, c', t) \<longleftrightarrow> False"
  by (auto simp: throwE_def success_simps)

lemma request_object_Inr:
  "request_object c me path ps js sent s = (Inr d, sent', t) \<longleftrightarrow>
     sent' = sent @ [clerk_request c me path ps js] \<and> t = s \<and> answers c sent (clerk_request c me path ps js) (PDict d)"
  by (auto simp: request_object_def success_simps request_json_Inr as_object_Inr)

lemma request_object_sends:
  assumes "request_object c me path ps js sent s = (r, sent', t)"
  shows "sent' = sent @ [clerk_request c me path ps js] \<and> t = s"
  using assms
  by (auto simp: request_object_def bindE_def request_json_run liftE_def onE_def liftM_def split: sum.splits)

section \<open>Questions\<close>

lemma ask_clerk_Inr:
  assumes "ask_clerk (request_object c me path ps js) f sent s = (Inr b, sent', t)"
  shows "sent' = sent @ [clerk_request c me path ps js] \<and> t = s
     \<and> (b \<longrightarrow> (\<exists>d. answers c sent (clerk_request c me path ps js) (PDict d) \<and> f d))"
proof (cases "request_object c me path ps js sent s")
  case (fields r sent1 u)
  then have "sent1 = sent @ [clerk_request c me path ps js]" "u = s" using request_object_sends by blast+
  then show ?thesis
    using assms fields request_object_Inr [of c me path ps js sent s _ sent1 u]
    by (cases r) (auto simp: ask_clerk_def catchE_def bindE_def returnE_def throwE_def onE_def returnM_def throwM_def split: if_splits)
qed

lemma is_email_verified_Inr:
  assumes "is_email_verified c i em sent s = (Inr b, sent', t)"
  shows "sent' = sent @ [clerk_request c ''GET'' (''/users/'' @ i) [] None] \<and> t = s
     \<and> (\<exists>d. answers c sent (clerk_request c ''GET'' (''/users/'' @ i) [] None) (PDict d) \<and> b = verified_in d em)"
  using assms by (auto simp: is_email_verified_def get_clerk_user_def success_simps request_object_Inr if_distrib split: if_splits)

end
