(* ===== verification/RegistrySamples.thy ===== *)
theory RegistrySamples
  imports RegistryHistory ClerkAnswers
begin

text \<open>
  An empty registry with an onboarding key, and a Clerk that answers: it refuses to create a
  second user for the address until the first one has been deleted, and verifies every code.
\<close>

section \<open>Clerk\<close>

definition starts_user :: "http_request \<Rightarrow> bool" where
  "starts_user q = (hq_method q = ''POST'' \<and> hq_url q = ''https://clerk/users'')"

definition clerk_user_count :: "http_request list \<Rightarrow> nat" where
  "clerk_user_count sent = length (filter starts_user sent)"

definition address_taken :: "http_request list \<Rightarrow> bool" where
  "address_taken sent = (length (filter (\<lambda>q. hq_method q = ''DELETE'') sent) < clerk_user_count sent)"

definition sample_address :: claims where
  "sample_address = [(''id'', PStr ''idn_1''), (''email_address'', PStr ''ada@x.io''),
     (''verification'', PDict [(''status'', PStr ''verified'')])]"

definition clerk_user_reply :: "string \<Rightarrow> http_reply" where
  "clerk_user_reply i = Response 200 True (Some (PDict [(''id'', PStr i), (''primary_email_address_id'', PNone),
     (''email_addresses'', PList [PDict sample_address])]))"

definition sample_answers :: "http_request list \<Rightarrow> http_request \<Rightarrow> http_reply" where
  "sample_answers sent q =
     (if starts_user q then (if address_taken sent then Response 422 True None
        else clerk_user_reply (''user_'' @ replicate (Suc (clerk_user_count sent)) CHR ''a''))
      else if hq_method q = ''GET'' then clerk_user_reply (drop 20 (hq_url q))
      else if hq_method q = ''DELETE'' then Response 200 False None
      else Response 200 True (Some (PDict [(''verification'', PDict [(''status'', PStr ''verified'')])])))"

definition sample_clerk :: clerk_client where
  "sample_clerk = \<lparr>ck_base_url = ''https://clerk'', ck_secret_key = ''sk'', ck_http = sample_answers\<rparr>"

section \<open>The registry\<close>

definition empty_db :: db where
  "empty_db = \<lparr>db_tenants = [], db_principals = [], db_users = [], db_identities = [], db_memberships = [], db_authz_state = [],
     db_permissions = [], db_roles = [], db_role_permissions = [], db_user_roles = [], db_platform_roles = [],
     db_platform_role_permissions = [], db_platform_user_roles = [], db_groups = [], db_group_members = [], db_group_roles = [],
     db_templates = [], db_template_permissions = [], db_bindings = [], db_requests = [], db_changes = [], db_scopes = [],
     db_grants = [], db_credentials = [], db_policies = [], db_locations = [], db_schedules = [], db_windows = [],
     db_user_locations = [], db_overrides = [], db_devices = [], db_enrollments = [], db_sessions = [], db_evaluations = [],
     db_attempts = [], db_onboarding = [], db_onboarding_key = [], db_events = []\<rparr>"

definition open_db :: db where
  "open_db = empty_db\<lparr>db_onboarding_key := [\<lparr>os_key_hash = ''VGN-KEY2'', os_key_ciphertext = [], os_key_version = 1,
     os_status = ''ACTIVE'', os_created_by = ''u0'', os_created_at = 0, os_updated_by = ''u0'', os_updated_at = 0\<rparr>]\<rparr>"

definition ids :: "string \<Rightarrow> nat \<Rightarrow> string" where
  "ids p n = p @ replicate n (CHR ''x'')"

definition sample_form :: signup_form where
  "sample_form = \<lparr>sf_first_name = '' Ada '', sf_last_name = ''King  Lovelace'', sf_email = ''Ada@x.io'', sf_mobile = ''098765 43210'',
     sf_password = ''pw'', sf_onboarding_key = ''VGN-KEY2'', sf_ip = ''::1'', sf_correlation = ''corr''\<rparr>"

definition sample_key_env :: key_env where
  "sample_key_env = \<lparr>ke_encryption_key = replicate 43 (CHR ''A''), ke_hash = (\<lambda>_ k. k), ke_encrypt = (\<lambda>_ _ p _. 0 # p),
     ke_decrypt = (\<lambda>_ _ ct _. Some (tl ct))\<rparr>"

definition sample_registry :: registry_env where
  "sample_registry = \<lparr>re_gate = (\<lambda>_. Inr ''admin''), re_client = Inr sample_clerk, re_hash_verifies = (=), re_key = sample_key_env\<rparr>"

definition sample_verify :: "int \<Rightarrow> verify_call" where
  "sample_verify now = \<lparr>vc_attempt_id = ''a'', vc_code = '' 123456 '', vc_ip = ''::1'', vc_correlation = ''corr'',
     vc_first_clock = now, vc_now = now\<rparr>"

section \<open>Ada signs up, and gives the code\<close>

definition ada :: signup_attempt where
  "ada = \<lparr>sa_id = ''a'', sa_first_name = ''Ada'', sa_last_name = ''King Lovelace'', sa_email = ''ada@x.io'', sa_mobile = ''+919876543210'',
     sa_status = ''AUTHORIZED_FOR_CLERK'', sa_ip = ''::1'', sa_correlation = ''corr'', sa_created_at = 0, sa_expires_at = 1800000000,
     sa_clerk_user = Some ''user_a'', sa_clerk_email = Some ''idn_1'', sa_completed_at = None\<rparr>"

definition started_db :: db where
  "started_db = open_db\<lparr>db_attempts := [ada]\<rparr>"

definition started_requests :: "http_request list" where
  "started_requests =
     [clerk_request sample_clerk ''POST'' ''/users'' []
        (Some (PDict (new_user_body ''Ada'' ''King Lovelace'' ''ada@x.io'' ''pw'' @ [(''banned'', PBool True)]))),
      clerk_request sample_clerk ''PATCH'' ''/email_addresses/idn_1'' [] (Some (PDict [(''verified'', PBool False)])),
      clerk_request sample_clerk ''POST'' ''/email_addresses/idn_1/prepare_verification'' []
        (Some (PDict [(''strategy'', PStr ''email_code'')]))]"

definition sample_registration :: registration where
  "sample_registration = \<lparr>rg_user_id = ''b'', rg_request_id = ''bx'', rg_clerk_user_id = ''user_a'', rg_ip = ''::1'',
     rg_correlation = ''corr'', rg_now = 10\<rparr>"

definition verified_db :: db where
  "verified_db = registered_db sample_registration ada ''a'' ''bxx'' ''bxxx'' started_db"

lemma ada_starts:
  "case start_signup (=) sample_clerk id 0 sample_form [] (fresh_session open_db (ids ''a'')) of (r, sent, t) \<Rightarrow>
     r = Inr \<lparr>sr_attempt_id = ''a'', sr_status = ''EMAIL_VERIFICATION_REQUIRED'', sr_expires_at = 1800000000\<rparr>
     \<and> sent = started_requests \<and> committed t = started_db"
  by code_simp

lemma ada_verifies:
  "case verify_email_code sample_clerk id (sample_verify 10) started_requests (fresh_session started_db (ids ''b'')) of (r, sent, t) \<Rightarrow>
     r = Inr ''bx'' \<and> length sent = 5 \<and> committed t = verified_db"
  by code_simp

lemma open_db_good: "good open_db"
  unfolding good_def linked_def by code_simp

lemma served_route:
  "re_client env = Inr clerk \<Longrightarrow> start_signup (re_hash_verifies env) clerk others now form sent (fresh_session d us) = (r, sent', t)
     \<Longrightarrow> served env others (StartSignup form now) sent us d = committed t"
  "re_client env = Inr clerk \<Longrightarrow> verify_email_code clerk others v sent (fresh_session d us) = (r', sent', t)
     \<Longrightarrow> served env others (VerifyCode v) sent us d = committed t"
  by (auto simp: served_def ignoreE_def start_route_def verify_route_def identity_provider_client_def raise_fromE_def catchE_def
      throwE_def returnE_def liftE_def bindE_def onE_def liftM_def throwM_def returnM_def split: sum.split)

lemma sample_client [simp]: "re_client sample_registry = Inr sample_clerk" "re_hash_verifies sample_registry = (=)"
  by (simp_all add: sample_registry_def)

lemma ada_served:
  "served sample_registry id (StartSignup sample_form 0) [] (ids ''a'') open_db = started_db"
  "served sample_registry id (VerifyCode (sample_verify 10)) started_requests (ids ''b'') started_db = verified_db"
proof -
  show "served sample_registry id (StartSignup sample_form 0) [] (ids ''a'') open_db = started_db"
    using ada_starts served_route(1) [of sample_registry sample_clerk id 0 sample_form "[]" open_db "ids ''a''"]
    by (auto split: prod.splits)
  show "served sample_registry id (VerifyCode (sample_verify 10)) started_requests (ids ''b'') started_db = verified_db"
    using ada_verifies served_route(2) [of sample_registry sample_clerk id "sample_verify 10" started_requests started_db "ids ''b''"]
    by (auto split: prod.splits)
qed

lemma sample_registry_run: "registry_run open_db verified_db"
proof -
  have idle: "\<forall>x. registry_run x (id x)" by (simp add: registry_idle)
  have "registry_run open_db started_db" unfolding ada_served(1) [symmetric] by (rule registry_serve [OF registry_idle idle])
  then show ?thesis unfolding ada_served(2) [symmetric] by (rule registry_serve [OF _ idle])
qed

end
