(* ===== verification/RegistryProperties.thy ===== *)
theory RegistryProperties
  imports RegistrySamples
begin

text \<open>
  The theorems on the sign-up and the registry of users, each with an application to the sample
  registry.
\<close>

section \<open>Runs\<close>

text \<open>
  C32: in every run of requests to the sign-up and the registry, interleaved with further runs
  wherever a request waits for Clerk, the constraints of the tables hold; every completed attempt
  has its user, with the address, the number and the Clerk identity of the attempt; no attempt
  disappears or changes what was submitted, and once it is not live it never changes again; no
  user, principal or identity disappears and no address or number of a user changes.
\<close>

theorem registry_run_invariant:
  assumes "registry_run d e" and "good d"
  shows "good e \<and> attempts_forward d e \<and> people_grow d e"
  using registry_run_moves [OF assms(1)] assms(2) by (simp add: moves_def)

theorem registry_run_invariant_witness:
  "good verified_db \<and> attempts_forward open_db verified_db \<and> people_grow open_db verified_db"
  using registry_run_invariant [OF sample_registry_run open_db_good] .

section \<open>The onboarding key\<close>

definition sample_key_call :: key_call where
  "sample_key_call = \<lparr>kc_actor = ''admin'', kc_correlation = ''corr'', kc_now = 5, kc_nonce = replicate 12 7, kc_salt = ''salt''\<rparr>"

definition key_run :: "(exn + key_view) \<times> db session" where
  "key_run = set_onboarding_key sample_key_env sample_key_call '' VGN-KEY3 '' True (fresh_session open_db (ids ''k''))"

lemma key_run_returns: "fst key_run = Inr \<lparr>kv_onboarding_key = ''VGN-KEY3'', kv_version = 2, kv_status = ''ACTIVE'', kv_created_at = 0,
     kv_updated_at = 5\<rparr>"
  by code_simp

theorem onboarding_key_roundtrip_witness:
  "kv_onboarding_key (projr (fst key_run)) = ''VGN-KEY3'' \<and> kv_version (projr (fst key_run)) = 2
   \<and> get_onboarding_key sample_key_env (fresh_session (committed (snd key_run)) (ids ''l''))
       = (fst key_run, fresh_session (committed (snd key_run)) (ids ''l''))"
proof -
  have env: "aead_ok sample_key_env" by (simp add: aead_ok_def sample_key_env_def)
  have nonce: "nonce_ok (kc_nonce sample_key_call)" by (simp add: nonce_ok_def sample_key_call_def list_all_iff)
  have run: "set_onboarding_key sample_key_env sample_key_call '' VGN-KEY3 '' True (fresh_session open_db (ids ''k''))
      = (fst key_run, snd key_run)"
    by (simp add: key_run_def)
  show ?thesis
    using onboarding_key_roundtrip [OF env nonce run, of "ids ''l''" "(=)" "[]"] unfolding key_run_returns by simp
qed

section \<open>Registration\<close>

definition clerk_confirms :: "clerk_client \<Rightarrow> http_request list \<Rightarrow> string \<Rightarrow> string \<Rightarrow> bool" where
  "clerk_confirms clerk sent clerk_user_id email \<longleftrightarrow>
     (\<exists>u. answers clerk sent (clerk_request clerk ''GET'' (''/users/'' @ clerk_user_id) [] None) (PDict u) \<and> verified_in u email)"

definition completable_at :: "int \<Rightarrow> string \<Rightarrow> string \<Rightarrow> db \<Rightarrow> signup_attempt \<Rightarrow> bool" where
  "completable_at now i clerk_user_id d a \<longleftrightarrow>
     a \<in> set (db_attempts d) \<and> sa_id a = i \<and> attempt_live a \<and> now < sa_expires_at a \<and> sa_clerk_user a = Some clerk_user_id"

definition contact_free :: "signup_attempt \<Rightarrow> string \<Rightarrow> db \<Rightarrow> bool" where
  "contact_free a clerk_user_id d \<longleftrightarrow>
     \<not> email_registered (sa_email a) d \<and> \<not> mobile_registered (sa_mobile a) d
     \<and> (\<forall>e\<in>set (db_identities d). \<not> (ei_provider e = ''CLERK'' \<and> ei_subject e = clerk_user_id))"

lemma interfere_Inr_iff [success_simps]:
  "interfere others s = (Inr x, t) \<longleftrightarrow> t = s\<lparr>committed := others (committed s), working := others (committed s)\<rparr>"
  by (auto simp: interfere_def)

lemma register_Inr: "register g attempt i s = (Inr x, t) \<Longrightarrow> register_statements g attempt i s = (Inr x, t)"
  by (auto simp: register_def catch_integrity_def rollback_on_error_def throwM_def split: prod.splits sum.splits if_splits)

lemma identity_checks_Inr:
  "require_identity_not_registered em mo s = (Inr x, t) \<longleftrightarrow> t = s \<and> \<not> email_registered em (working s) \<and> \<not> mobile_registered mo (working s)"
  "require_clerk_identity_not_registered cu s = (Inr x, t) \<longleftrightarrow>
     t = s \<and> (\<forall>e\<in>set (db_identities (working s)). \<not> (ei_provider e = ''CLERK'' \<and> ei_subject e = cu))"
  by (auto simp: require_identity_not_registered_def require_clerk_identity_not_registered_def success_simps exists_row_def list_ex_iff)

lemma verify_locked_Inr:
  assumes "verify_locked v attempt cu s = (Inr request_id, t)"
  shows "(\<exists>locked. completable_at (vc_now v) (vc_attempt_id v) cu (working s) locked) \<and> contact_free attempt cu (working s)
    \<and> request_id = uuids s 1
    \<and> committed t = registered_db \<lparr>rg_user_id = uuids s 0, rg_request_id = request_id, rg_clerk_user_id = cu, rg_ip = vc_ip v,
          rg_correlation = vc_correlation v, rg_now = vc_now v\<rparr> attempt (vc_attempt_id v) (uuids s 2) (uuids s 3) (working s)"
proof -
  obtain locked where l: "load_attempt (vc_attempt_id v) s = (Inr locked, s)" "attempt_live locked" "vc_now v < sa_expires_at locked"
      "sa_clerk_user locked = Some cu" "contact_free attempt cu (working s)" "request_id = uuids s 1"
    and r: "register \<lparr>rg_user_id = uuids s 0, rg_request_id = uuids s 1, rg_clerk_user_id = cu, rg_ip = vc_ip v,
          rg_correlation = vc_correlation v, rg_now = vc_now v\<rparr> attempt (vc_attempt_id v)
          (s\<lparr>uuids := \<lambda>n. uuids s (Suc (Suc n))\<rparr>) = (Inr (), t)"
    using assms unfolding verify_locked_def
    by (auto simp: success_simps identity_checks_Inr contact_free_def required_clerk_user_id_Inr dest!: completable_Inr
        dest: load_attempt_Inr)
  show ?thesis
    using register_result [OF register_Inr [OF r]] l load_attempt_Inr [OF l(1)]
    by (auto simp: completable_at_def numeral_2_eq_2 numeral_3_eq_3)
qed

text \<open>
  C33: a verified code registers a user only if Clerk, asked for the user of the attempt after the
  code was handed to it, says that the address of the attempt is verified, and the attempt was
  live and not expired both before Clerk was asked and under the row lock, with the same Clerk
  user, and its address, number and Clerk identity are not registered. Then exactly one user, who
  is PENDING, a principal, an identity, a request for approval and an event are added to what other
  requests committed meanwhile, and the attempt is completed.
\<close>

theorem verify_registers_verified_address:
  assumes "verify_email_code clerk others v sent s = (Inr request_id, sent', t)"
  shows "\<exists>attempt clerk_user_id asked. completable_at (vc_first_clock v) (vc_attempt_id v) clerk_user_id (working s) attempt
     \<and> sent' = sent @ [asked, clerk_request clerk ''GET'' (''/users/'' @ clerk_user_id) [] None]
     \<and> clerk_confirms clerk (sent @ [asked]) clerk_user_id (sa_email attempt)
     \<and> (\<exists>locked. completable_at (vc_now v) (vc_attempt_id v) clerk_user_id (others (committed s)) locked)
     \<and> contact_free attempt clerk_user_id (others (committed s)) \<and> request_id = uuids s 1
     \<and> committed t = registered_db \<lparr>rg_user_id = uuids s 0, rg_request_id = request_id, rg_clerk_user_id = clerk_user_id,
           rg_ip = vc_ip v, rg_correlation = vc_correlation v, rg_now = vc_now v\<rparr>
         attempt (vc_attempt_id v) (uuids s 2) (uuids s 3) (others (committed s))"
proof -
  let ?s = "s\<lparr>working := committed s\<rparr>"
  obtain attempt cu addr b s0 s1 sent1 s2 s3 where l: "load_attempt (vc_attempt_id v) s = (Inr attempt, s0)"
      "require_completable attempt (vc_first_clock v) s0 = (Inr (), s1)" "required_clerk_user_id attempt = Inr cu"
    and code: "attempt_email_verification clerk addr (py_strip (vc_code v)) sent (s1\<lparr>working := committed s1\<rparr>) = (Inr b, sent1, s2)"
    and ver: "is_email_verified clerk cu (sa_email attempt) sent1 s2 = (Inr True, sent', s3)"
    and reg: "verify_locked v attempt cu (s3\<lparr>committed := others (committed s3), working := others (committed s3)\<rparr>) = (Inr request_id, t)"
    using assms unfolding verify_email_code_def ask_about_code_def by (auto simp: success_simps)
  have at: "s1 = s" "completable_at (vc_first_clock v) (vc_attempt_id v) cu (working s) attempt"
    using load_attempt_Inr [OF l(1)] completable_Inr [OF l(2)] l(3) by (auto simp: completable_at_def required_clerk_user_id_Inr)
  obtain asked where asked: "sent1 = sent @ [asked]" "s2 = ?s"
    using ask_clerk_Inr [OF code [unfolded attempt_email_verification_def]] at(1) by blast
  have ver': "sent' = sent1 @ [clerk_request clerk ''GET'' (''/users/'' @ cu) [] None]" "s3 = ?s"
      "clerk_confirms clerk sent1 cu (sa_email attempt)"
    using is_email_verified_Inr [OF ver] asked(2) by (auto simp: clerk_confirms_def)
  show ?thesis
    using verify_locked_Inr [OF reg] ver' asked at(2)
    by (intro exI [of _ attempt] exI [of _ cu] exI [of _ asked]) simp
qed

theorem verify_registers_verified_address_witness:
  "\<exists>attempt clerk_user_id asked. clerk_confirms sample_clerk (started_requests @ [asked]) clerk_user_id (sa_email attempt)
    \<and> verified_db = registered_db \<lparr>rg_user_id = ''b'', rg_request_id = ''bx'', rg_clerk_user_id = clerk_user_id,
           rg_ip = ''::1'', rg_correlation = ''corr'', rg_now = 10\<rparr> attempt ''a'' ''bxx'' ''bxxx'' started_db"
proof -
  obtain sent t where run: "verify_email_code sample_clerk id (sample_verify 10) started_requests (fresh_session started_db (ids ''b''))
      = (Inr ''bx'', sent, t)" and db: "verified_db = committed t"
    using ada_verifies by (auto split: prod.splits)
  have sample: "committed (fresh_session started_db (ids ''b'')) = started_db" "uuids (fresh_session started_db (ids ''b'')) 0 = ''b''"
      "uuids (fresh_session started_db (ids ''b'')) 2 = ''bxx''" "uuids (fresh_session started_db (ids ''b'')) 3 = ''bxxx''"
      "vc_ip (sample_verify 10) = ''::1''" "vc_correlation (sample_verify 10) = ''corr''" "vc_now (sample_verify 10) = 10"
      "vc_attempt_id (sample_verify 10) = ''a''"
    by (simp_all add: fresh_session_def ids_def sample_verify_def numeral_2_eq_2 numeral_3_eq_3)
  show ?thesis
    using verify_registers_verified_address [OF run] unfolding sample id_apply db by blast
qed

section \<open>Login\<close>

definition confirmed :: "clerk_client \<Rightarrow> http_request list \<Rightarrow> http_request \<Rightarrow> bool" where
  "confirmed clerk sent q \<longleftrightarrow> (\<exists>d. answers clerk sent q (PDict d) \<and> get_claim d ''verified'' = PBool True)"

definition find_request :: "clerk_client \<Rightarrow> string \<Rightarrow> http_request" where
  "find_request clerk identifier = clerk_request clerk ''GET'' ''/users'' [(''query'', py_strip identifier), (''limit'', ''20'')] None"

definition password_request :: "clerk_client \<Rightarrow> string \<Rightarrow> string \<Rightarrow> http_request" where
  "password_request clerk i password =
     clerk_request clerk ''POST'' (''/users/'' @ i @ ''/verify_password'') [] (Some (PDict [(''password'', PStr password)]))"

definition totp_request :: "clerk_client \<Rightarrow> string \<Rightarrow> string \<Rightarrow> http_request" where
  "totp_request clerk i code =
     clerk_request clerk ''POST'' (''/users/'' @ i @ ''/verify_totp'') [] (Some (PDict [(''code'', PStr code)]))"

definition the_only_user :: "clerk_client \<Rightarrow> http_request list \<Rightarrow> string \<Rightarrow> ClerkBackendUser \<Rightarrow> bool" where
  "the_only_user clerk sent identifier u \<longleftrightarrow>
     (\<exists>payload rows. answers clerk sent (find_request clerk identifier) payload \<and> user_rows payload = Inr rows
        \<and> exact_users (dict_items rows) (py_strip identifier) = Inr [u])"

definition credentials_verified :: "clerk_client \<Rightarrow> login_call \<Rightarrow> http_request list \<Rightarrow> ClerkBackendUser \<Rightarrow> http_request list \<Rightarrow> bool" where
  "credentials_verified clerk c sent u sent' \<longleftrightarrow>
     (let find = find_request clerk (lg_identifier c); password = password_request clerk (cu_user_id u) (lg_password c) in
      the_only_user clerk sent (lg_identifier c) u \<and> \<not> cu_banned u \<and> \<not> cu_locked u
      \<and> confirmed clerk (sent @ [find]) password
      \<and> (if cu_totp_enabled u
         then \<exists>code. lg_totp_code c = Some code \<and> code \<noteq> [] \<and> confirmed clerk (sent @ [find, password]) (totp_request clerk (cu_user_id u) code)
                \<and> sent' = sent @ [find, password, totp_request clerk (cu_user_id u) code]
         else sent' = sent @ [find, password]))"

lemma only_one_Inr:
  "(case us of [] \<Rightarrow> returnE None | [u] \<Rightarrow> returnE (Some u) | _ \<Rightarrow> throwE e) c s = (Inr (Some u), c', t)
     \<longleftrightarrow> us = [u] \<and> c' = c \<and> t = s"
  by (cases us rule: remdups_adj.cases) (auto simp: success_simps)

lemma find_clerk_user_Inr:
  assumes "find_clerk_user clerk identifier sent s = (Inr (Some u), sent', t)"
  shows "the_only_user clerk sent identifier u \<and> sent' = sent @ [find_request clerk identifier] \<and> t = s"
  using assms unfolding the_only_user_def find_request_def
  by (auto simp: find_clerk_user_def Let_def success_simps request_json_Inr only_one_Inr split: if_splits)

lemma verify_credential_Inr:
  "verify_password clerk i pw sent s = (Inr True, sent', t) \<Longrightarrow>
     sent' = sent @ [password_request clerk i pw] \<and> t = s \<and> confirmed clerk sent (password_request clerk i pw)"
  "verify_totp clerk i code sent s = (Inr True, sent', t) \<Longrightarrow>
     sent' = sent @ [totp_request clerk i code] \<and> t = s \<and> confirmed clerk sent (totp_request clerk i code)"
  unfolding verify_password_def verify_totp_def confirmed_def password_request_def totp_request_def
  by (auto dest: ask_clerk_Inr)

lemma check_credential_Inr:
  assumes "check_credential clerk (py_strip (lg_identifier c)) (lg_password c) (lg_totp_code c) sent s = (Inr u, sent', t)"
  shows "credentials_verified clerk c sent u sent' \<and> t = s"
proof -
  obtain sent1 s1 sent2 s2 where f: "find_clerk_user clerk (py_strip (lg_identifier c)) sent s = (Inr (Some u), sent1, s1)"
    and live: "\<not> cu_banned u" "\<not> cu_locked u"
    and p: "verify_password clerk (cu_user_id u) (lg_password c) sent1 s1 = (Inr True, sent2, s2)"
    and r: "if cu_totp_enabled u then is_set (lg_totp_code c)
        \<and> verify_totp clerk (cu_user_id u) (the (lg_totp_code c)) sent2 s2 = (Inr True, sent', t) else sent' = sent2 \<and> t = s2"
    using assms unfolding check_credential_def by (auto simp: success_simps split: if_splits option.splits)
  have f': "the_only_user clerk sent (lg_identifier c) u" "sent1 = sent @ [find_request clerk (lg_identifier c)]" "s1 = s"
    using find_clerk_user_Inr [OF f] by (simp_all add: the_only_user_def find_request_def)
  note p' = verify_credential_Inr(1) [OF p]
  show ?thesis
    using f' live p' r verify_credential_Inr(2) [of clerk "cu_user_id u" "the (lg_totp_code c)" sent2 s2 sent' t]
    by (auto simp: credentials_verified_def Let_def is_set_def split: if_splits option.splits)
qed

text \<open>
  C36: the login route asks Clerk before anything else. If it goes on, Clerk knows exactly one user
  for the identifier, who is neither banned nor locked, has confirmed the password for this user
  and, where a second factor is enabled, a code that was given; then the request is that of the
  access service for the Clerk identity of this user. Otherwise it fails with the error of the
  credential check and touches neither database nor session.
\<close>

theorem login_needs_verified_credentials:
  "case authenticate clerk (lg_identifier c) (lg_password c) (lg_totp_code c) sent s of
     (Inl e, sent', t) \<Rightarrow> credential_login env clerk c sent s = (Inl e, sent', s)
   | (Inr u, sent', t) \<Rightarrow> credentials_verified clerk c sent u sent' \<and> py_strip (lg_identifier c) \<noteq> [] \<and> lg_password c \<noteq> []
       \<and> credential_login env clerk c sent s =
          onE (create_or_reuse (env\<lparr>env_repo := GroupAwareSecurityRepository\<rparr>) (lg_now c) (lg_signed_at c)
            \<lparr>id_provider = ''CLERK'', id_provider_subject = cu_user_id u, id_session_id = ''clerk-backend-'' @ uuids s 0\<rparr>
            (lg_tenant c) (lg_device c) (lg_geo c) (lg_ip c) (lg_correlation c))
          sent' (s\<lparr>uuids := \<lambda>n. uuids s (Suc n)\<rparr>)"
proof -
  let ?a = "authenticate clerk (lg_identifier c) (lg_password c) (lg_totp_code c) :: (db, ClerkBackendUser) net"
  have pure: "pureE ?a" unfolding authenticate_def check_credential_def find_clerk_user_def Let_def
    by (intro pure_intros pureE_clerk) (auto split: list.split exn.split intro!: pure_intros)
  show ?thesis
  proof (cases "?a sent s")
    case (fields r sent' t)
    then have t: "t = s" using pureED [OF pure] by blast
    show ?thesis
    proof (cases r)
      case (Inl e)
      then show ?thesis using fields t by (simp add: credential_login_def bindE_def)
    next
      case (Inr u)
      have "check_credential clerk (py_strip (lg_identifier c)) (lg_password c) (lg_totp_code c) sent s = (Inr u, sent', t)
          \<and> py_strip (lg_identifier c) \<noteq> [] \<and> lg_password c \<noteq> []"
        using fields unfolding Inr authenticate_def
        by (auto simp: catchE_def throwE_def onE_def throwM_def split: if_splits prod.splits sum.splits exn.splits)
      moreover from this have "credentials_verified clerk c sent u sent'" using check_credential_Inr by blast
      ultimately show ?thesis
        using fields t by (simp add: Inr credential_login_def bindE_def onE_def uuid4_def)
    qed
  qed
qed

end
