(* ===== verification/RegistryLifecycle.thy ===== *)
theory RegistryLifecycle
  imports RegistryProperties
begin

text \<open>
  The lifecycle of a user in the registry: who can activate a user, and what a deactivation ends,
  whatever Clerk answers.
\<close>

section \<open>What a change of the status writes\<close>

definition status_record :: "status_call \<Rightarrow> string \<Rightarrow> admin_change" where
  "status_record c change_id =
     \<lparr>ac_id = change_id, ac_correlation = st_correlation c, ac_scope_type = ''PLATFORM'', ac_tenant = None,
      ac_actor = st_actor c, ac_operation = ''security.user.status.change'', ac_resource_type = ''USER'',
      ac_resource_id = Some (st_user c), ac_outcome = ''SUCCESS'', ac_occurred_at = st_now c\<rparr>"

definition with_status :: "status_call \<Rightarrow> bool \<Rightarrow> string \<Rightarrow> db \<Rightarrow> db" where
  "with_status c onboarded change_id d =
     (let target = py_upper (st_status c) in
      d\<lparr>db_users := update_rows (\<lambda>u. u_id u = st_user c) (\<lambda>u. u\<lparr>u_status := target, u_updated_at := st_now c\<rparr>) (db_users d),
        db_sessions := (if target \<noteq> ''ACTIVE''
          then update_rows (\<lambda>r. as_principal r = st_user c \<and> as_actor_type r = ''USER'' \<and> as_status r = ''ACTIVE'')
                 (\<lambda>r. r\<lparr>as_status := ''REVOKED'', as_last_activity := st_now c\<rparr>) (db_sessions d)
          else db_sessions d),
        db_onboarding := (if target = ''ACTIVE'' \<and> onboarded
          then update_rows (\<lambda>r. or_user r = st_user c \<and> or_status r = ''PENDING_ADMIN_APPROVAL'')
                 (\<lambda>r. r\<lparr>or_status := ''APPROVED'', or_reviewed_by := Some (st_actor c), or_reviewed_at := Some (st_now c),
                       or_review_reason := st_reason c\<rparr>) (db_onboarding d)
          else db_onboarding d),
        db_changes := db_changes d @ [status_record c change_id]\<rparr>)"

lemma write_status_Inr:
  assumes "write_user_status c (py_upper (st_status c)) onboarded s = (Inr x, t)"
  shows "committed t = with_status c onboarded (uuids s 0) (working s) \<and> working t = committed t"
proof -
  let ?target = "py_upper (st_status c)"
  let ?revoked = "update_rows (\<lambda>r. as_principal r = st_user c \<and> as_actor_type r = ''USER'' \<and> as_status r = ''ACTIVE'')
       (\<lambda>r. r\<lparr>as_status := ''REVOKED'', as_last_activity := st_now c\<rparr>) (db_sessions (working s))"
  let ?approved = "update_rows (\<lambda>r. or_user r = st_user c \<and> or_status r = ''PENDING_ADMIN_APPROVAL'')
       (\<lambda>r. r\<lparr>or_status := ''APPROVED'', or_reviewed_by := Some (st_actor c), or_reviewed_at := Some (st_now c),
             or_review_reason := st_reason c\<rparr>) (db_onboarding (working s))"
  obtain d1 s1 s2 where u: "update_users (\<lambda>u. u_id u = st_user c) (\<lambda>u. u\<lparr>u_status := ?target, u_updated_at := st_now c\<rparr>) (working s) = Inr d1"
    and r: "(if ?target \<noteq> ''ACTIVE'' then revoke_user_sessions (st_user c) (st_now c) else returnM ()) (s\<lparr>working := d1\<rparr>) = (Inr (), s1)"
    and a: "(if ?target = ''ACTIVE'' \<and> onboarded then approve_onboarding c else returnM ()) s1 = (Inr (), s2)"
    and f: "insert_change (status_record c (uuids s2 0)) (working s2) = Inr (committed t)" "working t = committed t"
    using assms unfolding write_user_status_def platform_audit_def status_record_def
    by (simp add: bindM_Inr_iff seqM_Inr_iff execute_Inr_iff uuid4_Inr_iff commit_Inr_iff) auto
  have d1: "d1 = (working s)\<lparr>db_users := update_rows (\<lambda>u. u_id u = st_user c)
      (\<lambda>u. u\<lparr>u_status := ?target, u_updated_at := st_now c\<rparr>) (db_users (working s))\<rparr>"
    using u by (simp add: update_users_def split: if_splits)
  have s1: "working s1 = d1\<lparr>db_sessions := (if ?target \<noteq> ''ACTIVE'' then ?revoked else db_sessions d1)\<rparr>" "uuids s1 = uuids s"
    using r by (auto simp: revoke_user_sessions_def success_simps update_sessions_def Let_def d1 split: if_splits)
  have s2: "working s2 = (working s1)\<lparr>db_onboarding := (if ?target = ''ACTIVE'' \<and> onboarded then ?approved else db_onboarding (working s1))\<rparr>"
      "uuids s2 = uuids s"
    using a by (auto simp: approve_onboarding_def success_simps update_onboarding_def s1 d1 split: if_splits)
  have "committed t = (working s2)\<lparr>db_changes := db_changes (working s2) @ [status_record c (uuids s2 0)]\<rparr>"
    using f(1) by (simp add: insert_change_def split: if_splits)
  then show ?thesis using f(2) by (simp add: s2 s1 d1 with_status_def Let_def)
qed

lemma atomic_write_status: "atomic (write_user_status c target onboarded)"
  unfolding write_user_status_def revoke_user_sessions_def approve_onboarding_def platform_audit_def
  by (intro atomic_intros stays_intros)

lemma write_status_returns:
  assumes "db_ok (working s)" and "py_upper (st_status c) \<in> {''SUSPENDED'', ''DISABLED'', ''EXITED''}"
    and "\<forall>r\<in>set (db_changes (working s)). ac_id r \<noteq> uuids s 0"
  shows "\<exists>t. write_user_status c (py_upper (st_status c)) onboarded s = (Inr (), t)"
proof -
  have users: "list_all (\<lambda>u. u_id u = st_user c \<longrightarrow> user_check (u\<lparr>u_status := py_upper (st_status c), u_updated_at := st_now c\<rparr>))
      (db_users (working s))"
    using assms(2) by (auto simp: list_all_iff user_check_def)
  have "list_all session_check (db_sessions (working s))" using assms(1) by (simp add: db_ok_def sessions_ok_def)
  then have sessions: "list_all (\<lambda>r. as_principal r = st_user c \<and> as_actor_type r = ''USER'' \<and> as_status r = ''ACTIVE''
      \<longrightarrow> session_check (r\<lparr>as_status := ''REVOKED'', as_last_activity := st_now c\<rparr>)) (db_sessions (working s))"
    by (auto simp: list_all_iff session_check_def)
  have free: "index_free ac_id every_row r (db_changes (working s))" if "ac_id r = uuids s 0" for r
    using assms(3) that by (auto simp: index_free_def list_ex_iff)
  have target: "py_upper (st_status c) \<noteq> ''ACTIVE''" using assms(2) by auto
  show ?thesis
    by (simp add: write_user_status_def revoke_user_sessions_def platform_audit_def success_simps target update_users_def users
        update_sessions_def sessions Let_def insert_change_def free)
qed

section \<open>Asking Clerk\<close>

definition ban_request :: "clerk_client \<Rightarrow> string \<Rightarrow> http_request" where
  "ban_request clerk i = clerk_request clerk ''POST'' (''/users/'' @ i @ ''/ban'') [] None"

definition unban_request :: "clerk_client \<Rightarrow> string \<Rightarrow> http_request" where
  "unban_request clerk i = clerk_request clerk ''POST'' (''/users/'' @ i @ ''/unban'') [] None"

definition accepted :: "clerk_client \<Rightarrow> http_request list \<Rightarrow> http_request \<Rightarrow> bool" where
  "accepted clerk sent q \<longleftrightarrow> (\<exists>d. answers clerk sent q (PDict d))"

lemma request_object_cases:
  "(\<exists>d. request_object c me path ps js sent s = (Inr d, sent @ [clerk_request c me path ps js], s)
       \<and> accepted c sent (clerk_request c me path ps js))
   \<or> (\<exists>st. request_object c me path ps js sent s = (Inl (ClerkError st), sent @ [clerk_request c me path ps js], s)
       \<and> \<not> accepted c sent (clerk_request c me path ps js))"
proof (cases "request_object c me path ps js sent s")
  case (fields r sent' t)
  note sends = request_object_sends [OF fields]
  show ?thesis
  proof (cases r)
    case (Inl e)
    have "\<exists>st. e = ClerkError st"
      using fields unfolding Inl request_object_def
      by (auto simp: bindE_def request_json_run liftE_def onE_def liftM_def
          split: sum.splits http_reply.splits option.splits if_splits elim: as_object.elims)
    moreover have "\<not> accepted c sent (clerk_request c me path ps js)"
      unfolding accepted_def using fields request_object_Inr [of c me path ps js sent s] by (auto simp: Inl)
    ultimately show ?thesis using fields sends Inl by auto
  next
    case (Inr d)
    then have "accepted c sent (clerk_request c me path ps js)"
      unfolding accepted_def using fields request_object_Inr [of c me path ps js sent s] by blast
    then show ?thesis using fields sends Inr by auto
  qed
qed

lemma ban_user_cases:
  "(ban_user c i sent s = (Inr (), sent @ [ban_request c i], s) \<and> accepted c sent (ban_request c i))
   \<or> (\<exists>st. ban_user c i sent s = (Inl (ClerkError st), sent @ [ban_request c i], s) \<and> \<not> accepted c sent (ban_request c i))"
  using request_object_cases [of c "''POST''" "''/users/'' @ i @ ''/ban''" "[]" None sent s]
  by (auto simp: ban_user_def ban_request_def seqE_def bindE_def returnE_def onE_def returnM_def)

lemma unban_user_cases:
  "(unban_user c i sent s = (Inr (), sent @ [unban_request c i], s) \<and> accepted c sent (unban_request c i))
   \<or> (\<exists>st. unban_user c i sent s = (Inl (ClerkError st), sent @ [unban_request c i], s) \<and> \<not> accepted c sent (unban_request c i))"
  using request_object_cases [of c "''POST''" "''/users/'' @ i @ ''/unban''" "[]" None sent s]
  by (auto simp: unban_user_def unban_request_def seqE_def bindE_def returnE_def onE_def returnM_def)

section \<open>Deactivation\<close>

definition access_ended :: "string \<Rightarrow> db \<Rightarrow> bool" where
  "access_ended user_id d \<longleftrightarrow> \<not> active_user d user_id
     \<and> (\<forall>x\<in>set (db_sessions d). as_principal x = user_id \<and> as_actor_type x = ''USER'' \<longrightarrow> as_status x \<noteq> ''ACTIVE'')"

lemma with_status_ends_access:
  assumes "py_upper (st_status c) \<noteq> ''ACTIVE''"
  shows "access_ended (st_user c) (with_status c onboarded i d)"
  using assms by (auto simp: access_ended_def active_user_def with_status_def Let_def update_rows_def)

lemma onE_run: "m s = (r, t) \<Longrightarrow> onE m c s = (r, c, t)"
  by (simp add: onE_def)

lemma user_by_id_pure: "\<exists>r. user_by_id i s = (r, s)"
  by (auto simp: user_by_id_def list_users_def bindM_def query_def throwM_def returnM_def split: option.split)


definition sample_status :: "string \<Rightarrow> status_call" where
  "sample_status st = \<lparr>st_user = ''b'', st_status = st, st_actor = ''admin'', st_reason = None, st_correlation = ''corr'', st_now = 20\<rparr>"

text \<open>A Clerk that does not answer.\<close>

definition silent_clerk :: clerk_client where
  "silent_clerk = sample_clerk\<lparr>ck_http := (\<lambda>_ _. TransportError)\<rparr>"

definition sample_row :: global_user where
  "sample_row = hd (registry_rows (\<lambda>u. u_id u = ''b'') verified_db)"


section \<open>Activation\<close>

definition no_activation :: "db \<Rightarrow> db \<Rightarrow> bool" where
  "no_activation d e \<longleftrightarrow> (\<forall>i. active_user e i \<longrightarrow> active_user d i)"

lemma no_activation_frame: "no_activation d0 d \<Longrightarrow> db_users e = db_users d \<Longrightarrow> no_activation d0 e"
  by (simp add: no_activation_def active_user_def)

lemma no_activation_insert: "insert_user u d = Inr e \<Longrightarrow> u_status u = ''PENDING'' \<Longrightarrow> active_user e i \<Longrightarrow> active_user d i"
  by (auto simp: active_user_def insert_user_def split: if_splits)

interpretation unactivated: registry_completion_law "no_activation d0" for d0
proof
  fix d e assume m: "no_activation d0 d"
  note frame = no_activation_frame [OF m]
  show "insert_principal x d = Inr e \<Longrightarrow> no_activation d0 e" for x by (rule frame) (auto simp: insert_principal_def split: if_splits)
  show "insert_user u d = Inr e \<Longrightarrow> u_status u = ''PENDING'' \<Longrightarrow> no_activation d0 e" for u
    using m no_activation_insert unfolding no_activation_def by blast
  show "insert_identity i d = Inr e \<Longrightarrow> no_activation d0 e" for i by (rule frame) (auto simp: insert_identity_def split: if_splits)
  show "insert_onboarding r d = Inr e \<Longrightarrow> no_activation d0 e" for r by (rule frame) (auto simp: insert_onboarding_def split: if_splits)
  show "insert_event v d = Inr e \<Longrightarrow> no_activation d0 e" for v by (rule frame) (auto simp: insert_event_def split: if_splits)
  show "insert_change c d = Inr e \<Longrightarrow> no_activation d0 e" for c by (rule frame) (auto simp: insert_change_def split: if_splits)
  show "update_onboarding q f d = Inr e \<Longrightarrow> no_activation d0 e" for q f by (rule frame) (auto simp: update_onboarding_def split: if_splits)
  show "insert_attempt a d = Inr e \<Longrightarrow> no_activation d0 e" for a by (rule frame) (auto simp: insert_attempt_def Let_def split: if_splits)
  show "update_attempts p g d = Inr e \<Longrightarrow> no_activation d0 e" for p g by (rule frame) (auto simp: update_attempts_def Let_def split: if_splits)
  then show "update_attempts p g d = Inr e \<Longrightarrow> no_activation d0 e" for p g .
  show "upsert_setting st d = Inr e \<Longrightarrow> no_activation d0 e" for st by (rule frame) (auto simp: upsert_setting_def split: if_splits)
  show "no_activation d0 (d\<lparr>db_onboarding_key := map (\<lambda>r. r\<lparr>os_status := ''DISABLED'', os_updated_by := b, os_updated_at := n\<rparr>)
        (db_onboarding_key d)\<rparr>)" for b n
    by (rule frame) simp
qed

lemma deactivation_activates_nobody:
  assumes "\<And>d. no_activation d0 d \<Longrightarrow> no_activation d0 (others d)" and target: "py_upper (st_status c) \<noteq> ''ACTIVE''"
  shows "keepsE (no_activation d0) (set_user_status clerk others c)"
proof -
  have upd: "no_activation d0 e" if "no_activation d0 d"
    "update_users p (\<lambda>u. u\<lparr>u_status := py_upper (st_status c), u_updated_at := n\<rparr>) d = Inr e" for p n d e
  proof -
    have "active_user d i" if "active_user e i" for i
      using \<open>update_users _ _ d = Inr e\<close> that target by (auto simp: active_user_def update_users_def update_rows_def split: if_splits)
    then show ?thesis using that(1) by (auto simp: no_activation_def)
  qed
  have ses: "keeps (no_activation d0) (execute (update_sessions p f))" for p f
    by (rule keeps_execute, erule no_activation_frame) (auto simp: update_sessions_def Let_def split: if_splits)
  have usr: "keeps (no_activation d0) (execute (update_users p (\<lambda>u. u\<lparr>u_status := py_upper (st_status c), u_updated_at := n\<rparr>)))" for p n
    by (rule keeps_execute) (rule upd)
  have "keeps (no_activation d0) (write_user_status c (py_upper (st_status c)) onb)" for onb
    unfolding write_user_status_def revoke_user_sessions_def
    by (intro ses usr keeps_returnM keeps_commit keeps_if keeps_seqM unactivated.operation_intros unactivated.keeps_approve)
  then show ?thesis
    unfolding set_user_status_def Let_def by (intro keeps_intros unactivated.operation_intros assms)
qed

definition activates :: "clerk_client \<Rightarrow> (db \<Rightarrow> db) \<Rightarrow> status_call \<Rightarrow> http_request list \<Rightarrow> db session \<Rightarrow> db \<Rightarrow> bool" where
  "activates clerk others c sent s e \<longleftrightarrow>
     (\<exists>g i. first_of (registry_rows (\<lambda>u. u_id u = st_user c) (working s)) = Some g
        \<and> u_status (gu_user g) \<in> {''PENDING'', ''INVITED'', ''SUSPENDED'', ''DISABLED''} \<and> gu_clerk_user g = Some i
        \<and> accepted clerk sent (unban_request clerk i)
        \<and> e = with_status c (gu_request g \<noteq> None) (uuids s 0) (others (committed s)))"

lemma set_status_activates:
  assumes run: "set_user_status clerk others c sent s = (r, sent', t)" and target: "py_upper (st_status c) = ''ACTIVE''"
  shows "committed t = committed s \<or> committed t = others (committed s) \<or> activates clerk others c sent s (committed t)"
proof (cases "first_of (registry_rows (\<lambda>u. u_id u = st_user c) (working s))")
  case None
  then show ?thesis using run by (auto simp: set_user_status_def Let_def target seqE_def bindE_def onE_def run_raise_if query_def throwE_def throwM_def)
next
  case (Some g)
  let ?ok = "u_status (gu_user g) \<in> {''PENDING'', ''INVITED'', ''SUSPENDED'', ''DISABLED''}"
  show ?thesis
  proof (cases "?ok \<and> (\<exists>i. gu_clerk_user g = Some i)")
    case False
    then show ?thesis
      using run Some by (auto simp: set_user_status_def Let_def target seqE_def bindE_def onE_def run_raise_if query_def throwE_def throwM_def
        split: option.splits if_splits)
  next
    case True
    then obtain i where i: "?ok" "gu_clerk_user g = Some i" by blast
    let ?v = "s\<lparr>committed := others (committed s), working := others (committed s)\<rparr>"
    let ?body = "rollback_on_error (write_user_status c (py_upper (st_status c)) (gu_request g \<noteq> None))"
    have eq: "set_user_status clerk others c sent s =
        seqE (unban_user clerk i) (seqE (onE (interfere others)) (seqE (onE ?body) (seqE (returnE ()) (onE (user_by_id (st_user c)))))) sent s"
      using Some i by (auto simp: set_user_status_def Let_def target seqE_def bindE_def onE_def run_raise_if query_def)
    from unban_user_cases [of clerk i sent s] show ?thesis
    proof (elim disjE conjE exE)
      assume un: "unban_user clerk i sent s = (Inr (), sent @ [unban_request clerk i], s)" and acc: "accepted clerk sent (unban_request clerk i)"
      obtain r1 u where w: "?body ?v = (r1, u)" by fastforce
      have "committed t = committed u"
        using run w user_by_id_pure [of "st_user c" u] unfolding eq
        by (auto simp: seqE_def bindE_def un onE_def interfere_def returnE_def returnM_def split: sum.splits)
      moreover have "committed u = others (committed s) \<or> committed u = with_status c (gu_request g \<noteq> None) (uuids s 0) (others (committed s))"
      proof (cases r1)
        case (Inl e)
        then show ?thesis using rollback_on_error_Inl [OF atomic_write_status] w by fastforce
      next
        case (Inr x)
        then show ?thesis using w write_status_Inr [of c "gu_request g \<noteq> None" ?v x u] by (auto simp: rollback_on_error_Inr_iff)
      qed
      ultimately show ?thesis using Some i acc by (auto simp: activates_def)
    next
      fix st assume "unban_user clerk i sent s = (Inl (ClerkError st), sent @ [unban_request clerk i], s)"
      then show ?thesis using run unfolding eq by (auto simp: seqE_def bindE_def)
    qed
  qed
qed

definition admin_token_grants ::
  "string jwt_env \<Rightarrow> token_settings \<Rightarrow> int \<Rightarrow> (string \<times> string) option \<Rightarrow> string \<Rightarrow> string \<Rightarrow> bool" where
  "admin_token_grants env st now credentials permission_key user_id \<longleftrightarrow>
     (\<exists>token payload roles permissions.
        platform_token credentials = Inr token
        \<and> jwt_decode env token (the (security_public_key_pem st)) (security_token_issuer st) ADMIN_AUDIENCE REQUIRED_ADMIN_CLAIMS now
            = Decoded payload
        \<and> claim_values payload ''roles'' = Inr roles \<and> roles \<noteq> [] \<and> list_all platform_role_value roles
        \<and> claim_values payload ''permissions'' = Inr permissions \<and> PStr permission_key \<in> set permissions
        \<and> \<not> truthy (get_claim payload ''must_change_password'')
        \<and> dict_get payload ''tenant_id'' = None \<and> dict_get payload ''access_session_id'' = None
        \<and> user_id = admin_subject payload)"

lemma platform_gate_Inr:
  assumes "platform_gate env st now credentials permission_key = Inr user_id"
  shows "admin_token_grants env st now credentials permission_key user_id"
  using assms unfolding admin_token_grants_def
  by (auto simp: platform_gate_def verify_admin_def check_admin_payload_def require_platform_permission_def
      split: sum.splits if_splits jwt_result.splits)

lemma no_activation_refl: "no_activation d d"
  by (simp add: no_activation_def)

lemma keepsE_fresh: "keepsE J m \<Longrightarrow> J d \<Longrightarrow> J (committed (snd (snd (m sent (fresh_session d us)))))"
  by (simp add: keepsE_def fresh_session_def)

lemma others_activate_nobody:
  assumes others: "\<And>d0 x. no_activation d0 x \<Longrightarrow> no_activation d0 (others x)" and "\<nexists>c. q = ChangeStatus c"
  shows "no_activation d (served env others q sent us d)"
proof -
  have "keepsE (no_activation d) (handle_registry env others q)"
    using assms(2)
    by (cases q; simp only: handle_registry.simps simp_thms ex_simps registry_request.inject;
        (unfold ignoreE_def)?; intro keeps_intros unactivated.keeps_routes [of _ others] unactivated.keeps_verify_route
        unactivated.keeps_submit unactivated.keeps_bind others)
  from keepsE_fresh [OF this no_activation_refl] show ?thesis by (simp only: served_def)
qed

text \<open>A status request ends without touching the database or where the service leaves it.\<close>

lemma status_request_cases:
  obtains "served env others (ChangeStatus c) sent us d = d"
  | admin clerk r sent' t where "re_gate env ''security.user.manage'' = Inr admin" "re_client env = Inr clerk"
      "set_user_status clerk others (c\<lparr>st_actor := admin\<rparr>) sent (fresh_session d us) = (r, sent', t)"
      "served env others (ChangeStatus c) sent us d = committed t"
proof (cases "re_gate env ''security.user.manage''")
  case (Inl e)
  then have "served env others (ChangeStatus c) sent us d = d"
    by (simp add: served_def ignoreE_def change_status_route_def bindE_def liftE_def onE_def liftM_def fresh_session_def)
  then show ?thesis by (rule that(1))
next
  case admin: (Inr admin)
  show ?thesis
  proof (cases "re_client env")
    case (Inl e)
    then have "served env others (ChangeStatus c) sent us d = d"
      using admin by (auto simp: served_def ignoreE_def change_status_route_def bindE_def liftE_def onE_def liftM_def
          fresh_session_def raise_fromE_def catchE_def throwE_def throwM_def identity_provider_client_def split: exn.split)
    then show ?thesis by (rule that(1))
  next
    case clerk: (Inr clerk)
    obtain r sent' t where run: "set_user_status clerk others (c\<lparr>st_actor := admin\<rparr>) sent (fresh_session d us) = (r, sent', t)"
      by (metis prod_cases3)
    then have "served env others (ChangeStatus c) sent us d = committed t"
      using admin clerk by (auto simp: served_def ignoreE_def change_status_route_def bindE_def liftE_def onE_def liftM_def
          raise_fromE_def catchE_def throwE_def throwM_def identity_provider_client_def returnE_def returnM_def split: sum.split)
    with admin clerk run show ?thesis by (rule that(2))
  qed
qed

lemma activates_only:
  assumes "activates clerk others c sent s e" and "active_user e i" and "\<not> active_user (others (committed s)) i"
  shows "st_user c = i"
proof (rule ccontr)
  assume other: "st_user c \<noteq> i"
  obtain onb x where "e = with_status c onb x (others (committed s))" using assms(1) unfolding activates_def by blast
  then have "db_users e = update_rows (\<lambda>u. u_id u = st_user c)
      (\<lambda>u. u\<lparr>u_status := py_upper (st_status c), u_updated_at := st_now c\<rparr>) (db_users (others (committed s)))"
    by (simp add: with_status_def Let_def)
  then have "active_user (others (committed s)) i"
    using assms(2) other by (auto simp: active_user_def update_rows_def split: if_splits)
  then show False using assms(3) by simp
qed


definition sample_admin_payload :: claims where
  "sample_admin_payload = [(''sub'', PStr ''admin''), (''roles'', PList [PStr ''platform.security_admin'']),
     (''permissions'', PList [PStr ''security.user.manage'']), (''must_change_password'', PBool False)]"

definition sample_admin_jwt :: "string jwt_env" where
  "sample_admin_jwt = \<lparr>jwt_encode = (\<lambda>_ _ _. None),
     jwt_decode = (\<lambda>token _ _ audience _ _. if token = ''tok'' \<and> audience = ADMIN_AUDIENCE then Decoded sample_admin_payload else PyJWTError),
     load_pem_public_key = (\<lambda>_. PemError), load_pem_private_key = (\<lambda>_. PemError)\<rparr>"

definition gated_registry :: registry_env where
  "gated_registry = sample_registry\<lparr>re_gate := platform_gate sample_admin_jwt sample_settings 20 (Some (''Bearer'', ''tok''))\<rparr>"


end
