(* ===== verification/Spec2Isabelle.thy ===== *)
theory Spec2Isabelle
  imports AccessProperties DeviceProperties RefreshProperties AdminSamples RegistryLifecycle
begin

text \<open>
  A verification development for verigence-security: the service that decides who may use a
  tenant's application from where, when and on which device, issues the access tokens, and
  administers the tenants' groups, roles and privileged access.

  \<^bold>\<open>The program and how its parts interact.\<close> A request comes in through a route of \<open>api/routes\<close>,
  which opens one SQLAlchemy session and calls one method of a service under \<open>services/\<close>. The
  service reads and writes PostgreSQL through a repository under \<open>repositories/\<close> or with SQL of
  its own, and commits. If the service raises, the session is closed and the open transaction is
  rolled back. The pure parts (position, schedule, permission keys, tokens) are functions the
  services call.

  \<^bold>\<open>Theories.\<close>
  \<^item> \<open>Prelude\<close>: lemmas on lists, sorting, strings; \<open>Regex\<close>: regular expressions with derivatives,
    \<open>fullmatch\<close> proved equal to membership in the language.
  \<^item> \<open>Effects\<close>: the state passing of a request, \<open>'d session \<Rightarrow> (exn + 'a) \<times> 'd session\<close>. A session has
    the committed database, the database as the open transaction sees it, and the supply of
    random identifiers. \<open>commit\<close> and \<open>rollback\<close> move between the two; \<open>throwM\<close>,
    \<open>catch_integrity\<close> are the exceptions; collections of inversion rules (\<open>success_simps\<close>), of
    invariants (\<open>keeps_intros\<close>) and of actions that do not commit (\<open>stays_intros\<close>).
  \<^item> \<open>Database\<close>: one record per table of \<open>migrations/\<close> the modelled code touches, with the columns
    it uses. \<open>Store\<close>: inserts and updates with the primary keys, unique indexes and CHECKs they can
    meet (a violation is an \<open>IntegrityError\<close>), the predicate \<open>db_ok\<close> of the constraints, and that
    every write keeps it.
  \<^item> \<open>Core\<close> (\<open>core/\<close>): errors, enumerations, correlation ids, problem responses.
  \<^item> \<open>Geo\<close> (\<open>services/geo.py\<close>), \<open>Schedule\<close> (\<open>services/schedule.py\<close>), \<open>Permissions\<close>
    (\<open>services/permissions.py\<close>), \<open>Tokens\<close> (\<open>services/token_service.py\<close>): the pure parts, each with
    its properties.
  \<^item> \<open>SecurityRepository\<close> (\<open>repositories/security_repository.py\<close> and its subclass in
    \<open>api/routes/access.py\<close>); the methods the subclass overrides are the fields of a record.
  \<^item> \<open>AccessService\<close> (\<open>services/access_service.py\<close>, \<open>adapters/network_risk.py\<close>) and
    \<open>AccessProperties\<close>: user access, machine tokens, token exchange.
  \<^item> \<open>DeviceLifecycle\<close> (\<open>services/device_lifecycle.py\<close>, \<open>services/session_lifecycle.py\<close>,
    \<open>repositories/device_session_repository.py\<close>) and \<open>DeviceProperties\<close>.
  \<^item> \<open>Refresh\<close> (\<open>services/session_refresh_service.py\<close>, \<open>repositories/session_refresh_repository.py\<close>)
    and \<open>RefreshProperties\<close>.
  \<^item> \<open>RbacAdmin\<close> (\<open>services/tenant_rbac_admin.py\<close>) and \<open>RbacGate\<close> (\<open>services/tenant_rbac_gate.py\<close>,
    \<open>services/privileged_access.py\<close>): every operation, with the overridable methods as a record of
    hooks. \<open>Outcomes\<close>: how a request ends, and the locale \<open>rbac_service\<close> of the laws of the hooks with
    its interpretations for both classes. \<open>RbacEffects\<close>: whose permissions each write can change.
    \<open>RbacService\<close>: inside the locale, every operation is accounted for.

  \<^bold>\<open>Choices.\<close> Floats are reals. Times are integers in microseconds since the epoch (UTC). Strings are
  lists of characters ordered by code. A statement \<open>FOR UPDATE\<close> waits for other transactions; their
  effect in the meantime is the argument \<open>others\<close> of \<open>refresh\<close>; elsewhere a request runs alone. Foreign
  keys are not enforced by the writes; \<open>refs_ok\<close> states the ones a proof needs. PyJWT, the RSA keys,
  SHA-256, the time zone data and the network provider are parameters, with what they are relied on
  for stated as hypotheses.

  \<^bold>\<open>Not modelled.\<close> Invitations and self-onboarding, the module and control plane catalogues, the
  administration of platform and tenant configuration, the adapters of the identity provider, the
  declarations of the routes, the configuration and the bootstrap of the first administrator.
\<close>

end
